(* ===== verification/Preludio.thy ===== *)
theory Preludio
  imports Main "HOL-Library.Word" "HOL-Library.AList" "HOL-Library.List_Lexorder"
    "HOL-Library.Char_ord" "HOL-Library.Multiset"
begin

text \<open>
  What the components share: the pieces of Rust's language and standard library that the
  server uses (panics, slices, integer parsing and printing, fixed-width arithmetic, string
  splitting, UTF-8, hash maps, mutexes), with the lemmas the component proofs rely on.

  A Rust \<open>String\<close> is a sequence of bytes that is valid UTF-8: it is a \<^typ>\<open>string\<close> here, one
  \<^typ>\<open>char\<close> per byte, so \<^const>\<open>length\<close> is \<open>String::len\<close>, equality and the lexicographic order
  (\<open>Char_ord\<close>, \<open>List_Lexorder\<close>) are Rust's byte order.
\<close>

named_theorems rust_simps \<open>equations that evaluate the standard library operations\<close>
named_theorems inv_intros \<open>operations that keep the invariant of the database\<close>

section \<open>Panics, slices\<close>

text \<open>A call either returns or unwinds. \<open>Panico\<close> is a panic of the running thread.\<close>

datatype 'a salida = Devuelve 'a | Panico

fun luego :: "'a salida \<Rightarrow> ('a \<Rightarrow> 'b salida) \<Rightarrow> 'b salida" where
  "luego (Devuelve a) f = f a"
| "luego Panico f = Panico"

lemma luego_cong [fundef_cong]:
  "x = y \<Longrightarrow> (\<And>a. y = Devuelve a \<Longrightarrow> f a = g a) \<Longrightarrow> luego x f = luego y g"
  by (cases y) simp_all

lemma luego_eq_Devuelve: "luego x f = Devuelve b \<longleftrightarrow> (\<exists>a. x = Devuelve a \<and> f a = Devuelve b)"
  by (cases x) simp_all

text \<open>\<open>v[i]\<close>, \<open>v.drain(0..n)\<close>, \<open>v[a..b]\<close> and \<open>v[a..=b]\<close> panic out of range.\<close>

definition indice_vec :: "'a list \<Rightarrow> nat \<Rightarrow> 'a salida" where
  "indice_vec xs i = (if i < length xs then Devuelve (xs ! i) else Panico)"

definition drain_hasta :: "'a list \<Rightarrow> nat \<Rightarrow> ('a list \<times> 'a list) salida" where
  "drain_hasta xs n = (if n \<le> length xs then Devuelve (take n xs, drop n xs) else Panico)"

definition rebanada :: "'a list \<Rightarrow> nat \<Rightarrow> nat \<Rightarrow> 'a list salida" where
  "rebanada xs a b = (if a \<le> b \<and> b \<le> length xs then Devuelve (take (b - a) (drop a xs)) else Panico)"

text \<open>\<open>v.insert(i, x)\<close> shifts the elements from \<open>i\<close> on; it panics beyond the length.\<close>

definition insertar_en :: "'a list \<Rightarrow> nat \<Rightarrow> 'a \<Rightarrow> 'a list salida" where
  "insertar_en xs i x = (if i \<le> length xs then Devuelve (take i xs @ x # drop i xs) else Panico)"

section \<open>Integers\<close>

text \<open>
  A build with overflow checks (\<open>cargo run\<close>, the profile the README names) panics when an
  addition or a subtraction leaves the type; a release build wraps around.
\<close>

datatype perfil = Debug | Release

definition en_i32 :: "int \<Rightarrow> bool" where
  "en_i32 n \<longleftrightarrow> - (2 ^ 31) \<le> n \<and> n < 2 ^ 31"

definition arit_i32 :: "perfil \<Rightarrow> int \<Rightarrow> int salida" where
  "arit_i32 p n =
     (if en_i32 n then Devuelve n
      else (case p of Debug \<Rightarrow> Panico | Release \<Rightarrow> Devuelve (sint (word_of_int n :: 32 word))))"

definition arit_usize :: "perfil \<Rightarrow> int \<Rightarrow> nat salida" where
  "arit_usize p n =
     (if 0 \<le> n \<and> n < 2 ^ 64 then Devuelve (nat n)
      else (case p of Debug \<Rightarrow> Panico | Release \<Rightarrow> Devuelve (nat (n mod 2 ^ 64))))"

text \<open>The casts \<open>usize as i32\<close>, \<open>i32 as usize\<close> and \<open>u64 as isize\<close>.\<close>

definition usize_como_i32 :: "nat \<Rightarrow> int" where
  "usize_como_i32 n = sint (of_nat n :: 32 word)"

definition i32_como_usize :: "int \<Rightarrow> nat" where
  "i32_como_usize n = nat (n mod 2 ^ 64)"

definition u64_como_isize :: "nat \<Rightarrow> int" where
  "u64_como_isize n = sint (of_nat n :: 64 word)"

lemma arit_i32_en_rango [simp]: "en_i32 n \<Longrightarrow> arit_i32 p n = Devuelve n"
  by (simp add: arit_i32_def)

lemma arit_i32_release: "\<exists>r. arit_i32 Release n = Devuelve r \<and> en_i32 r"
proof (cases "en_i32 n")
  case True
  then show ?thesis by simp
next
  case False
  have "- (2 ^ 31) \<le> sint (word_of_int n :: 32 word)" "sint (word_of_int n :: 32 word) < 2 ^ 31"
    using sint_greater_eq [of "word_of_int n :: 32 word"] sint_lt [of "word_of_int n :: 32 word"]
    by simp_all
  then show ?thesis using False by (simp add: arit_i32_def en_i32_def)
qed

lemma arit_i32_release_mod:
  "arit_i32 Release n = Devuelve r \<Longrightarrow> r mod 2 ^ 32 = n mod 2 ^ 32"
proof (cases "en_i32 n")
  case False
  assume "arit_i32 Release n = Devuelve r"
  then have "r = signed_take_bit 31 n"
    using False by (auto simp: arit_i32_def signed_of_int)
  then have "take_bit 32 r = take_bit 32 n"
    by (simp add: take_bit_signed_take_bit)
  then show ?thesis by (simp add: take_bit_eq_mod)
qed simp

lemma arit_usize_nat [simp]: "n < 2 ^ 64 \<Longrightarrow> arit_usize p (int n) = Devuelve n"
  by (simp add: arit_usize_def)

lemma usize_como_i32_chico [simp]:
  assumes "n < 2 ^ 31" shows "usize_como_i32 n = int n"
proof -
  have "take_bit 32 (int n) = int n"
    using assms by (intro take_bit_int_eq_self) simp_all
  then show ?thesis using assms
    by (simp add: usize_como_i32_def signed_of_nat signed_take_bit_int_eq_self)
qed

lemma i32_como_usize_nonneg [simp]: "0 \<le> n \<Longrightarrow> n < 2 ^ 31 \<Longrightarrow> i32_como_usize n = nat n"
  by (simp add: i32_como_usize_def)

lemma i32_como_usize_negativo:
  assumes "en_i32 n" "n < 0" shows "i32_como_usize n = nat (n + 2 ^ 64)"
proof -
  have "n mod 2 ^ 64 = (n + 2 ^ 64) mod 2 ^ 64" by simp
  also have "\<dots> = n + 2 ^ 64" using assms by (intro mod_pos_pos_trivial) (auto simp: en_i32_def)
  finally show ?thesis by (simp add: i32_como_usize_def)
qed

lemma u64_como_isize_chico:
  assumes "n < 2 ^ 63" shows "u64_como_isize n = int n"
  using assms by (simp add: u64_como_isize_def signed_of_nat signed_take_bit_int_eq_self)

lemma u64_como_isize_grande:
  assumes "2 ^ 63 \<le> n" "n < 2 ^ 64" shows "u64_como_isize n = int n - 2 ^ 64"
proof -
  have "signed_take_bit 63 (int n) = signed_take_bit 63 (int n - 2 ^ 64)"
    by (rule signed_take_bit_eq_iff_take_bit_eq [THEN iffD2])
      (simp add: take_bit_eq_mod mod_diff_right_eq flip: power_Suc)
  also have "\<dots> = int n - 2 ^ 64"
    using assms by (intro signed_take_bit_int_eq_self) simp_all
  finally show ?thesis by (simp add: u64_como_isize_def signed_of_nat)
qed


subsection \<open>Parsing and printing decimal numbers\<close>

definition es_digito :: "char \<Rightarrow> bool" where
  "es_digito c \<longleftrightarrow> 48 \<le> (of_char c :: nat) \<and> (of_char c :: nat) \<le> 57"

definition digitos :: "string \<Rightarrow> nat option" where
  "digitos s =
     (if s = [] \<or> \<not> list_all es_digito s then None
      else Some (foldl (\<lambda>n c. 10 * n + (of_char c - 48)) 0 s))"

text \<open>
  \<open>str::parse\<close> for an unsigned type with greatest value \<open>m\<close>: an optional \<open>+\<close>, then one digit
  at least, and no overflow. For \<open>i32\<close> a \<open>-\<close> is accepted as well.
\<close>

definition parse_unsigned :: "nat \<Rightarrow> string \<Rightarrow> nat option" where
  "parse_unsigned m s =
     (case digitos (case s of [] \<Rightarrow> [] | c # cs \<Rightarrow> if c = CHR ''+'' then cs else s) of
        None \<Rightarrow> None
      | Some n \<Rightarrow> if n \<le> m then Some n else None)"

abbreviation parse_u32 :: "string \<Rightarrow> nat option" where
  "parse_u32 \<equiv> parse_unsigned (2 ^ 32 - 1)"

abbreviation parse_u64 :: "string \<Rightarrow> nat option" where
  "parse_u64 \<equiv> parse_unsigned (2 ^ 64 - 1)"

abbreviation parse_usize :: "string \<Rightarrow> nat option" where
  "parse_usize \<equiv> parse_unsigned (2 ^ 64 - 1)"

definition parse_i32 :: "string \<Rightarrow> int option" where
  "parse_i32 s =
     (case s of
        [] \<Rightarrow> None
      | c # cs \<Rightarrow>
          (case digitos (if c = CHR ''+'' \<or> c = CHR ''-'' then cs else s) of
             None \<Rightarrow> None
           | Some n \<Rightarrow>
               (let i = (if c = CHR ''-'' then - int n else int n)
                in if en_i32 i then Some i else None)))"

fun show_nat :: "nat \<Rightarrow> string" where
  "show_nat n =
     (if n < 10 then [char_of (48 + n)]
      else show_nat (n div 10) @ [char_of (48 + n mod 10)])"

declare show_nat.simps [simp del]

definition show_int :: "int \<Rightarrow> string" where
  "show_int i = (if i < 0 then CHR ''-'' # show_nat (nat (- i)) else show_nat (nat i))"

lemma of_char_digito: "n < 10 \<Longrightarrow> (of_char (char_of (48 + n) :: char) :: nat) = 48 + n"
  by (simp add: of_char_of)

lemma show_nat_digitos: "show_nat n \<noteq> [] \<and> list_all es_digito (show_nat n)"
proof (induction n rule: show_nat.induct)
  case (1 n)
  have d: "es_digito (char_of (48 + m))" if "m < 10" for m :: nat
    using that by (simp add: es_digito_def of_char_digito)
  show ?case
  proof (cases "n < 10")
    case True
    then show ?thesis by (subst (1 2) show_nat.simps) (simp add: d)
  next
    case False
    then show ?thesis using 1 d [of "n mod 10"] by (subst (1 2) show_nat.simps) simp
  qed
qed

lemma show_nat_noNil [simp]: "show_nat n \<noteq> []"
  using show_nat_digitos [of n] by simp

lemma show_nat_digito: "c \<in> set (show_nat n) \<Longrightarrow> es_digito c"
  using show_nat_digitos [of n] by (simp add: list_all_iff)

lemma foldl_show_nat: "foldl (\<lambda>n c. 10 * n + (of_char c - 48)) 0 (show_nat n) = n"
proof (induction n rule: show_nat.induct)
  case (1 n)
  show ?case
  proof (cases "n < 10")
    case True
    then show ?thesis by (subst show_nat.simps) (simp add: of_char_digito)
  next
    case False
    then show ?thesis using 1 of_char_digito [of "n mod 10"]
      by (subst show_nat.simps) simp
  qed
qed

lemma digitos_show_nat [simp]: "digitos (show_nat n) = Some n"
  using show_nat_digitos [of n] by (simp add: digitos_def foldl_show_nat)

lemma not_digito [simp]:
  "\<not> es_digito (CHR ''+'')" "\<not> es_digito (CHR ''-'')" "\<not> es_digito (CHR '':'')"
  "\<not> es_digito (CHR 0x0A)" "\<not> es_digito (CHR 0x0D)"
  by (simp_all add: es_digito_def)

lemma show_nat_Cons: "show_nat n = c # cs \<Longrightarrow> es_digito c"
  using show_nat_digitos [of n] by simp

lemma parse_unsigned_show_nat [simp]:
  "parse_unsigned m (show_nat n) = (if n \<le> m then Some n else None)"
proof -
  obtain c cs where s: "show_nat n = c # cs" by (cases "show_nat n") simp_all
  then have "c \<noteq> CHR ''+''" using show_nat_Cons [OF s] by auto
  then have "(case show_nat n of [] \<Rightarrow> [] | c # cs \<Rightarrow> if c = CHR ''+'' then cs else show_nat n) = show_nat n"
    using s by simp
  then show ?thesis by (simp add: parse_unsigned_def)
qed

lemma parse_i32_show_int [simp]: "en_i32 i \<Longrightarrow> parse_i32 (show_int i) = Some i"
proof (cases "i < 0")
  case True
  assume "en_i32 i"
  then show ?thesis using True by (simp add: show_int_def parse_i32_def)
next
  case False
  assume i: "en_i32 i"
  obtain c cs where s: "show_nat (nat i) = c # cs" by (cases "show_nat (nat i)") simp_all
  then have "c \<noteq> CHR ''+''" "c \<noteq> CHR ''-''" using show_nat_Cons [OF s] by auto
  then show ?thesis using False i s digitos_show_nat [of "nat i"]
    by (simp add: show_int_def parse_i32_def)
qed

lemma parse_i32_en_i32: "parse_i32 s = Some i \<Longrightarrow> en_i32 i"
  by (auto simp: parse_i32_def Let_def split: list.splits option.splits if_splits)

lemma parse_unsigned_le: "parse_unsigned m s = Some n \<Longrightarrow> n \<le> m"
  by (auto simp: parse_unsigned_def split: option.splits if_splits)

declare parse_unsigned_def [rust_simps] parse_i32_def [rust_simps] digitos_def [rust_simps]
  es_digito_def [rust_simps] en_i32_def [rust_simps]

section \<open>Strings\<close>

text \<open>The upper case of an ASCII letter; other bytes are left as they are.\<close>

definition a_mayuscula :: "char \<Rightarrow> char" where
  "a_mayuscula c =
     (if 97 \<le> (of_char c :: nat) \<and> (of_char c :: nat) \<le> 122 then char_of ((of_char c :: nat) - 32) else c)"

text \<open>\<open>s.split(c)\<close>: one piece more than there are separators.\<close>

fun split_char :: "char \<Rightarrow> string \<Rightarrow> string list" where
  "split_char c [] = [[]]"
| "split_char c (x # xs) =
     (if x = c then [] # split_char c xs
      else (case split_char c xs of [] \<Rightarrow> [[x]] | y # ys \<Rightarrow> (x # y) # ys))"

text \<open>\<open>s.split(p)\<close> for a non-empty pattern, matches taken from the left, not overlapping.\<close>

function split_str :: "string \<Rightarrow> string \<Rightarrow> string list" where
  "split_str p [] = [[]]"
| "split_str p (x # xs) =
     (if p \<noteq> [] \<and> take (length p) (x # xs) = p then [] # split_str p (drop (length p) (x # xs))
      else (case split_str p xs of [] \<Rightarrow> [[x]] | y # ys \<Rightarrow> (x # y) # ys))"
  by pat_completeness auto
termination
  by (relation "measure (\<lambda>(p, s). length s)") (auto simp: neq_Nil_conv)

text \<open>\<open>s.contains(sub)\<close>, and the first piece of \<open>rsplit\<close>: what follows the last match.\<close>

fun contiene_str :: "string \<Rightarrow> string \<Rightarrow> bool" where
  "contiene_str sub [] \<longleftrightarrow> sub = []"
| "contiene_str sub (x # xs) \<longleftrightarrow> take (length sub) (x # xs) = sub \<or> contiene_str sub xs"

definition rsplit_primero :: "('a \<Rightarrow> bool) \<Rightarrow> 'a list \<Rightarrow> 'a list" where
  "rsplit_primero P xs = rev (takeWhile (\<lambda>x. \<not> P x) (rev xs))"

lemma split_char_noNil [simp]: "split_char c s \<noteq> []"
  by (cases s) (auto split: list.splits)

lemma split_str_noNil [simp]: "split_str p s \<noteq> []"
  by (cases s) (auto split: list.splits)

lemma split_char_sin [simp]: "c \<notin> set s \<Longrightarrow> split_char c s = [s]"
  by (induction s) auto

lemma split_char_append [simp]:
  "c \<notin> set s \<Longrightarrow> split_char c (s @ c # r) = s # split_char c r"
  by (induction s) auto

lemma rsplit_primero_append [simp]:
  "P x \<Longrightarrow> \<forall>y \<in> set ys. \<not> P y \<Longrightarrow> rsplit_primero P (xs @ x # ys) = ys"
  unfolding rsplit_primero_def rev_append rev.simps append_assoc
  by (subst takeWhile_append2) auto

text \<open>UTF-8 validity (\<open>String::from_utf8\<close>, \<open>BufRead::lines\<close>) and the length of the first character.\<close>

abbreviation en_rango_byte :: "char \<Rightarrow> nat \<Rightarrow> nat \<Rightarrow> bool" where
  "en_rango_byte c lo hi \<equiv> lo \<le> (of_char c :: nat) \<and> (of_char c :: nat) \<le> hi"

fun utf8_valida :: "string \<Rightarrow> bool" where
  "utf8_valida [] \<longleftrightarrow> True"
| "utf8_valida (a # s) \<longleftrightarrow>
     (if en_rango_byte a 0 0x7F then utf8_valida s
      else if en_rango_byte a 0xC2 0xDF then
        (case s of b # s' \<Rightarrow> en_rango_byte b 0x80 0xBF \<and> utf8_valida s' | _ \<Rightarrow> False)
      else if en_rango_byte a 0xE0 0xEF then
        (case s of b # c # s' \<Rightarrow>
           en_rango_byte b (if of_char a = (0xE0 :: nat) then 0xA0 else 0x80)
             (if of_char a = (0xED :: nat) then 0x9F else 0xBF) \<and>
           en_rango_byte c 0x80 0xBF \<and> utf8_valida s' | _ \<Rightarrow> False)
      else if en_rango_byte a 0xF0 0xF4 then
        (case s of b # c # d # s' \<Rightarrow>
           en_rango_byte b (if of_char a = (0xF0 :: nat) then 0x90 else 0x80)
             (if of_char a = (0xF4 :: nat) then 0x8F else 0xBF) \<and>
           en_rango_byte c 0x80 0xBF \<and> en_rango_byte d 0x80 0xBF \<and> utf8_valida s' | _ \<Rightarrow> False)
      else False)"

definition sin_primer_char :: "string \<Rightarrow> string" where
  "sin_primer_char s =
     (case s of
        [] \<Rightarrow> []
      | a # _ \<Rightarrow>
          drop (if en_rango_byte a 0 0x7F then 1 else if en_rango_byte a 0 0xDF then 2
                else if en_rango_byte a 0 0xEF then 3 else 4) s)"

definition ascii :: "string \<Rightarrow> bool" where
  "ascii s \<longleftrightarrow> list_all (\<lambda>c. en_rango_byte c 0 0x7F) s"

lemma utf8_valida_ascii_append: "ascii s \<Longrightarrow> utf8_valida (s @ r) = utf8_valida r"
  by (induction s) (auto simp: ascii_def)

lemma utf8_valida_append [simp]: "utf8_valida a \<Longrightarrow> utf8_valida b \<Longrightarrow> utf8_valida (a @ b)"
proof (induction a rule: utf8_valida.induct)
  case (2 a s)
  note v = 2(5) [unfolded utf8_valida.simps(2) [of a s]]
  consider "en_rango_byte a 0 0x7F"
    | "\<not> en_rango_byte a 0 0x7F" "en_rango_byte a 0xC2 0xDF"
    | "\<not> en_rango_byte a 0 0x7F" "\<not> en_rango_byte a 0xC2 0xDF" "en_rango_byte a 0xE0 0xEF"
    | "\<not> en_rango_byte a 0 0x7F" "\<not> en_rango_byte a 0xC2 0xDF" "\<not> en_rango_byte a 0xE0 0xEF" "en_rango_byte a 0xF0 0xF4"
    using v by (auto simp only: if_False split: if_splits)
  then show ?case
  proof cases
    case 1
    then show ?thesis using v 2(1,6) by simp
  next
    case c: 2
    then obtain x y where "s = x # y" using v by (cases s) auto
    then show ?thesis using c v 2(2) [OF c] 2(6) by (simp del: utf8_valida.simps(2) add: utf8_valida.simps(2) [of a])
  next
    case c: 3
    then obtain x y z where "s = x # y # z" using v by (simp split: list.splits)
    then show ?thesis using c v 2(3) [OF c] 2(6) by (simp del: utf8_valida.simps(2) add: utf8_valida.simps(2) [of a])
  next
    case c: 4
    then obtain x y z w where "s = x # y # z # w" using v by (simp split: list.splits)
    then show ?thesis using c v 2(4) [OF c] 2(6) by (simp del: utf8_valida.simps(2) add: utf8_valida.simps(2) [of a])
  qed
qed simp

lemma ascii_show_nat [simp]: "ascii (show_nat n)"
  using show_nat_digito [of _ n] by (fastforce simp: ascii_def list_all_iff es_digito_def)

section \<open>Hash maps and mutexes\<close>

text \<open>
  A \<open>HashMap\<close> is an association list with distinct keys: \<^const>\<open>map_of\<close> is \<open>get\<close>,
  \<^const>\<open>AList.update\<close> is \<open>insert\<close>, \<^const>\<open>AList.delete\<close> is \<open>remove\<close>, \<^const>\<open>AList.map_entry\<close>
  is an update through \<open>get_mut\<close>. The order of the list stands for the unspecified iteration
  order; the properties that speak of iteration are stated up to that order.
  A \<open>HashSet\<close> is a list with distinct elements in the same way.
\<close>

type_synonym ('k, 'v) hashmap = "('k \<times> 'v) list"

definition claves_distintas :: "('k, 'v) hashmap \<Rightarrow> bool" where
  "claves_distintas m \<longleftrightarrow> distinct (map fst m)"

lemma claves_distintas_update [simp]: "claves_distintas m \<Longrightarrow> claves_distintas (AList.update k v m)"
  by (simp add: claves_distintas_def distinct_update)

lemma claves_distintas_delete [simp]: "claves_distintas m \<Longrightarrow> claves_distintas (AList.delete k m)"
  by (simp add: claves_distintas_def distinct_delete)

lemma claves_distintas_map_entry [simp]:
  "claves_distintas m \<Longrightarrow> claves_distintas (AList.map_entry k f m)"
  by (simp add: claves_distintas_def distinct_map_entry)

lemma claves_distintas_Nil [simp]: "claves_distintas []"
  by (simp add: claves_distintas_def)

lemma claves_distintas_map_of:
  "claves_distintas m \<Longrightarrow> (k, v) \<in> set m \<longleftrightarrow> map_of m k = Some v"
  by (simp add: claves_distintas_def)

definition insertar_set :: "'a \<Rightarrow> 'a list \<Rightarrow> 'a list" where
  "insertar_set x xs = (if x \<in> set xs then xs else xs @ [x])"

lemma insertar_set_simps [simp]:
  "set (insertar_set x xs) = insert x (set xs)"
  "distinct (insertar_set x xs) = distinct xs"
  by (auto simp: insertar_set_def)

text \<open>
  A \<open>Mutex\<close> is poisoned when a thread panics while it holds the guard; \<open>lock\<close> then returns
  \<open>Err\<close> for ever. \<open>con_lock m f e\<close> is a critical section: \<open>f\<close> runs on the contents, and \<open>e\<close> is
  what the code returns when \<open>lock\<close> fails.
\<close>

record 'a mutex =
  contenido :: 'a
  envenenado :: bool

definition con_lock :: "'a mutex \<Rightarrow> ('a \<Rightarrow> 'r salida \<times> 'a) \<Rightarrow> 'r \<Rightarrow> 'r salida \<times> 'a mutex" where
  "con_lock m f e =
     (if envenenado m then (Devuelve e, m)
      else (case f (contenido m) of
              (Devuelve r, x) \<Rightarrow> (Devuelve r, m\<lparr>contenido := x\<rparr>)
            | (Panico, x) \<Rightarrow> (Panico, m\<lparr>contenido := x, envenenado := True\<rparr>)))"

text \<open>What follows a section that may leave the function (\<open>Inl\<close>) or panic.\<close>

fun seguir :: "('r + 'a) salida \<times> 'm \<Rightarrow> ('a \<Rightarrow> 'm \<Rightarrow> 'r salida \<times> 'm) \<Rightarrow> 'r salida \<times> 'm" where
  "seguir (Panico, m) k = (Panico, m)"
| "seguir (Devuelve (Inl r), m) k = (Devuelve r, m)"
| "seguir (Devuelve (Inr a), m) k = k a m"

text \<open>A section that only reads, and may leave the function early with a result.\<close>

definition leer_lock :: "'a mutex \<Rightarrow> ('a \<Rightarrow> 'r + 'b) \<Rightarrow> 'r \<Rightarrow> 'r + 'b" where
  "leer_lock m f e = (if envenenado m then Inl e else f (contenido m))"

definition mutex_inv :: "('a \<Rightarrow> bool) \<Rightarrow> 'a mutex \<Rightarrow> bool" where
  "mutex_inv P m \<longleftrightarrow> P (contenido m)"

lemma con_lock_inv [inv_intros]:
  assumes "mutex_inv P m" and "P (contenido m) \<Longrightarrow> P (snd (f (contenido m)))"
  shows "mutex_inv P (snd (con_lock m f e))"
  using assms by (auto simp: con_lock_def mutex_inv_def split: prod.splits salida.splits)

lemma con_lock_sano [simp]:
  "\<not> envenenado m \<Longrightarrow> f (contenido m) = (Devuelve r, x) \<Longrightarrow>
    con_lock m f e = (Devuelve r, m\<lparr>contenido := x\<rparr>)"
  by (simp add: con_lock_def)

lemma con_lock_envenenado [simp]: "envenenado m \<Longrightarrow> con_lock m f e = (Devuelve e, m)"
  by (simp add: con_lock_def)

lemma leer_lock_simps [simp]:
  "envenenado m \<Longrightarrow> leer_lock m g e' = Inl e'"
  "\<not> envenenado m \<Longrightarrow> leer_lock m g e' = g (contenido m)"
  by (simp_all add: leer_lock_def)

section \<open>Time and the environment of a command\<close>

text \<open>
  An \<open>Instant\<close> and a \<open>Duration\<close> are counted in nanoseconds. A command reads the clock once:
  the time between two readings of one command is taken as zero.
\<close>

type_synonym instante = nat
type_synonym duracion = nat
type_synonym socket = nat

definition from_secs :: "nat \<Rightarrow> duracion" where
  "from_secs s = s * 1000000000"

definition as_secs :: "duracion \<Rightarrow> nat" where
  "as_secs d = d div 1000000000"

lemma as_secs_from_secs [simp]: "as_secs (from_secs s) = s"
  by (simp add: as_secs_def from_secs_def)

text \<open>
  What a command finds around it: the clock, the system time since the epoch, the build
  profile, the regular expressions of the \<open>regex\<close> crate (\<open>Regex::new\<close> fails or gives a
  matcher), the capacity \<open>HashMap\<close> reports for a given number of entries, and whether the
  system can duplicate the handle of a socket (\<open>TcpStream::try_clone\<close>).
\<close>

record entorno =
  ahora :: instante
  hora_sistema :: nat
  perfil_de :: perfil
  regex :: "string \<Rightarrow> (string \<Rightarrow> bool) option"
  capacidad_de :: "nat \<Rightarrow> nat"
  duplicable :: "socket \<Rightarrow> bool"

end
