(* ===== verification/Mayusculas.thy ===== *)
theory Mayusculas
  imports Preludio
begin

text \<open>
  \<open>str::to_uppercase\<close> of the Rust library, which \<open>ComandoInfo::new\<close> applies to the name of a command and
  \<open>CONFIG\<close> to its option: the full, unconditional upper case mapping of Unicode 14.0 on the characters of a
  text in UTF-8. A character may become several (\<open>U+FB02\<close>, the ligature of f and l, becomes the two letters),
  and some that are not ASCII become ASCII letters, so that a name outside ASCII can be that of a command.
\<close>

section \<open>Characters in UTF-8\<close>

abbreviation octeto :: "char \<Rightarrow> nat" where
  "octeto c \<equiv> of_char c"

definition codificar :: "nat \<Rightarrow> string" where
  "codificar n = map char_of
     (if n < 0x80 then [n]
      else if n < 0x800 then [0xC0 + n div 64, 0x80 + n mod 64]
      else if n < 0x10000 then [0xE0 + n div 4096, 0x80 + n div 64 mod 64, 0x80 + n mod 64]
      else [0xF0 + n div 262144, 0x80 + n div 4096 mod 64, 0x80 + n div 64 mod 64, 0x80 + n mod 64])"

section \<open>The tables\<close>

text \<open>
  Characters with one upper case character: \<open>(first, last, step, difference)\<close> stands for every \<open>step\<close>-th
  character of the interval.
\<close>

definition intervalos :: "(nat \<times> nat \<times> nat \<times> int) list" where
  "intervalos =
    [(0xB5, 0xB5, 1, 743), (0xE0, 0xF6, 1, -32), (0xF8, 0xFE, 1, -32), (0xFF, 0xFF, 1, 121),
     (0x101, 0x12F, 2, -1), (0x131, 0x131, 1, -232), (0x133, 0x137, 2, -1), (0x13A, 0x148, 2, -1),
     (0x14B, 0x177, 2, -1), (0x17A, 0x17E, 2, -1), (0x17F, 0x17F, 1, -300), (0x180, 0x180, 1, 195),
     (0x183, 0x185, 2, -1), (0x188, 0x188, 1, -1), (0x18C, 0x18C, 1, -1), (0x192, 0x192, 1, -1),
     (0x195, 0x195, 1, 97), (0x199, 0x199, 1, -1), (0x19A, 0x19A, 1, 163), (0x19E, 0x19E, 1, 130),
     (0x1A1, 0x1A5, 2, -1), (0x1A8, 0x1A8, 1, -1), (0x1AD, 0x1AD, 1, -1), (0x1B0, 0x1B0, 1, -1),
     (0x1B4, 0x1B6, 2, -1), (0x1B9, 0x1B9, 1, -1), (0x1BD, 0x1BD, 1, -1), (0x1BF, 0x1BF, 1, 56),
     (0x1C5, 0x1C5, 1, -1), (0x1C6, 0x1C6, 1, -2), (0x1C8, 0x1C8, 1, -1), (0x1C9, 0x1C9, 1, -2),
     (0x1CB, 0x1CB, 1, -1), (0x1CC, 0x1CC, 1, -2), (0x1CE, 0x1DC, 2, -1), (0x1DD, 0x1DD, 1, -79),
     (0x1DF, 0x1EF, 2, -1), (0x1F2, 0x1F2, 1, -1), (0x1F3, 0x1F3, 1, -2), (0x1F5, 0x1F5, 1, -1),
     (0x1F9, 0x21F, 2, -1), (0x223, 0x233, 2, -1), (0x23C, 0x23C, 1, -1), (0x23F, 0x240, 1, 10815),
     (0x242, 0x242, 1, -1), (0x247, 0x24F, 2, -1), (0x250, 0x250, 1, 10783), (0x251, 0x251, 1, 10780),
     (0x252, 0x252, 1, 10782), (0x253, 0x253, 1, -210), (0x254, 0x254, 1, -206), (0x256, 0x257, 1, -205),
     (0x259, 0x259, 1, -202), (0x25B, 0x25B, 1, -203), (0x25C, 0x25C, 1, 42319), (0x260, 0x260, 1, -205),
     (0x261, 0x261, 1, 42315), (0x263, 0x263, 1, -207), (0x265, 0x265, 1, 42280), (0x266, 0x266, 1, 42308),
     (0x268, 0x268, 1, -209), (0x269, 0x269, 1, -211), (0x26A, 0x26A, 1, 42308), (0x26B, 0x26B, 1, 10743),
     (0x26C, 0x26C, 1, 42305), (0x26F, 0x26F, 1, -211), (0x271, 0x271, 1, 10749), (0x272, 0x272, 1, -213),
     (0x275, 0x275, 1, -214), (0x27D, 0x27D, 1, 10727), (0x280, 0x280, 1, -218), (0x282, 0x282, 1, 42307),
     (0x283, 0x283, 1, -218), (0x287, 0x287, 1, 42282), (0x288, 0x288, 1, -218), (0x289, 0x289, 1, -69),
     (0x28A, 0x28B, 1, -217), (0x28C, 0x28C, 1, -71), (0x292, 0x292, 1, -219), (0x29D, 0x29D, 1, 42261),
     (0x29E, 0x29E, 1, 42258), (0x345, 0x345, 1, 84), (0x371, 0x373, 2, -1), (0x377, 0x377, 1, -1),
     (0x37B, 0x37D, 1, 130), (0x3AC, 0x3AC, 1, -38), (0x3AD, 0x3AF, 1, -37), (0x3B1, 0x3C1, 1, -32),
     (0x3C2, 0x3C2, 1, -31), (0x3C3, 0x3CB, 1, -32), (0x3CC, 0x3CC, 1, -64), (0x3CD, 0x3CE, 1, -63),
     (0x3D0, 0x3D0, 1, -62), (0x3D1, 0x3D1, 1, -57), (0x3D5, 0x3D5, 1, -47), (0x3D6, 0x3D6, 1, -54),
     (0x3D7, 0x3D7, 1, -8), (0x3D9, 0x3EF, 2, -1), (0x3F0, 0x3F0, 1, -86), (0x3F1, 0x3F1, 1, -80),
     (0x3F2, 0x3F2, 1, 7), (0x3F3, 0x3F3, 1, -116), (0x3F5, 0x3F5, 1, -96), (0x3F8, 0x3F8, 1, -1),
     (0x3FB, 0x3FB, 1, -1), (0x430, 0x44F, 1, -32), (0x450, 0x45F, 1, -80), (0x461, 0x481, 2, -1),
     (0x48B, 0x4BF, 2, -1), (0x4C2, 0x4CE, 2, -1), (0x4CF, 0x4CF, 1, -15), (0x4D1, 0x52F, 2, -1),
     (0x561, 0x586, 1, -48), (0x10D0, 0x10FA, 1, 3008), (0x10FD, 0x10FF, 1, 3008), (0x13F8, 0x13FD, 1, -8),
     (0x1C80, 0x1C80, 1, -6254), (0x1C81, 0x1C81, 1, -6253), (0x1C82, 0x1C82, 1, -6244),
     (0x1C83, 0x1C84, 1, -6242), (0x1C85, 0x1C85, 1, -6243), (0x1C86, 0x1C86, 1, -6236),
     (0x1C87, 0x1C87, 1, -6181), (0x1C88, 0x1C88, 1, 35266), (0x1D79, 0x1D79, 1, 35332),
     (0x1D7D, 0x1D7D, 1, 3814), (0x1D8E, 0x1D8E, 1, 35384), (0x1E01, 0x1E95, 2, -1), (0x1E9B, 0x1E9B, 1, -59),
     (0x1EA1, 0x1EFF, 2, -1), (0x1F00, 0x1F07, 1, 8), (0x1F10, 0x1F15, 1, 8), (0x1F20, 0x1F27, 1, 8),
     (0x1F30, 0x1F37, 1, 8), (0x1F40, 0x1F45, 1, 8), (0x1F51, 0x1F57, 2, 8), (0x1F60, 0x1F67, 1, 8),
     (0x1F70, 0x1F71, 1, 74), (0x1F72, 0x1F75, 1, 86), (0x1F76, 0x1F77, 1, 100), (0x1F78, 0x1F79, 1, 128),
     (0x1F7A, 0x1F7B, 1, 112), (0x1F7C, 0x1F7D, 1, 126), (0x1FB0, 0x1FB1, 1, 8), (0x1FBE, 0x1FBE, 1, -7205),
     (0x1FD0, 0x1FD1, 1, 8), (0x1FE0, 0x1FE1, 1, 8), (0x1FE5, 0x1FE5, 1, 7), (0x214E, 0x214E, 1, -28),
     (0x2170, 0x217F, 1, -16), (0x2184, 0x2184, 1, -1), (0x24D0, 0x24E9, 1, -26), (0x2C30, 0x2C5F, 1, -48),
     (0x2C61, 0x2C61, 1, -1), (0x2C65, 0x2C65, 1, -10795), (0x2C66, 0x2C66, 1, -10792),
     (0x2C68, 0x2C6C, 2, -1), (0x2C73, 0x2C73, 1, -1), (0x2C76, 0x2C76, 1, -1), (0x2C81, 0x2CE3, 2, -1),
     (0x2CEC, 0x2CEE, 2, -1), (0x2CF3, 0x2CF3, 1, -1), (0x2D00, 0x2D25, 1, -7264), (0x2D27, 0x2D27, 1, -7264),
     (0x2D2D, 0x2D2D, 1, -7264), (0xA641, 0xA66D, 2, -1), (0xA681, 0xA69B, 2, -1), (0xA723, 0xA72F, 2, -1),
     (0xA733, 0xA76F, 2, -1), (0xA77A, 0xA77C, 2, -1), (0xA77F, 0xA787, 2, -1), (0xA78C, 0xA78C, 1, -1),
     (0xA791, 0xA793, 2, -1), (0xA794, 0xA794, 1, 48), (0xA797, 0xA7A9, 2, -1), (0xA7B5, 0xA7C3, 2, -1),
     (0xA7C8, 0xA7CA, 2, -1), (0xA7D1, 0xA7D1, 1, -1), (0xA7D7, 0xA7D9, 2, -1), (0xA7F6, 0xA7F6, 1, -1),
     (0xAB53, 0xAB53, 1, -928), (0xAB70, 0xABBF, 1, -38864), (0xFF41, 0xFF5A, 1, -32),
     (0x10428, 0x1044F, 1, -40), (0x104D8, 0x104FB, 1, -40), (0x10597, 0x105A1, 1, -39),
     (0x105A3, 0x105B1, 1, -39), (0x105B3, 0x105B9, 1, -39), (0x105BB, 0x105BC, 1, -39),
     (0x10CC0, 0x10CF2, 1, -64), (0x118C0, 0x118DF, 1, -32), (0x16E60, 0x16E7F, 1, -32),
     (0x1E922, 0x1E943, 1, -34)]"

text \<open>Characters whose upper case has several characters (\<open>SpecialCasing.txt\<close>).\<close>

definition especiales :: "(nat \<times> nat list) list" where
  "especiales =
    [(0xDF, [0x53, 0x53]), (0x149, [0x2BC, 0x4E]), (0x1F0, [0x4A, 0x30C]), (0x390, [0x399, 0x308, 0x301]),
     (0x3B0, [0x3A5, 0x308, 0x301]), (0x587, [0x535, 0x552]), (0x1E96, [0x48, 0x331]),
     (0x1E97, [0x54, 0x308]), (0x1E98, [0x57, 0x30A]), (0x1E99, [0x59, 0x30A]), (0x1E9A, [0x41, 0x2BE]),
     (0x1F50, [0x3A5, 0x313]), (0x1F52, [0x3A5, 0x313, 0x300]), (0x1F54, [0x3A5, 0x313, 0x301]),
     (0x1F56, [0x3A5, 0x313, 0x342]), (0x1F80, [0x1F08, 0x399]), (0x1F81, [0x1F09, 0x399]),
     (0x1F82, [0x1F0A, 0x399]), (0x1F83, [0x1F0B, 0x399]), (0x1F84, [0x1F0C, 0x399]),
     (0x1F85, [0x1F0D, 0x399]), (0x1F86, [0x1F0E, 0x399]), (0x1F87, [0x1F0F, 0x399]),
     (0x1F88, [0x1F08, 0x399]), (0x1F89, [0x1F09, 0x399]), (0x1F8A, [0x1F0A, 0x399]),
     (0x1F8B, [0x1F0B, 0x399]), (0x1F8C, [0x1F0C, 0x399]), (0x1F8D, [0x1F0D, 0x399]),
     (0x1F8E, [0x1F0E, 0x399]), (0x1F8F, [0x1F0F, 0x399]), (0x1F90, [0x1F28, 0x399]),
     (0x1F91, [0x1F29, 0x399]), (0x1F92, [0x1F2A, 0x399]), (0x1F93, [0x1F2B, 0x399]),
     (0x1F94, [0x1F2C, 0x399]), (0x1F95, [0x1F2D, 0x399]), (0x1F96, [0x1F2E, 0x399]),
     (0x1F97, [0x1F2F, 0x399]), (0x1F98, [0x1F28, 0x399]), (0x1F99, [0x1F29, 0x399]),
     (0x1F9A, [0x1F2A, 0x399]), (0x1F9B, [0x1F2B, 0x399]), (0x1F9C, [0x1F2C, 0x399]),
     (0x1F9D, [0x1F2D, 0x399]), (0x1F9E, [0x1F2E, 0x399]), (0x1F9F, [0x1F2F, 0x399]),
     (0x1FA0, [0x1F68, 0x399]), (0x1FA1, [0x1F69, 0x399]), (0x1FA2, [0x1F6A, 0x399]),
     (0x1FA3, [0x1F6B, 0x399]), (0x1FA4, [0x1F6C, 0x399]), (0x1FA5, [0x1F6D, 0x399]),
     (0x1FA6, [0x1F6E, 0x399]), (0x1FA7, [0x1F6F, 0x399]), (0x1FA8, [0x1F68, 0x399]),
     (0x1FA9, [0x1F69, 0x399]), (0x1FAA, [0x1F6A, 0x399]), (0x1FAB, [0x1F6B, 0x399]),
     (0x1FAC, [0x1F6C, 0x399]), (0x1FAD, [0x1F6D, 0x399]), (0x1FAE, [0x1F6E, 0x399]),
     (0x1FAF, [0x1F6F, 0x399]), (0x1FB2, [0x1FBA, 0x399]), (0x1FB3, [0x391, 0x399]), (0x1FB4, [0x386, 0x399]),
     (0x1FB6, [0x391, 0x342]), (0x1FB7, [0x391, 0x342, 0x399]), (0x1FBC, [0x391, 0x399]),
     (0x1FC2, [0x1FCA, 0x399]), (0x1FC3, [0x397, 0x399]), (0x1FC4, [0x389, 0x399]), (0x1FC6, [0x397, 0x342]),
     (0x1FC7, [0x397, 0x342, 0x399]), (0x1FCC, [0x397, 0x399]), (0x1FD2, [0x399, 0x308, 0x300]),
     (0x1FD3, [0x399, 0x308, 0x301]), (0x1FD6, [0x399, 0x342]), (0x1FD7, [0x399, 0x308, 0x342]),
     (0x1FE2, [0x3A5, 0x308, 0x300]), (0x1FE3, [0x3A5, 0x308, 0x301]), (0x1FE4, [0x3A1, 0x313]),
     (0x1FE6, [0x3A5, 0x342]), (0x1FE7, [0x3A5, 0x308, 0x342]), (0x1FF2, [0x1FFA, 0x399]),
     (0x1FF3, [0x3A9, 0x399]), (0x1FF4, [0x38F, 0x399]), (0x1FF6, [0x3A9, 0x342]),
     (0x1FF7, [0x3A9, 0x342, 0x399]), (0x1FFC, [0x3A9, 0x399]), (0xFB00, [0x46, 0x46]),
     (0xFB01, [0x46, 0x49]), (0xFB02, [0x46, 0x4C]), (0xFB03, [0x46, 0x46, 0x49]),
     (0xFB04, [0x46, 0x46, 0x4C]), (0xFB05, [0x53, 0x54]), (0xFB06, [0x53, 0x54]), (0xFB13, [0x544, 0x546]),
     (0xFB14, [0x544, 0x535]), (0xFB15, [0x544, 0x53B]), (0xFB16, [0x54E, 0x546]), (0xFB17, [0x544, 0x53D])]"

definition mayuscula_de :: "nat \<Rightarrow> nat list" where
  "mayuscula_de n =
     (case map_of especiales n of
        Some ns \<Rightarrow> ns
      | None \<Rightarrow>
          (case find (\<lambda>(lo, hi, salto, d). lo \<le> n \<and> n \<le> hi \<and> (n - lo) mod salto = 0) intervalos of
             Some (_, _, _, d) \<Rightarrow> [nat (int n + d)]
           | None \<Rightarrow> [n]))"

section \<open>Upper case of a text\<close>

text \<open>The texts of the program are valid UTF-8; what is not, at the end of a list, is left as it is.\<close>

fun to_uppercase :: "string \<Rightarrow> string" where
  "to_uppercase [] = []"
| "to_uppercase (a # s) =
     (if octeto a < 0x80 then a_mayuscula a # to_uppercase s
      else if octeto a < 0xE0 then
        (case s of
           b # s' \<Rightarrow>
             concat (map codificar (mayuscula_de (octeto a mod 32 * 64 + octeto b mod 64))) @ to_uppercase s'
         | _ \<Rightarrow> a # s)
      else if octeto a < 0xF0 then
        (case s of
           b # c # s' \<Rightarrow>
             concat (map codificar (mayuscula_de ((octeto a mod 16 * 64 + octeto b mod 64) * 64 + octeto c mod 64))) @
             to_uppercase s'
         | _ \<Rightarrow> a # s)
      else
        (case s of
           b # c # d # s' \<Rightarrow>
             concat (map codificar (mayuscula_de
               (((octeto a mod 8 * 64 + octeto b mod 64) * 64 + octeto c mod 64) * 64 + octeto d mod 64))) @
             to_uppercase s'
         | _ \<Rightarrow> a # s))"

declare to_uppercase.simps [simp del]

lemma to_uppercase_ascii: "ascii s \<Longrightarrow> to_uppercase s = map a_mayuscula s"
  by (induction s) (auto simp: ascii_def to_uppercase.simps)

text \<open>The names \<open>GET\<close> and \<open>SET\<close> of the options of \<open>CONFIG\<close>.\<close>

lemma to_uppercase_opciones: "to_uppercase ''SET'' = ''SET''" "to_uppercase ''GET'' = ''GET''"
  by (simp_all add: to_uppercase_ascii ascii_def a_mayuscula_def)

text \<open>Names outside ASCII: an accented letter, and the ligature that gives the name of a command.\<close>

lemma letras:
  "char_of (66 :: nat) = CHR ''B''" "char_of (68 :: nat) = CHR ''D''" "char_of (70 :: nat) = CHR ''F''"
  "char_of (72 :: nat) = CHR ''H''" "char_of (76 :: nat) = CHR ''L''" "char_of (83 :: nat) = CHR ''S''"
  "char_of (85 :: nat) = CHR ''U''"
  by (simp_all add: char_of_def bit_0)

lemma to_uppercase_ejemplos:
  "to_uppercase (map char_of [0xC3, 0xB1 :: nat]) = map char_of [0xC3, 0x91 :: nat]"
  "to_uppercase (map char_of [0xEF, 0xAC, 0x82 :: nat] @ ''ushdb'') = ''FLUSHDB''"
  by (simp_all add: to_uppercase.simps a_mayuscula_def mayuscula_de_def especiales_def intervalos_def codificar_def
      letras)

end
