(* ===== verification/Comando_Info.thy ===== *)
theory Comando_Info
  imports Mayusculas
begin

text \<open>
  \<open>comando_info.rs\<close>: a parsed command with the cursor that \<open>get_parametro\<close> moves, and the loop
  \<open>while let Some(p) = comando.get_parametro()\<close> that most handlers run. The loop is total
  (the cursor approaches the number of parameters) and equals a fold over the parameters
  that are left.
\<close>

record comando_info =
  nombre :: string
  parametros :: "string list"
  index :: nat

text \<open>\<open>ComandoInfo::new\<close> reads \<open>comando_parseado[0]\<close>: it panics on an empty vector.\<close>

definition comando_info_new :: "string list \<Rightarrow> comando_info salida" where
  "comando_info_new comando_parseado =
     (if length comando_parseado = 1
      then luego (indice_vec comando_parseado 0) (\<lambda>n.
             Devuelve \<lparr>nombre = to_uppercase n, parametros = [], index = 0\<rparr>)
      else luego (indice_vec comando_parseado 0) (\<lambda>n.
             Devuelve \<lparr>nombre = to_uppercase n, parametros = tl comando_parseado, index = 0\<rparr>))"

definition get_nombre :: "comando_info \<Rightarrow> string" where
  "get_nombre c = nombre c"

definition get_clave :: "comando_info \<Rightarrow> string option \<times> comando_info" where
  "get_clave c =
     ((case parametros c of [] \<Rightarrow> None | clave # _ \<Rightarrow> Some clave), c\<lparr>index := 1\<rparr>)"

definition get_parametros :: "comando_info \<Rightarrow> string list option" where
  "get_parametros c = (if parametros c \<noteq> [] then Some (parametros c) else None)"

definition get_parametro :: "comando_info \<Rightarrow> string option \<times> comando_info" where
  "get_parametro c =
     (if index c < length (parametros c)
      then (Some (parametros c ! index c), c\<lparr>index := index c + 1\<rparr>)
      else (None, c))"

fun agregar_params :: "string \<Rightarrow> string list \<Rightarrow> string" where
  "agregar_params d [] = d"
| "agregar_params d (param # ps) = agregar_params ((d @ '' '') @ param) ps"

definition descripcion :: "comando_info \<Rightarrow> string" where
  "descripcion c = agregar_params (nombre c) (parametros c)"

lemma comando_info_new_simps [simp]:
  "comando_info_new [] = Panico"
  "comando_info_new (n # ps) = Devuelve \<lparr>nombre = to_uppercase n, parametros = ps, index = 0\<rparr>"
  by (auto simp: comando_info_new_def indice_vec_def)

section \<open>The loop over the parameters\<close>

text \<open>The body returns \<open>Inl r\<close> where the code returns from the function, \<open>Inr s\<close> to go on.\<close>

function mientras_parametro :: "(string \<Rightarrow> 's \<Rightarrow> 'r + 's) \<Rightarrow> comando_info \<Rightarrow> 's \<Rightarrow> 'r + 's" where
  "mientras_parametro f c s =
     (case get_parametro c of
        (None, c') \<Rightarrow> Inr s
      | (Some p, c') \<Rightarrow> (case f p s of Inl r \<Rightarrow> Inl r | Inr s' \<Rightarrow> mientras_parametro f c' s'))"
  by pat_completeness auto
termination
  by (relation "measure (\<lambda>(f, c, s). length (parametros c) - index c)")
    (auto simp: get_parametro_def split: if_splits)

declare mientras_parametro.simps [simp del]

fun recorrer :: "(string \<Rightarrow> 's \<Rightarrow> 'r + 's) \<Rightarrow> string list \<Rightarrow> 's \<Rightarrow> 'r + 's" where
  "recorrer f [] s = Inr s"
| "recorrer f (p # ps) s = (case f p s of Inl r \<Rightarrow> Inl r | Inr s' \<Rightarrow> recorrer f ps s')"

definition pendientes :: "comando_info \<Rightarrow> string list" where
  "pendientes c = drop (index c) (parametros c)"

lemma get_parametro_pendientes:
  "get_parametro c =
     (case pendientes c of [] \<Rightarrow> (None, c) | p # ps \<Rightarrow> (Some p, c\<lparr>index := index c + 1\<rparr>))"
  by (auto simp: get_parametro_def pendientes_def split: list.splits)
    (metis nth_via_drop)

lemma pendientes_avanza [simp]:
  "pendientes (c\<lparr>index := Suc (index c)\<rparr>) = tl (pendientes c)"
  by (simp add: pendientes_def drop_Suc tl_drop)

lemma mientras_parametro_eq: "mientras_parametro f c s = recorrer f (pendientes c) s"
proof (induction f c s rule: mientras_parametro.induct)
  case (1 f c s)
  show ?case
  proof (cases "pendientes c")
    case Nil
    then show ?thesis
      by (subst mientras_parametro.simps) (simp add: get_parametro_pendientes)
  next
    case (Cons p ps)
    then have g: "get_parametro c = (Some p, c\<lparr>index := Suc (index c)\<rparr>)"
      by (simp add: get_parametro_pendientes)
    show ?thesis
    proof (cases "f p s")
      case (Inl r)
      then show ?thesis using g Cons by (subst mientras_parametro.simps) simp
    next
      case (Inr s')
      with 1 g have "mientras_parametro f (c\<lparr>index := Suc (index c)\<rparr>) s' = recorrer f ps s'"
        using Cons by simp
      then show ?thesis using g Cons Inr by (subst mientras_parametro.simps) simp
    qed
  qed
qed

text \<open>A property of the state that every step keeps is kept by the loop.\<close>

lemma recorrer_inv:
  assumes "P s" and "\<And>p s s'. P s \<Longrightarrow> f p s = Inr s' \<Longrightarrow> P s'" and "recorrer f ps s = Inr s'"
  shows "P s'"
  using assms by (induction ps arbitrary: s) (auto split: sum.splits)

lemma recorrer_inv_salida:
  assumes "P s" and "\<And>p s s'. P s \<Longrightarrow> f p s = Inr s' \<Longrightarrow> P s'"
    and "\<And>p s r. P s \<Longrightarrow> f p s = Inl r \<Longrightarrow> Q r" and "recorrer f ps s = Inl r"
  shows "Q r"
  using assms(1,4)
proof (induction ps arbitrary: s)
  case Nil
  then show ?case by simp
next
  case (Cons p ps)
  then show ?case using assms(2,3) by (cases "f p s") auto
qed

lemma get_clave_simps [simp]:
  "parametros c = [] \<Longrightarrow> get_clave c = (None, c\<lparr>index := 1\<rparr>)"
  "parametros c = k # ps \<Longrightarrow> get_clave c = (Some k, c\<lparr>index := 1\<rparr>)"
  by (simp_all add: get_clave_def)

lemma pendientes_clave [simp]: "pendientes (c\<lparr>index := 1\<rparr>) = tl (parametros c)"
  by (simp add: pendientes_def drop_Suc)

lemma pendientes_clave' [simp]: "pendientes (c\<lparr>index := Suc 0\<rparr>) = tl (parametros c)"
  by (simp add: pendientes_def drop_Suc)

lemma pendientes_nuevo [simp]: "index c = 0 \<Longrightarrow> pendientes c = parametros c"
  by (simp add: pendientes_def)

end
