(* ===== verification/Protocolo.thy ===== *)
theory Protocolo
  imports Comando_Info
begin

text \<open>
  \<open>base_de_datos.rs\<close> (\<open>ResultadoRedis\<close>) and \<open>parser.rs\<close>: the results a command may have, their
  encoding in the Redis protocol, and the parser of the commands a client sends.
\<close>

datatype resultado_redis =
    StrSimple string
  | BulkStr string
  | RInt int
  | Vector "resultado_redis list"
  | RNil
  | Error string
  | Vacio

datatype parser_error = RedisSyntaxError | MensajeVacioError

abbreviation CRLF :: string where
  "CRLF \<equiv> [CHR 0x0D, CHR 0x0A]"

section \<open>Results on the wire\<close>

fun parsear_respuesta :: "resultado_redis \<Rightarrow> string" where
  "parsear_respuesta (StrSimple cad) = ''+'' @ cad @ CRLF"
| "parsear_respuesta (BulkStr cad) = ''$'' @ show_nat (length cad) @ CRLF @ cad @ CRLF"
| "parsear_respuesta (RInt ent) = '':'' @ show_int ent @ CRLF"
| "parsear_respuesta (Vector vec) =
     ''*'' @ show_nat (length vec) @ CRLF @ concat (map parsear_respuesta vec)"
| "parsear_respuesta RNil = ''$-1'' @ CRLF"
| "parsear_respuesta (Error e) = ''-'' @ e @ CRLF"
| "parsear_respuesta Vacio = []"

section \<open>Commands from the wire\<close>

definition parsear_int :: "string \<Rightarrow> nat option" where
  "parsear_int cadena = parse_u32 (sin_primer_char cadena)"

text \<open>
  \<open>BufRead::lines\<close>: a line ends at a line feed, which is removed with the carriage return before
  it; the bytes after the last line feed are a line if there are any. A line that is not
  valid UTF-8 is an \<open>Err\<close>, here \<open>None\<close>.
\<close>

definition sin_cr :: "string \<Rightarrow> string" where
  "sin_cr l = (if l \<noteq> [] \<and> last l = CHR 0x0D then butlast l else l)"

fun cortar_lineas :: "string list \<Rightarrow> string list" where
  "cortar_lineas [] = []"
| "cortar_lineas [l] = (if l = [] then [] else [l])"
| "cortar_lineas (l # l' # ls) = sin_cr l # cortar_lineas (l' # ls)"

definition leer_lineas :: "string \<Rightarrow> string option list" where
  "leer_lineas bytes =
     map (\<lambda>l. if utf8_valida l then Some l else None) (cortar_lineas (split_char (CHR 0x0A) bytes))"

text \<open>
  The loop of \<open>parsear_stream\<close>. When the second line of a pair is missing or invalid the loop
  goes on with the lines after it.
\<close>

fun parsear_args :: "nat \<Rightarrow> string option list \<Rightarrow> string list \<Rightarrow> (parser_error + comando_info) salida" where
  "parsear_args capacidad (Some longitud_str # Some argumento # lineas) comando =
     (case parsear_int longitud_str of
        None \<Rightarrow> Devuelve (Inl RedisSyntaxError)
      | Some longitud \<Rightarrow>
          if longitud \<noteq> length argumento then Devuelve (Inl RedisSyntaxError)
          else if length (comando @ [argumento]) = capacidad
          then luego (comando_info_new (comando @ [argumento])) (\<lambda>ci. Devuelve (Inr ci))
          else parsear_args capacidad lineas (comando @ [argumento]))"
| "parsear_args capacidad (Some longitud_str # None # lineas) comando =
     parsear_args capacidad lineas comando"
| "parsear_args capacidad _ comando = luego (comando_info_new comando) (\<lambda>ci. Devuelve (Inr ci))"

definition parsear_stream :: "string \<Rightarrow> (parser_error + comando_info) salida" where
  "parsear_stream bytes =
     (case leer_lineas bytes of
        Some primer_valor # lineas \<Rightarrow>
          (case parsear_int primer_valor of
             None \<Rightarrow> Devuelve (Inl RedisSyntaxError)
           | Some capacidad \<Rightarrow> parsear_args capacidad lineas [])
      | _ \<Rightarrow> Devuelve (Inl MensajeVacioError))"

section \<open>Lines\<close>

lemma cortar_lineas_crlf:
  "\<forall>l \<in> set ls. CHR 0x0A \<notin> set l \<Longrightarrow>
    cortar_lineas (split_char (CHR 0x0A) (concat (map (\<lambda>l. l @ CRLF) ls) @ resto)) =
      ls @ cortar_lineas (split_char (CHR 0x0A) resto)"
proof (induction ls)
  case Nil
  then show ?case by simp
next
  case (Cons l ls)
  let ?r = "concat (map (\<lambda>l. l @ CRLF) ls) @ resto"
  have "split_char (CHR 0x0A) ((l @ [CHR 0x0D]) @ CHR 0x0A # ?r) = (l @ [CHR 0x0D]) # split_char (CHR 0x0A) ?r"
    using Cons.prems by (intro split_char_append) simp
  moreover obtain p ps where "split_char (CHR 0x0A) ?r = p # ps" by (meson neq_Nil_conv split_char_noNil)
  ultimately show ?case using Cons by (simp add: sin_cr_def)
qed

lemma leer_lineas_crlf:
  "\<forall>l \<in> set ls. CHR 0x0A \<notin> set l \<and> utf8_valida l \<Longrightarrow>
    leer_lineas (concat (map (\<lambda>l. l @ CRLF) ls) @ resto) = map Some ls @ leer_lineas resto"
  by (simp add: leer_lineas_def cortar_lineas_crlf)

section \<open>Properties of the parser\<close>

lemma parsear_int_show [simp]:
  "en_rango_byte c 0 0x7F \<Longrightarrow> parsear_int (c # show_nat n) = (if n \<le> 2 ^ 32 - 1 then Some n else None)"
  by (simp add: parsear_int_def sin_primer_char_def)

definition lineas_de_args :: "string list \<Rightarrow> string list" where
  "lineas_de_args args = concat (map (\<lambda>a. [''$'' @ show_nat (length a), a]) args)"

lemma lineas_de_args_simps [simp]:
  "lineas_de_args [] = []"
  "lineas_de_args (a # as) = (CHR ''$'' # show_nat (length a)) # a # lineas_de_args as"
  by (simp_all add: lineas_de_args_def)

lemma parsear_args_ok:
  assumes "as \<noteq> []" "\<forall>a \<in> set as. length a < 2 ^ 32"
  shows "parsear_args (length acum + length as) (map Some (lineas_de_args as) @ ls) acum =
    luego (comando_info_new (acum @ as)) (\<lambda>ci. Devuelve (Inr ci))"
  using assms
proof (induction as arbitrary: acum)
  case Nil
  then show ?case by simp
next
  case (Cons a as)
  then have a: "length a \<le> 4294967295" by simp
  show ?case
  proof (cases as)
    case Nil
    then show ?thesis using a by simp
  next
    case (Cons b bs)
    then show ?thesis using a Cons.IH [of "acum @ [a]"] Cons.prems by simp
  qed
qed

lemma respuesta_lineas:
  "parsear_respuesta (Vector (map BulkStr args)) =
    concat (map (\<lambda>l. l @ CRLF) ((''*'' @ show_nat (length args)) # lineas_de_args args))"
  by (induction args) simp_all

lemma show_nat_lineas: "CHR 0x0A \<notin> set (show_nat n)" "utf8_valida (show_nat n)"
  using show_nat_digito [of "CHR 0x0A" n] utf8_valida_ascii_append [OF ascii_show_nat, of n "[]"] by auto

lemma lineas_de_args_bien:
  "\<forall>a \<in> set as. CHR 0x0A \<notin> set a \<and> utf8_valida a \<Longrightarrow>
    \<forall>l \<in> set (lineas_de_args as). CHR 0x0A \<notin> set l \<and> utf8_valida l"
  by (induction as) (simp_all add: show_nat_lineas)

lemma parsear_comando:
  assumes "length (n # ps) < 2 ^ 32" "\<forall>a \<in> set (n # ps). length a < 2 ^ 32 \<and> CHR 0x0A \<notin> set a \<and> utf8_valida a"
  shows "parsear_stream (parsear_respuesta (Vector (map BulkStr (n # ps))) @ resto) =
    Devuelve (Inr \<lparr>nombre = to_uppercase n, parametros = ps, index = 0\<rparr>)"
proof -
  let ?as = "n # ps"
  have "\<forall>l \<in> set ((''*'' @ show_nat (length ?as)) # lineas_de_args ?as). CHR 0x0A \<notin> set l \<and> utf8_valida l"
    using lineas_de_args_bien [of ?as] assms(2) by (simp add: show_nat_lineas)
  from leer_lineas_crlf [OF this, of resto]
  have l: "leer_lineas (parsear_respuesta (Vector (map BulkStr ?as)) @ resto) =
      Some (CHR ''*'' # show_nat (length ?as)) # map Some (lineas_de_args ?as) @ leer_lineas resto"
    unfolding respuesta_lineas by simp
  have "parsear_int (CHR ''*'' # show_nat (length ?as)) = Some (length ?as)"
    using assms(1) by simp
  moreover have "parsear_args (length ?as) (map Some (lineas_de_args ?as) @ leer_lineas resto) [] =
      Devuelve (Inr \<lparr>nombre = to_uppercase n, parametros = ps, index = 0\<rparr>)"
    using parsear_args_ok [of ?as "[]"] assms(2) by simp
  ultimately show ?thesis unfolding parsear_stream_def l by simp
qed

text \<open>
  C8: a command with a name in ASCII, encoded as an array of bulk strings, is parsed to that command with
  its name in upper case, whatever bytes follow it. The arguments are any UTF-8 texts without a line feed.
\<close>

theorem parsear_stream_ida_y_vuelta:
  assumes "length (n # ps) < 2 ^ 32" "\<forall>a \<in> set (n # ps). length a < 2 ^ 32 \<and> CHR 0x0A \<notin> set a \<and> utf8_valida a"
    and "ascii n"
  shows "parsear_stream (parsear_respuesta (Vector (map BulkStr (n # ps))) @ resto) =
    Devuelve (Inr \<lparr>nombre = map a_mayuscula n, parametros = ps, index = 0\<rparr>)"
  using parsear_comando [OF assms(1,2)] to_uppercase_ascii [OF assms(3)] by simp

lemma parsear_stream_ida_y_vuelta_testigo:
  "parsear_stream (parsear_respuesta (Vector [BulkStr ''get'', BulkStr ''k'']) @ ''basura'') =
   Devuelve (Inr \<lparr>nombre = map a_mayuscula ''get'', parametros = [''k''], index = 0\<rparr>)"
  using parsear_stream_ida_y_vuelta [of "''get''" "[''k'']" "''basura''"] by (simp add: ascii_def)

text \<open>
  A stream that ends after the header \<open>*n\<close> makes the thread of the client panic, in place of
  the syntax error: \<open>ComandoInfo::new\<close> reads the first element of an empty vector.
\<close>

lemma parsear_stream_sin_args:
  assumes "n < 2 ^ 32"
  shows "parsear_stream (''*'' @ show_nat n @ CRLF) = Panico"
proof -
  have "leer_lineas (concat (map (\<lambda>l. l @ CRLF) [CHR ''*'' # show_nat n]) @ []) =
      map Some [CHR ''*'' # show_nat n] @ leer_lineas []"
    by (rule leer_lineas_crlf) (simp add: show_nat_lineas)
  then show ?thesis using assms by (simp add: parsear_stream_def leer_lineas_def)
qed

lemma parsear_stream_sin_args_testigo: "parsear_stream (''*'' @ show_nat 1 @ CRLF) = Panico"
  using parsear_stream_sin_args [of 1] by simp

end
