(* ===== verification/Clientes.thy ===== *)
theory Clientes
  imports Protocolo
begin

text \<open>
  \<open>redis_error.rs\<close>, \<open>comando_http.rs\<close>, \<open>http_parser.rs\<close>, \<open>cliente_redis.rs\<close>, \<open>cliente_http.rs\<close> and
  \<open>cliente.rs\<close>: the two kinds of client behind the trait object \<open>Cliente\<close>, and the network they
  write to. A socket is the number of a connection; the handles that \<open>try_clone\<close> makes share it.
\<close>

datatype redis_error = RServer | RConeccion | RInicializacion

definition mostrar_error :: "redis_error \<Rightarrow> string" where
  "mostrar_error e =
     (case e of
        RServer \<Rightarrow> ''ServerError error del servidor''
      | RConeccion \<Rightarrow> ''ConeccionError no se ha podido establecer conexion''
      | RInicializacion \<Rightarrow>
          ''InicializacionError no se ha podido inicializar el servidor en el puerto especificado'')"

text \<open>
  The network: what a call that reads a socket returns (\<open>recibido\<close>, the bytes until the end of
  the stream), what \<open>peek\<close> says (\<open>espia\<close>, \<open>None\<close> an error), the local address, whether a write or a
  flush succeeds, and the messages written so far. The file system is a partial map.
\<close>

record red =
  recibido :: "socket \<Rightarrow> string"
  legible :: "socket \<Rightarrow> bool"
  espia :: "socket \<Rightarrow> nat option"
  direccion_local :: "socket \<Rightarrow> string option"
  escribible :: "socket \<Rightarrow> bool"
  descarga :: "socket \<Rightarrow> bool"
  enviados :: "(socket \<times> string) list"

definition escribir_socket :: "red \<Rightarrow> socket \<Rightarrow> string \<Rightarrow> bool \<times> red" where
  "escribir_socket r s mensaje =
     (if escribible r s then (True, r\<lparr>enviados := enviados r @ [(s, mensaje)]\<rparr>) else (False, r))"

section \<open>HTTP requests\<close>

record comando_http =
  metodo :: string
  args :: "string list"
  headers :: "string list"
  comando_redis :: "comando_info option"

definition comando_http_new ::
    "string list \<Rightarrow> string list \<Rightarrow> string list \<Rightarrow> comando_http salida" where
  "comando_http_new ms hs comando =
     luego (indice_vec ms 0) (\<lambda>m.
       luego (if comando = [] then Devuelve None
              else luego (comando_info_new comando) (\<lambda>c. Devuelve (Some c))) (\<lambda>cr.
         Devuelve \<lparr>metodo = m, args = tl ms, headers = hs, comando_redis = cr\<rparr>))"

definition get_metodo :: "comando_http \<Rightarrow> string" where
  "get_metodo c = metodo c"

definition get_comando :: "comando_http \<Rightarrow> comando_info option" where
  "get_comando c = comando_redis c"

definition get_argumento :: "comando_http \<Rightarrow> string option" where
  "get_argumento c = (case args c of [] \<Rightarrow> None | a # _ \<Rightarrow> Some a)"

definition obtener_metodo :: "string \<Rightarrow> parser_error + string list" where
  "obtener_metodo linea =
     (let m = split_char (CHR '' '') linea
      in if length m \<noteq> 3 then Inl MensajeVacioError else Inr m)"

text \<open>The loop of \<open>obtener_headers\<close>: it counts the header lines up to the first empty line.\<close>

fun recorrer_headers :: "string list \<Rightarrow> string list \<Rightarrow> nat \<Rightarrow> parser_error + (string list \<times> nat)" where
  "recorrer_headers [] hs i = Inr (hs, i)"
| "recorrer_headers (linea # lineas) hs i =
     (if linea = [] then Inr (hs, i)
      else (let header = split_str '': '' linea
            in if length header \<noteq> 2 then Inl MensajeVacioError
               else recorrer_headers lineas (hs @ header) (i + 1)))"

definition obtener_headers :: "string list \<Rightarrow> (parser_error + (string list \<times> string list)) salida" where
  "obtener_headers lineas =
     (case recorrer_headers lineas [] 0 of
        Inl e \<Rightarrow> Devuelve (Inl e)
      | Inr (hs, i) \<Rightarrow> luego (drain_hasta lineas (i + 1)) (\<lambda>(_, resto). Devuelve (Inr (hs, resto))))"

definition obtener_comando_redis :: "string list \<Rightarrow> string \<Rightarrow> (parser_error + string list) salida" where
  "obtener_comando_redis lineas m =
     (if m \<noteq> ''POST'' then Devuelve (Inr [])
      else luego (indice_vec lineas 0) (\<lambda>l.
        let comando = split_char (CHR ''='') (filter (\<lambda>c. c \<noteq> CHR 0x00) l)
        in luego (indice_vec comando 0) (\<lambda>c0.
             if c0 \<noteq> ''comando'' then Devuelve (Inl RedisSyntaxError)
             else luego (indice_vec comando 1) (\<lambda>c1. Devuelve (Inr (split_char (CHR ''+'') c1))))))"

text \<open>
  \<open>HttpParser::parsear_stream\<close> reads once into a buffer of 5000 zero bytes; \<open>leidos\<close> are the bytes
  of that read, \<open>ok\<close> is whether it succeeded.
\<close>

definition http_parsear_stream :: "bool \<Rightarrow> string \<Rightarrow> (parser_error + comando_http) salida" where
  "http_parsear_stream ok leidos =
     (let buffer = take 5000 leidos @ replicate (5000 - length leidos) (CHR 0x00)
      in if \<not> ok \<or> \<not> utf8_valida buffer then Devuelve (Inl MensajeVacioError)
      else (let lineas = split_str CRLF (buffer @ CRLF)
        in (case obtener_metodo (hd lineas) of
              Inl e \<Rightarrow> Devuelve (Inl e)
            | Inr ms \<Rightarrow>
                luego (obtener_headers (tl lineas)) (\<lambda>rh.
                  (case rh of
                     Inl e \<Rightarrow> Devuelve (Inl e)
                   | Inr (hs, resto) \<Rightarrow>
                       luego (obtener_comando_redis resto (ms ! 0)) (\<lambda>rc.
                         (case rc of
                            Inl e \<Rightarrow> Devuelve (Inl e)
                          | Inr comando \<Rightarrow>
                              luego (comando_http_new ms hs comando) (\<lambda>c. Devuelve (Inr c)))))))))"

fun http_parsear_respuesta :: "resultado_redis \<Rightarrow> string" where
  "http_parsear_respuesta (StrSimple cad) = cad"
| "http_parsear_respuesta (BulkStr cad) = [CHR 0x27] @ cad @ [CHR 0x27]"
| "http_parsear_respuesta (RInt ent) = ''(integer) '' @ show_int ent"
| "http_parsear_respuesta (Vector vec) =
     ''(vector) '' @ concat (map (\<lambda>r. '' '' @ http_parsear_respuesta r) vec)"
| "http_parsear_respuesta RNil = ''(nil)''"
| "http_parsear_respuesta (Error e) = ''(error) '' @ e"
| "http_parsear_respuesta Vacio = []"

section \<open>The Redis client\<close>

type_synonym token = int

record cliente_redis =
  cr_id :: token
  canales :: nat
  timeout :: "duracion option"
  ultimo_mensaje :: instante
  cr_socket :: "socket option"

definition cliente_redis_new :: "instante \<Rightarrow> token \<Rightarrow> nat \<Rightarrow> socket \<Rightarrow> cliente_redis" where
  "cliente_redis_new t i tout stream =
     \<lparr>cr_id = i, canales = 0, timeout = (if tout = 0 then None else Some (from_secs tout)),
      ultimo_mensaje = t, cr_socket = Some stream\<rparr>"

definition cr_obtener_socket :: "(socket \<Rightarrow> bool) \<Rightarrow> cliente_redis \<Rightarrow> socket option" where
  "cr_obtener_socket dup c =
     (case cr_socket c of None \<Rightarrow> None | Some s \<Rightarrow> if dup s then Some s else None)"

definition cr_obtener_comando ::
    "(socket \<Rightarrow> bool) \<Rightarrow> red \<Rightarrow> cliente_redis \<Rightarrow> (redis_error + comando_info option) salida" where
  "cr_obtener_comando dup r c =
     (case cr_obtener_socket dup c of
        None \<Rightarrow> Devuelve (Inl RConeccion)
      | Some s \<Rightarrow>
          luego (parsear_stream (recibido r s)) (\<lambda>res.
            (case res of
               Inr orden \<Rightarrow> Devuelve (Inr (Some orden))
             | Inl _ \<Rightarrow> Devuelve (Inl RServer))))"

definition direccion_de :: "red \<Rightarrow> token \<Rightarrow> socket option \<Rightarrow> string" where
  "direccion_de r i so =
     (case so of
        None \<Rightarrow> ''Token: '' @ show_int i
      | Some s \<Rightarrow>
          (case direccion_local r s of
             Some a \<Rightarrow> (''Token: '' @ show_int i @ '' IP: '') @ a
           | None \<Rightarrow> ''Token: '' @ show_int i))"

definition cr_envio_informacion :: "red \<Rightarrow> cliente_redis \<Rightarrow> bool" where
  "cr_envio_informacion r c =
     (case cr_socket c of
        None \<Rightarrow> False
      | Some s \<Rightarrow> (case espia r s of Some len \<Rightarrow> len > 0 | None \<Rightarrow> False))"

definition cr_esta_conectado :: "instante \<Rightarrow> red \<Rightarrow> cliente_redis \<Rightarrow> bool" where
  "cr_esta_conectado t r c =
     (case cr_socket c of
        None \<Rightarrow> False
      | Some s \<Rightarrow>
          (let conectado = (case espia r s of Some len \<Rightarrow> len \<noteq> 0 | None \<Rightarrow> False);
               paso_el_timeout = (case timeout c of Some d \<Rightarrow> t - ultimo_mensaje c > d | None \<Rightarrow> False)
           in conectado \<and> \<not> paso_el_timeout))"

definition cr_enviar_mensaje ::
    "instante \<Rightarrow> cliente_redis \<Rightarrow> string \<Rightarrow> red \<Rightarrow> (redis_error + unit) \<times> cliente_redis \<times> red" where
  "cr_enviar_mensaje t c mensaje r =
     (let c' = c\<lparr>ultimo_mensaje := t\<rparr>
      in (case cr_socket c' of
            None \<Rightarrow> (Inl RConeccion, c', r)
          | Some s \<Rightarrow>
              (case escribir_socket r s mensaje of
                 (True, r') \<Rightarrow> (Inr (), c', r')
               | (False, r') \<Rightarrow> (Inl RConeccion, c', r'))))"

definition cr_enviar_resultado ::
    "instante \<Rightarrow> cliente_redis \<Rightarrow> resultado_redis \<Rightarrow> red \<Rightarrow> (redis_error + unit) \<times> cliente_redis \<times> red" where
  "cr_enviar_resultado t c res r = cr_enviar_mensaje t c (parsear_respuesta res) r"

definition cr_soporta_comando :: "cliente_redis \<Rightarrow> string \<Rightarrow> bool" where
  "cr_soporta_comando c comando = True"

definition cr_clone :: "(socket \<Rightarrow> bool) \<Rightarrow> cliente_redis \<Rightarrow> cliente_redis" where
  "cr_clone dup c =
     \<lparr>cr_id = cr_id c, canales = canales c, timeout = timeout c,
      ultimo_mensaje = ultimo_mensaje c, cr_socket = cr_obtener_socket dup c\<rparr>"

section \<open>The HTTP client\<close>

record cliente_http =
  ch_id :: token
  ch_socket :: "socket option"
  mando :: bool
  pag_index :: string
  icono :: string

text \<open>
  \<open>ClienteHttp::new\<close> reads two files; \<open>read_to_string\<close> fails as well when the bytes are not valid
  UTF-8. \<open>archivos\<close> gives the bytes of a file that can be read.
\<close>

definition cliente_http_new ::
    "(string \<Rightarrow> string option) \<Rightarrow> token \<Rightarrow> socket \<Rightarrow> cliente_http" where
  "cliente_http_new archivos i s =
     \<lparr>ch_id = i, ch_socket = Some s, mando = False,
      pag_index =
        (case archivos ''resources/index.html'' of
           Some bs \<Rightarrow> if utf8_valida bs then bs
                     else ''<html><body>Error al levantar la pagina</body></html>''
         | None \<Rightarrow> ''<html><body>Error al levantar la pagina</body></html>''),
      icono = (case archivos ''resources/favicon.png'' of Some bs \<Rightarrow> bs | None \<Rightarrow> [])\<rparr>"

definition ch_obtener_socket :: "(socket \<Rightarrow> bool) \<Rightarrow> cliente_http \<Rightarrow> socket option" where
  "ch_obtener_socket dup c =
     (case ch_socket c of None \<Rightarrow> None | Some s \<Rightarrow> if dup s then Some s else None)"

definition ch_enviar_bytes :: "cliente_http \<Rightarrow> string \<Rightarrow> red \<Rightarrow> (redis_error + unit) \<times> red" where
  "ch_enviar_bytes c bytes r =
     (case ch_socket c of
        None \<Rightarrow> (Inl RConeccion, r)
      | Some s \<Rightarrow>
          (case escribir_socket r s bytes of
             (False, r') \<Rightarrow> (Inl RConeccion, r')
           | (True, r') \<Rightarrow> (if descarga r' s then (Inr (), r') else (Inl RConeccion, r'))))"

definition ch_enviar_mensaje :: "cliente_http \<Rightarrow> string \<Rightarrow> red \<Rightarrow> (redis_error + unit) \<times> red" where
  "ch_enviar_mensaje c mensaje r = ch_enviar_bytes c mensaje r"

definition ch_enviar_resultado ::
    "cliente_http \<Rightarrow> resultado_redis \<Rightarrow> red \<Rightarrow> (redis_error + unit) \<times> cliente_http \<times> red" where
  "ch_enviar_resultado c res r =
     (let c' = c\<lparr>mando := True\<rparr>;
          mensaje = ''HTTP/1.1 200 OK'' @ CRLF @ CRLF @ http_parsear_respuesta res
      in (case ch_enviar_mensaje c' mensaje r of (res', r') \<Rightarrow> (res', c', r')))"

definition manejar_get ::
    "cliente_http \<Rightarrow> comando_http \<Rightarrow> red \<Rightarrow> (redis_error + comando_info option) \<times> red" where
  "manejar_get c comando r =
     (if get_argumento comando = Some ''/favicon.ico''
      then (let respuesta = ''HTTP/1.1 200 OK'' @ CRLF @ ''Content-Type: image/gif'' @ CRLF @
                  ''Content-Length: '' @ show_nat (length (icono c)) @ CRLF @ CRLF
            in (case ch_enviar_mensaje c respuesta r of
                  (Inl _, r') \<Rightarrow> (Inl RServer, r')
                | (Inr _, r') \<Rightarrow>
                    (case ch_enviar_bytes c (icono c) r' of
                       (Inr _, r'') \<Rightarrow> (Inr None, r'')
                     | (Inl _, r'') \<Rightarrow> (Inl RServer, r''))))
      else (let respuesta = ''HTTP/1.1 200 OK'' @ CRLF @
                  ''Content-Type: text/html; charset=UTF-8'' @ CRLF @ CRLF @ pag_index c
            in (case ch_enviar_mensaje c respuesta r of
                  (Inr _, r') \<Rightarrow> (Inr None, r')
                | (Inl _, r') \<Rightarrow> (Inl RServer, r'))))"

definition obtener_comando_de_post :: "comando_http \<Rightarrow> redis_error + comando_info option" where
  "obtener_comando_de_post comando =
     (case get_comando comando of Some c \<Rightarrow> Inr (Some c) | None \<Rightarrow> Inl RServer)"

definition http_manejar_error ::
    "cliente_http \<Rightarrow> comando_http \<Rightarrow> red \<Rightarrow> (redis_error + comando_info option) \<times> red" where
  "http_manejar_error c comando r =
     (case ch_enviar_mensaje c (''HTTP/1.1 400 BAD REQUEST'' @ CRLF @ CRLF) r of
        (Inr _, r') \<Rightarrow> (Inr None, r')
      | (Inl _, r') \<Rightarrow> (Inl RServer, r'))"

definition ch_obtener_comando ::
    "(socket \<Rightarrow> bool) \<Rightarrow> cliente_http \<Rightarrow> red \<Rightarrow>
     (redis_error + comando_info option) salida \<times> cliente_http \<times> red" where
  "ch_obtener_comando dup c r =
     (case ch_obtener_socket dup c of
        None \<Rightarrow> (Devuelve (Inl RConeccion), c, r)
      | Some s \<Rightarrow>
          (let c' = c\<lparr>mando := True\<rparr>
           in (case http_parsear_stream (legible r s) (recibido r s) of
                 Panico \<Rightarrow> (Panico, c', r)
               | Devuelve (Inl _) \<Rightarrow> (Devuelve (Inl RServer), c', r)
               | Devuelve (Inr ch) \<Rightarrow>
                   if get_metodo ch = ''GET''
                   then (case manejar_get c' ch r of (res, r') \<Rightarrow> (Devuelve res, c', r'))
                   else if get_metodo ch = ''POST''
                   then (Devuelve (obtener_comando_de_post ch), c', r)
                   else (case http_manejar_error c' ch r of (res, r') \<Rightarrow> (Devuelve res, c', r')))))"

definition ch_comandos :: "string list" where
  "ch_comandos =
     [''COPY'', ''DEL'', ''EXISTS'', ''RENAME'', ''EXPIRE'', ''EXPIREAT'', ''PERSIST'', ''TTL'', ''TOUCH'',
      ''KEYS'', ''SORT'', ''TYPE'', ''LINDEX'', ''LPOP'', ''RPOP'', ''LPUSH'', ''LPUSHX'', ''RPUSH'', ''RPUSHX'',
      ''LRANGE'', ''LREM'', ''LSET'', ''LLEN'', ''SADD'', ''SCARD'', ''SISMEMBER'', ''SMEMBERS'', ''SREM'',
      ''GET'', ''SET'', ''APPEND'', ''STRLEN'', ''INCRBY'', ''DECRBY'', ''MGET'', ''MSET'', ''GETSET'', ''GETDEL'',
      ''FLUSHDB'', ''DBSIZE'', ''CONFIG'', ''INFO'', ''PING'']"

definition ch_soporta_comando :: "cliente_http \<Rightarrow> string \<Rightarrow> bool" where
  "ch_soporta_comando c comando = list_ex (\<lambda>x. x = comando) ch_comandos"

definition ch_clone :: "(socket \<Rightarrow> bool) \<Rightarrow> cliente_http \<Rightarrow> cliente_http" where
  "ch_clone dup c =
     \<lparr>ch_id = ch_id c, ch_socket = ch_obtener_socket dup c, mando = mando c,
      pag_index = pag_index c, icono = icono c\<rparr>"

section \<open>The trait object\<close>

datatype cliente = CRedis cliente_redis | CHttp cliente_http

fun obtener_token :: "cliente \<Rightarrow> token" where
  "obtener_token (CRedis c) = cr_id c"
| "obtener_token (CHttp c) = ch_id c"

text \<open>\<open>PartialEq for Cliente\<close> compares the tokens.\<close>

definition cliente_eq :: "cliente \<Rightarrow> cliente \<Rightarrow> bool" where
  "cliente_eq a b \<longleftrightarrow> obtener_token a = obtener_token b"

fun clone_cliente :: "(socket \<Rightarrow> bool) \<Rightarrow> cliente \<Rightarrow> cliente" where
  "clone_cliente dup (CRedis c) = CRedis (cr_clone dup c)"
| "clone_cliente dup (CHttp c) = CHttp (ch_clone dup c)"

fun enviar_resultado ::
    "instante \<Rightarrow> cliente \<Rightarrow> resultado_redis \<Rightarrow> red \<Rightarrow> (redis_error + unit) \<times> cliente \<times> red" where
  "enviar_resultado t (CRedis c) res r =
     (case cr_enviar_resultado t c res r of (x, c', r') \<Rightarrow> (x, CRedis c', r'))"
| "enviar_resultado t (CHttp c) res r =
     (case ch_enviar_resultado c res r of (x, c', r') \<Rightarrow> (x, CHttp c', r'))"

fun soporta_comando :: "cliente \<Rightarrow> string \<Rightarrow> bool" where
  "soporta_comando (CRedis c) = cr_soporta_comando c"
| "soporta_comando (CHttp c) = ch_soporta_comando c"

fun envio_informacion :: "red \<Rightarrow> cliente \<Rightarrow> bool" where
  "envio_informacion r (CRedis c) = cr_envio_informacion r c"
| "envio_informacion r (CHttp c) = (\<not> mando c)"

fun esta_conectado :: "instante \<Rightarrow> red \<Rightarrow> cliente \<Rightarrow> bool" where
  "esta_conectado t r (CRedis c) = cr_esta_conectado t r c"
| "esta_conectado t r (CHttp c) = (\<not> mando c)"

fun obtener_addr :: "red \<Rightarrow> cliente \<Rightarrow> string" where
  "obtener_addr r (CRedis c) = direccion_de r (cr_id c) (cr_socket c)"
| "obtener_addr r (CHttp c) = direccion_de r (ch_id c) (ch_socket c)"

fun obtener_comando ::
    "(socket \<Rightarrow> bool) \<Rightarrow> cliente \<Rightarrow> red \<Rightarrow>
     (redis_error + comando_info option) salida \<times> cliente \<times> red" where
  "obtener_comando dup (CRedis c) r = (cr_obtener_comando dup r c, CRedis c, r)"
| "obtener_comando dup (CHttp c) r =
     (case ch_obtener_comando dup c r of (x, c', r') \<Rightarrow> (x, CHttp c', r'))"

text \<open>
  \<open>crear_cliente\<close> peeks at the first bytes of the stream (a buffer of 1024 zero bytes, filled by
  \<open>peek\<close>; \<open>None\<close> when it fails) and looks for \<open>HTTP\<close> in them.
\<close>

definition crear_cliente ::
    "(string \<Rightarrow> string option) \<Rightarrow> instante \<Rightarrow> token \<Rightarrow> nat \<Rightarrow> string option \<Rightarrow> socket \<Rightarrow> cliente" where
  "crear_cliente archivos t i tout visto s =
     (case visto of
        None \<Rightarrow> CRedis (cliente_redis_new t i tout s)
      | Some bytes \<Rightarrow>
          (let buffer = take 1024 bytes @ replicate (1024 - length bytes) (CHR 0x00);
               mensaje = (if utf8_valida buffer then buffer else [])
           in if contiene_str ''HTTP'' mensaje then CHttp (cliente_http_new archivos i s)
              else CRedis (cliente_redis_new t i tout s)))"

lemma token_clone [simp]: "obtener_token (clone_cliente dup c) = obtener_token c"
  by (cases c) (simp_all add: cr_clone_def ch_clone_def)

lemma clone_duplicable [simp]: "clone_cliente (\<lambda>_. True) c = c"
  by (cases c)
    (auto simp: cr_clone_def ch_clone_def cr_obtener_socket_def ch_obtener_socket_def split: option.splits)

lemma token_enviar_resultado [simp]:
  "obtener_token (fst (snd (enviar_resultado t c res r))) = obtener_token c"
  by (cases c)
    (simp_all add: cr_enviar_resultado_def cr_enviar_mensaje_def ch_enviar_resultado_def Let_def
      split: option.splits prod.splits bool.splits)

end
