(* ===== verification/Canales.thy ===== *)
theory Canales
  imports Clientes
begin

text \<open>
  \<open>canal.rs\<close>: a publish/subscribe channel. Every notification is a result sent to a client; a
  subscriber whose notification fails is not added, and a failed delivery is not counted.
\<close>

record canal =
  canal_nombre :: string
  suscriptores :: "cliente list"

definition canal_new :: "string \<Rightarrow> canal" where
  "canal_new n = \<lparr>canal_nombre = n, suscriptores = []\<rparr>"

definition clone_canal :: "(socket \<Rightarrow> bool) \<Rightarrow> canal \<Rightarrow> canal" where
  "clone_canal dup c = c\<lparr>suscriptores := map (clone_cliente dup) (suscriptores c)\<rparr>"

definition notificar_suscripcion ::
    "instante \<Rightarrow> canal \<Rightarrow> cliente \<Rightarrow> red \<Rightarrow> (redis_error + unit) \<times> red" where
  "notificar_suscripcion t c suscriptor r =
     (let cant = length (suscriptores c) + 1;
          res = Vector [BulkStr ''subscribe'', BulkStr (canal_nombre c), RInt (int cant)]
      in (case enviar_resultado t suscriptor res r of (x, _, r') \<Rightarrow> (x, r')))"

definition notificar_desubscripcion ::
    "instante \<Rightarrow> canal \<Rightarrow> cliente \<Rightarrow> red \<Rightarrow> (redis_error + unit) \<times> red" where
  "notificar_desubscripcion t c suscriptor r =
     (let res = Vector [BulkStr ''unsubscribe'', BulkStr (canal_nombre c),
                        RInt (int (length (suscriptores c)))]
      in (case enviar_resultado t suscriptor res r of (x, _, r') \<Rightarrow> (x, r')))"

definition suscribirse ::
    "instante \<Rightarrow> (socket \<Rightarrow> bool) \<Rightarrow> canal \<Rightarrow> cliente \<Rightarrow> red \<Rightarrow> canal \<times> red" where
  "suscribirse t dup c suscriptor r =
     (case notificar_suscripcion t c (clone_cliente dup suscriptor) r of
        (Inr _, r') \<Rightarrow> (c\<lparr>suscriptores := suscriptores c @ [suscriptor]\<rparr>, r')
      | (Inl _, r') \<Rightarrow> (c, r'))"

text \<open>The loop of \<open>publicar\<close>: the subscribers are updated in place.\<close>

fun publicar_a ::
    "instante \<Rightarrow> resultado_redis \<Rightarrow> cliente list \<Rightarrow> red \<Rightarrow> nat \<times> cliente list \<times> red" where
  "publicar_a t res [] r = (0, [], r)"
| "publicar_a t res (s # ss) r =
     (case enviar_resultado t s res r of
        (x, s', r') \<Rightarrow>
          (case publicar_a t res ss r' of
             (n, ss', r'') \<Rightarrow> ((case x of Inr _ \<Rightarrow> n + 1 | Inl _ \<Rightarrow> n), s' # ss', r'')))"

definition publicar :: "instante \<Rightarrow> canal \<Rightarrow> string \<Rightarrow> red \<Rightarrow> nat \<times> canal \<times> red" where
  "publicar t c mensaje r =
     (let res = Vector [BulkStr ''message'', BulkStr (canal_nombre c), BulkStr mensaje]
      in (case publicar_a t res (suscriptores c) r of
            (n, ss, r') \<Rightarrow> (n, c\<lparr>suscriptores := ss\<rparr>, r')))"

text \<open>\<open>iter().position(...)\<close>, and \<open>Vec::remove\<close> at that position.\<close>

fun posicion :: "('a \<Rightarrow> bool) \<Rightarrow> 'a list \<Rightarrow> nat option" where
  "posicion P [] = None"
| "posicion P (x # xs) = (if P x then Some 0 else map_option Suc (posicion P xs))"

definition desuscribirse ::
    "instante \<Rightarrow> (socket \<Rightarrow> bool) \<Rightarrow> canal \<Rightarrow> cliente \<Rightarrow> red \<Rightarrow> canal \<times> red" where
  "desuscribirse t dup c suscriptor r =
     (case posicion (\<lambda>x. cliente_eq x (clone_cliente dup suscriptor)) (suscriptores c) of
        None \<Rightarrow> (c, r)
      | Some i \<Rightarrow>
          (let c' = c\<lparr>suscriptores := take i (suscriptores c) @ drop (i + 1) (suscriptores c)\<rparr>
           in (case notificar_desubscripcion t c' suscriptor r of (_, r') \<Rightarrow> (c', r'))))"

definition es_activo :: "canal \<Rightarrow> bool" where
  "es_activo c \<longleftrightarrow> length (suscriptores c) > 1"

definition canal_len :: "canal \<Rightarrow> nat" where
  "canal_len c = length (suscriptores c)"

lemma clone_canal_todo [simp]: "clone_canal (\<lambda>_. True) c = c"
  by (simp add: clone_canal_def map_idI)

section \<open>The tokens subscribed to a channel\<close>

definition tokens :: "canal \<Rightarrow> token list" where
  "tokens c = map obtener_token (suscriptores c)"

lemma tokens_clone [simp]: "tokens (clone_canal dup c) = tokens c"
  by (simp add: tokens_def clone_canal_def)

lemma posicion_quita:
  "(case posicion (\<lambda>x. f x = a) xs of
      None \<Rightarrow> map f xs | Some i \<Rightarrow> map f (take i xs @ drop (i + 1) xs)) = remove1 a (map f xs)"
  by (induction xs) (auto split: option.splits)

lemma tokens_desuscribirse:
  "tokens (fst (desuscribirse t dup c s r)) = remove1 (obtener_token s) (tokens c)"
  using posicion_quita [of obtener_token "suscriptores c" "obtener_token s"]
  by (auto simp: desuscribirse_def tokens_def cliente_eq_def Let_def split: option.splits prod.splits)

section \<open>Delivery\<close>

text \<open>The socket that a message for a Redis client goes to, when it can be written.\<close>

fun destino :: "red \<Rightarrow> cliente \<Rightarrow> socket option" where
  "destino r (CRedis c) = (case cr_socket c of Some s \<Rightarrow> if escribible r s then Some s else None | None \<Rightarrow> None)"
| "destino r (CHttp c) = None"

fun es_redis :: "cliente \<Rightarrow> bool" where
  "es_redis (CRedis _) = True"
| "es_redis (CHttp _) = False"

lemma enviar_resultado_redis:
  assumes "es_redis s"
  shows "\<exists>s'. enviar_resultado t s res r =
    (case destino r s of
       Some k \<Rightarrow> (Inr (), s', r\<lparr>enviados := enviados r @ [(k, parsear_respuesta res)]\<rparr>)
     | None \<Rightarrow> (Inl RConeccion, s', r))"
  using assms
  by (cases s) (auto simp: cr_enviar_resultado_def cr_enviar_mensaje_def escribir_socket_def Let_def
      split: option.splits)

lemma destino_enviados [simp]: "destino (r\<lparr>enviados := x\<rparr>) s = destino r s"
  by (cases s) (simp_all split: option.split)

text \<open>
  The handlers work on copies of the clients: the socket of a copy is there when \<open>try_clone\<close> succeeds,
  and a message sent to it arrives when it can be written too.
\<close>

fun destino_copia :: "(socket \<Rightarrow> bool) \<Rightarrow> red \<Rightarrow> cliente \<Rightarrow> socket option" where
  "destino_copia dup r (CRedis c) =
     (case cr_socket c of Some s \<Rightarrow> if dup s \<and> escribible r s then Some s else None | None \<Rightarrow> None)"
| "destino_copia dup r (CHttp c) = None"

lemma destino_clone [simp]: "destino r (clone_cliente dup s) = destino_copia dup r s"
  by (cases s) (simp_all add: cr_clone_def cr_obtener_socket_def split: option.split)

lemma es_redis_clone [simp]: "es_redis (clone_cliente dup s) = es_redis s"
  by (cases s) simp_all

lemma clone_dos_veces [simp]: "clone_cliente dup (clone_cliente dup s) = clone_cliente dup s"
  by (cases s) (auto simp: cr_clone_def ch_clone_def cr_obtener_socket_def ch_obtener_socket_def split: option.split)

lemma suscribirse_redis:
  assumes "es_redis cl"
  shows "suscribirse t dup c (clone_cliente dup cl) r =
    (case destino_copia dup r cl of
       Some k \<Rightarrow>
         (c\<lparr>suscriptores := suscriptores c @ [clone_cliente dup cl]\<rparr>,
          r\<lparr>enviados := enviados r @ [(k, parsear_respuesta
            (Vector [BulkStr ''subscribe'', BulkStr (canal_nombre c), RInt (int (length (suscriptores c) + 1))]))]\<rparr>)
     | None \<Rightarrow> (c, r))"
proof -
  let ?res = "Vector [BulkStr ''subscribe'', BulkStr (canal_nombre c), RInt (int (length (suscriptores c) + 1))]"
  show ?thesis
    using enviar_resultado_redis [of "clone_cliente dup cl" t ?res r] assms
    by (auto simp: suscribirse_def notificar_suscripcion_def Let_def split: option.split)
qed

lemma publicar_a_eq:
  assumes "\<forall>s \<in> set ss. es_redis s"
  shows "\<exists>ss'. publicar_a t res ss r =
    (length (List.map_filter (destino r) ss), ss',
     r\<lparr>enviados := enviados r @ map (\<lambda>k. (k, parsear_respuesta res)) (List.map_filter (destino r) ss)\<rparr>)"
  using assms
proof (induction ss arbitrary: r)
  case Nil
  then show ?case by (simp add: List.map_filter_simps)
next
  case (Cons s ss)
  obtain s' where e: "enviar_resultado t s res r =
    (case destino r s of
       Some k \<Rightarrow> (Inr (), s', r\<lparr>enviados := enviados r @ [(k, parsear_respuesta res)]\<rparr>)
     | None \<Rightarrow> (Inl RConeccion, s', r))"
    using enviar_resultado_redis Cons.prems by (metis list.set_intros(1))
  have ss: "\<forall>s \<in> set ss. es_redis s" using Cons.prems by simp
  show ?case
  proof (cases "destino r s")
    case None
    then show ?thesis using Cons.IH [OF ss, of r] e by (auto simp: List.map_filter_simps)
  next
    case (Some k)
    let ?r = "r\<lparr>enviados := enviados r @ [(k, parsear_respuesta res)]\<rparr>"
    have "destino ?r = destino r" by (rule ext) simp
    then show ?thesis using Cons.IH [OF ss, of ?r] e Some by (auto simp: List.map_filter_simps)
  qed
qed

end
