(* ===== verification/Almacen.thy ===== *)
theory Almacen
  imports Preludio
begin

text \<open>
  The contract between the command handlers and the store they work on: what a lookup returns
  after a write and after a removal, and that both keep the invariant. What follows for a
  sequence of writes, for a sequence of removals and for a counted sequence of removals is
  proved once here; \<open>Base_De_Datos\<close> shows that the database meets the contract.
\<close>

locale almacen =
  fixes obtener :: "'s \<Rightarrow> 'k \<Rightarrow> 'v option"
    and guardar :: "'k \<Rightarrow> 'v \<Rightarrow> 's \<Rightarrow> 's"
    and eliminar :: "'k \<Rightarrow> 's \<Rightarrow> 's"
    and bien :: "'v \<Rightarrow> bool"
    and invar :: "'s \<Rightarrow> bool"
  assumes obtener_guardar: "obtener (guardar k v s) = (obtener s)(k \<mapsto> v)"
    and obtener_eliminar: "obtener (eliminar k s) = (obtener s)(k := None)"
    and invar_guardar: "invar s \<Longrightarrow> bien v \<Longrightarrow> invar (guardar k v s)"
    and invar_eliminar: "invar s \<Longrightarrow> invar (eliminar k s)"
    and invar_bien: "invar s \<Longrightarrow> obtener s k = Some v \<Longrightarrow> bien v"
begin

lemmas almacen_simps = obtener_guardar obtener_eliminar

lemma guardar_todos:
  "obtener (fold (\<lambda>(k, v). guardar k v) kvs s) = obtener s ++ map_of (rev kvs)"
  by (induction kvs arbitrary: s) (auto simp: obtener_guardar map_add_def fun_eq_iff split: option.splits)

lemma eliminar_todos: "obtener (fold eliminar ks s) = obtener s |` (- set ks)"
  by (induction ks arbitrary: s) (auto simp: obtener_eliminar restrict_map_def fun_eq_iff)

text \<open>Removing a list of keys one after the other, counting those that were there.\<close>

lemma eliminar_contando:
  "fold (\<lambda>k (n, s). if obtener s k \<noteq> None then (n + 1, eliminar k s) else (n, s)) ks (n, s) = (n', s') \<Longrightarrow>
    n' = n + card (set ks \<inter> dom (obtener s)) \<and> obtener s' = obtener s |` (- set ks) \<and>
    (invar s \<longrightarrow> invar s')"
proof (induction ks arbitrary: n s)
  case Nil
  then show ?case by auto
next
  case (Cons k ks)
  show ?case
  proof (cases "obtener s k = None")
    case True
    then have "set (k # ks) \<inter> dom (obtener s) = set ks \<inter> dom (obtener s)"
      and "obtener s |` (- set (k # ks)) = obtener s |` (- set ks)"
      by (auto simp: restrict_map_def fun_eq_iff)
    then show ?thesis using Cons.IH [of n s] Cons.prems True by simp
  next
    case False
    let ?s = "eliminar k s"
    have d: "set ks \<inter> dom (obtener ?s) = set (k # ks) \<inter> dom (obtener s) - {k}"
      by (auto simp: obtener_eliminar)
    have k: "k \<in> set (k # ks) \<inter> dom (obtener s)" using False by auto
    then have c: "card (set (k # ks) \<inter> dom (obtener s)) = Suc (card (set ks \<inter> dom (obtener ?s)))"
      unfolding d by (subst card.remove [OF _ k]) simp_all
    have r: "obtener ?s |` (- set ks) = obtener s |` (- set (k # ks))"
      by (auto simp: restrict_map_def fun_eq_iff obtener_eliminar)
    show ?thesis using Cons.IH [of "n + 1" ?s] Cons.prems False c r invar_eliminar [of s k] by simp
  qed
qed

end

end
