(* ===== verification/Base_De_Datos.thy ===== *)
theory Base_De_Datos
  imports Canales Almacen
begin

text \<open>
  \<open>valor.rs\<close>, \<open>observer.rs\<close> and \<open>base_de_datos.rs\<close>: the values with their expiry, the table, and
  the observers that are sent a copy of the table after a change. An observer is a
  \<open>Persistidor\<close>, the sending side of a channel: it is modelled by the messages it has sent.
\<close>

section \<open>Values\<close>

datatype tipo_redis =
    Str string
  | Lista "string list"
  | TSet "string list"
  | Canal canal

record valor =
  valor_de :: tipo_redis
  momento_de_creacion :: instante
  ultimo_acceso :: instante
  vida_util :: "duracion option"

type_synonym tabla = "(string, valor) hashmap"

definition expirable :: "instante \<Rightarrow> tipo_redis \<Rightarrow> nat \<Rightarrow> valor" where
  "expirable t v vida =
     \<lparr>valor_de = v, momento_de_creacion = t, ultimo_acceso = t, vida_util = Some (from_secs vida)\<rparr>"

definition no_expirable :: "instante \<Rightarrow> tipo_redis \<Rightarrow> valor" where
  "no_expirable t v =
     \<lparr>valor_de = v, momento_de_creacion = t, ultimo_acceso = t, vida_util = None\<rparr>"

definition expiro :: "instante \<Rightarrow> valor \<Rightarrow> bool" where
  "expiro t v =
     (case vida_util v of Some vida \<Rightarrow> t - momento_de_creacion v \<ge> vida | None \<Rightarrow> False)"

definition valor_get :: "instante \<Rightarrow> valor \<Rightarrow> tipo_redis option" where
  "valor_get t v = (if \<not> expiro t v then Some (valor_de v) else None)"

definition get_tiempo :: "valor \<Rightarrow> duracion option" where
  "get_tiempo v = vida_util v"

definition valor_obtener_expiracion :: "valor \<Rightarrow> int" where
  "valor_obtener_expiracion v =
     (case vida_util v of Some d \<Rightarrow> u64_como_isize (as_secs d) | None \<Rightarrow> -1)"

definition actualizar_expiracion :: "instante \<Rightarrow> nat \<Rightarrow> valor \<Rightarrow> valor" where
  "actualizar_expiracion t nueva v =
     v\<lparr>momento_de_creacion := t, vida_util := Some (from_secs nueva)\<rparr>"

definition hacer_persistente :: "valor \<Rightarrow> valor" where
  "hacer_persistente v = v\<lparr>vida_util := None\<rparr>"

definition valor_actualizar_ultimo_acceso :: "instante \<Rightarrow> valor \<Rightarrow> valor" where
  "valor_actualizar_ultimo_acceso t v = v\<lparr>ultimo_acceso := t\<rparr>"

text \<open>The derived \<open>Clone\<close> of a value clones the clients of a channel, and with them the sockets.\<close>

fun clone_tipo :: "(socket \<Rightarrow> bool) \<Rightarrow> tipo_redis \<Rightarrow> tipo_redis" where
  "clone_tipo dup (Canal c) = Canal (clone_canal dup c)"
| "clone_tipo dup v = v"

definition clone_tabla :: "(socket \<Rightarrow> bool) \<Rightarrow> tabla \<Rightarrow> tabla" where
  "clone_tabla dup m = map (\<lambda>(k, v). (k, v\<lparr>valor_de := clone_tipo dup (valor_de v)\<rparr>)) m"

section \<open>The database and its observers\<close>

datatype mensaje_persistencia =
    Info tabla
  | ArchivoAPersistir string
  | CerrarPersistencia

record persistidor =
  mensajes :: "mensaje_persistencia list"

definition persistidor_new :: persistidor where
  "persistidor_new = \<lparr>mensajes = []\<rparr>"

definition enviar_mensaje_pers :: "mensaje_persistencia \<Rightarrow> persistidor \<Rightarrow> persistidor" where
  "enviar_mensaje_pers msj p = p\<lparr>mensajes := mensajes p @ [msj]\<rparr>"

definition persistidor_persistir :: "tabla \<Rightarrow> persistidor \<Rightarrow> persistidor" where
  "persistidor_persistir b p = enviar_mensaje_pers (Info b) p"

definition cambiar_archivo :: "string \<Rightarrow> persistidor \<Rightarrow> persistidor" where
  "cambiar_archivo ruta p = enviar_mensaje_pers (ArchivoAPersistir ruta) p"

definition persistidor_actualizar :: "tabla \<Rightarrow> persistidor \<Rightarrow> persistidor" where
  "persistidor_actualizar b p = persistidor_persistir b p"

record base_de_datos =
  hashmap :: tabla
  observadores :: "persistidor list"

definition bdd_new :: base_de_datos where
  "bdd_new = \<lparr>hashmap = [], observadores = []\<rparr>"

definition bdd_new_con :: "tabla \<Rightarrow> base_de_datos" where
  "bdd_new_con m = \<lparr>hashmap = m, observadores = []\<rparr>"

definition agregar_observador :: "persistidor \<Rightarrow> base_de_datos \<Rightarrow> base_de_datos" where
  "agregar_observador p b = b\<lparr>observadores := observadores b @ [p]\<rparr>"

definition notificar_observadores :: "entorno \<Rightarrow> base_de_datos \<Rightarrow> base_de_datos" where
  "notificar_observadores e b =
     b\<lparr>observadores :=
         map (persistidor_actualizar (clone_tabla (duplicable e) (clone_tabla (duplicable e) (hashmap b))))
           (observadores b)\<rparr>"

definition obtener_valor :: "entorno \<Rightarrow> base_de_datos \<Rightarrow> string \<Rightarrow> tipo_redis option" where
  "obtener_valor e b clave =
     (case map_of (hashmap b) clave of Some v \<Rightarrow> valor_get (ahora e) v | None \<Rightarrow> None)"

definition obtener_expiracion :: "base_de_datos \<Rightarrow> string \<Rightarrow> int" where
  "obtener_expiracion b clave =
     (case map_of (hashmap b) clave of Some v \<Rightarrow> valor_obtener_expiracion v | None \<Rightarrow> -2)"

definition guardar_valor_con_expiracion ::
    "entorno \<Rightarrow> string \<Rightarrow> nat \<Rightarrow> tipo_redis \<Rightarrow> base_de_datos \<Rightarrow> base_de_datos" where
  "guardar_valor_con_expiracion e clave expiracion v b =
     notificar_observadores e
       (b\<lparr>hashmap := AList.update clave (expirable (ahora e) v expiracion) (hashmap b)\<rparr>)"

definition actualizar_valor_con_expiracion ::
    "entorno \<Rightarrow> string \<Rightarrow> nat \<Rightarrow> base_de_datos \<Rightarrow> nat \<times> base_de_datos" where
  "actualizar_valor_con_expiracion e clave expiracion b =
     (case map_of (hashmap b) clave of
        Some v \<Rightarrow>
          (1, b\<lparr>hashmap := AList.map_entry clave (actualizar_expiracion (ahora e) expiracion) (hashmap b)\<rparr>)
      | None \<Rightarrow> (0, b))"

definition actualizar_valor_sin_expiracion :: "string \<Rightarrow> base_de_datos \<Rightarrow> nat \<times> base_de_datos" where
  "actualizar_valor_sin_expiracion clave b =
     (case map_of (hashmap b) clave of
        Some v \<Rightarrow> (1, b\<lparr>hashmap := AList.map_entry clave hacer_persistente (hashmap b)\<rparr>)
      | None \<Rightarrow> (0, b))"

definition guardar_valor :: "entorno \<Rightarrow> string \<Rightarrow> tipo_redis \<Rightarrow> base_de_datos \<Rightarrow> base_de_datos" where
  "guardar_valor e clave v b =
     notificar_observadores e (b\<lparr>hashmap := AList.update clave (no_expirable (ahora e) v) (hashmap b)\<rparr>)"

text \<open>
  \<open>guardar_valores\<close>: the loop \<open>while index != parametros.len() - 1\<close> that inserts
  \<open>parametros[index] \<mapsto> parametros[index + 1]\<close> and steps the index by one; \<open>fin\<close> is the bound.
\<close>

function guardar_desde :: "instante \<Rightarrow> string list \<Rightarrow> nat \<Rightarrow> nat \<Rightarrow> tabla \<Rightarrow> tabla salida" where
  "guardar_desde t ps fin i m =
     (if i = fin then Devuelve m
      else luego (indice_vec ps i) (\<lambda>clave.
           luego (indice_vec ps (i + 1)) (\<lambda>v.
             guardar_desde t ps fin (i + 1) (AList.update clave (no_expirable t (Str v)) m))))"
  by pat_completeness auto
termination
  by (relation "measure (\<lambda>(t, ps, fin, i, m). length ps - i)")
    (auto simp: indice_vec_def split: if_splits)

declare guardar_desde.simps [simp del]

definition guardar_valores :: "entorno \<Rightarrow> string list \<Rightarrow> base_de_datos \<Rightarrow> unit salida \<times> base_de_datos" where
  "guardar_valores e ps b =
     (case luego (arit_usize (perfil_de e) (int (length ps) - 1))
             (\<lambda>fin. guardar_desde (ahora e) ps fin 0 (hashmap b)) of
        Panico \<Rightarrow> (Panico, b)
      | Devuelve m \<Rightarrow> (Devuelve (), notificar_observadores e (b\<lparr>hashmap := m\<rparr>)))"

definition existe_clave :: "entorno \<Rightarrow> base_de_datos \<Rightarrow> string \<Rightarrow> bool" where
  "existe_clave e b clave =
     (case map_of (hashmap b) clave of Some v \<Rightarrow> \<not> expiro (ahora e) v | None \<Rightarrow> False)"

definition eliminar_clave :: "entorno \<Rightarrow> string \<Rightarrow> base_de_datos \<Rightarrow> nat \<times> base_de_datos" where
  "eliminar_clave e clave b =
     ((case map_of (hashmap b) clave of Some _ \<Rightarrow> 1 | None \<Rightarrow> 0),
      notificar_observadores e (b\<lparr>hashmap := AList.delete clave (hashmap b)\<rparr>))"

definition copiar_valor ::
    "entorno \<Rightarrow> string \<Rightarrow> string \<Rightarrow> base_de_datos \<Rightarrow> unit option \<times> base_de_datos" where
  "copiar_valor e clave_actual clave_nueva b =
     (case obtener_valor e b clave_actual of
        None \<Rightarrow> (None, b)
      | Some v \<Rightarrow> (Some (), guardar_valor e clave_nueva (clone_tipo (duplicable e) v) b))"

definition actualizar_ultimo_acceso :: "entorno \<Rightarrow> string \<Rightarrow> base_de_datos \<Rightarrow> int \<times> base_de_datos" where
  "actualizar_ultimo_acceso e clave b =
     (case map_of (hashmap b) clave of
        Some v \<Rightarrow>
          (1, b\<lparr>hashmap := AList.map_entry clave (valor_actualizar_ultimo_acceso (ahora e)) (hashmap b)\<rparr>)
      | None \<Rightarrow> (0, b))"

definition claves :: "entorno \<Rightarrow> base_de_datos \<Rightarrow> string \<Rightarrow> string list" where
  "claves e b re =
     (case regex e re of
        None \<Rightarrow> []
      | Some is_match \<Rightarrow> filter is_match (map fst (hashmap b)))"

definition intercambiar_valor ::
    "entorno \<Rightarrow> string \<Rightarrow> tipo_redis \<Rightarrow> base_de_datos \<Rightarrow> tipo_redis option \<times> base_de_datos" where
  "intercambiar_valor e clave valor_nuevo b =
     (let inserta = b\<lparr>hashmap := AList.update clave (no_expirable (ahora e) valor_nuevo) (hashmap b)\<rparr>
      in (case obtener_valor e b clave of
            Some (Lista _) \<Rightarrow> (Some (Lista []), b)
          | Some (TSet _) \<Rightarrow> (Some (TSet []), b)
          | Some (Str v) \<Rightarrow> (Some (Str v), inserta)
          | Some (Canal _) \<Rightarrow> (None, inserta)
          | None \<Rightarrow> (None, inserta)))"

fun canales_activos_de :: "entorno \<Rightarrow> base_de_datos \<Rightarrow> string list \<Rightarrow> string list \<Rightarrow> string list" where
  "canales_activos_de e b [] acum = acum"
| "canales_activos_de e b (clave # ks) acum =
     (case obtener_valor e b clave of
        Some (Canal c) \<Rightarrow>
          canales_activos_de e b ks (if es_activo c then acum @ [clave] else acum)
      | _ \<Rightarrow> canales_activos_de e b ks acum)"

definition canales_activos :: "entorno \<Rightarrow> base_de_datos \<Rightarrow> string \<Rightarrow> string list" where
  "canales_activos e b re = canales_activos_de e b (claves e b re) []"

definition borrar_claves :: "entorno \<Rightarrow> base_de_datos \<Rightarrow> base_de_datos" where
  "borrar_claves e b = notificar_observadores e (b\<lparr>hashmap := []\<rparr>)"

definition cantidad_claves :: "base_de_datos \<Rightarrow> nat" where
  "cantidad_claves b = length (hashmap b)"

definition bdd_info :: "entorno \<Rightarrow> base_de_datos \<Rightarrow> string list" where
  "bdd_info e b =
     [''# Database'', [],
      ''cantidad de claves:'' @ show_nat (length (hashmap b)),
      ''capacidad:'' @ show_nat (capacidad_de e (length (hashmap b)))]"


section \<open>The invariant\<close>

text \<open>
  Keys are distinct, a stored set has no repeated element, and a lifetime is a whole number of
  seconds that fits \<open>u64\<close>.
\<close>

fun tipo_bien :: "tipo_redis \<Rightarrow> bool" where
  "tipo_bien (TSet xs) \<longleftrightarrow> distinct xs"
| "tipo_bien _ \<longleftrightarrow> True"

definition valor_bien :: "valor \<Rightarrow> bool" where
  "valor_bien v \<longleftrightarrow> tipo_bien (valor_de v) \<and>
     (case vida_util v of None \<Rightarrow> True | Some d \<Rightarrow> d = from_secs (as_secs d) \<and> as_secs d < 2 ^ 64)"

definition bdd_inv :: "base_de_datos \<Rightarrow> bool" where
  "bdd_inv b \<longleftrightarrow> claves_distintas (hashmap b) \<and> (\<forall>v \<in> snd ` set (hashmap b). valor_bien v)"

lemma hashmap_notificar [simp]: "hashmap (notificar_observadores e b) = hashmap b"
  by (simp add: notificar_observadores_def)

lemma bdd_inv_notificar [simp]: "bdd_inv (notificar_observadores e b) = bdd_inv b"
  by (simp add: bdd_inv_def)

lemma clone_tipo_bien [simp]: "tipo_bien (clone_tipo dup v) = tipo_bien v"
  by (cases v) simp_all

lemma snd_set_update: "snd ` set (AList.update k v m) \<subseteq> insert v (snd ` set m)"
  by (induction m) auto

lemma snd_set_delete: "snd ` set (AList.delete k m) \<subseteq> snd ` set m"
  by (auto simp: AList.delete_eq)

lemma snd_set_map_entry: "snd ` set (AList.map_entry k f m) \<subseteq> snd ` set m \<union> f ` snd ` set m"
  by (induction m) auto

lemma valor_bien_expirable [simp]: "tipo_bien v \<Longrightarrow> n < 2 ^ 64 \<Longrightarrow> valor_bien (expirable t v n)"
  by (simp add: valor_bien_def expirable_def)

lemma valor_bien_no_expirable [simp]: "tipo_bien v \<Longrightarrow> valor_bien (no_expirable t v)"
  by (simp add: valor_bien_def no_expirable_def)

lemma valor_bien_actualizar [simp]:
  "valor_bien v \<Longrightarrow> n < 2 ^ 64 \<Longrightarrow> valor_bien (actualizar_expiracion t n v)"
  "valor_bien v \<Longrightarrow> valor_bien (hacer_persistente v)"
  "valor_bien v \<Longrightarrow> valor_bien (valor_actualizar_ultimo_acceso t v)"
  by (simp_all add: valor_bien_def actualizar_expiracion_def hacer_persistente_def
      valor_actualizar_ultimo_acceso_def)

lemma bdd_inv_update:
  "bdd_inv b \<Longrightarrow> valor_bien v \<Longrightarrow> bdd_inv (b\<lparr>hashmap := AList.update k v (hashmap b)\<rparr>)"
  using snd_set_update [of k v "hashmap b"] by (fastforce simp: bdd_inv_def)

lemma bdd_inv_map_entry:
  assumes "bdd_inv b" and "\<And>v. valor_bien v \<Longrightarrow> valor_bien (f v)"
  shows "bdd_inv (b\<lparr>hashmap := AList.map_entry k f (hashmap b)\<rparr>)"
  using assms snd_set_map_entry [of k f "hashmap b"] by (fastforce simp: bdd_inv_def)

lemma obtener_valor_bien: "bdd_inv b \<Longrightarrow> obtener_valor e b k = Some v \<Longrightarrow> tipo_bien v"
  by (fastforce simp: bdd_inv_def obtener_valor_def valor_get_def valor_bien_def
      split: option.splits if_splits dest: map_of_SomeD)

lemma obtener_valor_set: "bdd_inv b \<Longrightarrow> obtener_valor e b k = Some (TSet xs) \<Longrightarrow> distinct xs"
  using obtener_valor_bien by fastforce

lemma guardar_valor_inv [inv_intros]: "bdd_inv b \<Longrightarrow> tipo_bien v \<Longrightarrow> bdd_inv (guardar_valor e k v b)"
  by (simp add: guardar_valor_def bdd_inv_update)

lemma guardar_valor_con_expiracion_inv [inv_intros]:
  "bdd_inv b \<Longrightarrow> tipo_bien v \<Longrightarrow> n < 2 ^ 64 \<Longrightarrow> bdd_inv (guardar_valor_con_expiracion e k n v b)"
  by (simp add: guardar_valor_con_expiracion_def bdd_inv_update)

lemma eliminar_clave_inv [inv_intros]: "bdd_inv b \<Longrightarrow> bdd_inv (snd (eliminar_clave e k b))"
  using snd_set_delete [of k "hashmap b"] by (fastforce simp: eliminar_clave_def bdd_inv_def)

lemma actualizar_con_expiracion_inv [inv_intros]:
  "bdd_inv b \<Longrightarrow> n < 2 ^ 64 \<Longrightarrow> bdd_inv (snd (actualizar_valor_con_expiracion e k n b))"
  by (simp add: actualizar_valor_con_expiracion_def bdd_inv_map_entry split: option.splits)

lemma actualizar_sin_expiracion_inv [inv_intros]:
  "bdd_inv b \<Longrightarrow> bdd_inv (snd (actualizar_valor_sin_expiracion k b))"
  by (simp add: actualizar_valor_sin_expiracion_def bdd_inv_map_entry split: option.splits)

lemma actualizar_ultimo_acceso_inv [inv_intros]:
  "bdd_inv b \<Longrightarrow> bdd_inv (snd (actualizar_ultimo_acceso e k b))"
  by (simp add: actualizar_ultimo_acceso_def bdd_inv_map_entry split: option.splits)

lemma copiar_valor_inv [inv_intros]: "bdd_inv b \<Longrightarrow> bdd_inv (snd (copiar_valor e k k' b))"
  by (auto simp: copiar_valor_def obtener_valor_bien intro!: guardar_valor_inv split: option.splits)

lemma intercambiar_valor_inv [inv_intros]:
  "bdd_inv b \<Longrightarrow> tipo_bien v \<Longrightarrow> bdd_inv (snd (intercambiar_valor e k v b))"
  by (auto simp: intercambiar_valor_def Let_def bdd_inv_update split: option.splits tipo_redis.splits)

lemma borrar_claves_inv [inv_intros]: "bdd_inv (borrar_claves e b)"
  by (simp add: borrar_claves_def bdd_inv_def)

text \<open>\<open>guardar_valores\<close>: what the loop inserts, as a list of pairs.\<close>

definition pares_consecutivos :: "string list \<Rightarrow> (string \<times> string) list" where
  "pares_consecutivos ps = zip ps (tl ps)"

lemma guardar_desde_eq:
  assumes "i < length ps"
  shows "guardar_desde t ps (length ps - 1) i m =
    Devuelve (fold (\<lambda>(k, v). AList.update k (no_expirable t (Str v))) (drop i (pares_consecutivos ps)) m)"
  using assms
proof (induction "length ps - 1 - i" arbitrary: i m)
  case 0
  then have "i = length ps - 1" by simp
  then show ?case by (subst guardar_desde.simps) (simp add: pares_consecutivos_def)
next
  case (Suc n)
  then have i: "Suc i < length ps" by simp
  have d: "drop i (pares_consecutivos ps) = (ps ! i, ps ! Suc i) # drop (Suc i) (pares_consecutivos ps)"
    using i by (simp add: pares_consecutivos_def flip: Cons_nth_drop_Suc) (simp add: nth_tl)
  have "n = length ps - 1 - Suc i" using Suc by simp
  note IH = Suc(1) [OF this i]
  have "i \<noteq> length ps - 1" using i by simp
  then have "guardar_desde t ps (length ps - 1) i m =
      guardar_desde t ps (length ps - 1) (Suc i) (AList.update (ps ! i) (no_expirable t (Str (ps ! Suc i))) m)"
    using i by (subst guardar_desde.simps) (simp add: indice_vec_def)
  then show ?case by (simp only: IH d fold_simps prod.case)
qed

lemma guardar_valores_eq:
  assumes "ps \<noteq> []" and "length ps < 2 ^ 64"
  shows "guardar_valores e ps b =
    (Devuelve (), notificar_observadores e (b\<lparr>hashmap :=
       fold (\<lambda>(k, v). AList.update k (no_expirable (ahora e) (Str v))) (pares_consecutivos ps) (hashmap b)\<rparr>))"
proof -
  have "arit_usize (perfil_de e) (int (length ps) - 1) = Devuelve (length ps - 1)"
    using assms by (cases ps) (simp_all add: arit_usize_def)
  then show ?thesis using assms guardar_desde_eq [of 0 ps] by (simp add: guardar_valores_def)
qed

lemma guardar_desde_inv:
  "guardar_desde t ps fin i (hashmap b) = Devuelve m \<Longrightarrow> bdd_inv b \<Longrightarrow> bdd_inv (b\<lparr>hashmap := m\<rparr>)"
proof (induction t ps fin i "hashmap b" arbitrary: b rule: guardar_desde.induct)
  case (1 t ps fin i)
  show ?case
  proof (cases "i = fin")
    case True
    then show ?thesis using 1(2,3) by (auto simp: guardar_desde.simps [of t ps fin fin] bdd_inv_def)
  next
    case False
    let ?b = "b\<lparr>hashmap := AList.update (ps ! i) (no_expirable t (Str (ps ! Suc i))) (hashmap b)\<rparr>"
    from False 1(2) have r: "indice_vec ps i = Devuelve (ps ! i)" "indice_vec ps (i + 1) = Devuelve (ps ! Suc i)"
      "guardar_desde t ps fin (i + 1) (hashmap ?b) = Devuelve m"
      by (auto simp: guardar_desde.simps [of t ps fin i] indice_vec_def split: if_splits)
    have "bdd_inv ?b" using 1(3) by (simp add: bdd_inv_update)
    with 1(1) [OF False r(1,2), of ?b] r(3) show ?thesis by simp
  qed
qed

lemma guardar_valores_inv [inv_intros]: "bdd_inv b \<Longrightarrow> bdd_inv (snd (guardar_valores e ps b))"
proof -
  assume b: "bdd_inv b"
  show ?thesis
  proof (cases "arit_usize (perfil_de e) (int (length ps) - 1)")
    case (Devuelve fin)
    then show ?thesis using b guardar_desde_inv [of "ahora e" ps fin 0 b]
      by (auto simp: guardar_valores_def split: salida.splits)
  qed (simp add: guardar_valores_def b)
qed

section \<open>The database as an abstract store\<close>

text \<open>At one instant the database is a partial map: what \<open>obtener_valor\<close> shows.\<close>

lemma fresco [simp]: "valor_get t' (no_expirable t v) = Some v"
  by (simp add: valor_get_def expiro_def no_expirable_def)

lemma obtener_guardar_valor [simp]:
  "obtener_valor e' (guardar_valor e k v b) = (obtener_valor e' b)(k \<mapsto> v)"
  by (auto simp: obtener_valor_def guardar_valor_def update_conv' fun_eq_iff)

lemma obtener_eliminar_clave [simp]:
  "obtener_valor e' (snd (eliminar_clave e k b)) = (obtener_valor e' b)(k := None)"
  by (auto simp: obtener_valor_def eliminar_clave_def delete_conv' fun_eq_iff)

lemma existe_clave_iff: "existe_clave e b k \<longleftrightarrow> obtener_valor e b k \<noteq> None"
  by (auto simp: existe_clave_def obtener_valor_def valor_get_def split: option.splits)

lemma obtener_borrar_claves [simp]: "obtener_valor e' (borrar_claves e b) = Map.empty"
  by (simp add: obtener_valor_def borrar_claves_def fun_eq_iff)

interpretation bdd: almacen "obtener_valor e" "guardar_valor e"
  "\<lambda>k b. snd (eliminar_clave e k b)" tipo_bien bdd_inv for e
  by unfold_locales (auto intro: inv_intros simp: obtener_valor_bien)

lemma obtener_valor_notificar [simp]: "obtener_valor e (notificar_observadores e' b) = obtener_valor e b"
  by (simp add: obtener_valor_def fun_eq_iff)

lemma obtener_fold_update:
  "obtener_valor e (b\<lparr>hashmap := fold (\<lambda>(k, v). AList.update k (no_expirable t (Str v))) kvs (hashmap b)\<rparr>)
    = obtener_valor e b ++ map_of (rev (map (\<lambda>(k, v). (k, Str v)) kvs))"
proof (induction kvs arbitrary: b)
  case Nil
  then show ?case by simp
next
  case (Cons kv kvs)
  obtain k v where kv: "kv = (k, v)" by force
  let ?b = "b\<lparr>hashmap := AList.update k (no_expirable t (Str v)) (hashmap b)\<rparr>"
  have "obtener_valor e ?b = (obtener_valor e b)(k \<mapsto> Str v)"
    by (auto simp: obtener_valor_def update_conv' fun_eq_iff)
  with Cons.IH [of ?b] show ?case
    by (auto simp: kv map_add_def fun_eq_iff split: option.splits)
qed

end
