(* ===== verification/Manejador.thy ===== *)
theory Manejador
  imports Base_De_Datos
begin

text \<open>
  What the command handlers share (\<open>comando.rs\<close>, trait \<open>ComandoHandler\<close>): a handler takes a command
  and the mutex that holds the database, and returns a result or panics. The locale
  \<open>manejador\<close> is the contract the server relies on; it is interpreted for every handler.
\<close>

type_synonym bdd_mutex = "base_de_datos mutex"
type_synonym efecto = "resultado_redis salida \<times> bdd_mutex"
type_synonym comando = "entorno \<Rightarrow> comando_info \<Rightarrow> bdd_mutex \<Rightarrow> efecto"

abbreviation bdd_mutex_inv :: "bdd_mutex \<Rightarrow> bool" where
  "bdd_mutex_inv \<equiv> mutex_inv bdd_inv"

text \<open>The error messages that many handlers repeat.\<close>

definition err_args :: "string \<Rightarrow> resultado_redis" where
  "err_args n = Error (''ERR wrong number of arguments for '' @ [CHR 0x27] @ n @ [CHR 0x27] @ '' command'')"

definition wrongtype :: resultado_redis where
  "wrongtype = Error ''WRONGTYPE Operation against a key holding the wrong kind of value''"

definition err_lock :: resultado_redis where
  "err_lock = Error ''ERR when accessing the database''"

definition err_int :: resultado_redis where
  "err_int = Error ''ERR value is not an integer or out of range''"

lemma es_error [simp]:
  "err_args n \<noteq> RNil" "wrongtype \<noteq> RNil" "err_lock \<noteq> RNil" "err_int \<noteq> RNil"
  "err_args n \<noteq> BulkStr s" "wrongtype \<noteq> BulkStr s" "err_lock \<noteq> BulkStr s" "err_int \<noteq> BulkStr s"
  "err_args n \<noteq> RInt i" "wrongtype \<noteq> RInt i" "err_lock \<noteq> RInt i" "err_int \<noteq> RInt i"
  "err_args n \<noteq> StrSimple s" "wrongtype \<noteq> StrSimple s" "err_lock \<noteq> StrSimple s" "err_int \<noteq> StrSimple s"
  "err_args n \<noteq> Vector l" "wrongtype \<noteq> Vector l" "err_lock \<noteq> Vector l" "err_int \<noteq> Vector l"
  by (simp_all add: err_args_def wrongtype_def err_lock_def err_int_def)

section \<open>The contract of a handler\<close>

text \<open>A whole critical section that cannot panic, and the value it returns.\<close>

locale manejador =
  fixes ejecutar :: comando
  assumes conserva: "bdd_mutex_inv m \<Longrightarrow> bdd_mutex_inv (snd (ejecutar e c m))"
    and envenenado_fijo: "envenenado m \<Longrightarrow> snd (ejecutar e c m) = m"
    and veneno_es_panico:
      "\<not> envenenado m \<Longrightarrow> envenenado (snd (ejecutar e c m)) \<Longrightarrow> fst (ejecutar e c m) = Panico"
begin

lemma secuencia_conserva:
  "bdd_mutex_inv m \<Longrightarrow> bdd_mutex_inv (fold (\<lambda>(e, c) m. snd (ejecutar e c m)) ecs m)"
  by (induction ecs arbitrary: m) (auto intro: conserva)

lemma secuencia_envenenada:
  "envenenado m \<Longrightarrow> fold (\<lambda>(e, c) m. snd (ejecutar e c m)) ecs m = m"
  by (induction ecs arbitrary: m) (auto simp: envenenado_fijo)

end

text \<open>A handler that never changes what the mutex holds meets the contract.\<close>

locale lector =
  fixes ejecutar :: comando
  assumes no_cambia: "snd (ejecutar e c m) = m"
begin

sublocale manejador ejecutar
  by unfold_locales (simp_all add: no_cambia)

lemma secuencia_no_cambia: "fold (\<lambda>(e, c) m. snd (ejecutar e c m)) ecs m = m"
  by (induction ecs arbitrary: m) (auto simp: no_cambia)

end

section \<open>Proving the contract\<close>

text \<open>
  \<open>paso_bien m r\<close>: the effect \<open>r\<close> of a handler on \<open>m\<close> keeps the invariant, leaves a poisoned mutex
  alone, and poisons it only by a panic. The rules follow the shapes the handlers have.
\<close>

definition paso_bien :: "bdd_mutex \<Rightarrow> 'r salida \<times> bdd_mutex \<Rightarrow> bool" where
  "paso_bien m r \<longleftrightarrow>
     (bdd_mutex_inv m \<longrightarrow> bdd_mutex_inv (snd r)) \<and> (envenenado m \<longrightarrow> snd r = m) \<and>
     (\<not> envenenado m \<and> envenenado (snd r) \<longrightarrow> fst r = Panico)"

named_theorems pasos \<open>rules that establish the contract of a handler\<close>

lemma paso_sin_cambio [pasos]: "paso_bien m (x, m)"
  by (simp add: paso_bien_def)

lemma paso_con_lock [pasos]:
  "(\<And>b. bdd_inv b \<Longrightarrow> bdd_inv (snd (f b))) \<Longrightarrow> paso_bien m (con_lock m f x)"
  by (auto simp: paso_bien_def con_lock_def mutex_inv_def split: prod.splits salida.splits)
    (metis snd_conv)+

lemma paso_seguir [pasos]:
  assumes "paso_bien m s" and "\<And>a m'. s = (Devuelve (Inr a), m') \<Longrightarrow> paso_bien m' (k a m')"
  shows "paso_bien m (seguir s k)"
proof (cases "(s, k)" rule: seguir.cases)
  case (3 a m' k')
  then show ?thesis using assms(1) assms(2) [of a m'] by (auto simp: paso_bien_def)
qed (use assms in \<open>auto simp: paso_bien_def\<close>)

lemma manejadorI:
  assumes "\<And>e c m. paso_bien m (f e c m)" shows "manejador f"
  using assms by unfold_locales (auto simp: paso_bien_def)

lemma manejador_paso: "manejador f \<Longrightarrow> paso_bien m (f e c m)"
  by (auto simp: paso_bien_def manejador.conserva manejador.envenenado_fijo manejador.veneno_es_panico)

section \<open>The abstract view\<close>

text \<open>
  What the database shows at an instant: a partial map from keys to values. The properties of
  the commands are stated on it. \<open>entorno_ejemplo\<close>, \<open>orden\<close> and \<open>con_tabla\<close> give the concrete
  inputs of the witnesses.
\<close>

abbreviation vista :: "entorno \<Rightarrow> bdd_mutex \<Rightarrow> string \<rightharpoonup> tipo_redis" where
  "vista e m \<equiv> obtener_valor e (contenido m)"

abbreviation orden :: "string \<Rightarrow> string list \<Rightarrow> comando_info" where
  "orden n ps \<equiv> \<lparr>nombre = n, parametros = ps, index = 0\<rparr>"

definition entorno_ejemplo :: "instante \<Rightarrow> perfil \<Rightarrow> entorno" where
  "entorno_ejemplo t p =
     \<lparr>ahora = t, hora_sistema = 0, perfil_de = p, regex = \<lambda>s. Some (\<lambda>c. c = s),
      capacidad_de = id, duplicable = \<lambda>_. True\<rparr>"

definition con_tabla :: "(string \<times> tipo_redis) list \<Rightarrow> bdd_mutex" where
  "con_tabla kvs =
     \<lparr>contenido = bdd_new_con (map (\<lambda>(k, v). (k, no_expirable 0 v)) kvs), envenenado = False\<rparr>"

lemma entorno_ejemplo_simps [simp]:
  "ahora (entorno_ejemplo t p) = t" "hora_sistema (entorno_ejemplo t p) = 0"
  "perfil_de (entorno_ejemplo t p) = p" "regex (entorno_ejemplo t p) s = Some (\<lambda>c. c = s)"
  "duplicable (entorno_ejemplo t p) x"
  by (simp_all add: entorno_ejemplo_def)

lemma map_of_no_expirable:
  "map_of (map (\<lambda>(k, v). (k, no_expirable t v)) kvs) = (\<lambda>k. map_option (no_expirable t) (map_of kvs k))"
  by (induction kvs) (auto simp: fun_eq_iff)

lemma con_tabla_simps [simp]:
  "\<not> envenenado (con_tabla kvs)"
  "vista e (con_tabla kvs) k = map_of kvs k"
  by (auto simp: con_tabla_def bdd_new_con_def obtener_valor_def map_of_no_expirable split: option.split)

text \<open>The clause \<open>con_lock\<close> of a handler on a healthy mutex.\<close>

lemma con_lock_ok:
  "\<not> envenenado m \<Longrightarrow> con_lock m f x =
    (case f (contenido m) of
       (Devuelve r, b) \<Rightarrow> (Devuelve r, m\<lparr>contenido := b\<rparr>)
     | (Panico, b) \<Rightarrow> (Panico, m\<lparr>contenido := b, envenenado := True\<rparr>))"
  by (simp add: con_lock_def)

lemma get_parametro_segundo [simp]:
  "parametros c = k # p # ps \<Longrightarrow> get_parametro (c\<lparr>index := 1\<rparr>) = (Some p, c\<lparr>index := 2\<rparr>)"
  "parametros c = k # p # ps \<Longrightarrow> get_parametro (c\<lparr>index := Suc 0\<rparr>) = (Some p, c\<lparr>index := 2\<rparr>)"
  "parametros c = [k] \<Longrightarrow> get_parametro (c\<lparr>index := 1\<rparr>) = (None, c\<lparr>index := 1\<rparr>)"
  "parametros c = [k] \<Longrightarrow> get_parametro (c\<lparr>index := Suc 0\<rparr>) = (None, c\<lparr>index := Suc 0\<rparr>)"
  by (simp_all add: get_parametro_def)

lemma get_parametro_tercero [simp]:
  "parametros c = k # p # q # ps \<Longrightarrow> get_parametro (c\<lparr>index := 2\<rparr>) = (Some q, c\<lparr>index := 3\<rparr>)"
  by (simp add: get_parametro_def)

end
