(* ===== verification/Cadenas.thy ===== *)
theory Cadenas
  imports Manejador
begin

text \<open>\<open>comando_string_handler.rs\<close>: the commands on strings.\<close>

section \<open>The commands\<close>

definition es_comando_string :: "string \<Rightarrow> bool" where
  "es_comando_string comando =
     list_ex (\<lambda>c. c = comando)
       [''GET'', ''SET'', ''APPEND'', ''STRLEN'', ''INCRBY'', ''DECRBY'', ''MGET'', ''MSET'', ''GETSET'', ''GETDEL'']"

definition get :: comando where
  "get e comando m =
     (case get_clave comando of
        (None, _) \<Rightarrow> (Devuelve (err_args ''get''), m)
      | (Some clave, _) \<Rightarrow>
          con_lock m (\<lambda>b.
            (Devuelve (case obtener_valor e b clave of
                         Some (Str v) \<Rightarrow> BulkStr v
                       | None \<Rightarrow> RNil
                       | _ \<Rightarrow> wrongtype), b)) err_lock)"

text \<open>\<open>c[0]\<close> panics when nothing follows the last occurrence of \<open>support\<close>.\<close>

definition obtener_tiempo_expiracion :: "string list \<Rightarrow> string \<Rightarrow> nat option salida" where
  "obtener_tiempo_expiracion ps support =
     luego (indice_vec (rsplit_primero (\<lambda>p. p = support) ps) 0) (\<lambda>c. Devuelve (parse_u64 c))"

text \<open>
  \<open>set\<close> holds the guard while it looks for the expiry, so a panic there poisons the mutex.
  \<open>Inl\<close> is a \<open>return\<close> from inside the section.
\<close>

definition set_seccion ::
    "entorno \<Rightarrow> string \<Rightarrow> string list \<Rightarrow> base_de_datos \<Rightarrow> (resultado_redis + unit) salida \<times> base_de_datos" where
  "set_seccion e clave ps b =
     (if ''EX'' \<in> set ps then
        (case obtener_tiempo_expiracion ps ''EX'' of
           Panico \<Rightarrow> (Panico, b)
         | Devuelve None \<Rightarrow> (Devuelve (Inl err_int), b)
         | Devuelve (Some expiracion) \<Rightarrow>
             (Devuelve (Inr ()), guardar_valor_con_expiracion e clave expiracion (Str (ps ! 1)) b))
      else if ''PX'' \<in> set ps then
        (case obtener_tiempo_expiracion ps ''PX'' of
           Panico \<Rightarrow> (Panico, b)
         | Devuelve None \<Rightarrow> (Devuelve (Inl err_int), b)
         | Devuelve (Some expiracion) \<Rightarrow>
             (Devuelve (Inr ()),
              guardar_valor_con_expiracion e clave (expiracion div 1000) (Str (ps ! 1)) b))
      else (Devuelve (Inr ()), guardar_valor e clave (Str (ps ! 1)) b))"

definition set_cmd :: comando where
  "set_cmd e comando m =
     (case get_clave comando of
        (None, _) \<Rightarrow> (Devuelve (err_args ''set''), m)
      | (Some clave, comando') \<Rightarrow>
          (case get_parametros comando' of
             None \<Rightarrow> (Devuelve (err_args ''set''), m)
           | Some ps \<Rightarrow>
               if length ps = 1 then (Devuelve (err_args ''set''), m)
               else seguir (con_lock m (set_seccion e clave ps) (Inl err_lock))
                      (\<lambda>_ m'. (Devuelve (StrSimple ''OK''), m'))))"

definition getset :: comando where
  "getset e comando m =
     (case get_clave comando of
        (None, _) \<Rightarrow> (Devuelve (err_args ''getset''), m)
      | (Some clave, comando') \<Rightarrow>
          (case get_parametro comando' of
             (None, _) \<Rightarrow> (Devuelve (err_args ''getset''), m)
           | (Some parametro, _) \<Rightarrow>
               con_lock m (\<lambda>b.
                 (case intercambiar_valor e clave (Str parametro) b of
                    (Some (Str valor_anterior), b') \<Rightarrow> (Devuelve (StrSimple valor_anterior), b')
                  | (None, b') \<Rightarrow> (Devuelve RNil, b')
                  | (_, b') \<Rightarrow> (Devuelve wrongtype, b'))) err_lock))"

definition append_cmd :: comando where
  "append_cmd e comando m =
     (case get_clave comando of
        (None, _) \<Rightarrow> (Devuelve (err_args ''append''), m)
      | (Some clave, comando') \<Rightarrow>
          (case get_parametro comando' of
             (None, _) \<Rightarrow> (Devuelve (err_args ''append''), m)
           | (Some parametro, _) \<Rightarrow>
               con_lock m (\<lambda>b.
                 (case (if existe_clave e b clave
                        then (case obtener_valor e b clave of
                                Some (Str v) \<Rightarrow> Some (v @ parametro)
                              | _ \<Rightarrow> None)
                        else Some parametro) of
                    None \<Rightarrow> (Devuelve wrongtype, b)
                  | Some v \<Rightarrow> (Devuelve (RInt (int (length v))), guardar_valor e clave (Str v) b))) err_lock))"

definition getdel :: comando where
  "getdel e comando m =
     (case get_clave comando of
        (None, _) \<Rightarrow> (Devuelve (err_args ''getdel''), m)
      | (Some clave, comando') \<Rightarrow>
          (case get e comando' m of
             (Panico, m') \<Rightarrow> (Panico, m')
           | (Devuelve (Error s), m') \<Rightarrow> (Devuelve (Error s), m')
           | (Devuelve (BulkStr v), m') \<Rightarrow>
               con_lock m' (\<lambda>b. (Devuelve (BulkStr v), snd (eliminar_clave e clave b))) err_lock
           | (Devuelve _, m') \<Rightarrow> (Devuelve RNil, m')))"

definition strlen :: comando where
  "strlen e comando m =
     (case get_clave comando of
        (None, _) \<Rightarrow> (Devuelve (RInt 0), m)
      | (Some clave, _) \<Rightarrow>
          con_lock m (\<lambda>b.
            (Devuelve (case obtener_valor e b clave of
                         Some (Str v) \<Rightarrow> RInt (int (length v))
                       | _ \<Rightarrow> wrongtype), b)) err_lock)"

text \<open>
  \<open>operar_sobre_int\<close> has two critical sections; the closure (\<open>a - b\<close>, \<open>a + b\<close>) runs between them,
  without the guard. The result of \<open>f\<close> is the mathematical one, \<open>arit_i32\<close> is its overflow.
\<close>

definition operar_leer :: "entorno \<Rightarrow> string \<Rightarrow> bdd_mutex \<Rightarrow> resultado_redis + string" where
  "operar_leer e clave m =
     leer_lock m (\<lambda>b.
       (case obtener_valor e b clave of
          Some (Str v) \<Rightarrow> Inr v
        | None \<Rightarrow> Inr ''0''
        | _ \<Rightarrow> Inl wrongtype)) err_lock"

definition operar_escribir :: "entorno \<Rightarrow> string \<Rightarrow> int \<Rightarrow> bdd_mutex \<Rightarrow> efecto" where
  "operar_escribir e clave num m =
     con_lock m (\<lambda>b. (Devuelve (BulkStr (show_int num)), guardar_valor e clave (Str (show_int num)) b)) err_lock"

definition operar_sobre_int :: "(int \<Rightarrow> int \<Rightarrow> int) \<Rightarrow> comando" where
  "operar_sobre_int f e comando m =
     (case get_clave comando of
        (None, _) \<Rightarrow> (Devuelve (Error ''ERR wrong number of arguments''), m)
      | (Some clave, comando') \<Rightarrow>
          (case operar_leer e clave m of
             Inl r \<Rightarrow> (Devuelve r, m)
           | Inr v \<Rightarrow>
               (case parse_i32 v of
                  None \<Rightarrow> (Devuelve err_int, m)
                | Some num \<Rightarrow>
                    (case parse_i32 (case get_parametro comando' of (Some p, _) \<Rightarrow> p | (None, _) \<Rightarrow> ''0'') of
                       None \<Rightarrow> (Devuelve err_int, m)
                     | Some param \<Rightarrow>
                         (case arit_i32 (perfil_de e) (f num param) of
                            Panico \<Rightarrow> (Panico, m)
                          | Devuelve num' \<Rightarrow> operar_escribir e clave num' m)))))"

definition decrby :: comando where
  "decrby = operar_sobre_int (\<lambda>a b. a - b)"

definition incrby :: comando where
  "incrby = operar_sobre_int (\<lambda>a b. a + b)"

definition mget_paso ::
    "entorno \<Rightarrow> bdd_mutex \<Rightarrow> string \<Rightarrow> resultado_redis list \<Rightarrow> resultado_redis + resultado_redis list" where
  "mget_paso e m p valores =
     leer_lock m (\<lambda>b.
       Inr (valores @ [case obtener_valor e b p of Some (Str v) \<Rightarrow> BulkStr v | _ \<Rightarrow> RNil])) err_lock"

definition mget :: comando where
  "mget e comando m =
     (case mientras_parametro (mget_paso e m) comando [] of
        Inl r \<Rightarrow> (Devuelve r, m)
      | Inr valores \<Rightarrow>
          (Devuelve (if valores = [] then Error ''ERR wrong number of arguments for mget command''
                     else Vector valores), m))"

definition mset_cmd :: comando where
  "mset_cmd e comando m =
     (case get_parametros comando of
        None \<Rightarrow> (Devuelve (Error ''ERR wrong number of arguments for mset command''), m)
      | Some ps \<Rightarrow>
          if length ps mod 2 \<noteq> 0
          then (Devuelve (Error ''ERR wrong number of arguments for mset command''), m)
          else seguir (con_lock m (\<lambda>b.
                         (case guardar_valores e ps b of (s, b') \<Rightarrow> (luego s (\<lambda>_. Devuelve (Inr ())), b')))
                       (Inl err_lock))
                 (\<lambda>_ m'. (Devuelve (StrSimple ''OK''), m')))"

definition ejecutar_string :: comando where
  "ejecutar_string e comando =
     (if get_nombre comando = ''GET'' then get e comando
      else if get_nombre comando = ''APPEND'' then append_cmd e comando
      else if get_nombre comando = ''GETDEL'' then getdel e comando
      else if get_nombre comando = ''STRLEN'' then strlen e comando
      else if get_nombre comando = ''DECRBY'' then decrby e comando
      else if get_nombre comando = ''INCRBY'' then incrby e comando
      else if get_nombre comando = ''MGET'' then mget e comando
      else if get_nombre comando = ''MSET'' then mset_cmd e comando
      else if get_nombre comando = ''GETSET'' then getset e comando
      else set_cmd e comando)"

section \<open>The contract\<close>

lemma get_no_cambia: "snd (get e c m) = m"
  by (auto simp: get_def con_lock_def split: prod.splits option.splits)

lemma strlen_no_cambia: "snd (strlen e c m) = m"
  by (auto simp: strlen_def con_lock_def split: prod.splits option.splits)

lemma mget_no_cambia: "snd (mget e c m) = m"
  by (auto simp: mget_def split: sum.splits)

interpretation get: lector get by unfold_locales (rule get_no_cambia)
interpretation strlen: lector strlen by unfold_locales (rule strlen_no_cambia)
interpretation mget: lector mget by unfold_locales (rule mget_no_cambia)

lemma obtener_tiempo_expiracion_cota:
  "obtener_tiempo_expiracion ps s = Devuelve (Some n) \<Longrightarrow> n < 2 ^ 64"
  using parse_unsigned_le [of "2 ^ 64 - 1"]
  by (force simp: obtener_tiempo_expiracion_def indice_vec_def split: if_splits)

lemma set_seccion_inv: "bdd_inv b \<Longrightarrow> bdd_inv (snd (set_seccion e k ps b))"
  by (auto simp: set_seccion_def dest!: obtener_tiempo_expiracion_cota
      intro!: guardar_valor_inv guardar_valor_con_expiracion_inv split: salida.splits option.splits)

lemma set_cmd_paso: "paso_bien m (set_cmd e c m)"
  by (auto simp: set_cmd_def intro!: pasos set_seccion_inv split: prod.splits option.splits)

lemma getset_paso: "paso_bien m (getset e c m)"
proof -
  have "bdd_inv (snd (case intercambiar_valor e k (Str p) b of
      (Some (Str v), b') \<Rightarrow> (Devuelve (StrSimple v), b') | (None, b') \<Rightarrow> (Devuelve RNil, b')
    | (_, b') \<Rightarrow> (Devuelve wrongtype, b')))" if "bdd_inv b" for k p b
    using intercambiar_valor_inv [OF that, of "Str p" e k]
    by (auto split: prod.splits option.splits tipo_redis.splits)
  then show ?thesis
    by (auto simp: getset_def intro!: pasos split: prod.splits option.splits)
qed

lemma append_cmd_paso: "paso_bien m (append_cmd e c m)"
  by (auto simp: append_cmd_def intro!: pasos guardar_valor_inv split: prod.splits option.splits)

lemma getdel_paso: "paso_bien m (getdel e c m)"
proof (cases "get_clave c")
  case (Pair k c')
  have "snd (get e c' m) = m" by (rule get_no_cambia)
  then show ?thesis using Pair
    by (auto simp: getdel_def intro!: pasos eliminar_clave_inv
        split: prod.splits option.splits salida.splits resultado_redis.splits)
qed

lemma operar_sobre_int_paso: "paso_bien m (operar_sobre_int f e c m)"
  by (auto simp: operar_sobre_int_def operar_escribir_def intro!: pasos guardar_valor_inv
      split: prod.splits option.splits sum.splits salida.splits)

lemma mset_cmd_paso: "paso_bien m (mset_cmd e c m)"
  by (auto simp: mset_cmd_def split_def guardar_valores_inv intro!: pasos split: option.splits)

interpretation set_cmd: manejador set_cmd by (rule manejadorI) (rule set_cmd_paso)
interpretation getset: manejador getset by (rule manejadorI) (rule getset_paso)
interpretation append_cmd: manejador append_cmd by (rule manejadorI) (rule append_cmd_paso)
interpretation getdel: manejador getdel by (rule manejadorI) (rule getdel_paso)
interpretation mset_cmd: manejador mset_cmd by (rule manejadorI) (rule mset_cmd_paso)
interpretation operar: manejador "operar_sobre_int f" for f by (rule manejadorI) (rule operar_sobre_int_paso)

lemma ejecutar_string_paso: "paso_bien m (ejecutar_string e c m)"
  by (simp add: ejecutar_string_def incrby_def decrby_def set_cmd_paso getset_paso append_cmd_paso
      getdel_paso mset_cmd_paso operar_sobre_int_paso get.manejador_axioms strlen.manejador_axioms
      mget.manejador_axioms manejador_paso)

interpretation cadenas: manejador ejecutar_string by (rule manejadorI) (rule ejecutar_string_paso)

lemma set_simple:
  assumes "\<not> envenenado m" "nombre c = ''SET''" "parametros c = [k, v]" "''EX'' \<notin> set (parametros c)" "''PX'' \<notin> set (parametros c)"
  shows "ejecutar_string e c m = (Devuelve (StrSimple ''OK''), m\<lparr>contenido := guardar_valor e k (Str v) (contenido m)\<rparr>)"
  using assms by (simp add: ejecutar_string_def get_nombre_def set_cmd_def get_parametros_def con_lock_ok set_seccion_def)

section \<open>Properties\<close>

text \<open>
  C6: \<open>SET k v\<close> without an expiry, then \<open>GET k\<close> at any later moment: the answer is \<open>v\<close>, the
  mutex is healthy, and no other key changes.
\<close>

theorem set_luego_get:
  assumes "\<not> envenenado m" "parametros c = k # v # ps" "''EX'' \<notin> set (parametros c)" "''PX'' \<notin> set (parametros c)"
    and "parametros c' = k # qs"
  shows "fst (set_cmd e c m) = Devuelve (StrSimple ''OK'') \<and>
    \<not> envenenado (snd (set_cmd e c m)) \<and>
    fst (get e' c' (snd (set_cmd e c m))) = Devuelve (BulkStr v) \<and>
    vista e' (snd (set_cmd e c m)) = (vista e' m)(k \<mapsto> Str v)"
proof -
  have "set_cmd e c m = (Devuelve (StrSimple ''OK''), m\<lparr>contenido := guardar_valor e k (Str v) (contenido m)\<rparr>)"
    using assms by (simp add: set_cmd_def get_parametros_def con_lock_ok set_seccion_def)
  then show ?thesis using assms by (simp add: get_def con_lock_ok)
qed

lemma set_luego_get_testigo:
  "fst (get (entorno_ejemplo 7 Debug) (orden ''GET'' [''k''])
     (snd (set_cmd (entorno_ejemplo 0 Debug) (orden ''SET'' [''k'', ''v'']) (con_tabla [(''k'', Lista [])])))) =
   Devuelve (BulkStr ''v'')"
  using set_luego_get [of "con_tabla [(''k'', Lista [])]" "orden ''SET'' [''k'', ''v'']" "''k''" "''v''" "[]"
      "orden ''GET'' [''k'']" "[]" "entorno_ejemplo 0 Debug" "entorno_ejemplo 7 Debug"]
  by simp

text \<open>
  C30: \<open>SET k v EX n\<close>: the value shows for the \<open>n\<close> seconds that follow and is gone afterwards; the
  other keys show what they showed.
\<close>

theorem set_con_expiracion:
  assumes "\<not> envenenado m" "parametros c = [k, v, ''EX'', p]" "parse_u64 p = Some n"
  shows "fst (set_cmd e c m) = Devuelve (StrSimple ''OK'') \<and>
    vista e' (snd (set_cmd e c m)) =
      (vista e' m)(k := if ahora e' - ahora e < from_secs n then Some (Str v) else None)"
proof -
  have "p \<noteq> ''EX''" using assms(3) by (auto simp: rust_simps)
  then have "rsplit_primero (\<lambda>p. p = ''EX'') ([k, v] @ ''EX'' # [p]) = [p]"
    by (intro rsplit_primero_append) simp_all
  then have "obtener_tiempo_expiracion (parametros c) ''EX'' = Devuelve (Some n)"
    using assms by (simp add: obtener_tiempo_expiracion_def indice_vec_def)
  then have "set_cmd e c m = (Devuelve (StrSimple ''OK''),
      m\<lparr>contenido := guardar_valor_con_expiracion e k n (Str v) (contenido m)\<rparr>)"
    using assms by (simp add: set_cmd_def get_parametros_def con_lock_ok set_seccion_def)
  then show ?thesis
    by (auto simp: guardar_valor_con_expiracion_def obtener_valor_def update_conv' fun_eq_iff valor_get_def
        expiro_def expirable_def)
qed

lemma set_con_expiracion_testigo:
  "vista (entorno_ejemplo (from_secs 11) Debug)
     (snd (set_cmd (entorno_ejemplo (from_secs 1) Debug) (orden ''SET'' [''k'', ''v'', ''EX'', ''10'']) (con_tabla []))) ''k'' = None"
proof -
  have "parse_u64 ''10'' = Some 10" by (simp add: rust_simps)
  from set_con_expiracion [OF con_tabla_simps(1) _ this, of "orden ''SET'' [''k'', ''v'', ''EX'', ''10'']" "''k''" "''v''"
      "entorno_ejemplo (from_secs 1) Debug" "[]" "entorno_ejemplo (from_secs 11) Debug"]
  show ?thesis by (simp add: from_secs_def)
qed

text \<open>\<open>SET\<close> with \<open>EX\<close> as its last argument panics while it holds the guard, which poisons the mutex.\<close>

lemma set_ex_envenena:
  assumes "\<not> envenenado m" "parametros c = k # v # ps @ [''EX'']"
  shows "set_cmd e c m = (Panico, m\<lparr>envenenado := True\<rparr>)"
proof -
  have "rsplit_primero (\<lambda>p. p = ''EX'') ((k # v # ps) @ ''EX'' # []) = []"
    by (intro rsplit_primero_append) simp_all
  then have "obtener_tiempo_expiracion (parametros c) ''EX'' = Panico"
    using assms by (simp add: obtener_tiempo_expiracion_def indice_vec_def)
  then show ?thesis
    using assms by (simp add: set_cmd_def get_parametros_def con_lock_ok set_seccion_def)
qed

section \<open>Properties of the counters\<close>

text \<open>The number that a key holds for \<open>operar_sobre_int\<close>; a missing key counts as zero.\<close>

definition numero :: "entorno \<Rightarrow> bdd_mutex \<Rightarrow> string \<Rightarrow> int option" where
  "numero e m k = (case vista e m k of None \<Rightarrow> Some 0 | Some (Str s) \<Rightarrow> parse_i32 s | _ \<Rightarrow> None)"

lemma parse_i32_cero: "parse_i32 ''0'' = Some 0"
  by (simp add: rust_simps)

lemma operar_sobre_int_eq:
  assumes "\<not> envenenado m" "parametros c = k # p # ps" "parse_i32 p = Some i" "numero e m k = Some n"
  shows "operar_sobre_int f e c m =
    (case arit_i32 (perfil_de e) (f n i) of
       Panico \<Rightarrow> (Panico, m)
     | Devuelve r \<Rightarrow> (Devuelve (BulkStr (show_int r)),
         m\<lparr>contenido := guardar_valor e k (Str (show_int r)) (contenido m)\<rparr>))"
proof -
  from assms(4) obtain v where "operar_leer e k m = Inr v" "parse_i32 v = Some n"
    using assms(1) parse_i32_cero
    by (auto simp: numero_def operar_leer_def split: option.splits tipo_redis.splits)
  then show ?thesis using assms(1-3)
    by (simp add: operar_sobre_int_def operar_escribir_def con_lock_ok split: salida.split)
qed

text \<open>
  C9: \<open>INCRBY\<close> on a key that holds a number (or no value): the sum when it fits \<open>i32\<close>; otherwise a
  debug build panics outside every critical section and leaves the database as it was, and a
  release build stores the sum reduced modulo \<open>2\<^sup>3\<^sup>2\<close> to the range of \<open>i32\<close>.
\<close>

theorem incrby_correcto:
  assumes "\<not> envenenado m" "parametros c = k # p # ps" "parse_i32 p = Some i" "numero e m k = Some n"
  shows "(en_i32 (n + i) \<longrightarrow>
      fst (incrby e c m) = Devuelve (BulkStr (show_int (n + i))) \<and>
      vista e (snd (incrby e c m)) = (vista e m)(k \<mapsto> Str (show_int (n + i)))) \<and>
    (\<not> en_i32 (n + i) \<and> perfil_de e = Debug \<longrightarrow> incrby e c m = (Panico, m)) \<and>
    (\<not> en_i32 (n + i) \<and> perfil_de e = Release \<longrightarrow>
      (\<exists>r. en_i32 r \<and> r mod 2 ^ 32 = (n + i) mod 2 ^ 32 \<and>
        fst (incrby e c m) = Devuelve (BulkStr (show_int r)) \<and>
        vista e (snd (incrby e c m)) = (vista e m)(k \<mapsto> Str (show_int r))))"
proof -
  obtain r where "arit_i32 Release (n + i) = Devuelve r" "en_i32 r" using arit_i32_release by blast
  then show ?thesis using operar_sobre_int_eq [OF assms, of "\<lambda>a b. a + b"] arit_i32_release_mod [of "n + i" r]
    by (auto simp: incrby_def) (auto simp: arit_i32_def)
qed

lemma incrby_correcto_testigo:
  "fst (incrby (entorno_ejemplo 0 Debug) (orden ''INCRBY'' [''k'', ''5'']) (con_tabla [(''k'', Str ''-7'')])) =
   Devuelve (BulkStr (show_int (-2)))"
  using incrby_correcto [of "con_tabla [(''k'', Str ''-7'')]" "orden ''INCRBY'' [''k'', ''5'']" "''k''" "''5''" "[]" 5
      "entorno_ejemplo 0 Debug" "-7"]
  by (simp add: numero_def rust_simps)

text \<open>
  \<open>DECRBY k i\<close> undoes \<open>INCRBY k i\<close>: after both, at whatever instants they run, the key holds the
  decimal text of the number it held, and the other keys are as they were.
\<close>

lemma incrby_decrby:
  assumes "\<not> envenenado m" "parametros c = k # p # ps" "parse_i32 p = Some i" "numero e m k = Some n"
    and "en_i32 n" "en_i32 (n + i)"
  shows "fst (decrby e' c (snd (incrby e c m))) = Devuelve (BulkStr (show_int n)) \<and>
    vista e' (snd (decrby e' c (snd (incrby e c m)))) = (vista e' m)(k \<mapsto> Str (show_int n))"
proof -
  let ?m = "m\<lparr>contenido := guardar_valor e k (Str (show_int (n + i))) (contenido m)\<rparr>"
  have "snd (incrby e c m) = ?m"
    using operar_sobre_int_eq [OF assms(1-4), of "\<lambda>a b. a + b"] assms(6) by (simp add: incrby_def)
  moreover have "numero e' ?m k = Some (n + i)" using assms(6) by (simp add: numero_def)
  ultimately show ?thesis
    using operar_sobre_int_eq [of ?m c k p ps i e' "n + i" "\<lambda>a b. a - b"] assms by (simp add: decrby_def)
qed

lemma incrby_decrby_testigo:
  "fst (decrby (entorno_ejemplo 9 Debug) (orden ''X'' [''k'', ''5''])
     (snd (incrby (entorno_ejemplo 0 Debug) (orden ''X'' [''k'', ''5'']) (con_tabla [])))) =
   Devuelve (BulkStr (show_int 0))"
  using incrby_decrby [of "con_tabla []" "orden ''X'' [''k'', ''5'']" "''k''" "''5''" "[]" 5
      "entorno_ejemplo 0 Debug" 0 "entorno_ejemplo 9 Debug"]
  by (simp add: numero_def rust_simps)

section \<open>Properties of the other string commands\<close>

text \<open>
  \<open>APPEND k p\<close> on a key that holds a string (or nothing): the answer is the length of the
  concatenation in bytes, the key holds the concatenation, and \<open>STRLEN k\<close> then gives the same
  length at any instant.
\<close>

lemma append_strlen:
  assumes "\<not> envenenado m" "parametros c = k # p # ps" "vista e m k = None \<and> s = [] \<or> vista e m k = Some (Str s)"
    and "parametros c' = k # qs"
  shows "fst (append_cmd e c m) = Devuelve (RInt (int (length s + length p))) \<and>
    vista e (snd (append_cmd e c m)) = (vista e m)(k \<mapsto> Str (s @ p)) \<and>
    fst (strlen e' c' (snd (append_cmd e c m))) = Devuelve (RInt (int (length s + length p)))"
proof -
  have "append_cmd e c m = (Devuelve (RInt (int (length (s @ p)))),
      m\<lparr>contenido := guardar_valor e k (Str (s @ p)) (contenido m)\<rparr>)"
    using assms(1-3) by (auto simp: append_cmd_def con_lock_ok existe_clave_iff)
  then show ?thesis using assms(1,4) by (simp add: strlen_def con_lock_ok)
qed

lemma append_strlen_testigo:
  "vista (entorno_ejemplo 0 Debug) (snd (append_cmd (entorno_ejemplo 0 Debug) (orden ''APPEND'' [''k'', ''cd''])
     (con_tabla [(''k'', Str ''ab'')]))) ''k'' = Some (Str ''abcd'')"
  using append_strlen [of "con_tabla [(''k'', Str ''ab'')]" "orden ''APPEND'' [''k'', ''cd'']" "''k''" "''cd''" "[]"
      "entorno_ejemplo 0 Debug" "''ab''" "orden ''STRLEN'' [''k'']" "[]"]
  by simp

lemma mget_recorrer:
  "\<not> envenenado m \<Longrightarrow> recorrer (mget_paso e m) ps vs =
    Inr (vs @ map (\<lambda>k. case vista e m k of Some (Str v) \<Rightarrow> BulkStr v | _ \<Rightarrow> RNil) ps)"
  by (induction ps arbitrary: vs) (simp_all add: mget_paso_def)

definition mset_escribe :: "string list \<Rightarrow> string \<rightharpoonup> tipo_redis" where
  "mset_escribe ps = map_of (rev (map (\<lambda>(k, v). (k, Str v)) (zip ps (tl ps))))"

text \<open>
  C31: \<open>MSET\<close> with an even number of arguments, then \<open>MGET\<close>. The loop of \<open>guardar_valores\<close> steps the
  index by one: every argument but the last becomes a key, bound to the argument after it, and
  for a repeated key the last pair counts. \<open>MGET\<close> of any keys shows exactly that map.
\<close>

theorem mset_mget:
  assumes "\<not> envenenado m" "parametros c \<noteq> []" "even (length (parametros c))" "length (parametros c) < 2 ^ 64"
    and "ks \<noteq> []"
  shows "fst (mset_cmd e c m) = Devuelve (StrSimple ''OK'') \<and>
    fst (mget e' (orden n ks) (snd (mset_cmd e c m))) =
      Devuelve (Vector (map (\<lambda>k. case (vista e' m ++ mset_escribe (parametros c)) k of Some (Str v) \<Rightarrow> BulkStr v | _ \<Rightarrow> RNil) ks))"
proof -
  let ?h = "fold (\<lambda>(k, v). AList.update k (no_expirable (ahora e) (Str v))) (pares_consecutivos (parametros c)) (hashmap (contenido m))"
  let ?b = "notificar_observadores e (contenido m\<lparr>hashmap := ?h\<rparr>)"
  have "mset_cmd e c m = (Devuelve (StrSimple ''OK''), m\<lparr>contenido := ?b\<rparr>)"
    using assms(1-3) guardar_valores_eq [OF assms(2,4)]
    by (simp add: mset_cmd_def get_parametros_def con_lock_ok even_iff_mod_2_eq_zero)
  moreover have "obtener_valor e' ?b = vista e' m ++ mset_escribe (parametros c)"
    using obtener_fold_update [where e = e' and t = "ahora e" and b = "contenido m" and kvs = "pares_consecutivos (parametros c)"]
    by (simp add: mset_escribe_def pares_consecutivos_def)
  ultimately show ?thesis using assms(1,5)
    by (simp add: mget_def mientras_parametro_eq mget_recorrer)
qed

lemma mset_mget_testigo:
  "fst (mget (entorno_ejemplo 0 Debug) (orden ''MGET'' [''a'', ''b'', ''1'', ''2''])
     (snd (mset_cmd (entorno_ejemplo 0 Debug) (orden ''MSET'' [''a'', ''1'', ''b'', ''2'']) (con_tabla [])))) =
   Devuelve (Vector [BulkStr ''1'', BulkStr ''2'', BulkStr ''b'', RNil])"
  using mset_mget [of "con_tabla []" "orden ''MSET'' [''a'', ''1'', ''b'', ''2'']" "[''a'', ''b'', ''1'', ''2'']"
      "entorno_ejemplo 0 Debug" "entorno_ejemplo 0 Debug" "''MGET''"]
  by (simp add: mset_escribe_def map_add_def)

text \<open>
  \<open>GETDEL k\<close> on a string answers with the string and removes the key, so that \<open>GET k\<close> then
  answers nil at every instant; on a value of another type it answers the error and changes
  nothing.
\<close>

lemma getdel_correcto:
  assumes "\<not> envenenado m" "parametros c = k # ps"
  shows "(\<forall>v. vista e m k = Some (Str v) \<longrightarrow>
      fst (getdel e c m) = Devuelve (BulkStr v) \<and>
      vista e' (snd (getdel e c m)) = (vista e' m)(k := None) \<and>
      fst (get e' c (snd (getdel e c m))) = Devuelve RNil) \<and>
    (\<forall>t. vista e m k = Some t \<and> (\<forall>v. t \<noteq> Str v) \<longrightarrow> getdel e c m = (Devuelve wrongtype, m)) \<and>
    (vista e m k = None \<longrightarrow> getdel e c m = (Devuelve RNil, m))"
  using assms
  by (auto simp: getdel_def get_def con_lock_ok wrongtype_def split: tipo_redis.splits)

lemma getdel_correcto_testigo:
  "fst (getdel (entorno_ejemplo 0 Debug) (orden ''GETDEL'' [''k'']) (con_tabla [(''k'', Str ''v'')])) =
   Devuelve (BulkStr ''v'')"
  using getdel_correcto [of "con_tabla [(''k'', Str ''v'')]" "orden ''GETDEL'' [''k'']" "''k''" "[]"
      "entorno_ejemplo 0 Debug"] by simp

text \<open>
  \<open>GETSET k p\<close> on a string (or no value) stores \<open>p\<close> and answers the old value, but the
  observers are not notified: no copy of the new table is sent to be persisted.
\<close>

lemma getset_no_notifica:
  assumes "\<not> envenenado m" "parametros c = k # p # ps" "vista e m k = None \<or> vista e m k = Some (Str v)"
  shows "fst (getset e c m) = Devuelve (case vista e m k of None \<Rightarrow> RNil | Some _ \<Rightarrow> StrSimple v) \<and>
    vista e (snd (getset e c m)) = (vista e m)(k \<mapsto> Str p) \<and>
    observadores (contenido (snd (getset e c m))) = observadores (contenido m)"
  using assms
  by (auto simp: getset_def con_lock_ok intercambiar_valor_def Let_def)
    (auto simp: obtener_valor_def update_conv' fun_eq_iff)

lemma getset_no_notifica_testigo:
  "fst (getset (entorno_ejemplo 0 Debug) (orden ''GETSET'' [''k'', ''w'']) (con_tabla [(''k'', Str ''v'')])) =
   Devuelve (StrSimple ''v'')"
  using getset_no_notifica [of "con_tabla [(''k'', Str ''v'')]" "orden ''GETSET'' [''k'', ''w'']" "''k''" "''w''" "[]"
      "entorno_ejemplo 0 Debug" "''v''"] by simp

end
