(* ===== verification/Listas.thy ===== *)
theory Listas
  imports Manejador
begin

text \<open>\<open>comando_list_handler.rs\<close>: the commands on lists.\<close>

section \<open>The commands\<close>

definition es_comando_list :: "string \<Rightarrow> bool" where
  "es_comando_list comando =
     list_ex (\<lambda>c. c = comando)
       [''LINDEX'', ''LPOP'', ''RPOP'', ''LPUSH'', ''LPUSHX'', ''RPUSH'', ''RPUSHX'', ''LRANGE'', ''LREM'', ''LSET'',
        ''LLEN'']"

text \<open>
  The section that starts most list commands: \<open>ausente\<close> is what the code does when the key holds
  no value (a list to go on with, or a result to return).
\<close>

definition leer_lista ::
    "entorno \<Rightarrow> string \<Rightarrow> resultado_redis + string list \<Rightarrow> bdd_mutex \<Rightarrow> resultado_redis + string list" where
  "leer_lista e clave ausente m =
     leer_lock m (\<lambda>b.
       (case obtener_valor e b clave of
          Some (Lista lista) \<Rightarrow> Inr lista
        | None \<Rightarrow> ausente
        | _ \<Rightarrow> Inl wrongtype)) err_lock"

definition lindex :: comando where
  "lindex e comando m =
     (case get_clave comando of
        (None, _) \<Rightarrow> (Devuelve (err_args ''lindex''), m)
      | (Some clave, comando') \<Rightarrow>
          (case get_parametro comando' of
             (None, _) \<Rightarrow> (Devuelve (err_args ''lindex''), m)
           | (Some parametro, _) \<Rightarrow>
               (case leer_lista e clave (Inl wrongtype) m of
                  Inl r \<Rightarrow> (Devuelve r, m)
                | Inr lista \<Rightarrow>
                    (case parse_i32 parametro of
                       None \<Rightarrow> (Devuelve err_int, m)
                     | Some indice \<Rightarrow>
                         (let tamanio = usize_como_i32 (length lista)
                          in (if 0 \<le> indice \<and> indice < tamanio
                              then luego (indice_vec lista (i32_como_usize indice)) (\<lambda>v. Devuelve (BulkStr v))
                              else if 0 > indice
                              then luego (arit_i32 (perfil_de e) (tamanio + indice)) (\<lambda>s.
                                     if s \<ge> 0
                                     then luego (indice_vec lista (i32_como_usize s)) (\<lambda>v. Devuelve (BulkStr v))
                                     else Devuelve (BulkStr ''nil''))
                              else Devuelve (BulkStr ''nil''), m))))))"

definition llen :: comando where
  "llen e comando m =
     (case get_clave comando of
        (None, _) \<Rightarrow> (Devuelve (err_args ''llen''), m)
      | (Some clave, _) \<Rightarrow>
          (case leer_lista e clave (Inr []) m of
             Inl r \<Rightarrow> (Devuelve r, m)
           | Inr lista \<Rightarrow> (Devuelve (RInt (int (length lista))), m)))"

text \<open>The section that ends \<open>pop\<close> and \<open>lrem\<close>: an empty list removes the key.\<close>

definition guardar_o_eliminar ::
    "entorno \<Rightarrow> string \<Rightarrow> string list \<Rightarrow> bdd_mutex \<Rightarrow> (resultado_redis + unit) salida \<times> bdd_mutex" where
  "guardar_o_eliminar e clave lista m =
     con_lock m (\<lambda>b.
       (Devuelve (Inr ()),
        if lista \<noteq> [] then guardar_valor e clave (Lista lista) b
        else snd (eliminar_clave e clave b))) (Inl err_lock)"

definition pop :: "bool \<Rightarrow> comando" where
  "pop reversed e comando m =
     (case get_clave comando of
        (None, _) \<Rightarrow> (Devuelve (err_args ''pop''), m)
      | (Some clave, comando') \<Rightarrow>
          (case (case get_parametro comando' of
                   (Some p, _) \<Rightarrow> parse_usize p
                 | (None, _) \<Rightarrow> Some 1) of
             None \<Rightarrow> (Devuelve err_int, m)
           | Some indice \<Rightarrow>
               (case leer_lista e clave (Inl RNil) m of
                  Inl r \<Rightarrow> (Devuelve r, m)
                | Inr lista \<Rightarrow>
                    (case drain_hasta (if reversed then rev lista else lista) indice of
                       Panico \<Rightarrow> (Panico, m)
                     | Devuelve (drenados, resto) \<Rightarrow>
                         (let resto = (if reversed then rev resto else resto);
                              a_devolver = (if reversed then rev drenados else drenados)
                          in seguir (guardar_o_eliminar e clave resto m) (\<lambda>_ m'.
                               (Devuelve (if length a_devolver = 1 then BulkStr (a_devolver ! 0)
                                          else Vector (map BulkStr a_devolver)), m')))))))"

definition lpop :: comando where
  "lpop = pop False"

definition rpop :: comando where
  "rpop = pop True"

definition push_paso :: "bool \<Rightarrow> string \<Rightarrow> string list \<Rightarrow> resultado_redis + string list" where
  "push_paso reversed parametro lista =
     Inr (if \<not> reversed then parametro # lista else lista @ [parametro])"

definition push ::
    "string list \<Rightarrow> string \<Rightarrow> bool \<Rightarrow> comando" where
  "push lista clave reversed e comando m =
     (case mientras_parametro (push_paso reversed) comando lista of
        Inl r \<Rightarrow> (Devuelve r, m)
      | Inr lista' \<Rightarrow>
          seguir (con_lock m (\<lambda>b. (Devuelve (Inr ()), guardar_valor e clave (Lista lista') b)) (Inl err_lock))
            (\<lambda>_ m'. (Devuelve (RInt (int (length lista'))), m')))"

definition lpush :: comando where
  "lpush e comando m =
     (case get_clave comando of
        (None, _) \<Rightarrow> (Devuelve (err_args ''lpush''), m)
      | (Some clave, comando') \<Rightarrow>
          (case leer_lista e clave (Inr []) m of
             Inl r \<Rightarrow> (Devuelve r, m)
           | Inr lista \<Rightarrow> push lista clave False e comando' m))"

definition lpushx :: comando where
  "lpushx e comando m =
     (case get_clave comando of
        (None, _) \<Rightarrow> (Devuelve (err_args ''lpushx''), m)
      | (Some clave, comando') \<Rightarrow>
          (case leer_lista e clave (Inl (RInt 0)) m of
             Inl r \<Rightarrow> (Devuelve r, m)
           | Inr lista \<Rightarrow> push lista clave False e comando' m))"

definition rpush :: comando where
  "rpush e comando m =
     (case get_clave comando of
        (None, _) \<Rightarrow> (Devuelve (err_args ''rpush''), m)
      | (Some clave, comando') \<Rightarrow>
          (case leer_lista e clave (Inr []) m of
             Inl r \<Rightarrow> (Devuelve r, m)
           | Inr lista \<Rightarrow> push lista clave True e comando' m))"

definition rpushx :: comando where
  "rpushx e comando m =
     (case get_clave comando of
        (None, _) \<Rightarrow> (Devuelve (err_args ''rpushx''), m)
      | (Some clave, comando') \<Rightarrow>
          (case leer_lista e clave (Inl (RInt 0)) m of
             Inl r \<Rightarrow> (Devuelve r, m)
           | Inr lista \<Rightarrow> push lista clave True e comando' m))"

definition esta_en_rango_lista :: "int \<Rightarrow> int \<Rightarrow> bool" where
  "esta_en_rango_lista v limite \<longleftrightarrow> 0 \<le> v \<and> v < limite"

definition obtener_indice_inferior :: "perfil \<Rightarrow> int \<Rightarrow> int \<Rightarrow> int option salida" where
  "obtener_indice_inferior p inicio limite =
     (if esta_en_rango_lista inicio limite then Devuelve (Some inicio)
      else if inicio < 0 then
        luego (arit_i32 p (inicio + limite)) (\<lambda>s.
          if esta_en_rango_lista s limite then Devuelve (Some s) else Devuelve (Some 0))
      else Devuelve None)"

definition obtener_indice_superior :: "perfil \<Rightarrow> int \<Rightarrow> int \<Rightarrow> int option salida" where
  "obtener_indice_superior p fin limite =
     (if esta_en_rango_lista fin limite then Devuelve (Some fin)
      else if fin < 0 then
        luego (arit_i32 p (fin + limite)) (\<lambda>s.
          if esta_en_rango_lista s limite then Devuelve (Some s) else Devuelve None)
      else luego (arit_i32 p (limite - 1)) (\<lambda>s. Devuelve (Some s)))"

definition obtener_intervalo :: "perfil \<Rightarrow> int \<Rightarrow> int \<Rightarrow> int \<Rightarrow> (nat \<times> nat) option salida" where
  "obtener_intervalo p inicio fin limite =
     luego (obtener_indice_inferior p inicio limite) (\<lambda>oa.
       (case oa of
          None \<Rightarrow> Devuelve None
        | Some a \<Rightarrow>
            luego (obtener_indice_superior p fin limite) (\<lambda>ob.
              (case ob of
                 None \<Rightarrow> Devuelve None
               | Some b \<Rightarrow> Devuelve (Some (i32_como_usize a, i32_como_usize b))))))"

text \<open>The part of \<open>lrange\<close> after the list has been read.\<close>

definition lrange_de :: "perfil \<Rightarrow> int \<Rightarrow> int \<Rightarrow> string list \<Rightarrow> resultado_redis salida" where
  "lrange_de p inicio fin lista =
     luego (obtener_intervalo p inicio fin (usize_como_i32 (length lista))) (\<lambda>o_ab.
       (case o_ab of
          None \<Rightarrow> Devuelve (Vector [])
        | Some (a, b) \<Rightarrow>
            if b < a then Devuelve (Vector [])
            else luego (arit_usize p (int b + 1)) (\<lambda>hasta.
                 luego (rebanada lista a hasta) (\<lambda>xs. Devuelve (Vector (map BulkStr xs))))))"

definition lrange :: comando where
  "lrange e comando m =
     (case get_clave comando of
        (None, _) \<Rightarrow> (Devuelve (err_args ''lrange''), m)
      | (Some clave, c1) \<Rightarrow>
          (case get_parametro c1 of
             (None, _) \<Rightarrow> (Devuelve (err_args ''lrange''), m)
           | (Some p1, c2) \<Rightarrow>
               (case parse_i32 p1 of
                  None \<Rightarrow> (Devuelve err_int, m)
                | Some inicio \<Rightarrow>
                    (case get_parametro c2 of
                       (None, _) \<Rightarrow> (Devuelve (err_args ''lrange''), m)
                     | (Some p2, _) \<Rightarrow>
                         (case parse_i32 p2 of
                            None \<Rightarrow> (Devuelve err_int, m)
                          | Some fin \<Rightarrow>
                              (case leer_lista e clave (Inl (Vector [])) m of
                                 Inl r \<Rightarrow> (Devuelve r, m)
                               | Inr lista \<Rightarrow> (lrange_de (perfil_de e) inicio fin lista, m)))))))"

text \<open>The loop of \<open>lrem\<close>: \<open>cant_eliminada\<close> stays below \<open>i\<close>, an \<open>i32\<close>, so it cannot overflow.\<close>

fun lrem_filtrar :: "string \<Rightarrow> int \<Rightarrow> string list \<Rightarrow> int \<Rightarrow> string list \<Rightarrow> int \<times> string list" where
  "lrem_filtrar a_eliminar i [] cant_eliminada filtrada = (cant_eliminada, filtrada)"
| "lrem_filtrar a_eliminar i (v # lista) cant_eliminada filtrada =
     (if \<not> (v = a_eliminar \<and> cant_eliminada < i)
      then lrem_filtrar a_eliminar i lista cant_eliminada (filtrada @ [v])
      else lrem_filtrar a_eliminar i lista (cant_eliminada + 1) filtrada)"

definition lrem_de :: "perfil \<Rightarrow> int \<Rightarrow> string \<Rightarrow> string list \<Rightarrow> (int \<times> string list) salida" where
  "lrem_de p indice a_eliminar lista =
     luego (if indice < 0 then arit_i32 p (- indice) else Devuelve indice) (\<lambda>i.
       let lista' = (if indice < 0 then rev lista else lista);
           (cant, filtrada) = lrem_filtrar a_eliminar i lista' 0 []
       in Devuelve (cant, if indice < 0 then rev filtrada else filtrada))"

definition lrem :: comando where
  "lrem e comando m =
     (case get_clave comando of
        (None, _) \<Rightarrow> (Devuelve (err_args ''lrem''), m)
      | (Some clave, c1) \<Rightarrow>
          (case get_parametro c1 of
             (None, _) \<Rightarrow> (Devuelve (err_args ''lrem''), m)
           | (Some p, c2) \<Rightarrow>
               (case parse_i32 p of
                  None \<Rightarrow> (Devuelve err_int, m)
                | Some indice \<Rightarrow>
                    (case get_parametro c2 of
                       (None, _) \<Rightarrow> (Devuelve (err_args ''lrem''), m)
                     | (Some a_eliminar, _) \<Rightarrow>
                         (case leer_lista e clave (Inl (RInt 0)) m of
                            Inl r \<Rightarrow> (Devuelve r, m)
                          | Inr lista \<Rightarrow>
                              (case lrem_de (perfil_de e) indice a_eliminar lista of
                                 Panico \<Rightarrow> (Panico, m)
                               | Devuelve (cant, filtrada) \<Rightarrow>
                                   seguir (guardar_o_eliminar e clave filtrada m)
                                     (\<lambda>_ m'. (Devuelve (RInt cant), m'))))))))"

definition lset_de :: "perfil \<Rightarrow> int \<Rightarrow> string \<Rightarrow> string list \<Rightarrow> (resultado_redis + string list) salida" where
  "lset_de p indice parametro lista =
     (let tamanio = usize_como_i32 (length lista)
      in if 0 \<le> indice \<and> indice < tamanio
         then luego (insertar_en lista (i32_como_usize indice) parametro) (\<lambda>l. Devuelve (Inr l))
         else if 0 > indice
         then luego (arit_i32 p (tamanio + indice)) (\<lambda>s.
                if s \<ge> 0 then luego (insertar_en lista (i32_como_usize s) parametro) (\<lambda>l. Devuelve (Inr l))
                else Devuelve (Inl err_int))
         else Devuelve (Inl err_int))"

definition lset :: comando where
  "lset e comando m =
     (case get_clave comando of
        (None, _) \<Rightarrow> (Devuelve (err_args ''lset''), m)
      | (Some clave, c1) \<Rightarrow>
          (case get_parametro c1 of
             (None, _) \<Rightarrow> (Devuelve (err_args ''lset''), m)
           | (Some p, c2) \<Rightarrow>
               (case parse_i32 p of
                  None \<Rightarrow> (Devuelve err_int, m)
                | Some indice \<Rightarrow>
                    (case get_parametro c2 of
                       (None, _) \<Rightarrow> (Devuelve (err_args ''lset''), m)
                     | (Some parametro, _) \<Rightarrow>
                         (case leer_lista e clave (Inr []) m of
                            Inl r \<Rightarrow> (Devuelve r, m)
                          | Inr lista \<Rightarrow>
                              seguir (lset_de (perfil_de e) indice parametro lista, m) (\<lambda>lista' m.
                                seguir (con_lock m (\<lambda>b.
                                          (Devuelve (Inr ()), guardar_valor e clave (Lista lista') b)) (Inl err_lock))
                                  (\<lambda>_ m'. (Devuelve (StrSimple ''OK''), m'))))))))"

definition ejecutar_list :: comando where
  "ejecutar_list e comando =
     (if get_nombre comando = ''LINDEX'' then lindex e comando
      else if get_nombre comando = ''LPOP'' then lpop e comando
      else if get_nombre comando = ''RPOP'' then rpop e comando
      else if get_nombre comando = ''LPUSH'' then lpush e comando
      else if get_nombre comando = ''LPUSHX'' then lpushx e comando
      else if get_nombre comando = ''RPUSH'' then rpush e comando
      else if get_nombre comando = ''RPUSHX'' then rpushx e comando
      else if get_nombre comando = ''LRANGE'' then lrange e comando
      else if get_nombre comando = ''LREM'' then lrem e comando
      else if get_nombre comando = ''LSET'' then lset e comando
      else llen e comando)"

section \<open>The contract\<close>

lemma lindex_no_cambia: "snd (lindex e c m) = m"
  by (simp add: lindex_def Let_def split: prod.splits option.splits sum.splits)

lemma llen_no_cambia: "snd (llen e c m) = m"
  by (simp add: llen_def split: prod.splits option.splits sum.splits)

lemma lrange_no_cambia: "snd (lrange e c m) = m"
  by (simp add: lrange_def split: prod.splits option.splits sum.splits)

interpretation lindex: lector lindex by unfold_locales (rule lindex_no_cambia)
interpretation llen: lector llen by unfold_locales (rule llen_no_cambia)
interpretation lrange: lector lrange by unfold_locales (rule lrange_no_cambia)

lemma guardar_o_eliminar_paso: "paso_bien m (guardar_o_eliminar e k l m)"
  by (auto simp: guardar_o_eliminar_def intro!: pasos inv_intros)

lemma push_paso_bien: "paso_bien m (push l k r e c m)"
  by (auto simp: push_def intro!: pasos guardar_valor_inv split: sum.splits)

lemma pop_paso: "paso_bien m (pop r e c m)"
  by (auto simp: pop_def Let_def intro!: pasos guardar_o_eliminar_paso
      split: prod.splits option.splits sum.splits salida.splits)

lemma lrem_paso: "paso_bien m (lrem e c m)"
  by (auto simp: lrem_def intro!: pasos guardar_o_eliminar_paso
      split: prod.splits option.splits sum.splits salida.splits)

lemma lset_paso: "paso_bien m (lset e c m)"
  by (auto simp: lset_def intro!: pasos guardar_valor_inv split: prod.splits option.splits sum.splits)

lemma pushes_paso:
  "paso_bien m (lpush e c m)" "paso_bien m (lpushx e c m)"
  "paso_bien m (rpush e c m)" "paso_bien m (rpushx e c m)"
  by (auto simp: lpush_def lpushx_def rpush_def rpushx_def intro!: paso_sin_cambio push_paso_bien
      split: prod.splits option.splits sum.splits)

interpretation pop: manejador "pop r" for r by (rule manejadorI) (rule pop_paso)
interpretation lrem: manejador lrem by (rule manejadorI) (rule lrem_paso)
interpretation lset: manejador lset by (rule manejadorI) (rule lset_paso)

lemma ejecutar_list_paso: "paso_bien m (ejecutar_list e c m)"
  by (simp add: ejecutar_list_def lpop_def rpop_def pop_paso lrem_paso lset_paso pushes_paso
      lindex.manejador_axioms llen.manejador_axioms lrange.manejador_axioms manejador_paso)

interpretation listas: manejador ejecutar_list by (rule manejadorI) (rule ejecutar_list_paso)

section \<open>Properties\<close>

text \<open>The list that a key holds for the commands that create it when it is missing.\<close>

definition lista_en :: "entorno \<Rightarrow> bdd_mutex \<Rightarrow> string \<Rightarrow> string list option" where
  "lista_en e m k = (case vista e m k of None \<Rightarrow> Some [] | Some (Lista l) \<Rightarrow> Some l | _ \<Rightarrow> None)"

lemma leer_lista_en:
  "\<not> envenenado m \<Longrightarrow> lista_en e m k = Some l \<Longrightarrow> leer_lista e k (Inr []) m = Inr l"
  by (auto simp: lista_en_def leer_lista_def split: option.splits tipo_redis.splits)

lemma leer_lista_presente:
  "\<not> envenenado m \<Longrightarrow> vista e m k = Some (Lista l) \<Longrightarrow> leer_lista e k a m = Inr l"
  by (simp add: leer_lista_def)

lemma push_recorrer:
  "recorrer (push_paso False) ps l = Inr (rev ps @ l)"
  "recorrer (push_paso True) ps l = Inr (l @ ps)"
  by (induction ps arbitrary: l) (simp_all add: push_paso_def)

lemma push_eq:
  assumes "\<not> envenenado m" "parametros c = k # ps" "lista_en e m k = Some l"
  shows "lpush e c m = (Devuelve (RInt (int (length l + length ps))),
      m\<lparr>contenido := guardar_valor e k (Lista (rev ps @ l)) (contenido m)\<rparr>)"
    and "rpush e c m = (Devuelve (RInt (int (length l + length ps))),
      m\<lparr>contenido := guardar_valor e k (Lista (l @ ps)) (contenido m)\<rparr>)"
  using assms
  by (simp_all add: lpush_def rpush_def leer_lista_en push_def mientras_parametro_eq push_recorrer con_lock_ok)

text \<open>
  \<open>LPUSH\<close> and \<open>RPUSH\<close> on a list or a missing key: the arguments go to the head one after the
  other, so they end up reversed, or to the tail in order; the answer is the new length and no
  other key changes, at every instant.
\<close>

lemma push_correcto:
  assumes "\<not> envenenado m" "parametros c = k # ps" "lista_en e m k = Some l"
  shows "fst (lpush e c m) = Devuelve (RInt (int (length l + length ps))) \<and>
    vista e' (snd (lpush e c m)) = (vista e' m)(k \<mapsto> Lista (rev ps @ l)) \<and>
    fst (rpush e c m) = Devuelve (RInt (int (length l + length ps))) \<and>
    vista e' (snd (rpush e c m)) = (vista e' m)(k \<mapsto> Lista (l @ ps))"
  using push_eq [OF assms] by simp

lemma push_correcto_testigo:
  "vista (entorno_ejemplo 3 Debug) (snd (lpush (entorno_ejemplo 0 Debug) (orden ''LPUSH'' [''k'', ''a'', ''b''])
     (con_tabla [(''k'', Lista [''c''])]))) ''k'' = Some (Lista [''b'', ''a'', ''c''])"
  using push_correcto [of "con_tabla [(''k'', Lista [''c''])]" "orden ''LPUSH'' [''k'', ''a'', ''b'']" "''k''"
      "[''a'', ''b'']" "entorno_ejemplo 0 Debug" "[''c'']" "entorno_ejemplo 3 Debug"]
  by (simp add: lista_en_def)

lemma guardar_o_eliminar_eq:
  "\<not> envenenado m \<Longrightarrow> guardar_o_eliminar e k l m = (Devuelve (Inr ()), m\<lparr>contenido :=
     if l \<noteq> [] then guardar_valor e k (Lista l) (contenido m) else snd (eliminar_clave e k (contenido m))\<rparr>)"
  by (simp add: guardar_o_eliminar_def con_lock_ok)

lemma pop_eq:
  assumes "\<not> envenenado m" "parametros c = k # ps" "vista e m k = Some (Lista l)"
    and "(case ps of [] \<Rightarrow> Some 1 | p # _ \<Rightarrow> parse_usize p) = Some n"
  shows "pop r e c m =
    (if n \<le> length l then
       (let resto = (if r then take (length l - n) l else drop n l);
            dados = (if r then drop (length l - n) l else take n l)
        in (Devuelve (if n = 1 then BulkStr (dados ! 0) else Vector (map BulkStr dados)),
            m\<lparr>contenido := if resto \<noteq> [] then guardar_valor e k (Lista resto) (contenido m)
                          else snd (eliminar_clave e k (contenido m))\<rparr>))
     else (Panico, m))"
proof -
  have p: "(case get_parametro (c\<lparr>index := 1\<rparr>) of (Some p, _) \<Rightarrow> parse_usize p | (None, _) \<Rightarrow> Some 1) = Some n"
    using assms(2,4) by (auto simp: get_parametro_def split: list.splits)
  have g: "get_clave c = (Some k, c\<lparr>index := 1\<rparr>)" using assms(2) by simp
  note d = pop_def [of r e c m, unfolded g prod.case option.case p leer_lista_presente [OF assms(1,3)] sum.case]
  show ?thesis
  proof (cases "n \<le> length l")
    case True
    then have "length (if r then drop (length l - n) l else take n l) = n" by simp
    moreover have "drain_hasta (if r then rev l else l) n =
        Devuelve (if r then (rev (drop (length l - n) l), rev (take (length l - n) l)) else (take n l, drop n l))"
      using True by (simp add: drain_hasta_def take_rev drop_rev)
    ultimately show ?thesis using True by (simp add: d guardar_o_eliminar_eq [OF assms(1)] Let_def)
  qed (simp add: d drain_hasta_def)
qed

text \<open>
  C21: \<open>LPOP k n\<close> and \<open>RPOP k n\<close> (one element without a count) give the first or the last \<open>n\<close> elements
  in list order, keep the rest, and remove the key when nothing is left; a count above the
  length makes the thread panic, and the database stays as it was and usable.
\<close>

theorem pop_correcto:
  assumes "\<not> envenenado m" "parametros c = k # ps" "vista e m k = Some (Lista l)"
    and "(case ps of [] \<Rightarrow> Some 1 | p # _ \<Rightarrow> parse_usize p) = Some n"
  shows "(length l < n \<longrightarrow> lpop e c m = (Panico, m) \<and> rpop e c m = (Panico, m)) \<and>
    (n \<le> length l \<and> n \<noteq> 1 \<longrightarrow>
      fst (lpop e c m) = Devuelve (Vector (map BulkStr (take n l))) \<and>
      fst (rpop e c m) = Devuelve (Vector (map BulkStr (drop (length l - n) l)))) \<and>
    (n \<le> length l \<and> n = 1 \<longrightarrow>
      fst (lpop e c m) = Devuelve (BulkStr (hd l)) \<and> fst (rpop e c m) = Devuelve (BulkStr (last l))) \<and>
    (n \<le> length l \<longrightarrow>
      vista e' (snd (lpop e c m)) = (vista e' m)(k := if n < length l then Some (Lista (drop n l)) else None) \<and>
      vista e' (snd (rpop e c m)) = (vista e' m)(k := if n < length l then Some (Lista (take (length l - n) l)) else None))"
proof -
  have "l \<noteq> [] \<Longrightarrow> take 1 l ! 0 = hd l \<and> drop (length l - 1) l ! 0 = last l"
    by (simp add: hd_conv_nth last_conv_nth)
  then show ?thesis
    using pop_eq [OF assms, of False] pop_eq [OF assms, of True]
    by (auto simp: lpop_def rpop_def Let_def)
qed

lemma pop_correcto_testigo:
  "fst (rpop (entorno_ejemplo 0 Debug) (orden ''RPOP'' [''k'', ''2'']) (con_tabla [(''k'', Lista [''a'', ''b'', ''c''])])) =
   Devuelve (Vector [BulkStr ''b'', BulkStr ''c''])"
  using pop_correcto [of "con_tabla [(''k'', Lista [''a'', ''b'', ''c''])]" "orden ''RPOP'' [''k'', ''2'']" "''k''" "[''2'']"
      "entorno_ejemplo 0 Debug" "[''a'', ''b'', ''c'']" 2]
  by (simp add: rust_simps)

text \<open>
  C22: a push and the pop on the same side cancel: the pop answers the element that was pushed
  and the database shows what it showed before, also when the key was missing.
\<close>

theorem push_pop:
  assumes "\<not> envenenado m" "parametros c = [k, x]" "parametros c' = [k]"
    and "vista e m k = None \<and> l = [] \<or> vista e m k = Some (Lista l) \<and> l \<noteq> []"
  shows "fst (lpop e c' (snd (lpush e c m))) = Devuelve (BulkStr x) \<and>
    vista e (snd (lpop e c' (snd (lpush e c m)))) = vista e m \<and>
    fst (rpop e c' (snd (rpush e c m))) = Devuelve (BulkStr x) \<and>
    vista e (snd (rpop e c' (snd (rpush e c m)))) = vista e m"
proof -
  have "lista_en e m k = Some l" using assms(4) by (auto simp: lista_en_def)
  note p = push_eq [OF assms(1,2) this]
  let ?m1 = "snd (lpush e c m)" and ?m2 = "snd (rpush e c m)"
  have m: "\<not> envenenado ?m1" "vista e ?m1 k = Some (Lista (x # l))" "\<not> envenenado ?m2" "vista e ?m2 k = Some (Lista (l @ [x]))"
    using assms(1) p by simp_all
  note q = pop_eq [OF m(1) assms(3) m(2), of 1 False] pop_eq [OF m(3) assms(3) m(4), of 1 True]
  show ?thesis using q assms(4) p by (auto simp: lpop_def rpop_def Let_def fun_eq_iff)
qed

lemma push_pop_testigo:
  "vista (entorno_ejemplo 0 Debug) (snd (rpop (entorno_ejemplo 0 Debug) (orden ''RPOP'' [''k''])
     (snd (rpush (entorno_ejemplo 0 Debug) (orden ''RPUSH'' [''k'', ''x'']) (con_tabla []))))) =
   vista (entorno_ejemplo 0 Debug) (con_tabla [])"
  using push_pop [of "con_tabla []" "orden ''RPUSH'' [''k'', ''x'']" "''k''" "''x''" "orden ''RPOP'' [''k'']"
      "entorno_ejemplo 0 Debug" "[]"] by simp

text \<open>
  The interval of the Redis documentation: negative indices count from the end, the interval
  is cut to the list and includes both ends.
\<close>

definition rango_redis :: "int \<Rightarrow> int \<Rightarrow> 'a list \<Rightarrow> 'a list" where
  "rango_redis i f xs =
     (let n = int (length xs);
          a = max 0 (if i < 0 then i + n else i);
          b = min (n - 1) (if f < 0 then f + n else f)
      in if b < a then [] else take (nat (b - a + 1)) (drop (nat a) xs))"

lemma obtener_indice_inferior_eq:
  assumes "en_i32 i" "0 \<le> n" "n < 2 ^ 31"
  shows "obtener_indice_inferior p i n =
    Devuelve (if i \<ge> n then None else Some (max 0 (if i < 0 then i + n else i)))"
  using assms by (auto simp: obtener_indice_inferior_def esta_en_rango_lista_def en_i32_def)

lemma obtener_indice_superior_eq:
  assumes "en_i32 f" "0 \<le> n" "n < 2 ^ 31"
  shows "obtener_indice_superior p f n =
    Devuelve (if f + n < 0 then None else Some (min (n - 1) (if f < 0 then f + n else f)))"
  using assms by (auto simp: obtener_indice_superior_def esta_en_rango_lista_def en_i32_def)

lemma lrange_de_intervalo:
  assumes "obtener_intervalo p i f (int (length l)) = Devuelve (Some (a, b))" "b < length l" "length l < 2 ^ 31"
  shows "lrange_de p i f l = Devuelve (Vector (map BulkStr (if b < a then [] else take (b + 1 - a) (drop a l))))"
  using assms by (simp add: lrange_de_def arit_usize_def rebanada_def nat_add_distrib)

lemma rango_redis_nat:
  assumes "max 0 (if i < 0 then i + int (length l) else i) = int a"
    and "min (int (length l) - 1) (if f < 0 then f + int (length l) else f) = int b"
  shows "rango_redis i f l = (if b < a then [] else take (b + 1 - a) (drop a l))"
proof (cases "b < a")
  case False
  then have "nat (int b - int a + 1) = b + 1 - a" by simp
  then show ?thesis unfolding rango_redis_def Let_def assms using False by simp
qed (simp add: rango_redis_def Let_def assms)

lemma lrange_de_eq:
  assumes "en_i32 i" "en_i32 f" "l \<noteq> []" "length l < 2 ^ 31"
  shows "lrange_de p i f l = Devuelve (Vector (map BulkStr (rango_redis i f l)))"
proof -
  let ?n = "int (length l)"
  have n: "0 < ?n" "?n < 2 ^ 31" using assms by simp_all
  define A where "A = max 0 (if i < 0 then i + ?n else i)"
  define B where "B = min (?n - 1) (if f < 0 then f + ?n else f)"
  have inf: "obtener_indice_inferior p i ?n = Devuelve (if i \<ge> ?n then None else Some A)"
    using obtener_indice_inferior_eq [OF assms(1), of ?n] n unfolding A_def by simp
  have sup: "obtener_indice_superior p f ?n = Devuelve (if f + ?n < 0 then None else Some B)"
    using obtener_indice_superior_eq [OF assms(2), of ?n] n unfolding B_def by simp
  show ?thesis
  proof (cases "i \<ge> ?n \<or> f + ?n < 0")
    case True
    then have "B < A" using n unfolding A_def B_def by auto
    then have "rango_redis i f l = []" by (simp add: rango_redis_def A_def B_def)
    moreover have "obtener_intervalo p i f ?n = Devuelve None"
      using True by (auto simp: obtener_intervalo_def inf sup)
    ultimately show ?thesis using assms(4) by (simp add: lrange_de_def)
  next
    case False
    have A: "0 \<le> A" "A < 2 ^ 31" and B: "0 \<le> B" "B < ?n" using False n unfolding A_def B_def by auto
    have iv: "obtener_intervalo p i f ?n = Devuelve (Some (nat A, nat B))"
      using False A B n by (simp add: obtener_intervalo_def inf sup)
    have lt: "nat B < length l" using B by simp
    have rr: "rango_redis i f l = (if nat B < nat A then [] else take (nat B + 1 - nat A) (drop (nat A) l))"
      using A(1) B(1) by (intro rango_redis_nat) (simp_all flip: A_def B_def)
    show ?thesis by (simp only: lrange_de_intervalo [OF iv lt assms(4)] rr)
  qed
qed

text \<open>
  C17: \<open>LRANGE k i f\<close> on a non-empty list that \<open>i32\<close> can index gives exactly the interval of the Redis
  documentation, in both build profiles; it neither panics nor changes the database.
\<close>

theorem lrange_correcto:
  assumes "\<not> envenenado m" "parametros c = k # p # q # ps" "index c = 0"
    and "parse_i32 p = Some i" "parse_i32 q = Some f"
    and "vista e m k = Some (Lista l)" "l \<noteq> []" "length l < 2 ^ 31"
  shows "lrange e c m = (Devuelve (Vector (map BulkStr (rango_redis i f l))), m)"
  using assms lrange_de_eq [OF parse_i32_en_i32 [OF assms(4)] parse_i32_en_i32 [OF assms(5)] assms(7,8)]
  by (simp add: lrange_def leer_lista_presente)

lemma lrange_correcto_testigo:
  "fst (lrange (entorno_ejemplo 0 Debug) (orden ''LRANGE'' [''k'', ''-2'', ''7'']) (con_tabla [(''k'', Lista [''a'', ''b'', ''c''])])) =
   Devuelve (Vector [BulkStr ''b'', BulkStr ''c''])"
  using lrange_correcto [of "con_tabla [(''k'', Lista [''a'', ''b'', ''c''])]" "orden ''LRANGE'' [''k'', ''-2'', ''7'']"
      "''k''" "''-2''" "''7''" "[]" "-2" 7 "entorno_ejemplo 0 Debug" "[''a'', ''b'', ''c'']"]
  by (simp add: rust_simps rango_redis_def)

text \<open>
  C40: \<open>LPUSH k\<close> with no element stores an empty list, and \<open>LRANGE k i f\<close> with \<open>i\<close> negative and \<open>f\<close> not
  negative then overflows \<open>b + 1\<close>: a debug build panics, a release build answers the empty vector.
\<close>

theorem lrange_lista_vacia:
  assumes "\<not> envenenado m" "vista e m k = None" "parametros c = [k]" "parametros c' = [k, p, q]"
    and "parse_i32 p = Some i" "i < 0" "parse_i32 q = Some f" "0 \<le> f"
  shows "fst (lpush e c m) = Devuelve (RInt 0) \<and>
    vista e (snd (lpush e c m)) k = Some (Lista []) \<and>
    fst (lrange e c' (snd (lpush e c m))) =
      (case perfil_de e of Debug \<Rightarrow> Panico | Release \<Rightarrow> Devuelve (Vector []))"
proof -
  have "lista_en e m k = Some []" using assms(2) by (simp add: lista_en_def)
  from push_eq(1) [OF assms(1,3) this]
  have p: "lpush e c m = (Devuelve (RInt 0), m\<lparr>contenido := guardar_valor e k (Lista []) (contenido m)\<rparr>)" by simp
  have r: "en_i32 i" "en_i32 f" using assms(5,7) parse_i32_en_i32 by blast+
  have "obtener_intervalo (perfil_de e) i f 0 = Devuelve (Some (0, 2 ^ 64 - 1))"
    using assms(6,8) r obtener_indice_inferior_eq [of i 0] obtener_indice_superior_eq [of f 0]
    by (simp add: obtener_intervalo_def i32_como_usize_def)
  then have "lrange_de (perfil_de e) i f [] =
      (case perfil_de e of Debug \<Rightarrow> Panico | Release \<Rightarrow> Devuelve (Vector []))"
    by (simp add: lrange_de_def arit_usize_def rebanada_def split: perfil.split)
  then show ?thesis using p assms by (simp add: lrange_def leer_lista_def)
qed

lemma lrange_lista_vacia_testigo:
  "fst (lrange (entorno_ejemplo 0 Debug) (orden ''LRANGE'' [''k'', ''-1'', ''0''])
     (snd (lpush (entorno_ejemplo 0 Debug) (orden ''LPUSH'' [''k'']) (con_tabla [])))) = Panico"
  using lrange_lista_vacia [of "con_tabla []" "entorno_ejemplo 0 Debug" "''k''" "orden ''LPUSH'' [''k'']"
      "orden ''LRANGE'' [''k'', ''-1'', ''0'']" "''-1''" "''0''" "-1" 0]
  by (simp add: rust_simps)

lemma mod_negativo: "- n \<le> i \<Longrightarrow> i < 0 \<Longrightarrow> i mod n = n + i" for i n :: int
proof -
  assume "- n \<le> i" "i < 0"
  then have "(n + i) mod n = n + i" by (intro mod_pos_pos_trivial) simp_all
  then show ?thesis by simp
qed

lemma lrem_filtrar_nada: "i \<le> c \<Longrightarrow> lrem_filtrar x i l c f = (c, f @ l)"
  by (induction l arbitrary: f) auto

lemma lrem_filtrar_eq:
  "\<exists>j. lrem_filtrar x i l c f =
      (c + min (max 0 (i - c)) (int (count_list l x)), f @ filter (\<lambda>v. v \<noteq> x) (take j l) @ drop j l) \<and>
    int (count_list (take j l) x) = min (max 0 (i - c)) (int (count_list l x))"
proof (induction l arbitrary: c f)
  case Nil
  then show ?case by simp
next
  case (Cons v l)
  consider "i \<le> c" | "c < i" "v = x" | "c < i" "v \<noteq> x" by linarith
  then show ?case
  proof cases
    case 1
    then show ?thesis by (intro exI [of _ 0]) (simp add: lrem_filtrar_nada)
  next
    case 2
    obtain j where "lrem_filtrar x i l (c + 1) f =
        (c + 1 + min (max 0 (i - (c + 1))) (int (count_list l x)), f @ filter (\<lambda>v. v \<noteq> x) (take j l) @ drop j l)"
      "int (count_list (take j l) x) = min (max 0 (i - (c + 1))) (int (count_list l x))"
      using Cons by blast
    then show ?thesis using 2 by (intro exI [of _ "Suc j"]) auto
  next
    case 3
    obtain j where "lrem_filtrar x i l c (f @ [v]) =
        (c + min (max 0 (i - c)) (int (count_list l x)), (f @ [v]) @ filter (\<lambda>v. v \<noteq> x) (take j l) @ drop j l)"
      "int (count_list (take j l) x) = min (max 0 (i - c)) (int (count_list l x))"
      using Cons by blast
    then show ?thesis using 3 by (intro exI [of _ "Suc j"]) auto
  qed
qed

lemma lrem_de_eq:
  assumes "en_i32 i" "i \<noteq> - (2 ^ 31)"
  shows "\<exists>j l'. lrem_de p i x l = Devuelve (min \<bar>i\<bar> (int (count_list l x)), l') \<and>
    (if 0 \<le> i then l' = filter (\<lambda>v. v \<noteq> x) (take j l) @ drop j l \<and>
        int (count_list (take j l) x) = min \<bar>i\<bar> (int (count_list l x))
     else l' = take j l @ filter (\<lambda>v. v \<noteq> x) (drop j l) \<and>
        int (count_list (drop j l) x) = min \<bar>i\<bar> (int (count_list l x)))"
proof (cases "0 \<le> i")
  case True
  then show ?thesis using lrem_filtrar_eq [of x i l 0 "[]"] by (auto simp: lrem_de_def)
next
  case False
  then have i: "en_i32 (- i)" using assms by (simp add: en_i32_def)
  obtain j where j: "lrem_filtrar x (- i) (rev l) 0 [] =
      (min \<bar>i\<bar> (int (count_list l x)), filter (\<lambda>v. v \<noteq> x) (take j (rev l)) @ drop j (rev l))"
    "int (count_list (take j (rev l)) x) = min \<bar>i\<bar> (int (count_list l x))"
    using lrem_filtrar_eq [of x "- i" "rev l" 0 "[]"] False by auto
  then show ?thesis using False i
    by (intro exI [of _ "length l - j"])
      (simp add: lrem_de_def take_rev drop_rev flip: rev_filter)
qed

text \<open>
  C20: \<open>LREM k i x\<close> removes \<open>min |i| n\<close> of the \<open>n\<close> occurrences of \<open>x\<close>: the first ones for a positive
  count, the last ones for a negative count, with the other elements kept in order; a list
  that becomes empty removes the key. With the count \<open>0\<close> nothing is removed. The count
  \<open>i32::MIN\<close> is left out: its absolute value does not fit.
\<close>

theorem lrem_correcto:
  assumes "\<not> envenenado m" "parametros c = k # p # x # ps" "parse_i32 p = Some i" "i \<noteq> - (2 ^ 31)"
    and "vista e m k = Some (Lista l)"
  shows "fst (lrem e c m) = Devuelve (RInt (min \<bar>i\<bar> (int (count_list l x)))) \<and>
    (\<exists>j l'. vista e' (snd (lrem e c m)) = (vista e' m)(k := if l' = [] then None else Some (Lista l')) \<and>
      (if 0 \<le> i then l' = filter (\<lambda>v. v \<noteq> x) (take j l) @ drop j l \<and>
          int (count_list (take j l) x) = min \<bar>i\<bar> (int (count_list l x))
       else l' = take j l @ filter (\<lambda>v. v \<noteq> x) (drop j l) \<and>
          int (count_list (drop j l) x) = min \<bar>i\<bar> (int (count_list l x))))"
proof -
  obtain j l' where d: "lrem_de (perfil_de e) i x l = Devuelve (min \<bar>i\<bar> (int (count_list l x)), l')"
    and l': "if 0 \<le> i then l' = filter (\<lambda>v. v \<noteq> x) (take j l) @ drop j l \<and>
        int (count_list (take j l) x) = min \<bar>i\<bar> (int (count_list l x))
     else l' = take j l @ filter (\<lambda>v. v \<noteq> x) (drop j l) \<and>
        int (count_list (drop j l) x) = min \<bar>i\<bar> (int (count_list l x))"
    using lrem_de_eq [OF parse_i32_en_i32 [OF assms(3)] assms(4)] by blast
  have "lrem e c m = (Devuelve (RInt (min \<bar>i\<bar> (int (count_list l x)))), m\<lparr>contenido :=
      if l' \<noteq> [] then guardar_valor e k (Lista l') (contenido m) else snd (eliminar_clave e k (contenido m))\<rparr>)"
    using assms(1-3) leer_lista_presente [OF assms(1,5)] d by (simp add: lrem_def guardar_o_eliminar_eq)
  then show ?thesis using l' by (intro conjI exI [of _ j] exI [of _ l']) simp_all
qed

lemma lrem_correcto_testigo:
  "fst (lrem (entorno_ejemplo 0 Debug) (orden ''LREM'' [''k'', ''-1'', ''a'']) (con_tabla [(''k'', Lista [''a'', ''b'', ''a''])])) =
   Devuelve (RInt 1)"
  using lrem_correcto [of "con_tabla [(''k'', Lista [''a'', ''b'', ''a''])]" "orden ''LREM'' [''k'', ''-1'', ''a'']"
      "''k''" "''-1''" "''a''" "[]" "-1" "entorno_ejemplo 0 Debug" "[''a'', ''b'', ''a'']"]
  by (simp add: rust_simps)

text \<open>
  C32: \<open>LSET k i x\<close> inserts \<open>x\<close> before the element at the index (a negative index counts from the
  end) and keeps every element that was there, so the list grows by one; an index out of range is
  the error \<open>err_int\<close> and changes nothing.
\<close>

theorem lset_inserta:
  assumes "\<not> envenenado m" "parametros c = k # p # x # ps" "parse_i32 p = Some i"
    and "vista e m k = Some (Lista l)" "length l < 2 ^ 31"
  shows "if - int (length l) \<le> i \<and> i < int (length l)
    then fst (lset e c m) = Devuelve (StrSimple ''OK'') \<and>
      vista e' (snd (lset e c m)) =
        (vista e' m)(k \<mapsto> Lista (take (nat (i mod int (length l))) l @ x # drop (nat (i mod int (length l))) l))
    else lset e c m = (Devuelve err_int, m)"
proof -
  let ?n = "int (length l)"
  have i: "en_i32 i" by (rule parse_i32_en_i32 [OF assms(3)])
  have "lset_de (perfil_de e) i x l = Devuelve (if - ?n \<le> i \<and> i < ?n
      then Inr (take (nat (i mod ?n)) l @ x # drop (nat (i mod ?n)) l) else Inl err_int)"
  proof (cases "0 \<le> i")
    case True
    then show ?thesis using assms(5) i by (simp add: lset_de_def insertar_en_def en_i32_def nat_le_iff)
  next
    case False
    have "en_i32 (?n + i)" using False i assms(5) by (simp add: en_i32_def)
    moreover have "- ?n \<le> i \<Longrightarrow> i mod ?n = ?n + i"
      using False by (simp add: mod_negativo)
    ultimately show ?thesis using assms(5) False
      by (auto simp: lset_de_def insertar_en_def nat_le_iff i32_como_usize_nonneg)
  qed
  then show ?thesis using assms(1-3) leer_lista_presente [OF assms(1,4)]
    by (simp add: lset_def con_lock_ok)
qed

lemma lset_inserta_testigo:
  "vista (entorno_ejemplo 0 Debug) (snd (lset (entorno_ejemplo 0 Debug) (orden ''LSET'' [''k'', ''0'', ''x''])
     (con_tabla [(''k'', Lista [''a''])]))) ''k'' = Some (Lista [''x'', ''a''])"
  using lset_inserta [of "con_tabla [(''k'', Lista [''a''])]" "orden ''LSET'' [''k'', ''0'', ''x'']"
      "''k''" "''0''" "''x''" "[]" "0" "entorno_ejemplo 0 Debug" "[''a'']" "entorno_ejemplo 0 Debug"]
  by (simp add: rust_simps)

text \<open>
  C33: \<open>LINDEX k i\<close> gives the element at the index, a negative index counting from the end; out of
  range it answers the bulk string \<open>nil\<close> (three letters, not the null reply), and it never panics
  on a list that \<open>i32\<close> can index.
\<close>

theorem lindex_correcto:
  assumes "\<not> envenenado m" "parametros c = k # p # ps" "parse_i32 p = Some i"
    and "vista e m k = Some (Lista l)" "length l < 2 ^ 31"
  shows "lindex e c m = (Devuelve (BulkStr
    (if - int (length l) \<le> i \<and> i < int (length l) then l ! nat (i mod int (length l)) else ''nil'')), m)"
proof -
  let ?n = "int (length l)"
  have i: "en_i32 i" by (rule parse_i32_en_i32 [OF assms(3)])
  show ?thesis
  proof (cases "0 \<le> i")
    case True
    then show ?thesis using assms leer_lista_presente [OF assms(1,4)] i
      by (simp add: lindex_def indice_vec_def en_i32_def nat_less_iff)
  next
    case False
    have "en_i32 (?n + i)" using False i assms(5) by (simp add: en_i32_def)
    then show ?thesis using assms leer_lista_presente [OF assms(1,4)] False
      by (auto simp: lindex_def indice_vec_def nat_less_iff mod_negativo i32_como_usize_nonneg)
  qed
qed

lemma lindex_correcto_testigo:
  "fst (lindex (entorno_ejemplo 0 Debug) (orden ''LINDEX'' [''k'', ''-1'']) (con_tabla [(''k'', Lista [''a'', ''b''])])) =
   Devuelve (BulkStr ''b'')"
  using lindex_correcto [of "con_tabla [(''k'', Lista [''a'', ''b''])]" "orden ''LINDEX'' [''k'', ''-1'']"
      "''k''" "''-1''" "[]" "-1" "entorno_ejemplo 0 Debug" "[''a'', ''b'']"]
  by (simp add: rust_simps)

end
