(* ===== verification/Conjuntos.thy ===== *)
theory Conjuntos
  imports Manejador
begin

text \<open>\<open>comando_set_handler.rs\<close>: the commands on sets.\<close>

section \<open>The commands\<close>

definition es_comando_set :: "string \<Rightarrow> bool" where
  "es_comando_set comando =
     list_ex (\<lambda>c. c = comando) [''SADD'', ''SCARD'', ''SISMEMBER'', ''SMEMBERS'', ''SREM'']"

definition aggregar_paso ::
    "string \<Rightarrow> string list \<times> nat \<Rightarrow> resultado_redis + (string list \<times> nat)" where
  "aggregar_paso parametro s =
     (case s of (elems, cantidad_ingresada) \<Rightarrow>
        Inr (if parametro \<notin> set elems then (insertar_set parametro elems, cantidad_ingresada + 1)
             else (elems, cantidad_ingresada)))"

definition aggregar_al_set :: "comando_info \<Rightarrow> string list \<Rightarrow> resultado_redis + (string list \<times> nat)" where
  "aggregar_al_set comando elems = mientras_parametro aggregar_paso comando (elems, 0)"

definition sadd :: comando where
  "sadd e comando m =
     (case get_clave comando of
        (None, _) \<Rightarrow> (Devuelve (err_args ''sadd''), m)
      | (Some clave, comando') \<Rightarrow>
          con_lock m (\<lambda>b.
            (case (case obtener_valor e b clave of
                     Some (TSet elems) \<Rightarrow> aggregar_al_set comando' elems
                   | None \<Rightarrow> aggregar_al_set comando' []
                   | _ \<Rightarrow> Inl wrongtype) of
               Inl r \<Rightarrow> (Devuelve r, b)
             | Inr (a_agregar, cantidad_ingresada) \<Rightarrow>
                 (Devuelve (RInt (int cantidad_ingresada)), guardar_valor e clave (TSet a_agregar) b))) err_lock)"

definition scard :: comando where
  "scard e comando m =
     (case get_clave comando of
        (None, _) \<Rightarrow> (Devuelve (err_args ''scard''), m)
      | (Some clave, _) \<Rightarrow>
          con_lock m (\<lambda>b.
            (Devuelve (case obtener_valor e b clave of
                         Some (TSet elems) \<Rightarrow> RInt (int (length elems))
                       | None \<Rightarrow> RInt 0
                       | _ \<Rightarrow> wrongtype), b)) err_lock)"

definition sismember :: comando where
  "sismember e comando m =
     (case get_clave comando of
        (None, _) \<Rightarrow> (Devuelve (err_args ''scard''), m)
      | (Some clave, comando') \<Rightarrow>
          con_lock m (\<lambda>b.
            (Devuelve (case obtener_valor e b clave of
                         Some (TSet elems) \<Rightarrow>
                           (case get_parametro comando' of
                              (None, _) \<Rightarrow> wrongtype
                            | (Some parametro, _) \<Rightarrow> RInt (if parametro \<in> set elems then 1 else 0))
                       | None \<Rightarrow> RInt 0
                       | _ \<Rightarrow> wrongtype), b)) err_lock)"

definition smembers :: comando where
  "smembers e comando m =
     (case get_clave comando of
        (None, _) \<Rightarrow> (Devuelve (err_args ''smembers''), m)
      | (Some clave, _) \<Rightarrow>
          con_lock m (\<lambda>b.
            (Devuelve (case obtener_valor e b clave of
                         Some (TSet elems) \<Rightarrow> Vector (map BulkStr elems)
                       | None \<Rightarrow> Vector []
                       | _ \<Rightarrow> wrongtype), b)) err_lock)"

definition eliminar_paso ::
    "string \<Rightarrow> string list \<times> nat \<Rightarrow> resultado_redis + (string list \<times> nat)" where
  "eliminar_paso parametro s =
     (case s of (elems, cantidad_eliminada) \<Rightarrow>
        Inr (if parametro \<in> set elems then (remove1 parametro elems, cantidad_eliminada + 1)
             else (elems, cantidad_eliminada)))"

definition eliminar_del_set :: "comando_info \<Rightarrow> string list \<Rightarrow> resultado_redis + (string list \<times> nat)" where
  "eliminar_del_set comando elems = mientras_parametro eliminar_paso comando (elems, 0)"

definition srem :: comando where
  "srem e comando m =
     (case get_clave comando of
        (None, _) \<Rightarrow> (Devuelve (err_args ''srem''), m)
      | (Some clave, comando') \<Rightarrow>
          con_lock m (\<lambda>b.
            (case (case obtener_valor e b clave of
                     Some (TSet elems) \<Rightarrow> eliminar_del_set comando' elems
                   | None \<Rightarrow> Inl (RInt 0)
                   | _ \<Rightarrow> Inl wrongtype) of
               Inl r \<Rightarrow> (Devuelve r, b)
             | Inr (a_agregar, cantidad_eliminada) \<Rightarrow>
                 (Devuelve (RInt (int cantidad_eliminada)), guardar_valor e clave (TSet a_agregar) b))) err_lock)"

definition ejecutar_set :: comando where
  "ejecutar_set e comando =
     (if get_nombre comando = ''SADD'' then sadd e comando
      else if get_nombre comando = ''SCARD'' then scard e comando
      else if get_nombre comando = ''SISMEMBER'' then sismember e comando
      else if get_nombre comando = ''SMEMBERS'' then smembers e comando
      else srem e comando)"

section \<open>The loops\<close>

text \<open>Adding counts the new elements, removing counts the elements that were there.\<close>

lemma aggregar_al_set_eq:
  assumes "distinct elems"
  shows "\<exists>elems'. aggregar_al_set c elems = Inr (elems', card (set (pendientes c) - set elems)) \<and>
    distinct elems' \<and> set elems' = set elems \<union> set (pendientes c)"
proof -
  have "\<exists>elems'. recorrer aggregar_paso ps (elems, n) = Inr (elems', n + card (set ps - set elems)) \<and>
      distinct elems' \<and> set elems' = set elems \<union> set ps" if "distinct elems" for ps n elems
    using that
  proof (induction ps arbitrary: elems n)
    case Nil
    then show ?case by simp
  next
    case (Cons p ps)
    show ?case
    proof (cases "p \<in> set elems")
      case True
      then have "set (p # ps) - set elems = set ps - set elems" by auto
      then show ?thesis using Cons.IH [OF Cons.prems, of n] True by (auto simp: aggregar_paso_def)
    next
      case False
      have d: "set (p # ps) - set elems = insert p (set ps - insert p (set elems))"
        using False by auto
      have "card (set (p # ps) - set elems) = Suc (card (set ps - insert p (set elems)))"
        unfolding d by (rule card_insert_disjoint) simp_all
      then show ?thesis using Cons.IH [of "insertar_set p elems" "Suc n"] Cons.prems False
        by (auto simp: aggregar_paso_def)
    qed
  qed
  from this [OF assms, of "pendientes c" 0] show ?thesis
    by (simp add: aggregar_al_set_def mientras_parametro_eq)
qed

lemma eliminar_del_set_eq:
  assumes "distinct elems"
  shows "\<exists>elems'. eliminar_del_set c elems = Inr (elems', card (set (pendientes c) \<inter> set elems)) \<and>
    distinct elems' \<and> set elems' = set elems - set (pendientes c)"
proof -
  have "\<exists>elems'. recorrer eliminar_paso ps (elems, n) = Inr (elems', n + card (set ps \<inter> set elems)) \<and>
      distinct elems' \<and> set elems' = set elems - set ps" if "distinct elems" for ps n elems
    using that
  proof (induction ps arbitrary: elems n)
    case Nil
    then show ?case by simp
  next
    case (Cons p ps)
    show ?case
    proof (cases "p \<in> set elems")
      case True
      have d: "set (p # ps) \<inter> set elems = insert p (set ps \<inter> (set elems - {p}))"
        using True by auto
      have "card (set (p # ps) \<inter> set elems) = Suc (card (set ps \<inter> (set elems - {p})))"
        unfolding d by (rule card_insert_disjoint) simp_all
      then show ?thesis using Cons.IH [of "remove1 p elems" "Suc n"] Cons.prems True
        by (auto simp: eliminar_paso_def set_remove1_eq)
    next
      case False
      then have "set (p # ps) \<inter> set elems = set ps \<inter> set elems" by auto
      then show ?thesis using Cons.IH [OF Cons.prems, of n] False by (auto simp: eliminar_paso_def)
    qed
  qed
  from this [OF assms, of "pendientes c" 0] show ?thesis
    by (simp add: eliminar_del_set_def mientras_parametro_eq)
qed

section \<open>The contract\<close>

lemma scard_no_cambia: "snd (scard e c m) = m"
  by (auto simp: scard_def con_lock_def split: prod.splits option.splits)

lemma sismember_no_cambia: "snd (sismember e c m) = m"
  by (auto simp: sismember_def con_lock_def split: prod.splits option.splits)

lemma smembers_no_cambia: "snd (smembers e c m) = m"
  by (auto simp: smembers_def con_lock_def split: prod.splits option.splits)

interpretation scard: lector scard by unfold_locales (rule scard_no_cambia)
interpretation sismember: lector sismember by unfold_locales (rule sismember_no_cambia)
interpretation smembers: lector smembers by unfold_locales (rule smembers_no_cambia)

lemma aggregar_distinct: "aggregar_al_set c elems = Inr (elems', n) \<Longrightarrow> distinct elems \<Longrightarrow> distinct elems'"
  using aggregar_al_set_eq [of elems c] by auto

lemma eliminar_distinct: "eliminar_del_set c elems = Inr (elems', n) \<Longrightarrow> distinct elems \<Longrightarrow> distinct elems'"
  using eliminar_del_set_eq [of elems c] by auto

lemma sadd_paso: "paso_bien m (sadd e c m)"
  by (auto simp: sadd_def intro!: pasos guardar_valor_inv
      split: prod.splits option.splits sum.splits tipo_redis.splits)
    (metis obtener_valor_set aggregar_distinct distinct.simps(1))+

lemma srem_paso: "paso_bien m (srem e c m)"
  by (auto simp: srem_def intro!: pasos guardar_valor_inv
      split: prod.splits option.splits sum.splits tipo_redis.splits)
    (metis obtener_valor_set eliminar_distinct)

interpretation sadd: manejador sadd by (rule manejadorI) (rule sadd_paso)
interpretation srem: manejador srem by (rule manejadorI) (rule srem_paso)

lemma ejecutar_set_paso: "paso_bien m (ejecutar_set e c m)"
  by (simp add: ejecutar_set_def sadd_paso srem_paso scard.manejador_axioms
      sismember.manejador_axioms smembers.manejador_axioms manejador_paso)

interpretation conjuntos: manejador ejecutar_set by (rule manejadorI) (rule ejecutar_set_paso)

section \<open>Properties\<close>

text \<open>The set that a key shows; a missing key counts as the empty set.\<close>

definition conjunto_en :: "entorno \<Rightarrow> bdd_mutex \<Rightarrow> string \<Rightarrow> string set option" where
  "conjunto_en e m k = (case vista e m k of None \<Rightarrow> Some {} | Some (TSet xs) \<Rightarrow> Some (set xs) | _ \<Rightarrow> None)"

lemma sadd_eq:
  assumes "\<not> envenenado m" "bdd_mutex_inv m" "parametros c = k # ps" "conjunto_en e m k = Some A"
  shows "\<exists>xs. sadd e c m = (Devuelve (RInt (int (card (set ps - A)))),
      m\<lparr>contenido := guardar_valor e k (TSet xs) (contenido m)\<rparr>) \<and> distinct xs \<and> set xs = A \<union> set ps"
proof -
  obtain ys where ys: "distinct ys" "set ys = A"
    "vista e m k = None \<and> ys = [] \<or> vista e m k = Some (TSet ys)"
    using assms(2,4) obtener_valor_set [of "contenido m" e k]
    by (auto simp: conjunto_en_def mutex_inv_def split: option.splits tipo_redis.splits)
  obtain xs where "aggregar_al_set (c\<lparr>index := 1\<rparr>) ys = Inr (xs, card (set ps - A))" "distinct xs" "set xs = A \<union> set ps"
    using aggregar_al_set_eq [OF ys(1), of "c\<lparr>index := 1\<rparr>"] assms(3) ys(2) by auto
  then show ?thesis using assms(1,3) ys(3) by (intro exI [of _ xs]) (auto simp: sadd_def con_lock_ok)
qed

text \<open>
  C19: \<open>SADD k x\<^sub>1 \<dots> x\<^sub>n\<close> answers how many distinct arguments were not in the set and stores the union;
  afterwards \<open>SISMEMBER\<close>, \<open>SCARD\<close> and \<open>SMEMBERS\<close> answer membership in the union, its size, and each of
  its elements once, at any instant.
\<close>

theorem sadd_correcto:
  assumes "\<not> envenenado m" "bdd_mutex_inv m" "parametros c = k # ps" "conjunto_en e m k = Some A"
    and "parametros c' = k # x # qs"
  shows "fst (sadd e c m) = Devuelve (RInt (int (card (set ps - A)))) \<and>
    fst (sismember e' c' (snd (sadd e c m))) = Devuelve (RInt (if x \<in> A \<union> set ps then 1 else 0)) \<and>
    fst (scard e' c' (snd (sadd e c m))) = Devuelve (RInt (int (card (A \<union> set ps)))) \<and>
    (\<exists>xs. fst (smembers e' c' (snd (sadd e c m))) = Devuelve (Vector (map BulkStr xs)) \<and>
      distinct xs \<and> set xs = A \<union> set ps) \<and>
    (\<forall>k'. k' \<noteq> k \<longrightarrow> vista e' (snd (sadd e c m)) k' = vista e' m k')"
proof -
  obtain xs where xs: "sadd e c m = (Devuelve (RInt (int (card (set ps - A)))),
      m\<lparr>contenido := guardar_valor e k (TSet xs) (contenido m)\<rparr>)" "distinct xs" "set xs = A \<union> set ps"
    using sadd_eq [OF assms(1-4)] by blast
  have "length xs = card (A \<union> set ps)" using xs(2,3) distinct_card by metis
  then show ?thesis using xs assms(1,5)
    by (auto simp: sismember_def scard_def smembers_def con_lock_ok)
qed

lemma sadd_correcto_testigo:
  "fst (sadd (entorno_ejemplo 0 Debug) (orden ''SADD'' [''k'', ''a'', ''b'', ''b'']) (con_tabla [(''k'', TSet [''a''])])) =
   Devuelve (RInt 1)"
  using sadd_correcto [of "con_tabla [(''k'', TSet [''a''])]" "orden ''SADD'' [''k'', ''a'', ''b'', ''b'']" "''k''"
      "[''a'', ''b'', ''b'']" "entorno_ejemplo 0 Debug" "{''a''}" "orden ''SISMEMBER'' [''k'', ''z'']" "''z''" "[]"
      "entorno_ejemplo 0 Debug"]
  by (simp add: conjunto_en_def mutex_inv_def con_tabla_def bdd_new_con_def bdd_inv_def claves_distintas_def
      insert_Diff_if obtener_valor_def)

text \<open>
  C39: \<open>SREM k x\<^sub>1 \<dots> x\<^sub>n\<close> answers how many distinct arguments were in the set and stores the
  difference. The key stays, with the empty set, when every element is removed.
\<close>

theorem srem_correcto:
  assumes "\<not> envenenado m" "bdd_mutex_inv m" "parametros c = k # ps" "vista e m k = Some (TSet ys)"
  shows "fst (srem e c m) = Devuelve (RInt (int (card (set ps \<inter> set ys)))) \<and>
    (\<exists>xs. vista e' (snd (srem e c m)) = (vista e' m)(k \<mapsto> TSet xs) \<and> distinct xs \<and> set xs = set ys - set ps)"
proof -
  have "distinct ys" using assms(2,4) obtener_valor_set by (auto simp: mutex_inv_def)
  then obtain xs where xs: "eliminar_del_set (c\<lparr>index := 1\<rparr>) ys = Inr (xs, card (set ps \<inter> set ys))"
      "distinct xs" "set xs = set ys - set ps"
    using eliminar_del_set_eq [of ys "c\<lparr>index := 1\<rparr>"] assms(3) by auto
  then show ?thesis using assms by (simp add: srem_def con_lock_ok) (intro exI [of _ xs], simp)
qed

lemma srem_correcto_testigo:
  "fst (srem (entorno_ejemplo 0 Debug) (orden ''SREM'' [''k'', ''a'', ''z'', ''a'']) (con_tabla [(''k'', TSet [''a''])])) =
   Devuelve (RInt 1)"
  using srem_correcto [of "con_tabla [(''k'', TSet [''a''])]" "orden ''SREM'' [''k'', ''a'', ''z'', ''a'']" "''k''"
      "[''a'', ''z'', ''a'']" "entorno_ejemplo 0 Debug" "[''a'']"]
  by (simp add: mutex_inv_def con_tabla_def bdd_new_con_def bdd_inv_def claves_distintas_def
      insert_Diff_if obtener_valor_def)

end
