(* ===== verification/Claves.thy ===== *)
theory Claves
  imports Manejador
begin

text \<open>\<open>comando_key_handler.rs\<close>: the commands on keys, and \<open>SORT\<close>.\<close>

section \<open>Copying, renaming, removing\<close>

definition es_comando_key :: "string \<Rightarrow> bool" where
  "es_comando_key comando =
     list_ex (\<lambda>c. c = comando)
       [''COPY'', ''DEL'', ''EXISTS'', ''RENAME'', ''EXPIRE'', ''EXPIREAT'', ''PERSIST'', ''TTL'', ''TOUCH'', ''KEYS'',
        ''SORT'', ''TYPE'']"

definition copy :: comando where
  "copy e comando m =
     (case get_clave comando of
        (None, _) \<Rightarrow> (Devuelve (err_args ''copy''), m)
      | (Some clave, comando') \<Rightarrow>
          (case get_parametro comando' of
             (None, _) \<Rightarrow> (Devuelve (err_args ''copy''), m)
           | (Some parametro, _) \<Rightarrow>
               con_lock m (\<lambda>b.
                 (case copiar_valor e clave parametro b of
                    (Some _, b') \<Rightarrow> (Devuelve (RInt 1), b')
                  | (None, b') \<Rightarrow> (Devuelve (RInt 0), b'))) err_lock))"

definition tipo :: comando where
  "tipo e comando m =
     (case get_clave comando of
        (None, _) \<Rightarrow> (Devuelve (err_args ''type''), m)
      | (Some clave, _) \<Rightarrow>
          con_lock m (\<lambda>b.
            (Devuelve (case obtener_valor e b clave of
                         Some (Str _) \<Rightarrow> BulkStr ''string''
                       | Some (Lista _) \<Rightarrow> BulkStr ''lista''
                       | Some (TSet _) \<Rightarrow> BulkStr ''set''
                       | _ \<Rightarrow> BulkStr ''none''), b)) err_lock)"

text \<open>\<open>recorrer_y_ejecutar\<close> takes the lock once for every key.\<close>

definition recorrer_paso ::
    "entorno \<Rightarrow> (base_de_datos \<Rightarrow> string \<Rightarrow> base_de_datos) \<Rightarrow> string \<Rightarrow> bdd_mutex \<times> int \<Rightarrow>
     efecto + (bdd_mutex \<times> int)" where
  "recorrer_paso e funcion clave s =
     (case s of (m, claves_eliminadas) \<Rightarrow>
        (case con_lock m (\<lambda>b.
                if existe_clave e b clave then (Devuelve (Inr True), funcion b clave)
                else (Devuelve (Inr False), b)) (Inl err_lock) of
           (Panico, m') \<Rightarrow> Inl (Panico, m')
         | (Devuelve (Inl r), m') \<Rightarrow> Inl (Devuelve r, m')
         | (Devuelve (Inr existia), m') \<Rightarrow>
             Inr (m', if existia then claves_eliminadas + 1 else claves_eliminadas)))"

definition recorrer_y_ejecutar :: "(base_de_datos \<Rightarrow> string \<Rightarrow> base_de_datos) \<Rightarrow> comando" where
  "recorrer_y_ejecutar funcion e comando m =
     (case mientras_parametro (recorrer_paso e funcion) comando (m, 0) of
        Inl r \<Rightarrow> r
      | Inr (m', claves_eliminadas) \<Rightarrow> (Devuelve (RInt claves_eliminadas), m'))"

definition del :: comando where
  "del e comando m =
     recorrer_y_ejecutar (\<lambda>b clave. snd (eliminar_clave e clave b)) e comando m"

definition exists :: comando where
  "exists e comando m = recorrer_y_ejecutar (\<lambda>b _. b) e comando m"

text \<open>\<open>rename\<close> copies, and removes the old key unless the copy gave an error.\<close>

definition rename :: comando where
  "rename e comando m =
     (case get_clave comando of
        (None, _) \<Rightarrow> (Devuelve (err_args ''rename''), m)
      | (Some clave, comando') \<Rightarrow>
          (case copy e comando' m of
             (Panico, m') \<Rightarrow> (Panico, m')
           | (Devuelve (Error _), m') \<Rightarrow> (Devuelve (Error ''ERR no such key''), m')
           | (Devuelve _, m') \<Rightarrow>
               (case comando_info_new [''rename'', clave] of
                  Panico \<Rightarrow> (Panico, m')
                | Devuelve comando'' \<Rightarrow>
                    (case del e comando'' m' of
                       (Panico, m'') \<Rightarrow> (Panico, m'')
                     | (Devuelve _, m'') \<Rightarrow> (Devuelve (StrSimple ''Ok''), m'')))))"

section \<open>Expiry\<close>

definition expire :: comando where
  "expire e comando m =
     (case get_clave comando of
        (None, _) \<Rightarrow> (Devuelve (err_args ''expire''), m)
      | (Some clave, comando') \<Rightarrow>
          (case get_parametro comando' of
             (None, _) \<Rightarrow> (Devuelve (err_args ''expire''), m)
           | (Some p, _) \<Rightarrow>
               (case parse_u64 p of
                  None \<Rightarrow> (Devuelve err_int, m)
                | Some parametro \<Rightarrow>
                    con_lock m (\<lambda>b.
                      (case actualizar_valor_con_expiracion e clave parametro b of
                         (n, b') \<Rightarrow> (Devuelve (RInt (int n)), b'))) err_lock)))"

text \<open>
  \<open>UNIX_EPOCH + Duration::from_secs(parametro)\<close> panics when the seconds do not fit \<open>i64\<close>;
  \<open>duration_since\<close> is an error for a time in the past.
\<close>

definition expireat :: comando where
  "expireat e comando m =
     (case get_clave comando of
        (None, _) \<Rightarrow> (Devuelve (err_args ''expireat''), m)
      | (Some clave, comando') \<Rightarrow>
          (case get_parametro comando' of
             (None, _) \<Rightarrow> (Devuelve (err_args ''expireat''), m)
           | (Some p, _) \<Rightarrow>
               (case parse_u64 p of
                  None \<Rightarrow> (Devuelve err_int, m)
                | Some parametro \<Rightarrow>
                    if parametro \<ge> 2 ^ 63 then (Panico, m)
                    else if from_secs parametro < hora_sistema e
                    then (Devuelve (Error ''TimeError the time since epoch has already happened''), m)
                    else con_lock m (\<lambda>b.
                      (case actualizar_valor_con_expiracion e clave
                              (as_secs (from_secs parametro - hora_sistema e)) b of
                         (n, b') \<Rightarrow> (Devuelve (RInt (int n)), b'))) err_lock)))"

definition persist :: comando where
  "persist e comando m =
     (case get_clave comando of
        (None, _) \<Rightarrow> (Devuelve (err_args ''persist''), m)
      | (Some clave, _) \<Rightarrow>
          con_lock m (\<lambda>b.
            (case actualizar_valor_sin_expiracion clave b of
               (n, b') \<Rightarrow> (Devuelve (RInt (int n)), b'))) err_lock)"

definition ttl :: comando where
  "ttl e comando m =
     (case get_clave comando of
        (None, _) \<Rightarrow> (Devuelve (err_args ''ttl''), m)
      | (Some clave, _) \<Rightarrow>
          con_lock m (\<lambda>b. (Devuelve (RInt (obtener_expiracion b clave)), b)) err_lock)"

definition touch_paso ::
    "entorno \<Rightarrow> string \<Rightarrow> base_de_datos \<times> int \<Rightarrow> resultado_redis + (base_de_datos \<times> int)" where
  "touch_paso e clave s =
     (case s of (b, acum) \<Rightarrow>
        (case actualizar_ultimo_acceso e clave b of (n, b') \<Rightarrow> Inr (b', acum + n)))"

definition touch :: comando where
  "touch e comando m =
     con_lock m (\<lambda>b.
       (case mientras_parametro (touch_paso e) comando (b, 0) of
          Inl r \<Rightarrow> (Devuelve r, b)
        | Inr (b', acum) \<Rightarrow> (Devuelve (RInt acum), b'))) err_lock"

definition keys :: comando where
  "keys e comando m =
     (case get_parametro comando of
        (None, _) \<Rightarrow> (Devuelve (err_args ''keys''), m)
      | (Some re, _) \<Rightarrow>
          (case leer_lock m (\<lambda>b. Inr (claves e b re)) err_lock of
             Inl r \<Rightarrow> (Devuelve r, m)
           | Inr vector \<Rightarrow> (Devuelve (Vector (map BulkStr vector)), m)))"

section \<open>Sorting\<close>

definition es_parseable :: "string \<Rightarrow> bool" where
  "es_parseable num \<longleftrightarrow> parse_i32 num \<noteq> None"

fun tiene_solo_valores_numericos :: "string list \<Rightarrow> bool" where
  "tiene_solo_valores_numericos [] = True"
| "tiene_solo_valores_numericos (v # vs) =
     (if \<not> es_parseable v then False else tiene_solo_valores_numericos vs)"

definition rebanada_inclusiva :: "'a list \<Rightarrow> nat \<Rightarrow> nat \<Rightarrow> 'a list salida" where
  "rebanada_inclusiva xs a b =
     (if a \<le> b + 1 \<and> b + 1 \<le> length xs then Devuelve (take (b + 1 - a) (drop a xs)) else Panico)"

definition selecionar_rango :: "perfil \<Rightarrow> string list \<Rightarrow> string list \<Rightarrow> string list option salida" where
  "selecionar_rango p ps valores =
     (let rango = filter es_parseable ps
      in luego (indice_vec rango 0) (\<lambda>r0.
         (case parse_i32 r0 of
            None \<Rightarrow> Devuelve None
          | Some offset \<Rightarrow>
              luego (indice_vec rango 1) (\<lambda>r1.
              (case parse_i32 r1 of
                 None \<Rightarrow> Devuelve None
               | Some cuenta \<Rightarrow>
                   luego (arit_usize p (int (length valores) - 1)) (\<lambda>index_max.
                   if cuenta = 0 then Devuelve (Some [])
                   else (let largo = usize_como_i32 (length valores);
                             index_min = (if 0 \<le> offset \<and> offset < largo then i32_como_usize offset else 0)
                         in luego (if 0 \<le> cuenta
                                   then luego (arit_i32 p (largo - offset)) (\<lambda>resta.
                                          if cuenta < resta
                                          then luego (arit_usize p (int (i32_como_usize cuenta) + int (i32_como_usize offset)))
                                                 (\<lambda>s. arit_usize p (int s - 1))
                                          else Devuelve index_max)
                                   else Devuelve index_max) (\<lambda>index_max'.
                              luego (rebanada_inclusiva valores index_min index_max') (\<lambda>r.
                                Devuelve (Some r))))))))))"

definition sort_configuracion_lista_ordenada ::
    "entorno \<Rightarrow> string list \<Rightarrow> string list \<Rightarrow> bdd_mutex \<Rightarrow> efecto" where
  "sort_configuracion_lista_ordenada e ps valores m =
     (let valores = (if ''DESC'' \<in> set ps then rev valores else valores)
      in (case (if ''LIMIT'' \<in> set ps then selecionar_rango (perfil_de e) ps valores
                else Devuelve (Some valores)) of
            Panico \<Rightarrow> (Panico, m)
          | Devuelve None \<Rightarrow> (Devuelve (Error ''ERR syntax error''), m)
          | Devuelve (Some valores) \<Rightarrow>
              if ''STORE'' \<in> set ps then
                (case indice_vec (rsplit_primero (\<lambda>p. p = ''STORE'') ps) 0 of
                   Panico \<Rightarrow> (Panico, m)
                 | Devuelve clave \<Rightarrow>
                     con_lock m (\<lambda>b.
                       (Devuelve (StrSimple (show_nat (length valores))),
                        guardar_valor e clave (Lista valores) b)) err_lock)
              else (Devuelve (Vector (map StrSimple valores)), m)))"

definition sort_elemento_con_pesos_interno ::
    "entorno \<Rightarrow> string list \<Rightarrow> string list \<Rightarrow> bdd_mutex \<Rightarrow> efecto" where
  "sort_elemento_con_pesos_interno e valores ps m =
     (if ''ALPHA'' \<notin> set ps \<and> \<not> tiene_solo_valores_numericos valores
      then (Devuelve (Error (''ERR One or more scores can'' @ [CHR 0x27] @ ''t be converted into double'')), m)
      else sort_configuracion_lista_ordenada e ps (sort valores) m)"

text \<open>The two nested loops of \<open>obetener_tupla_valor_peso\<close>; \<open>None\<close> is the early return.\<close>

definition ultima_parte :: "string \<Rightarrow> string" where
  "ultima_parte s = rsplit_primero (\<lambda>c. c = CHR ''_'') s"

fun tuplas_de_valor ::
    "entorno \<Rightarrow> bdd_mutex \<Rightarrow> string \<Rightarrow> string list \<Rightarrow> (string \<times> string) list \<Rightarrow> (string \<times> string) list option" where
  "tuplas_de_valor e m v [] tuplas = Some tuplas"
| "tuplas_de_valor e m v (peso # pesos) tuplas =
     (if ultima_parte peso = ultima_parte v
      then (if envenenado m then None
            else (case obtener_valor e (contenido m) peso of
                    Some (Str w) \<Rightarrow> tuplas_de_valor e m v pesos (tuplas @ [(v, w)])
                  | _ \<Rightarrow> None))
      else tuplas_de_valor e m v pesos tuplas)"

fun obetener_tupla_valor_peso ::
    "entorno \<Rightarrow> bdd_mutex \<Rightarrow> string list \<Rightarrow> string list \<Rightarrow> (string \<times> string) list \<Rightarrow> (string \<times> string) list option" where
  "obetener_tupla_valor_peso e m [] pesos tuplas = Some tuplas"
| "obetener_tupla_valor_peso e m (v # vs) pesos tuplas =
     (case tuplas_de_valor e m v pesos tuplas of
        None \<Rightarrow> None
      | Some tuplas' \<Rightarrow> obetener_tupla_valor_peso e m vs pesos tuplas')"

text \<open>The loops of the \<open>GET\<close> option; the flag \<open>pusheado\<close> is never reset.\<close>

fun objetos_de_valor ::
    "entorno \<Rightarrow> bdd_mutex \<Rightarrow> string \<Rightarrow> string list \<Rightarrow> bool \<times> resultado_redis list \<Rightarrow>
     resultado_redis + (bool \<times> resultado_redis list)" where
  "objetos_de_valor e m v [] s = Inr s"
| "objetos_de_valor e m v (objeto # objetos) (pusheado, res) =
     (if contiene_str v objeto
      then (case leer_lock m (\<lambda>b.
              Inr (case obtener_valor e b objeto of
                     Some (Str w) \<Rightarrow> (True, res @ [StrSimple w])
                   | _ \<Rightarrow> (pusheado, res))) err_lock of
              Inl r \<Rightarrow> Inl r
            | Inr s' \<Rightarrow> objetos_de_valor e m v objetos s')
      else objetos_de_valor e m v objetos (pusheado, res))"

fun objetos_de_tuplas ::
    "entorno \<Rightarrow> bdd_mutex \<Rightarrow> string list \<Rightarrow> (string \<times> string) list \<Rightarrow> bool \<times> resultado_redis list \<Rightarrow>
     resultado_redis + resultado_redis list" where
  "objetos_de_tuplas e m objetos [] (pusheado, res) = Inr res"
| "objetos_de_tuplas e m objetos (v # tuplas) (pusheado, res) =
     (case objetos_de_valor e m (fst v) objetos (pusheado, res) of
        Inl r \<Rightarrow> Inl r
      | Inr (pusheado', res') \<Rightarrow>
          objetos_de_tuplas e m objetos tuplas
            (pusheado', if \<not> pusheado' then res' @ [RNil] else res'))"

definition sort_elemento_con_pesos_externos ::
    "entorno \<Rightarrow> string list \<Rightarrow> string list \<Rightarrow> bdd_mutex \<Rightarrow> efecto" where
  "sort_elemento_con_pesos_externos e valores ps m =
     (case indice_vec (rsplit_primero (\<lambda>p. p = ''BY'') ps) 0 of
        Panico \<Rightarrow> (Panico, m)
      | Devuelve patron_pesos \<Rightarrow>
     (case leer_lock m (\<lambda>b. Inr (claves e b patron_pesos)) err_lock of
        Inl r \<Rightarrow> (Devuelve r, m)
      | Inr pesos \<Rightarrow>
      if length pesos \<noteq> length valores then (Devuelve (Vector (map StrSimple valores)), m)
      else
     (case obetener_tupla_valor_peso e m valores pesos [] of
        None \<Rightarrow> (Devuelve (Error ''ERR syntax error''), m)
      | Some tuplas \<Rightarrow>
          (let tuplas = sort_key snd tuplas
           in if ''GET'' \<in> set ps then
                (case indice_vec (rsplit_primero (\<lambda>p. p = ''GET'') ps) 0 of
                   Panico \<Rightarrow> (Panico, m)
                 | Devuelve patron_obj \<Rightarrow>
                     (case leer_lock m (\<lambda>b. Inr (claves e b patron_obj)) err_lock of
                        Inl r \<Rightarrow> (Devuelve r, m)
                      | Inr objetos \<Rightarrow>
                          (case objetos_de_tuplas e m objetos tuplas (False, []) of
                             Inl r \<Rightarrow> (Devuelve r, m)
                           | Inr res \<Rightarrow> (Devuelve (Vector res), m))))
              else sort_configuracion_lista_ordenada e ps (map fst tuplas) m))))"

definition sort_cmd :: comando where
  "sort_cmd e comando m =
     (case get_parametros comando of
        None \<Rightarrow> (Devuelve (err_args ''sort''), m)
      | Some ps \<Rightarrow>
          (case leer_lock m (\<lambda>b.
             (case obtener_valor e b (ps ! 0) of
                Some (Lista lista) \<Rightarrow> Inr lista
              | Some (TSet elems) \<Rightarrow> Inr elems
              | None \<Rightarrow> Inl (Vector [])
              | _ \<Rightarrow> Inl wrongtype)) (Error ''ERR when accessing the databases'') of
             Inl r \<Rightarrow> (Devuelve r, m)
           | Inr valores \<Rightarrow>
               if valores = [] then (Devuelve (Vector []), m)
               else if ''BY'' \<in> set ps then sort_elemento_con_pesos_externos e valores ps m
               else sort_elemento_con_pesos_interno e valores ps m))"

definition ejecutar_key :: comando where
  "ejecutar_key e comando =
     (if get_nombre comando = ''COPY'' then copy e comando
      else if get_nombre comando = ''DEL'' then del e comando
      else if get_nombre comando = ''EXISTS'' then exists e comando
      else if get_nombre comando = ''RENAME'' then rename e comando
      else if get_nombre comando = ''EXPIRE'' then expire e comando
      else if get_nombre comando = ''EXPIREAT'' then expireat e comando
      else if get_nombre comando = ''PERSIST'' then persist e comando
      else if get_nombre comando = ''TTL'' then ttl e comando
      else if get_nombre comando = ''TOUCH'' then touch e comando
      else if get_nombre comando = ''KEYS'' then keys e comando
      else if get_nombre comando = ''SORT'' then sort_cmd e comando
      else tipo e comando)"

section \<open>The contract\<close>

lemma tipo_no_cambia: "snd (tipo e c m) = m"
  by (auto simp: tipo_def con_lock_def split: prod.splits option.splits)

lemma ttl_no_cambia: "snd (ttl e c m) = m"
  by (auto simp: ttl_def con_lock_def split: prod.splits option.splits)

lemma keys_no_cambia: "snd (keys e c m) = m"
  by (simp add: keys_def split: prod.splits option.splits sum.splits)

interpretation tipo: lector tipo by unfold_locales (rule tipo_no_cambia)
interpretation ttl: lector ttl by unfold_locales (rule ttl_no_cambia)
interpretation keys: lector keys by unfold_locales (rule keys_no_cambia)

lemma copy_paso: "paso_bien m (copy e c m)"
proof -
  have "bdd_inv (snd (case copiar_valor e k p b of
      (Some _, b') \<Rightarrow> (Devuelve (RInt 1), b') | (None, b') \<Rightarrow> (Devuelve (RInt 0), b')))"
    if "bdd_inv b" for k p b
    using copiar_valor_inv [OF that, of e k p] by (auto split: prod.splits option.splits)
  then show ?thesis by (auto simp: copy_def intro!: pasos split: prod.splits option.splits)
qed

lemma recorrer_y_ejecutar_paso:
  assumes "\<And>b k. bdd_inv b \<Longrightarrow> bdd_inv (f b k)"
  shows "paso_bien m (recorrer_y_ejecutar f e c m)"
proof -
  have uno: "paso_bien m0 (con_lock m0 (\<lambda>b. if existe_clave e b k then (Devuelve (Inr True), f b k)
      else (Devuelve (Inr False), b)) (Inl err_lock))" for m0 k
    using assms by (auto intro!: paso_con_lock)
  have p: "paso_bien m (Devuelve (), m0) \<Longrightarrow> recorrer_paso e f k (m0, n) = Inr (m1, n1) \<Longrightarrow>
      paso_bien m (Devuelve (), m1)" for m0 n m1 n1 k
    using uno [of m0 k]
    by (auto simp: recorrer_paso_def paso_bien_def split: prod.splits salida.splits sum.splits)
  have q: "paso_bien m (Devuelve (), m0) \<Longrightarrow> recorrer_paso e f k (m0, n) = Inl r \<Longrightarrow> paso_bien m r"
    for m0 n k r
    using uno [of m0 k]
    by (auto simp: recorrer_paso_def paso_bien_def split: prod.splits salida.splits sum.splits)
  have "paso_bien m (Devuelve (), fst s)"
    if "recorrer (recorrer_paso e f) ps (m, 0) = Inr s" for ps s
    by (rule recorrer_inv [where P = "\<lambda>s. paso_bien m (Devuelve (), fst s)", OF _ _ that])
      (auto simp: paso_sin_cambio intro: p)
  moreover have "paso_bien m r" if "recorrer (recorrer_paso e f) ps (m, 0) = Inl r" for ps r
    by (rule recorrer_inv_salida [where P = "\<lambda>s. paso_bien m (Devuelve (), fst s)", OF _ _ _ that])
      (auto simp: paso_sin_cambio intro: p q)
  ultimately show ?thesis
    by (fastforce simp: recorrer_y_ejecutar_def mientras_parametro_eq paso_bien_def split: sum.splits)
qed

lemma del_paso: "paso_bien m (del e c m)"
  unfolding del_def by (rule recorrer_y_ejecutar_paso) (rule eliminar_clave_inv)

lemma exists_paso: "paso_bien m (exists e c m)"
  unfolding exists_def by (rule recorrer_y_ejecutar_paso)

lemma rename_paso: "paso_bien m (rename e c m)"
proof -
  have c: "copy e c0 m = (Devuelve r, m') \<Longrightarrow> paso_bien m (Devuelve r, m')"
    "copy e c0 m = (Panico, m') \<Longrightarrow> paso_bien m (Panico :: resultado_redis salida, m')" for c0 r m'
    using copy_paso [of m e c0] by simp_all
  have d: "del e c1 m' = (Devuelve r, m'') \<Longrightarrow> paso_bien m' (Devuelve r, m'')"
    "del e c1 m' = (Panico, m'') \<Longrightarrow> paso_bien m' (Panico :: resultado_redis salida, m'')" for c1 m' r m''
    using del_paso [of m' e c1] by simp_all
  show ?thesis
    by (auto simp: rename_def intro: paso_sin_cambio
        split: prod.splits option.splits salida.splits resultado_redis.splits dest!: c d)
      (auto simp: paso_bien_def)
qed

lemma expire_paso: "paso_bien m (expire e c m)"
proof -
  have "n < 2 ^ 64" if "parse_u64 p = Some n" for p n using parse_unsigned_le [OF that] by simp
  then show ?thesis
    by (auto simp: expire_def split_def intro!: pasos actualizar_con_expiracion_inv split: option.splits)
qed

lemma expireat_paso: "paso_bien m (expireat e c m)"
proof -
  have "as_secs (from_secs n - h) < 2 ^ 64" if "\<not> 2 ^ 63 \<le> n" for n h
  proof -
    have "as_secs (from_secs n - h) \<le> as_secs (from_secs n)"
      unfolding as_secs_def by (rule div_le_mono) simp
    then show ?thesis using that by simp
  qed
  then show ?thesis
    by (auto simp: expireat_def split_def intro!: pasos actualizar_con_expiracion_inv split: option.splits)
qed

lemma persist_paso: "paso_bien m (persist e c m)"
  by (auto simp: persist_def split_def intro!: pasos actualizar_sin_expiracion_inv split: option.splits)

lemma touch_paso_bien: "paso_bien m (touch e c m)"
proof -
  have "bdd_inv (fst s)" if "bdd_inv b" and "recorrer (touch_paso e) ps (b, 0) = Inr s" for b ps s
    by (rule recorrer_inv [where P = "\<lambda>s. bdd_inv (fst s)", OF _ _ that(2)])
      (auto simp: that(1) touch_paso_def split_def actualizar_ultimo_acceso_inv)
  then show ?thesis
    by (fastforce simp: touch_def mientras_parametro_eq intro!: pasos split: sum.splits)
qed

lemma sort_configuracion_paso: "paso_bien m (sort_configuracion_lista_ordenada e ps vs m)"
  by (auto simp: sort_configuracion_lista_ordenada_def Let_def intro!: pasos guardar_valor_inv
      split: option.splits salida.splits)

lemma sort_cmd_paso: "paso_bien m (sort_cmd e c m)"
proof -
  have "paso_bien m (sort_elemento_con_pesos_externos e vs ps m)" for vs ps
    by (auto simp: sort_elemento_con_pesos_externos_def Let_def intro!: paso_sin_cambio
        sort_configuracion_paso split: option.splits salida.splits sum.splits)
  moreover have "paso_bien m (sort_elemento_con_pesos_interno e vs ps m)" for vs ps
    by (simp add: sort_elemento_con_pesos_interno_def paso_sin_cambio sort_configuracion_paso)
  ultimately show ?thesis
    by (simp add: sort_cmd_def paso_sin_cambio split: option.split sum.split)
qed

interpretation copy: manejador copy by (rule manejadorI) (rule copy_paso)
interpretation del: manejador del by (rule manejadorI) (rule del_paso)
interpretation rename: manejador rename by (rule manejadorI) (rule rename_paso)
interpretation sort_cmd: manejador sort_cmd by (rule manejadorI) (rule sort_cmd_paso)

lemma ejecutar_key_paso: "paso_bien m (ejecutar_key e c m)"
  by (simp add: ejecutar_key_def copy_paso del_paso exists_paso rename_paso expire_paso expireat_paso
      persist_paso touch_paso_bien sort_cmd_paso tipo.manejador_axioms ttl.manejador_axioms
      keys.manejador_axioms manejador_paso)

interpretation llaves: manejador ejecutar_key by (rule manejadorI) (rule ejecutar_key_paso)

section \<open>Properties\<close>

abbreviation borrar_contando :: "entorno \<Rightarrow> string list \<Rightarrow> nat \<times> base_de_datos \<Rightarrow> nat \<times> base_de_datos" where
  "borrar_contando e \<equiv> fold (\<lambda>k (n, b). if obtener_valor e b k \<noteq> None
     then (n + 1, snd (eliminar_clave e k b)) else (n, b))"

lemma del_recorrer:
  "\<not> envenenado m \<Longrightarrow> recorrer (recorrer_paso e (\<lambda>b k. snd (eliminar_clave e k b))) ks (m, int n) =
    Inr (m\<lparr>contenido := snd (borrar_contando e ks (n, contenido m))\<rparr>, int (fst (borrar_contando e ks (n, contenido m))))"
proof (induction ks arbitrary: m n)
  case Nil
  then show ?case by simp
next
  case (Cons k ks)
  show ?case
  proof (cases "vista e m k")
    case None
    then show ?thesis using Cons by (simp add: recorrer_paso_def con_lock_ok existe_clave_iff)
  next
    case (Some v)
    let ?m = "m\<lparr>contenido := snd (eliminar_clave e k (contenido m))\<rparr>"
    show ?thesis using Cons(1) [of ?m "n + 1"] Cons(2) Some
      by (simp add: recorrer_paso_def con_lock_ok existe_clave_iff add.commute)
  qed
qed

lemma del_eq:
  assumes "\<not> envenenado m" "index c = 0"
  shows "\<exists>b. del e c m = (Devuelve (RInt (int (card (set (parametros c) \<inter> dom (vista e m))))), m\<lparr>contenido := b\<rparr>) \<and>
    obtener_valor e b = vista e m |` (- set (parametros c))"
proof -
  obtain n b where nb: "borrar_contando e (parametros c) (0, contenido m) = (n, b)" by force
  from bdd.eliminar_contando [OF nb] have "n = card (set (parametros c) \<inter> dom (vista e m))"
    "obtener_valor e b = vista e m |` (- set (parametros c))" by simp_all
  moreover have "del e c m = (Devuelve (RInt (int n)), m\<lparr>contenido := b\<rparr>)"
    using del_recorrer [OF assms(1), of e "parametros c" 0] nb assms(2)
    by (simp add: del_def recorrer_y_ejecutar_def mientras_parametro_eq)
  ultimately show ?thesis by blast
qed

lemma exists_recorrer:
  "\<not> envenenado m \<Longrightarrow> recorrer (recorrer_paso e (\<lambda>b _. b)) ks (m, n) =
    Inr (m, n + int (length (filter (\<lambda>k. vista e m k \<noteq> None) ks)))"
  by (induction ks arbitrary: n) (auto simp: recorrer_paso_def con_lock_ok existe_clave_iff)

lemma exists_eq:
  assumes "\<not> envenenado m" "index c = 0"
  shows "exists e c m = (Devuelve (RInt (int (length (filter (\<lambda>k. vista e m k \<noteq> None) (parametros c))))), m)"
  using exists_recorrer [OF assms(1), of e "parametros c" 0] assms(2)
  by (simp add: exists_def recorrer_y_ejecutar_def mientras_parametro_eq)

text \<open>
  C18: \<open>DEL k\<^sub>1 \<dots> k\<^sub>n\<close> answers how many distinct keys among its arguments held a value, and removes
  them all; the other keys are as they were, and \<open>EXISTS\<close> of the same arguments, which before counted
  the arguments that held a value (a repeated key as often as it is repeated), then answers 0.
\<close>

theorem del_correcto:
  assumes "\<not> envenenado m" "index c = 0"
  shows "fst (del e c m) = Devuelve (RInt (int (card (set (parametros c) \<inter> dom (vista e m))))) \<and>
    vista e (snd (del e c m)) = vista e m |` (- set (parametros c)) \<and>
    exists e c m = (Devuelve (RInt (int (length (filter (\<lambda>k. vista e m k \<noteq> None) (parametros c))))), m) \<and>
    exists e c (snd (del e c m)) = (Devuelve (RInt 0), snd (del e c m))"
proof -
  obtain b where b: "del e c m = (Devuelve (RInt (int (card (set (parametros c) \<inter> dom (vista e m))))), m\<lparr>contenido := b\<rparr>)"
    "obtener_valor e b = vista e m |` (- set (parametros c))"
    using del_eq [OF assms, of e] by blast
  have "filter (\<lambda>k. (vista e m |` (- set (parametros c))) k \<noteq> None) (parametros c) = []"
    by (auto simp: filter_empty_conv restrict_map_def)
  then show ?thesis using b exists_eq [OF assms] exists_eq [of "m\<lparr>contenido := b\<rparr>" c e] assms by simp
qed

lemma del_correcto_testigo:
  "fst (del (entorno_ejemplo 0 Debug) (orden ''DEL'' [''a'', ''z'', ''a'']) (con_tabla [(''a'', Str ''1''), (''b'', Str ''2'')])) =
   Devuelve (RInt 1)"
proof -
  have "{''a'', ''z'', ''a''} \<inter> dom (vista (entorno_ejemplo 0 Debug) (con_tabla [(''a'', Str ''1''), (''b'', Str ''2'')])) = {''a''}"
    by (auto simp: dom_def)
  then show ?thesis
    using del_correcto [of "con_tabla [(''a'', Str ''1''), (''b'', Str ''2'')]" "orden ''DEL'' [''a'', ''z'', ''a'']"
        "entorno_ejemplo 0 Debug"] by simp
qed

text \<open>
  C24: \<open>RENAME k k'\<close> always answers \<open>Ok\<close>. With a value under \<open>k\<close> it goes to \<open>k'\<close> and \<open>k\<close> is removed, so
  that renaming a key to itself removes it; without a value nothing changes.
\<close>

theorem rename_correcto:
  assumes "\<not> envenenado m" "parametros c = k # k' # ps"
  shows "fst (rename e c m) = Devuelve (StrSimple ''Ok'') \<and>
    vista e (snd (rename e c m)) =
      (case vista e m k of
         None \<Rightarrow> vista e m
       | Some v \<Rightarrow> (vista e m)(k' \<mapsto> clone_tipo (duplicable e) v, k := None))"
proof -
  define m1 where "m1 = snd (copy e (c\<lparr>index := 1\<rparr>) m)"
  have cp: "copy e (c\<lparr>index := 1\<rparr>) m = (Devuelve (RInt (if vista e m k = None then 0 else 1)), m1)"
    and v1: "vista e m1 = (case vista e m k of None \<Rightarrow> vista e m
      | Some v \<Rightarrow> (vista e m)(k' \<mapsto> clone_tipo (duplicable e) v))"
    and e1: "\<not> envenenado m1"
    using assms by (auto simp: m1_def copy_def con_lock_ok copiar_valor_def split: option.splits)
  obtain b n where d: "del e (orden (to_uppercase ''rename'') [k]) m1 = (Devuelve (RInt n), m1\<lparr>contenido := b\<rparr>)"
    "obtener_valor e b = vista e m1 |` (- {k})"
    using del_eq [OF e1, of "orden (to_uppercase ''rename'') [k]" e] by auto
  have "rename e c m = (Devuelve (StrSimple ''Ok''), m1\<lparr>contenido := b\<rparr>)"
    using assms(2) cp d(1) by (simp add: rename_def)
  then show ?thesis using d(2) v1
    by (auto simp: restrict_map_def fun_eq_iff split: option.splits)
qed

lemma rename_correcto_testigo:
  "vista (entorno_ejemplo 0 Debug) (snd (rename (entorno_ejemplo 0 Debug) (orden ''RENAME'' [''a'', ''a''])
     (con_tabla [(''a'', Str ''1'')]))) ''a'' = None"
  using rename_correcto [of "con_tabla [(''a'', Str ''1'')]" "orden ''RENAME'' [''a'', ''a'']" "''a''" "''a''" "[]"
      "entorno_ejemplo 0 Debug"] by simp

text \<open>
  C23: \<open>EXPIRE k n\<close> on a key of the table, even one that had expired: it answers 1, the value shows
  (again) for exactly \<open>n\<close> seconds, and \<open>TTL k\<close> answers the whole lifetime \<open>n\<close>, read as a signed 64-bit
  number, at every later instant, also when the key has expired. The observers are not notified.
\<close>

theorem expire_ttl:
  assumes "\<not> envenenado m" "parametros c = k # p # ps" "parse_u64 p = Some n"
    and "map_of (hashmap (contenido m)) k = Some v" "parametros c' = k # qs"
  shows "fst (expire e c m) = Devuelve (RInt 1) \<and>
    vista e' (snd (expire e c m)) =
      (vista e' m)(k := if ahora e' - ahora e < from_secs n then Some (valor_de v) else None) \<and>
    fst (ttl e' c' (snd (expire e c m))) = Devuelve (RInt (if n < 2 ^ 63 then int n else int n - 2 ^ 64)) \<and>
    observadores (contenido (snd (expire e c m))) = observadores (contenido m)"
proof -
  let ?b = "contenido m\<lparr>hashmap := AList.map_entry k (actualizar_expiracion (ahora e) n) (hashmap (contenido m))\<rparr>"
  have "expire e c m = (Devuelve (RInt 1), m\<lparr>contenido := ?b\<rparr>)"
    using assms by (simp add: expire_def con_lock_ok actualizar_valor_con_expiracion_def)
  moreover have "map_of (hashmap ?b) = (map_of (hashmap (contenido m)))(k \<mapsto> actualizar_expiracion (ahora e) n v)"
    using assms(4) by (simp add: map_of_map_entry)
  moreover have "u64_como_isize n = (if n < 2 ^ 63 then int n else int n - 2 ^ 64)"
    using parse_unsigned_le [OF assms(3)] u64_como_isize_chico [of n] u64_como_isize_grande [of n] by auto
  ultimately show ?thesis using assms(1,5)
    by (auto simp: fun_eq_iff obtener_valor_def valor_get_def expiro_def actualizar_expiracion_def ttl_def con_lock_ok
        obtener_expiracion_def valor_obtener_expiracion_def)
qed

lemma expire_ttl_testigo:
  "fst (ttl (entorno_ejemplo (from_secs 100) Debug) (orden ''TTL'' [''k''])
     (snd (expire (entorno_ejemplo 0 Debug) (orden ''EXPIRE'' [''k'', ''5'']) (con_tabla [(''k'', Str ''v'')])))) =
   Devuelve (RInt 5)"
  using expire_ttl [of "con_tabla [(''k'', Str ''v'')]" "orden ''EXPIRE'' [''k'', ''5'']" "''k''" "''5''" "[]" 5
      "no_expirable 0 (Str ''v'')" "orden ''TTL'' [''k'']" "[]" "entorno_ejemplo 0 Debug" "entorno_ejemplo (from_secs 100) Debug"]
  by (simp add: rust_simps con_tabla_def bdd_new_con_def)

text \<open>
  \<open>PERSIST k\<close> on a key of the table, even one that had expired: it answers 1, the value shows at
  every later instant and \<open>TTL k\<close> answers \<open>-1\<close>. A key that is not in the table answers 0 and \<open>TTL\<close> \<open>-2\<close>.
\<close>

lemma persist_ttl:
  assumes "\<not> envenenado m" "parametros c = k # ps"
  shows "(\<forall>v. map_of (hashmap (contenido m)) k = Some v \<longrightarrow>
      fst (persist e c m) = Devuelve (RInt 1) \<and>
      vista e' (snd (persist e c m)) = (vista e' m)(k \<mapsto> valor_de v) \<and>
      fst (ttl e' c (snd (persist e c m))) = Devuelve (RInt (-1))) \<and>
    (map_of (hashmap (contenido m)) k = None \<longrightarrow>
      persist e c m = (Devuelve (RInt 0), m) \<and> fst (ttl e' c m) = Devuelve (RInt (-2)))"
proof -
  have "map_of (AList.map_entry k hacer_persistente h) = (map_of h)(k \<mapsto> hacer_persistente v)"
    if "map_of h k = Some v" for h and v
    using that by (simp add: map_of_map_entry)
  then show ?thesis using assms
    by (auto simp: persist_def con_lock_ok actualizar_valor_sin_expiracion_def ttl_def obtener_expiracion_def
        valor_obtener_expiracion_def hacer_persistente_def)
      (auto simp: obtener_valor_def valor_get_def expiro_def hacer_persistente_def fun_eq_iff)
qed

lemma persist_ttl_testigo:
  "fst (ttl (entorno_ejemplo 9 Debug) (orden ''PERSIST'' [''k''])
     (snd (persist (entorno_ejemplo 0 Debug) (orden ''PERSIST'' [''k'']) (con_tabla [(''k'', Str ''v'')])))) =
   Devuelve (RInt (-1))"
  using persist_ttl [of "con_tabla [(''k'', Str ''v'')]" "orden ''PERSIST'' [''k'']" "''k''" "[]"
      "entorno_ejemplo 0 Debug" "entorno_ejemplo 9 Debug"]
  by (simp add: con_tabla_def bdd_new_con_def)

text \<open>
  \<open>KEYS p\<close> with a pattern the \<open>regex\<close> crate accepts: the answer lists each key of the table that
  matches exactly once, keys that have expired included; a pattern it refuses gives no keys.
\<close>

lemma keys_correcto:
  assumes "\<not> envenenado m" "bdd_mutex_inv m" "parametros c = p # ps" "index c = 0"
  shows "\<exists>ks. keys e c m = (Devuelve (Vector (map BulkStr ks)), m) \<and> distinct ks \<and>
    set ks = (case regex e p of
                None \<Rightarrow> {}
              | Some coincide \<Rightarrow> {k. coincide k \<and> map_of (hashmap (contenido m)) k \<noteq> None})"
proof -
  have "distinct (map fst (hashmap (contenido m)))"
    using assms(2) by (simp add: mutex_inv_def bdd_inv_def claves_distintas_def)
  moreover have "fst ` set h = {k. map_of h k \<noteq> None}" for h :: tabla
    by (auto simp: map_of_eq_None_iff)
  ultimately show ?thesis using assms
    by (intro exI [of _ "claves e (contenido m) p"])
      (auto simp: keys_def get_parametro_def claves_def split: option.splits)
qed

lemma keys_correcto_testigo:
  "\<exists>ks. keys (entorno_ejemplo 0 Debug) (orden ''KEYS'' [''a'']) (con_tabla [(''a'', Str ''1''), (''b'', Str ''2'')]) =
     (Devuelve (Vector (map BulkStr ks)), con_tabla [(''a'', Str ''1''), (''b'', Str ''2'')]) \<and> set ks = {''a''}"
proof -
  let ?m = "con_tabla [(''a'', Str ''1''), (''b'', Str ''2'')]"
  have "bdd_mutex_inv ?m"
    by (simp add: mutex_inv_def con_tabla_def bdd_new_con_def bdd_inv_def claves_distintas_def)
  moreover have "{k. k = ''a'' \<and> map_of (hashmap (contenido ?m)) k \<noteq> None} = {''a''}"
    by (auto simp: con_tabla_def bdd_new_con_def)
  ultimately show ?thesis
    using keys_correcto [of ?m "orden ''KEYS'' [''a'']" "''a''" "[]" "entorno_ejemplo 0 Debug"] by auto
qed

text \<open>
  C25: \<open>SORT\<close> of a list or a set without \<open>BY\<close>, \<open>LIMIT\<close> and \<open>STORE\<close>: the answer is a permutation of the
  values, ascending in the byte order of the texts (descending with \<open>DESC\<close>), also when all of
  them are numbers; without \<open>ALPHA\<close>, a value that is not a number is an error.
\<close>

theorem sort_correcto:
  assumes "\<not> envenenado m" "parametros c = k # ps" "vista e m k = Some (Lista l) \<or> vista e m k = Some (TSet l)"
    and "l \<noteq> []" "set (parametros c) \<inter> {''BY'', ''LIMIT'', ''STORE''} = {}"
  shows "if ''ALPHA'' \<in> set (parametros c) \<or> (\<forall>v \<in> set l. parse_i32 v \<noteq> None)
    then \<exists>ys. sort_cmd e c m = (Devuelve (Vector (map StrSimple ys)), m) \<and> mset ys = mset l \<and>
      (if ''DESC'' \<in> set (parametros c) then sorted (rev ys) else sorted ys)
    else (\<exists>s. sort_cmd e c m = (Devuelve (Error s), m))"
proof -
  have n: "tiene_solo_valores_numericos l \<longleftrightarrow> (\<forall>v \<in> set l. parse_i32 v \<noteq> None)" for l
    by (induction l) (auto simp: es_parseable_def)
  have "sort_cmd e c m = sort_elemento_con_pesos_interno e l (parametros c) m"
    using assms by (auto simp: sort_cmd_def get_parametros_def)
  moreover have "sort_configuracion_lista_ordenada e (parametros c) ys m =
      (Devuelve (Vector (map StrSimple (if ''DESC'' \<in> set (parametros c) then rev ys else ys))), m)" for ys
    using assms(5) by (simp add: sort_configuracion_lista_ordenada_def)
  ultimately show ?thesis
    by (auto simp: sort_elemento_con_pesos_interno_def n
        intro!: exI [of _ "if ''DESC'' \<in> set (parametros c) then rev (sort l) else sort l"])
qed

lemma sort_correcto_testigo:
  "\<exists>ys. sort_cmd (entorno_ejemplo 0 Debug) (orden ''SORT'' [''k'', ''ALPHA'']) (con_tabla [(''k'', Lista [''b'', ''a''])]) =
     (Devuelve (Vector (map StrSimple ys)), con_tabla [(''k'', Lista [''b'', ''a''])]) \<and>
     mset ys = {#''a'', ''b''#} \<and> sorted ys"
  using sort_correcto [of "con_tabla [(''k'', Lista [''b'', ''a''])]" "orden ''SORT'' [''k'', ''ALPHA'']" "''k''" "[''ALPHA'']"
      "entorno_ejemplo 0 Debug" "[''b'', ''a'']"]
  by (simp add: add_mset_commute)

lemma selecionar_rango_eq:
  assumes "filter es_parseable ps = [a, b]" "parse_i32 a = Some off" "parse_i32 b = Some n"
    and "xs \<noteq> []" "length xs < 2 ^ 31"
  shows "0 \<le> off \<Longrightarrow> off < int (length xs) \<Longrightarrow>
      selecionar_rango p ps xs = Devuelve (Some (if n < 0 then drop (nat off) xs else take (nat n) (drop (nat off) xs)))"
    and "int (length xs) \<le> off \<Longrightarrow> n \<noteq> 0 \<Longrightarrow> selecionar_rango p ps xs = Devuelve (Some xs)"
    and "off < 0 \<Longrightarrow> 0 < n \<Longrightarrow> n < int (length xs) - off \<Longrightarrow> selecionar_rango Debug ps xs = Panico"
proof -
  note o = parse_i32_en_i32 [OF assms(2)] parse_i32_en_i32 [OF assms(3)]
  have u: "arit_usize q (int (length xs) - 1) = Devuelve (length xs - 1)" for q
    using assms(4,5) by (cases xs) (simp_all add: arit_usize_def)
  have t: "usize_como_i32 (length xs) = int (length xs)" using assms(5) by simp
  note d = selecionar_rango_def [of _ ps xs, unfolded assms(1) Let_def indice_vec_def t]
  show "selecionar_rango p ps xs = Devuelve (Some (if n < 0 then drop (nat off) xs else take (nat n) (drop (nat off) xs)))"
    if r: "0 \<le> off" "off < int (length xs)"
  proof -
    have i: "i32_como_usize off = nat off" "0 \<le> n \<Longrightarrow> i32_como_usize n = nat n"
      using o r by (simp_all add: en_i32_def)
    have e: "en_i32 (int (length xs) - off)" using assms(5) r by (simp add: en_i32_def)
    show ?thesis
    proof (cases "0 < n \<and> n < int (length xs) - off")
      case True
      have "nat n + nat off < 2 ^ 64" using o r True by (simp add: en_i32_def)
      then have "arit_usize p (int (nat n) + int (nat off)) = Devuelve (nat n + nat off)"
        using arit_usize_nat [of "nat n + nat off" p] by simp
      moreover have "arit_usize p (int (nat n + nat off) - 1) = Devuelve (nat n + nat off - 1)"
        using True o r by (simp add: arit_usize_def en_i32_def nat_add_distrib nat_diff_distrib)
      moreover have "rebanada_inclusiva xs (nat off) (nat n + nat off - 1) = Devuelve (take (nat n) (drop (nat off) xs))"
        using True r by (auto simp: rebanada_inclusiva_def)
      ultimately show ?thesis using True r i e assms(2,3) u by (simp add: d)
    next
      case False
      have "rebanada_inclusiva xs (nat off) (length xs - 1) = Devuelve (drop (nat off) xs)"
        using assms(4) r by (cases xs) (auto simp: rebanada_inclusiva_def)
      then show ?thesis using False r i e assms(2,3) u by (auto simp: d)
    qed
  qed
  show "selecionar_rango p ps xs = Devuelve (Some xs)" if r: "int (length xs) \<le> off" "n \<noteq> 0"
  proof -
    have "en_i32 (int (length xs) - off)" using o r by (auto simp: en_i32_def)
    moreover have "rebanada_inclusiva xs 0 (length xs - 1) = Devuelve xs"
      using assms(4) by (cases xs) (auto simp: rebanada_inclusiva_def)
    ultimately show ?thesis using r assms(2,3) u by (auto simp: d)
  qed
  show "selecionar_rango Debug ps xs = Panico" if r: "off < 0" "0 < n" "n < int (length xs) - off"
  proof (cases "en_i32 (int (length xs) - off)")
    case True
    note i = i32_como_usize_negativo [OF o(1) r(1)]
    have i': "i32_como_usize n = nat n" using o r by (simp add: en_i32_def)
    have s: "luego (arit_usize Debug (int (i32_como_usize n) + int (i32_como_usize off))) (\<lambda>s. arit_usize Debug (int s - 1)) =
        (if n + off < 0 then Devuelve (nat (2 ^ 64 + n + off - 1)) else Panico)"
      unfolding i i' using o r by (auto simp: arit_usize_def en_i32_def algebra_simps)
    have "rebanada_inclusiva xs 0 (nat (2 ^ 64 + n + off - 1)) = Panico" if "n + off < 0"
      using that o r assms(5) by (simp add: rebanada_inclusiva_def en_i32_def nat_less_iff)
    then show ?thesis using True r assms(2,3) u by (simp add: d s)
  next
    case False
    then show ?thesis using r assms(2,3) u by (simp add: d arit_i32_def)
  qed
qed

text \<open>
  C37: \<open>SORT k LIMIT offset count\<close> of a list or a set of numbers. With the offset inside the list the
  answer is the interval of the Redis documentation: \<open>count\<close> values from the offset on, all of them for a
  negative count. An offset past the end gives the whole list instead of an empty one, and a negative
  offset with a positive count that is not larger than the rest panics the thread of the client in a
  debug build (outside every lock, so that the database goes on).  The key must not be a number, since
  the code takes the first two arguments that are numbers, the key included.
\<close>

theorem sort_limit:
  assumes "\<not> envenenado m" "parametros c = [k, ''LIMIT'', a, b]" "vista e m k = Some (Lista l) \<or> vista e m k = Some (TSet l)"
    and "l \<noteq> []" "length l < 2 ^ 31" "\<forall>v \<in> set l. parse_i32 v \<noteq> None"
    and "parse_i32 k = None" "k \<notin> {''BY'', ''STORE'', ''DESC''}" "parse_i32 a = Some off" "parse_i32 b = Some n"
  shows "(0 \<le> off \<and> off < int (length l) \<longrightarrow>
      sort_cmd e c m = (Devuelve (Vector (map StrSimple (if n < 0 then drop (nat off) (sort l) else take (nat n) (drop (nat off) (sort l))))), m)) \<and>
    (int (length l) \<le> off \<and> n \<noteq> 0 \<longrightarrow> sort_cmd e c m = (Devuelve (Vector (map StrSimple (sort l))), m)) \<and>
    (off < 0 \<and> 0 < n \<and> n < int (length l) - off \<and> perfil_de e = Debug \<longrightarrow> sort_cmd e c m = (Panico, m))"
proof -
  have v: "parse_i32 ''LIMIT'' = None" "parse_i32 ''BY'' = None" "parse_i32 ''STORE'' = None" "parse_i32 ''DESC'' = None"
    by code_simp+
  have f: "filter es_parseable (parametros c) = [a, b]"
    using assms v by (simp add: es_parseable_def)
  have p: "a \<notin> {''BY'', ''STORE'', ''DESC''}" "b \<notin> {''BY'', ''STORE'', ''DESC''}"
    using assms(9,10) v by auto
  have "sort_cmd e c m = sort_elemento_con_pesos_interno e l (parametros c) m"
    using assms p by (auto simp: sort_cmd_def get_parametros_def)
  moreover have "tiene_solo_valores_numericos l" using assms(6) by (induction l) (auto simp: es_parseable_def)
  ultimately have s: "sort_cmd e c m = (case selecionar_rango (perfil_de e) (parametros c) (sort l) of
      Panico \<Rightarrow> (Panico, m)
    | Devuelve None \<Rightarrow> (Devuelve (Error ''ERR syntax error''), m)
    | Devuelve (Some ys) \<Rightarrow> (Devuelve (Vector (map StrSimple ys)), m))"
    using assms(2,8) p by (auto simp: sort_elemento_con_pesos_interno_def sort_configuracion_lista_ordenada_def
        split: salida.splits option.splits)
  have l: "sort l \<noteq> []" using assms(4) by (metis length_0_conv length_sort)
  note r = selecionar_rango_eq [OF f assms(9,10) l, simplified length_sort, OF assms(5)]
  show ?thesis using r by (simp add: s)
qed

lemma sort_limit_testigo:
  "sort_cmd (entorno_ejemplo 0 Debug) (orden ''SORT'' [''k'', ''LIMIT'', ''1'', ''1'']) (con_tabla [(''k'', Lista [''3'', ''1'', ''2''])]) =
     (Devuelve (Vector [StrSimple ''2'']), con_tabla [(''k'', Lista [''3'', ''1'', ''2''])]) \<and>
   sort_cmd (entorno_ejemplo 0 Debug) (orden ''SORT'' [''k'', ''LIMIT'', ''9'', ''1'']) (con_tabla [(''k'', Lista [''3'', ''1'', ''2''])]) =
     (Devuelve (Vector [StrSimple ''1'', StrSimple ''2'', StrSimple ''3'']), con_tabla [(''k'', Lista [''3'', ''1'', ''2''])])"
proof -
  let ?m = "con_tabla [(''k'', Lista [''3'', ''1'', ''2''])]"
  have "\<forall>v \<in> set [''3'', ''1'', ''2'']. parse_i32 v \<noteq> None" by code_simp
  moreover have "parse_i32 ''k'' = None" "parse_i32 ''1'' = Some 1" "parse_i32 ''9'' = Some 9" by code_simp+
  moreover have "sort [''3'', ''1'', ''2''] = [''1'', ''2'', ''3'']" by code_simp
  ultimately show ?thesis
    using sort_limit [of ?m "orden ''SORT'' [''k'', ''LIMIT'', ''1'', ''1'']" "''k''" "''1''" "''1''" "entorno_ejemplo 0 Debug"
        "[''3'', ''1'', ''2'']" 1 1]
      sort_limit [of ?m "orden ''SORT'' [''k'', ''LIMIT'', ''9'', ''1'']" "''k''" "''9''" "''1''" "entorno_ejemplo 0 Debug"
        "[''3'', ''1'', ''2'']" 9 1]
    by simp
qed

end
