(* ===== verification/Pub_Sub.thy ===== *)
theory Pub_Sub
  imports Manejador
begin

text \<open>
  \<open>comando_pubsub_handler.rs\<close>: the commands on channels. They also take the client that sent the
  command and the network its messages go to.
\<close>

type_synonym comando_con_cliente =
  "entorno \<Rightarrow> comando_info \<Rightarrow> cliente \<Rightarrow> red \<Rightarrow> bdd_mutex \<Rightarrow> resultado_redis salida \<times> red \<times> bdd_mutex"

definition es_comando_pubsub :: "string \<Rightarrow> bool" where
  "es_comando_pubsub comando =
     list_ex (\<lambda>c. c = comando) [''SUBSCRIBE'', ''UNSUBSCRIBE'', ''PUBLISH'', ''PUBSUB'']"

text \<open>The section that reads a channel; \<open>ausente\<close> is what the code does without a value.\<close>

definition leer_canal ::
    "entorno \<Rightarrow> string \<Rightarrow> resultado_redis + canal \<Rightarrow> bdd_mutex \<Rightarrow> resultado_redis + canal" where
  "leer_canal e clave ausente m =
     leer_lock m (\<lambda>b.
       (case obtener_valor e b clave of
          Some (Canal c) \<Rightarrow> Inr (clone_canal (duplicable e) c)
        | None \<Rightarrow> ausente
        | _ \<Rightarrow> Inl wrongtype)) err_lock"

text \<open>The section that stores the channel, at the end of both loop bodies.\<close>

definition guardar_canal ::
    "entorno \<Rightarrow> string \<Rightarrow> canal \<Rightarrow> red \<Rightarrow> bdd_mutex \<Rightarrow>
     (resultado_redis salida \<times> red \<times> bdd_mutex) + (red \<times> bdd_mutex)" where
  "guardar_canal e clave c r m =
     (case con_lock m (\<lambda>b. (Devuelve (Inr ()), guardar_valor e clave (Canal c) b)) (Inl err_lock) of
        (Devuelve (Inr _), m') \<Rightarrow> Inr (r, m')
      | (Devuelve (Inl x), m') \<Rightarrow> Inl (Devuelve x, r, m')
      | (Panico, m') \<Rightarrow> Inl (Panico, r, m'))"

definition subscribe_paso ::
    "entorno \<Rightarrow> cliente \<Rightarrow> string \<Rightarrow> red \<times> bdd_mutex \<Rightarrow>
     (resultado_redis salida \<times> red \<times> bdd_mutex) + (red \<times> bdd_mutex)" where
  "subscribe_paso e cl clave s =
     (case s of (r, m) \<Rightarrow>
        (case leer_canal e clave (Inr (canal_new clave)) m of
           Inl x \<Rightarrow> Inl (Devuelve x, r, m)
         | Inr c \<Rightarrow>
             (case suscribirse (ahora e) (duplicable e) c (clone_cliente (duplicable e) cl) r of
                (c', r') \<Rightarrow> guardar_canal e clave c' r' m)))"

definition subscribe :: comando_con_cliente where
  "subscribe e comando cl r m =
     (case mientras_parametro (subscribe_paso e cl) comando (r, m) of
        Inl x \<Rightarrow> x
      | Inr (r', m') \<Rightarrow> (Devuelve Vacio, r', m'))"

definition unsubscribe_paso ::
    "entorno \<Rightarrow> cliente \<Rightarrow> string \<Rightarrow> red \<times> bdd_mutex \<Rightarrow>
     (resultado_redis salida \<times> red \<times> bdd_mutex) + (red \<times> bdd_mutex)" where
  "unsubscribe_paso e cl clave s =
     (case s of (r, m) \<Rightarrow>
        (case leer_canal e clave (Inl wrongtype) m of
           Inl x \<Rightarrow> Inl (Devuelve x, r, m)
         | Inr c \<Rightarrow>
             (case desuscribirse (ahora e) (duplicable e) c (clone_cliente (duplicable e) cl) r of
                (c', r') \<Rightarrow> guardar_canal e clave c' r' m)))"

definition unsubscribe :: comando_con_cliente where
  "unsubscribe e comando cl r m =
     (case mientras_parametro (unsubscribe_paso e cl) comando (r, m) of
        Inl x \<Rightarrow> x
      | Inr (r', m') \<Rightarrow> (Devuelve Vacio, r', m'))"

definition publish :: comando_con_cliente where
  "publish e comando cl r m =
     (case get_clave comando of
        (None, _) \<Rightarrow> (Devuelve (Error ''ClaveError no se encontro una clave''), r, m)
      | (Some clave, comando') \<Rightarrow>
          (case get_parametro comando' of
             (None, _) \<Rightarrow> (Devuelve (err_args ''publish''), r, m)
           | (Some mensaje, _) \<Rightarrow>
               (case leer_canal e clave (Inl wrongtype) m of
                  Inl x \<Rightarrow> (Devuelve x, r, m)
                | Inr c \<Rightarrow>
                    (case publicar (ahora e) c mensaje r of
                       (n, _, r') \<Rightarrow> (Devuelve (RInt (int n)), r', m)))))"

definition channels :: "entorno \<Rightarrow> comando_info \<Rightarrow> bdd_mutex \<Rightarrow> resultado_redis" where
  "channels e comando m =
     (case get_parametro comando of
        (None, _) \<Rightarrow> err_args ''channels''
      | (Some parametro, _) \<Rightarrow>
          (case leer_lock m (\<lambda>b. Inr (canales_activos e b parametro)) err_lock of
             Inl x \<Rightarrow> x
           | Inr cs \<Rightarrow> Vector (map BulkStr cs)))"

definition numsub_paso ::
    "entorno \<Rightarrow> bdd_mutex \<Rightarrow> string \<Rightarrow> int list \<Rightarrow> resultado_redis + int list" where
  "numsub_paso e m clave cantidades =
     (case leer_canal e clave (Inl wrongtype) m of
        Inl x \<Rightarrow> Inl x
      | Inr c \<Rightarrow> Inr (cantidades @ [int (canal_len c)]))"

definition numsub :: "entorno \<Rightarrow> comando_info \<Rightarrow> bdd_mutex \<Rightarrow> resultado_redis" where
  "numsub e comando m =
     (case mientras_parametro (numsub_paso e m) comando [] of
        Inl x \<Rightarrow> x
      | Inr cantidades \<Rightarrow> Vector (map RInt cantidades))"

definition pubsub :: comando_con_cliente where
  "pubsub e comando cl r m =
     (case get_clave comando of
        (None, _) \<Rightarrow> (Devuelve (err_args ''pubsub''), r, m)
      | (Some clave, comando') \<Rightarrow>
          if clave = ''CHANNELS'' then (Devuelve (channels e comando' m), r, m)
          else if clave = ''NUMSUB'' then (Devuelve (numsub e comando' m), r, m)
          else (Devuelve (err_args ''pubsub''), r, m))"

definition ejecutar_pubsub :: comando_con_cliente where
  "ejecutar_pubsub e comando =
     (if get_nombre comando = ''UNSUBSCRIBE'' then unsubscribe e comando
      else if get_nombre comando = ''PUBLISH'' then publish e comando
      else if get_nombre comando = ''PUBSUB'' then pubsub e comando
      else subscribe e comando)"

section \<open>The contract\<close>

text \<open>What a handler does to the database, for a given client and network.\<close>

definition sobre_bdd :: "comando_con_cliente \<Rightarrow> cliente \<Rightarrow> red \<Rightarrow> comando" where
  "sobre_bdd f cl r e c m = (case f e c cl r m of (x, _, m') \<Rightarrow> (x, m'))"

lemma guardar_canal_paso:
  "guardar_canal e k c r m0 = Inr (r1, m1) \<Longrightarrow> paso_bien m (Devuelve (), m0) \<Longrightarrow> paso_bien m (Devuelve (), m1)"
  "guardar_canal e k c r m0 = Inl (x, r1, m1) \<Longrightarrow> paso_bien m (Devuelve (), m0) \<Longrightarrow> paso_bien m (x, m1)"
proof -
  have "paso_bien m0 (con_lock m0 (\<lambda>b. (Devuelve (Inr ()), guardar_valor e k (Canal c) b)) (Inl err_lock))"
    by (auto intro!: paso_con_lock guardar_valor_inv)
  then show "guardar_canal e k c r m0 = Inr (r1, m1) \<Longrightarrow> paso_bien m (Devuelve (), m0) \<Longrightarrow> paso_bien m (Devuelve (), m1)"
    "guardar_canal e k c r m0 = Inl (x, r1, m1) \<Longrightarrow> paso_bien m (Devuelve (), m0) \<Longrightarrow> paso_bien m (x, m1)"
    by (auto simp: guardar_canal_def paso_bien_def split: prod.splits salida.splits sum.splits)
qed

lemma bucle_paso:
  assumes f: "\<And>k r0 m0 r1 m1. f k (r0, m0) = Inr (r1, m1) \<Longrightarrow> paso_bien m (Devuelve (), m0) \<Longrightarrow>
      paso_bien m (Devuelve (), m1)"
    and g: "\<And>k r0 m0 x r1 m1. f k (r0, m0) = Inl (x, r1, m1) \<Longrightarrow> paso_bien m (Devuelve (), m0) \<Longrightarrow>
      paso_bien m (x :: resultado_redis salida, m1)"
  shows "recorrer f ps (r, m) = Inr (r', m') \<Longrightarrow> paso_bien m (Devuelve (), m')"
    and "recorrer f ps (r, m) = Inl (x, r', m') \<Longrightarrow> paso_bien m (x, m')"
proof -
  let ?P = "\<lambda>s. paso_bien m (Devuelve (), snd s)"
  have i: "?P (r, m)" by (simp add: paso_sin_cambio)
  have s: "?P s'" if "?P s" "f p s = Inr s'" for p s s'
    using that f [of p "fst s" "snd s" "fst s'" "snd s'"] by simp
  show "paso_bien m (Devuelve (), m')" if "recorrer f ps (r, m) = Inr (r', m')"
    using recorrer_inv [where P = ?P, OF i s that] by simp
  let ?Q = "\<lambda>y. paso_bien m (fst y, snd (snd y))"
  have t: "?Q y" if "?P s" "f p s = Inl y" for p s y
    using that g [of p "fst s" "snd s" "fst y" "fst (snd y)" "snd (snd y)"] by simp
  show "paso_bien m (x, m')" if "recorrer f ps (r, m) = Inl (x, r', m')"
    using recorrer_inv_salida [where P = ?P and Q = ?Q, OF i s t that] by simp
qed

lemma subscribe_paso_bien:
  "subscribe_paso e cl k (r0, m0) = Inr (r1, m1) \<Longrightarrow> paso_bien m (Devuelve (), m0) \<Longrightarrow> paso_bien m (Devuelve (), m1)"
  "subscribe_paso e cl k (r0, m0) = Inl (x, r1, m1) \<Longrightarrow> paso_bien m (Devuelve (), m0) \<Longrightarrow> paso_bien m (x, m1)"
  by (auto simp: subscribe_paso_def split: prod.splits sum.splits dest: guardar_canal_paso)
    (auto simp: paso_bien_def)

lemma unsubscribe_paso_bien:
  "unsubscribe_paso e cl k (r0, m0) = Inr (r1, m1) \<Longrightarrow> paso_bien m (Devuelve (), m0) \<Longrightarrow> paso_bien m (Devuelve (), m1)"
  "unsubscribe_paso e cl k (r0, m0) = Inl (x, r1, m1) \<Longrightarrow> paso_bien m (Devuelve (), m0) \<Longrightarrow> paso_bien m (x, m1)"
  by (auto simp: unsubscribe_paso_def split: prod.splits sum.splits dest: guardar_canal_paso)
    (auto simp: paso_bien_def)

lemma subscribe_bien: "paso_bien m (sobre_bdd subscribe cl r e c m)"
proof (cases "recorrer (subscribe_paso e cl) (pendientes c) (r, m)")
  case (Inl y)
  obtain x r' m' where y: "y = (x, r', m')" by (cases y)
  have "paso_bien m (x, m')"
    by (rule bucle_paso(2) [where f = "subscribe_paso e cl" and ps = "pendientes c" and r = r and r' = r'])
      (use Inl y in \<open>auto dest: subscribe_paso_bien\<close>)
  then show ?thesis using Inl y by (simp add: sobre_bdd_def subscribe_def mientras_parametro_eq)
next
  case (Inr y)
  obtain r' m' where y: "y = (r', m')" by (cases y)
  have "paso_bien m (Devuelve (), m')"
    by (rule bucle_paso(1) [where f = "subscribe_paso e cl" and ps = "pendientes c" and r = r and r' = r'])
      (use Inr y in \<open>auto dest: subscribe_paso_bien\<close>)
  then show ?thesis using Inr y by (simp add: sobre_bdd_def subscribe_def mientras_parametro_eq paso_bien_def)
qed

lemma unsubscribe_bien: "paso_bien m (sobre_bdd unsubscribe cl r e c m)"
proof (cases "recorrer (unsubscribe_paso e cl) (pendientes c) (r, m)")
  case (Inl y)
  obtain x r' m' where y: "y = (x, r', m')" by (cases y)
  have "paso_bien m (x, m')"
    by (rule bucle_paso(2) [where f = "unsubscribe_paso e cl" and ps = "pendientes c" and r = r and r' = r'])
      (use Inl y in \<open>auto dest: unsubscribe_paso_bien\<close>)
  then show ?thesis using Inl y by (simp add: sobre_bdd_def unsubscribe_def mientras_parametro_eq)
next
  case (Inr y)
  obtain r' m' where y: "y = (r', m')" by (cases y)
  have "paso_bien m (Devuelve (), m')"
    by (rule bucle_paso(1) [where f = "unsubscribe_paso e cl" and ps = "pendientes c" and r = r and r' = r'])
      (use Inr y in \<open>auto dest: unsubscribe_paso_bien\<close>)
  then show ?thesis using Inr y by (simp add: sobre_bdd_def unsubscribe_def mientras_parametro_eq paso_bien_def)
qed

lemma publish_no_cambia: "snd (sobre_bdd publish cl r e c m) = m"
  by (simp add: sobre_bdd_def publish_def split: prod.splits option.splits sum.splits)

lemma pubsub_no_cambia: "snd (sobre_bdd pubsub cl r e c m) = m"
  by (simp add: sobre_bdd_def pubsub_def split: prod.splits option.splits)

interpretation publish: lector "sobre_bdd publish cl r" for cl r
  by unfold_locales (rule publish_no_cambia)
interpretation pubsub: lector "sobre_bdd pubsub cl r" for cl r
  by unfold_locales (rule pubsub_no_cambia)

lemma ejecutar_pubsub_paso: "paso_bien m (sobre_bdd ejecutar_pubsub cl r e c m)"
  using subscribe_bien [of m cl r e c] unsubscribe_bien [of m cl r e c]
    manejador_paso [OF publish.manejador_axioms, of m cl r e c]
    manejador_paso [OF pubsub.manejador_axioms, of m cl r e c]
  by (simp add: ejecutar_pubsub_def sobre_bdd_def)

interpretation pubsubs: manejador "sobre_bdd ejecutar_pubsub cl r" for cl r
  by (rule manejadorI) (rule ejecutar_pubsub_paso)

section \<open>Properties\<close>

text \<open>
  C26: \<open>PUBLISH k msg\<close> on a channel with Redis subscribers sends the message once, in the order of
  subscription, to every subscriber whose socket \<open>try_clone\<close> duplicates and can be written, answers how
  many those are, and leaves the database as it was.
\<close>

theorem publish_entrega:
  assumes "\<not> envenenado m" "parametros c = k # msg # ps" "vista e m k = Some (Canal ca)"
    and "\<forall>s \<in> set (suscriptores ca). es_redis s"
  shows "publish e c cl r m =
    (Devuelve (RInt (int (length (List.map_filter (destino_copia (duplicable e) r) (suscriptores ca))))),
     r\<lparr>enviados := enviados r @
        map (\<lambda>s. (s, parsear_respuesta (Vector [BulkStr ''message'', BulkStr (canal_nombre ca), BulkStr msg])))
          (List.map_filter (destino_copia (duplicable e) r) (suscriptores ca))\<rparr>, m)"
proof -
  let ?ss = "map (clone_cliente (duplicable e)) (suscriptores ca)"
  have d: "List.map_filter (destino r) ?ss = List.map_filter (destino_copia (duplicable e) r) (suscriptores ca)"
    by (simp add: List.map_filter_def filter_map comp_def)
  have "\<forall>s \<in> set ?ss. es_redis s" using assms(4) by simp
  from publicar_a_eq [OF this]
  obtain ss' where "publicar_a (ahora e) (Vector [BulkStr ''message'', BulkStr (canal_nombre ca), BulkStr msg]) ?ss r =
    (length (List.map_filter (destino r) ?ss), ss',
     r\<lparr>enviados := enviados r @ map (\<lambda>s. (s, parsear_respuesta (Vector [BulkStr ''message'', BulkStr (canal_nombre ca), BulkStr msg])))
          (List.map_filter (destino r) ?ss)\<rparr>)"
    by blast
  then show ?thesis using assms(1-3) by (simp add: publish_def leer_canal_def publicar_def clone_canal_def d)
qed

definition red_ejemplo :: red where
  "red_ejemplo = \<lparr>recibido = \<lambda>_. [], legible = \<lambda>_. True, espia = \<lambda>_. Some 1, direccion_local = \<lambda>_. None,
     escribible = \<lambda>s. s \<noteq> 0, descarga = \<lambda>_. True, enviados = []\<rparr>"

lemma publish_entrega_testigo:
  "fst (publish (entorno_ejemplo 0 Debug) (orden ''PUBLISH'' [''k'', ''hola'']) (CRedis (cliente_redis_new 0 7 0 9)) red_ejemplo
     (con_tabla [(''k'', Canal \<lparr>canal_nombre = ''k'',
        suscriptores = [CRedis (cliente_redis_new 0 1 0 0), CRedis (cliente_redis_new 0 2 0 5)]\<rparr>)])) =
   Devuelve (RInt 1)"
  using publish_entrega [of "con_tabla [(''k'', Canal \<lparr>canal_nombre = ''k'',
        suscriptores = [CRedis (cliente_redis_new 0 1 0 0), CRedis (cliente_redis_new 0 2 0 5)]\<rparr>)]"
      "orden ''PUBLISH'' [''k'', ''hola'']" "''k''" "''hola''" "[]" "entorno_ejemplo 0 Debug"]
  by (simp add: entorno_ejemplo_def red_ejemplo_def cliente_redis_new_def List.map_filter_simps)

text \<open>
  C27: a Redis client and a key that is missing or holds a channel with the tokens \<open>ts\<close>. \<open>SUBSCRIBE k\<close> stores
  the channel, with the token of the client at the end when its socket can be duplicated and written (then
  it is sent the number of subscribers), and with the same tokens otherwise. \<open>UNSUBSCRIBE k\<close> afterwards takes
  the first occurrence of the token away, so that a client that was not on the channel leaves it as it was.
\<close>

theorem subscribe_unsubscribe:
  assumes "\<not> envenenado m" "parametros c = [k]" "index c = 0" "es_redis cl"
    and "vista e m k = None \<and> ts = [] \<and> n = k \<or>
      (\<exists>ca. vista e m k = Some (Canal ca) \<and> tokens ca = ts \<and> canal_nombre ca = n)"
  shows "\<exists>r1 m1 ts'. subscribe e c cl r m = (Devuelve Vacio, r1, m1) \<and>
    (case destino_copia (duplicable e) r cl of
       None \<Rightarrow> ts' = ts \<and> r1 = r
     | Some s \<Rightarrow> ts' = ts @ [obtener_token cl] \<and>
         r1 = r\<lparr>enviados := enviados r @
           [(s, parsear_respuesta (Vector [BulkStr ''subscribe'', BulkStr n, RInt (int (length ts'))]))]\<rparr>) \<and>
    (\<exists>ca. vista e m1 k = Some (Canal ca) \<and> tokens ca = ts') \<and>
    fst (unsubscribe e c cl r1 m1) = Devuelve Vacio \<and>
    (\<exists>ca. vista e (snd (snd (unsubscribe e c cl r1 m1))) k = Some (Canal ca) \<and>
      tokens ca = remove1 (obtener_token cl) ts')"
proof -
  let ?dup = "duplicable e"
  obtain ca where ca: "leer_canal e k (Inr (canal_new k)) m = Inr ca" "tokens ca = ts" "canal_nombre ca = n"
    using assms(1,5) by (auto simp: leer_canal_def canal_new_def tokens_def clone_canal_def comp_def intro!: that)
  obtain cb r1 where s: "suscribirse (ahora e) ?dup ca (clone_cliente ?dup cl) r = (cb, r1)" by force
  define m1 where "m1 = m\<lparr>contenido := guardar_valor e k (Canal cb) (contenido m)\<rparr>"
  have sub: "subscribe e c cl r m = (Devuelve Vacio, r1, m1)"
    using assms(1-3) ca(1) s
    by (simp add: subscribe_def mientras_parametro_eq subscribe_paso_def guardar_canal_def con_lock_ok m1_def)
  have v: "vista e m1 k = Some (Canal cb)" "\<not> envenenado m1" using assms(1) by (simp_all add: m1_def)
  obtain cc r2 where d: "desuscribirse (ahora e) ?dup (clone_canal ?dup cb) (clone_cliente ?dup cl) r1 = (cc, r2)" by force
  have u: "unsubscribe e c cl r1 m1 = (Devuelve Vacio, r2, m1\<lparr>contenido := guardar_valor e k (Canal cc) (contenido m1)\<rparr>)"
    using assms(2,3) v d
    by (simp add: unsubscribe_def mientras_parametro_eq unsubscribe_paso_def guardar_canal_def con_lock_ok leer_canal_def)
  have t: "tokens cc = remove1 (obtener_token cl) (tokens cb)"
    using tokens_desuscribirse [of "ahora e" ?dup "clone_canal ?dup cb" "clone_cliente ?dup cl" r1] d by simp
  have "length (suscriptores ca) = length ts" using ca(2) by (auto simp: tokens_def)
  then have x: "case destino_copia ?dup r cl of
       None \<Rightarrow> tokens cb = ts \<and> r1 = r
     | Some s \<Rightarrow> tokens cb = ts @ [obtener_token cl] \<and>
         r1 = r\<lparr>enviados := enviados r @
           [(s, parsear_respuesta (Vector [BulkStr ''subscribe'', BulkStr n, RInt (int (length (tokens cb)))]))]\<rparr>"
    using ca(2,3) s suscribirse_redis [OF assms(4), of "ahora e" ?dup ca r]
    by (cases "destino_copia ?dup r cl") (auto simp: tokens_def simp del: parsear_respuesta.simps)
  have "fst (unsubscribe e c cl r1 m1) = Devuelve Vacio"
    "vista e (snd (snd (unsubscribe e c cl r1 m1))) k = Some (Canal cc)" by (simp_all add: u)
  then show ?thesis using sub x v(1) t by blast
qed

lemma subscribe_unsubscribe_testigo:
  "\<exists>r1 m1. subscribe (entorno_ejemplo 0 Debug) (orden ''SUBSCRIBE'' [''k'']) (CRedis (cliente_redis_new 0 7 0 9)) red_ejemplo
     (con_tabla []) = (Devuelve Vacio, r1, m1) \<and> (\<exists>ca. vista (entorno_ejemplo 0 Debug) m1 ''k'' = Some (Canal ca) \<and> tokens ca = [7])"
  using subscribe_unsubscribe [of "con_tabla []" "orden ''SUBSCRIBE'' [''k'']" "''k''" "CRedis (cliente_redis_new 0 7 0 9)"
      "entorno_ejemplo 0 Debug" "[]" "''k''" red_ejemplo]
  by (auto simp: red_ejemplo_def cliente_redis_new_def)

lemma canales_activos_de_eq:
  "canales_activos_de e b ks acum =
    acum @ filter (\<lambda>k. \<exists>ca. obtener_valor e b k = Some (Canal ca) \<and> es_activo ca) ks"
  by (induction ks arbitrary: acum) (auto split: option.splits tipo_redis.splits)

text \<open>
  \<open>PUBSUB CHANNELS p\<close> lists exactly the keys that match and hold a channel with two subscribers
  or more; a channel with one subscriber is not listed.
\<close>

lemma channels_correcto:
  assumes "\<not> envenenado m" "bdd_mutex_inv m" "parametros c = ''CHANNELS'' # p # ps" "regex e p = Some f"
  shows "\<exists>ks. pubsub e c cl r m = (Devuelve (Vector (map BulkStr ks)), r, m) \<and> distinct ks \<and>
    set ks = {k. f k \<and> (\<exists>ca. vista e m k = Some (Canal ca) \<and> 2 \<le> length (suscriptores ca))}"
proof -
  let ?ks = "canales_activos e (contenido m) p"
  have "distinct (map fst (hashmap (contenido m)))"
    using assms(2) by (simp add: mutex_inv_def bdd_inv_def claves_distintas_def)
  then have "distinct ?ks"
    using assms(4) by (simp add: canales_activos_def canales_activos_de_eq claves_def)
  moreover have "k \<in> fst ` set (hashmap (contenido m))" if "vista e m k = Some v" for k v
    using that by (auto simp: obtener_valor_def split: option.splits dest!: map_of_SomeD)
      (metis fst_conv image_eqI)
  then have "set ?ks = {k. f k \<and> (\<exists>ca. vista e m k = Some (Canal ca) \<and> 2 \<le> length (suscriptores ca))}"
    using assms(4) by (auto simp: canales_activos_def canales_activos_de_eq claves_def es_activo_def)
  moreover have "pubsub e c cl r m = (Devuelve (Vector (map BulkStr ?ks)), r, m)"
    using assms(1,3) by (simp add: pubsub_def channels_def)
  ultimately show ?thesis by blast
qed

lemma channels_correcto_testigo:
  "\<exists>ks. pubsub (entorno_ejemplo 0 Debug) (orden ''PUBSUB'' [''CHANNELS'', ''k'']) (CRedis (cliente_redis_new 0 7 0 9)) red_ejemplo
     (con_tabla [(''k'', Canal \<lparr>canal_nombre = ''k'', suscriptores = [CRedis (cliente_redis_new 0 2 0 5)]\<rparr>)]) =
     (Devuelve (Vector (map BulkStr ks)), red_ejemplo,
      con_tabla [(''k'', Canal \<lparr>canal_nombre = ''k'', suscriptores = [CRedis (cliente_redis_new 0 2 0 5)]\<rparr>)]) \<and> set ks = {}"
proof -
  let ?m = "con_tabla [(''k'', Canal \<lparr>canal_nombre = ''k'', suscriptores = [CRedis (cliente_redis_new 0 2 0 5)]\<rparr>)]"
  have "bdd_mutex_inv ?m"
    by (simp add: mutex_inv_def con_tabla_def bdd_new_con_def bdd_inv_def claves_distintas_def)
  moreover have "{k. k = ''k'' \<and> (\<exists>ca. vista (entorno_ejemplo 0 Debug) ?m k = Some (Canal ca) \<and> 2 \<le> length (suscriptores ca))} = {}"
    by auto
  ultimately show ?thesis
    using channels_correcto [of ?m "orden ''PUBSUB'' [''CHANNELS'', ''k'']" "''k''" "[]" "entorno_ejemplo 0 Debug" "\<lambda>c. c = ''k''"
        "CRedis (cliente_redis_new 0 7 0 9)" red_ejemplo]
    by (simp only: con_tabla_simps entorno_ejemplo_simps comando_info.select_convs simp_thms) blast
qed

end
