(* ===== verification/Registro.thy ===== *)
theory Registro
  imports Base_De_Datos
begin

text \<open>
  \<open>log_handler.rs\<close> and \<open>config.rs\<close>: the messages of the log, the thread that writes them, and the
  configuration of the server. The sending side of a channel is the list of the messages sent;
  \<open>send\<close> never blocks and its result is ignored.
\<close>

section \<open>Files\<close>

text \<open>
  The disk: the bytes of the files, which files can be opened for writing, and whether a write
  to a file succeeds.
\<close>

record disco =
  bytes_de :: "string \<Rightarrow> string option"
  abrible :: "string \<Rightarrow> bool"
  grabable :: "string \<Rightarrow> bool"

section \<open>The log\<close>

datatype mensaje =
    InfoComando string comando_info
  | InfoError string redis_error
  | InfoConeccion string string
  | SetVerbose bool
  | Monitor cliente
  | ArchivoALogear string
  | Cerrar

record logger =
  log_enviados :: "mensaje list"

definition logger_new :: logger where
  "logger_new = \<lparr>log_enviados = []\<rparr>"

definition enviar_log :: "mensaje \<Rightarrow> logger \<Rightarrow> logger" where
  "enviar_log msj l = l\<lparr>log_enviados := log_enviados l @ [msj]\<rparr>"

definition log_comando :: "string \<Rightarrow> comando_info \<Rightarrow> logger \<Rightarrow> logger" where
  "log_comando addr c l = enviar_log (InfoComando addr c) l"

definition log_error :: "string \<Rightarrow> redis_error \<Rightarrow> logger \<Rightarrow> logger" where
  "log_error addr err l = enviar_log (InfoError addr err) l"

definition log_coneccion :: "string \<Rightarrow> string \<Rightarrow> logger \<Rightarrow> logger" where
  "log_coneccion addr msj l = enviar_log (InfoConeccion addr msj) l"

definition logger_verbose :: "bool \<Rightarrow> logger \<Rightarrow> logger" where
  "logger_verbose v l = enviar_log (SetVerbose v) l"

definition monitorear :: "cliente \<Rightarrow> logger \<Rightarrow> logger" where
  "monitorear c l = enviar_log (Monitor c) l"

definition logger_archivo :: "string \<Rightarrow> logger \<Rightarrow> logger" where
  "logger_archivo r l = enviar_log (ArchivoALogear r) l"

text \<open>The two implementations of \<open>TipoLog\<close> and the state of the thread that logs.\<close>

datatype tipo_log = LogVerbose | LogEscritor

record log_handler =
  ruta :: string
  monitor_canal :: canal
  tipo_lh :: tipo_log

definition set_verbose :: "bool \<Rightarrow> tipo_log" where
  "set_verbose v = (if v then LogVerbose else LogEscritor)"

definition log_handler_new :: "string \<Rightarrow> bool \<Rightarrow> log_handler" where
  "log_handler_new r v = \<lparr>ruta = r, monitor_canal = canal_new ''monitor'', tipo_lh = set_verbose v\<rparr>"

text \<open>What the thread acts on: the network, the disk and the standard output.\<close>

record mundo_log =
  ml_red :: red
  ml_disco :: disco
  ml_stdout :: "string list"

definition escribir :: "string \<Rightarrow> string \<Rightarrow> disco \<Rightarrow> bool \<times> disco" where
  "escribir r a_logear d =
     (if \<not> abrible d r then (False, d)
      else (let viejo = (case bytes_de d r of None \<Rightarrow> [] | Some bs \<Rightarrow> bs)
            in if grabable d r
               then (True, d\<lparr>bytes_de := (bytes_de d)(r \<mapsto> viejo @ a_logear @ [CHR 0x0A])\<rparr>)
               else (False, d\<lparr>bytes_de := (bytes_de d)(r \<mapsto> viejo)\<rparr>)))"

definition tipo_logear :: "tipo_log \<Rightarrow> string \<Rightarrow> string \<Rightarrow> mundo_log \<Rightarrow> bool \<times> mundo_log" where
  "tipo_logear tlog r a_logear w =
     (let w = (case tlog of LogVerbose \<Rightarrow> w\<lparr>ml_stdout := ml_stdout w @ [a_logear]\<rparr> | LogEscritor \<Rightarrow> w)
      in (case escribir r a_logear (ml_disco w) of (ok, d) \<Rightarrow> (ok, w\<lparr>ml_disco := d\<rparr>)))"

text \<open>
  One turn of the loop of \<open>logear\<close>, for a message received at an instant: \<open>None\<close> is the \<open>break\<close>.
\<close>

definition texto_log :: "mensaje \<Rightarrow> string option" where
  "texto_log msj =
     (case msj of
        InfoComando addr c \<Rightarrow> Some (addr @ '' '' @ descripcion c)
      | InfoError addr err \<Rightarrow> Some (addr @ '' '' @ mostrar_error err)
      | InfoConeccion addr txt \<Rightarrow> Some (addr @ '' '' @ txt)
      | _ \<Rightarrow> None)"

definition logear_paso ::
    "entorno \<Rightarrow> mensaje \<Rightarrow> log_handler \<times> mundo_log \<Rightarrow> (log_handler \<times> mundo_log) + (log_handler \<times> mundo_log)" where
  "logear_paso e msj s =
     (case s of (lh, w) \<Rightarrow>
        (case texto_log msj of
           Some a_logear \<Rightarrow>
             (case publicar (ahora e) (monitor_canal lh) a_logear (ml_red w) of
                (_, c', r') \<Rightarrow>
                  (case tipo_logear (tipo_lh lh) (ruta lh) a_logear (w\<lparr>ml_red := r'\<rparr>) of
                     (True, w') \<Rightarrow> Inr (lh\<lparr>monitor_canal := c'\<rparr>, w')
                   | (False, w') \<Rightarrow> Inl (lh\<lparr>monitor_canal := c'\<rparr>, w')))
         | None \<Rightarrow>
             (case msj of
                SetVerbose v \<Rightarrow> Inr (lh\<lparr>tipo_lh := set_verbose v\<rparr>, w)
              | Monitor cl \<Rightarrow>
                  (case suscribirse (ahora e) (duplicable e) (monitor_canal lh) cl (ml_red w) of
                     (c', r') \<Rightarrow> Inr (lh\<lparr>monitor_canal := c'\<rparr>, w\<lparr>ml_red := r'\<rparr>))
              | ArchivoALogear a \<Rightarrow> Inr (lh\<lparr>ruta := a\<rparr>, w)
              | _ \<Rightarrow> Inl (lh, w))))"

fun logear :: "(entorno \<times> mensaje) list \<Rightarrow> log_handler \<times> mundo_log \<Rightarrow> log_handler \<times> mundo_log" where
  "logear [] s = s"
| "logear ((e, msj) # msjs) s =
     (case logear_paso e msj s of Inl s' \<Rightarrow> s' | Inr s' \<Rightarrow> logear msjs s')"

section \<open>The configuration\<close>

record config =
  mapa_config :: "(string, string) hashmap"
  cfg_persistidor :: "persistidor option"
  monitorear_ultimo_cliente :: bool

definition config_new :: config where
  "config_new =
     \<lparr>mapa_config =
        AList.update ''logfile'' ''redis.log''
       (AList.update ''dbfilename'' ''dump.rb''
       (AList.update ''timeout'' ''0''
       (AList.update ''port'' ''8080''
       (AList.update ''host'' ''127.0.0.1''
       (AList.update ''verbose'' ''0'' []))))),
      cfg_persistidor = None, monitorear_ultimo_cliente = False\<rparr>"

definition direccion :: "config \<Rightarrow> string" where
  "direccion c =
     (let host = (case map_of (mapa_config c) ''host'' of Some h \<Rightarrow> h | None \<Rightarrow> ''127.0.0.1'');
          port = (case map_of (mapa_config c) ''port'' of Some p \<Rightarrow> p | None \<Rightarrow> ''8080'')
      in (host @ '':'') @ port)"

definition config_timeout :: "config \<Rightarrow> nat" where
  "config_timeout c =
     (case map_of (mapa_config c) ''timeout'' of
        Some t \<Rightarrow> (case parse_u64 t of Some n \<Rightarrow> n | None \<Rightarrow> 0)
      | None \<Rightarrow> 0)"

definition dbfilename :: "config \<Rightarrow> string" where
  "dbfilename c = (case map_of (mapa_config c) ''dbfilename'' of Some d \<Rightarrow> d | None \<Rightarrow> ''dump.rb'')"

definition logfile :: "config \<Rightarrow> string" where
  "logfile c = (case map_of (mapa_config c) ''logfile'' of Some l \<Rightarrow> l | None \<Rightarrow> ''redis.log'')"

definition verbose :: "config \<Rightarrow> bool" where
  "verbose c =
     (case map_of (mapa_config c) ''verbose'' of
        Some t \<Rightarrow> (case parse_u32 t of Some n \<Rightarrow> n = 1 | None \<Rightarrow> False)
      | None \<Rightarrow> False)"

definition config_get_items :: "entorno \<Rightarrow> config \<Rightarrow> string \<Rightarrow> string list" where
  "config_get_items e c re =
     (case regex e re of
        None \<Rightarrow> []
      | Some is_match \<Rightarrow>
          concat (map (\<lambda>(clave, v). if is_match clave then [clave, v] else []) (mapa_config c)))"

definition config_set_item :: "string \<Rightarrow> string \<Rightarrow> config \<Rightarrow> config" where
  "config_set_item parametro v c = c\<lparr>mapa_config := AList.update parametro v (mapa_config c)\<rparr>"

definition config_info :: "config \<Rightarrow> string list" where
  "config_info c =
     ([''# Config'', []] @ map (\<lambda>(clave, v). clave @ '':'' @ v) (mapa_config c)) @ [[]]"

definition config_monitor :: "config \<Rightarrow> config" where
  "config_monitor c = c\<lparr>monitorear_ultimo_cliente := True\<rparr>"

definition actualizar_log :: "cliente \<Rightarrow> config \<Rightarrow> logger \<Rightarrow> config \<times> logger" where
  "actualizar_log cl c l =
     (let (c, l) = (if monitorear_ultimo_cliente c
                    then (c\<lparr>monitorear_ultimo_cliente := False\<rparr>, monitorear cl l) else (c, l))
      in (c, logger_archivo (logfile c) (logger_verbose (verbose c) l)))"

definition actualizar_persistencia :: "config \<Rightarrow> config" where
  "actualizar_persistencia c =
     (case cfg_persistidor c of
        Some p \<Rightarrow> c\<lparr>cfg_persistidor := Some (cambiar_archivo (dbfilename c) p)\<rparr>
      | None \<Rightarrow> c)"

definition config_actualizar :: "cliente \<Rightarrow> config \<Rightarrow> logger \<Rightarrow> config \<times> logger" where
  "config_actualizar cl c l =
     (case actualizar_log cl c l of (c', l') \<Rightarrow> (actualizar_persistencia c', l'))"

definition set_persistidor :: "persistidor \<Rightarrow> config \<Rightarrow> config" where
  "set_persistidor p c = c\<lparr>cfg_persistidor := Some p\<rparr>"

text \<open>
  \<open>obtener_configuracion\<close> reads \<open>clave: valor\<close> lines; \<open>argumento[1]\<close> panics on a line without the
  separator. \<open>Inl ()\<close> is \<open>ArchivoInexistenteError\<close>.
\<close>

fun leer_configuracion ::
    "string option list \<Rightarrow> (string, string) hashmap \<Rightarrow> (string, string) hashmap salida" where
  "leer_configuracion (Some linea # lineas) mapa =
     (let argumento = split_str '': '' linea
      in luego (indice_vec argumento 0) (\<lambda>a0.
         luego (indice_vec argumento 1) (\<lambda>a1.
           leer_configuracion lineas (AList.update a0 a1 mapa))))"
| "leer_configuracion _ mapa = Devuelve mapa"

definition obtener_configuracion :: "disco \<Rightarrow> string \<Rightarrow> (unit + config) salida" where
  "obtener_configuracion d ruta_archivo =
     (case bytes_de d ruta_archivo of
        None \<Rightarrow> Devuelve (Inl ())
      | Some bs \<Rightarrow>
          luego (leer_configuracion (leer_lineas bs) []) (\<lambda>mapa.
            Devuelve (Inr (if mapa = [] then config_new
                           else \<lparr>mapa_config = mapa, cfg_persistidor = None,
                                 monitorear_ultimo_cliente = False\<rparr>))))"

end
