(* ===== verification/Servidor.thy ===== *)
theory Servidor
  imports Manejador Registro
begin

text \<open>\<open>comando_server_handler.rs\<close>: the commands on the server and its configuration.\<close>

type_synonym config_mutex = "config mutex"
type_synonym comando_con_config =
  "entorno \<Rightarrow> comando_info \<Rightarrow> bdd_mutex \<Rightarrow> config_mutex \<Rightarrow>
   resultado_redis salida \<times> bdd_mutex \<times> config_mutex"

definition es_comando_server :: "string \<Rightarrow> bool" where
  "es_comando_server comando =
     list_ex (\<lambda>c. c = comando) [''FLUSHDB'', ''DBSIZE'', ''CONFIG'', ''INFO'', ''MONITOR'', ''PING'']"

definition err_config :: resultado_redis where
  "err_config = Error ''ERR when accessing config''"

definition ping :: comando_con_config where
  "ping e comando m cm = (Devuelve (StrSimple ''PONG''), m, cm)"

definition flushdb :: comando_con_config where
  "flushdb e comando m cm =
     (case seguir (con_lock m (\<lambda>b. (Devuelve (Inr ()), borrar_claves e b)) (Inl err_lock))
             (\<lambda>_ m'. (Devuelve (StrSimple ''OK''), m')) of
        (r, m') \<Rightarrow> (r, m', cm))"

definition dbsize :: comando_con_config where
  "dbsize e comando m cm =
     (case leer_lock m (\<lambda>b. Inr (cantidad_claves b)) err_lock of
        Inl r \<Rightarrow> (Devuelve r, m, cm)
      | Inr cantidad \<Rightarrow> (Devuelve (RInt (int cantidad)), m, cm))"

definition config_get :: comando_con_config where
  "config_get e comando m cm =
     (case get_parametro comando of
        (None, _) \<Rightarrow> (Devuelve (Error ''ERR wrong number of arguments for config_set command''), m, cm)
      | (Some parametro, _) \<Rightarrow>
          (case leer_lock cm (\<lambda>c. Inr (config_get_items e c parametro)) err_config of
             Inl r \<Rightarrow> (Devuelve r, m, cm)
           | Inr valores \<Rightarrow> (Devuelve (Vector (map BulkStr valores)), m, cm)))"

definition config_set :: comando_con_config where
  "config_set e comando m cm =
     (case get_parametro comando of
        (op, comando') \<Rightarrow>
          (case (op, fst (get_parametro comando')) of
             (Some parametro, Some v) \<Rightarrow>
               (case seguir (con_lock cm (\<lambda>c. (Devuelve (Inr ()), config_set_item parametro v c)) (Inl err_config))
                       (\<lambda>_ cm'. (Devuelve (StrSimple ''Ok''), cm')) of
                  (r, cm') \<Rightarrow> (r, m, cm'))
           | _ \<Rightarrow> (Devuelve (Error ''ERR wrong number of arguments for config_get command''), m, cm)))"

definition fconfig :: comando_con_config where
  "fconfig e comando m cm =
     (case get_parametro comando of
        (None, _) \<Rightarrow> (Devuelve (Error ''ERR wrong number of arguments for fconfig command''), m, cm)
      | (Some parametro, comando') \<Rightarrow>
          if to_uppercase parametro = ''GET'' then config_get e comando' m cm
          else if to_uppercase parametro = ''SET'' then config_set e comando' m cm
          else (Devuelve (Error ''ERR Opcion config not found''), m, cm))"

definition info :: comando_con_config where
  "info e comando m cm =
     (if \<not> envenenado cm \<and> \<not> envenenado m
      then (Devuelve (Vector (map BulkStr (config_info (contenido cm) @ bdd_info e (contenido m)))), m, cm)
      else (Devuelve (Error ''ERR when accessing info''), m, cm))"

definition monitor :: comando_con_config where
  "monitor e comando m cm =
     (case seguir (con_lock cm (\<lambda>c. (Devuelve (Inr ()), config_monitor c))
                     (Inl (Error ''Error al acceder a la configuracion'')))
             (\<lambda>_ cm'. (Devuelve (StrSimple ''Ok''), cm')) of
        (r, cm') \<Rightarrow> (r, m, cm'))"

definition ejecutar_server :: comando_con_config where
  "ejecutar_server e comando =
     (if get_nombre comando = ''DBSIZE'' then dbsize e comando
      else if get_nombre comando = ''CONFIG'' then fconfig e comando
      else if get_nombre comando = ''INFO'' then info e comando
      else if get_nombre comando = ''MONITOR'' then monitor e comando
      else if get_nombre comando = ''PING'' then ping e comando
      else flushdb e comando)"

section \<open>The contract\<close>

definition sobre_bdd_config :: "comando_con_config \<Rightarrow> config_mutex \<Rightarrow> comando" where
  "sobre_bdd_config f cm e c m = (case f e c m cm of (x, m', _) \<Rightarrow> (x, m'))"

lemma solo_config:
  "snd (sobre_bdd_config ping cm e c m) = m" "snd (sobre_bdd_config dbsize cm e c m) = m"
  "snd (sobre_bdd_config config_get cm e c m) = m" "snd (sobre_bdd_config config_set cm e c m) = m"
  "snd (sobre_bdd_config fconfig cm e c m) = m" "snd (sobre_bdd_config info cm e c m) = m"
  "snd (sobre_bdd_config monitor cm e c m) = m"
  by (auto simp: sobre_bdd_config_def ping_def dbsize_def config_get_def config_set_def fconfig_def
      info_def monitor_def split: prod.splits option.splits sum.splits)

interpretation dbsize: lector "sobre_bdd_config dbsize cm" for cm
  by unfold_locales (rule solo_config(2))
interpretation fconfig: lector "sobre_bdd_config fconfig cm" for cm
  by unfold_locales (rule solo_config(5))

lemma flushdb_paso: "paso_bien m (sobre_bdd_config flushdb cm e c m)"
  by (auto simp: sobre_bdd_config_def flushdb_def split_def intro!: pasos borrar_claves_inv)

lemma ejecutar_server_paso: "paso_bien m (sobre_bdd_config ejecutar_server cm e c m)"
proof -
  have l: "snd (sobre_bdd_config f cm e c m) = m \<Longrightarrow> paso_bien m (sobre_bdd_config f cm e c m)" for f
    by (metis paso_sin_cambio prod.collapse)
  have "paso_bien m (sobre_bdd_config f cm e c m)"
    if "f \<in> {dbsize, fconfig, info, monitor, ping, flushdb}" for f
    using that solo_config flushdb_paso by (auto intro: l)
  then show ?thesis by (auto simp: ejecutar_server_def sobre_bdd_config_def)
qed

interpretation servidor: manejador "sobre_bdd_config ejecutar_server cm" for cm
  by (rule manejadorI) (rule ejecutar_server_paso)

section \<open>Properties\<close>

text \<open>
  C36: \<open>CONFIG SET p v\<close> answers \<open>Ok\<close> and leaves the database as it was. A \<open>CONFIG GET r\<close> afterwards, at any
  instant and on any database, lists exactly the parameters that match \<open>r\<close>, each once and followed by its
  value, \<open>v\<close> for \<open>p\<close> and what it was for the others (none when the \<open>regex\<close> crate refuses \<open>r\<close>), and changes neither the database nor the configuration.
\<close>

theorem config_set_get:
  fixes e :: entorno and m :: bdd_mutex
  assumes "\<not> envenenado cm" "claves_distintas (mapa_config (contenido cm))"
    and "parametros c = [''SET'', p, v]" "index c = 0" "parametros c' = [''GET'', r]" "index c' = 0"
  defines "cm1 \<equiv> snd (snd (fconfig e c m cm))"
  shows "fconfig e c m cm = (Devuelve (StrSimple ''Ok''), m, cm1) \<and>
    (\<exists>kvs. fconfig e' c' m' cm1 =
        (Devuelve (Vector (map BulkStr (concat (map (\<lambda>(k, x). [k, x]) kvs)))), m', cm1) \<and>
      distinct (map fst kvs) \<and>
      set kvs = {(k, x). (\<exists>f. regex e' r = Some f \<and> f k) \<and> ((map_of (mapa_config (contenido cm)))(p \<mapsto> v)) k = Some x})"
proof -
  let ?mapa = "AList.update p v (mapa_config (contenido cm))"
  let ?f = "case regex e' r of None \<Rightarrow> (\<lambda>_. False) | Some f \<Rightarrow> f"
  let ?kvs = "filter (\<lambda>(k, x). ?f k) ?mapa"
  have s: "fconfig e c m cm = (Devuelve (StrSimple ''Ok''), m, cm\<lparr>contenido := config_set_item p v (contenido cm)\<rparr>)"
    using assms(1,3,4) by (simp add: to_uppercase_opciones fconfig_def config_set_def get_parametro_def con_lock_ok)
  have "concat (map (\<lambda>(clave, v). if f clave then [clave, v] else []) xs) =
      concat (map (\<lambda>(k, x). [k, x]) (filter (\<lambda>(k, x). f k) xs))" for f and xs :: "(string \<times> string) list"
    by (induction xs) auto
  then have g: "fconfig e' c' m' cm1 = (Devuelve (Vector (map BulkStr (concat (map (\<lambda>(k, x). [k, x]) ?kvs)))), m', cm1)"
    using assms(1,5,6) unfolding cm1_def s
    by (cases "regex e' r")
      (simp_all add: to_uppercase_opciones fconfig_def config_get_def get_parametro_def config_get_items_def config_set_item_def)
  have d: "claves_distintas ?mapa" using assms(2) by simp
  then have "distinct (map fst ?kvs)"
    by (simp add: claves_distintas_def distinct_map_filter)
  moreover have "set ?kvs = {(k, x). (\<exists>f. regex e' r = Some f \<and> f k) \<and> ((map_of (mapa_config (contenido cm)))(p \<mapsto> v)) k = Some x}"
    using claves_distintas_map_of [OF d] by (cases "regex e' r") (auto simp: update_conv')
  moreover have "fconfig e c m cm = (Devuelve (StrSimple ''Ok''), m, cm1)" by (simp add: cm1_def s)
  ultimately show ?thesis using g by auto
qed

lemma config_set_get_testigo:
  "\<exists>cm1. fconfig (entorno_ejemplo 0 Debug) (orden ''CONFIG'' [''SET'', ''timeout'', ''9'']) (con_tabla [])
     \<lparr>contenido = config_new, envenenado = False\<rparr> = (Devuelve (StrSimple ''Ok''), con_tabla [], cm1)"
proof -
  have "\<not> envenenado \<lparr>contenido = config_new, envenenado = False\<rparr>"
    "claves_distintas (mapa_config (contenido \<lparr>contenido = config_new, envenenado = False\<rparr>))"
    by (simp_all add: config_new_def claves_distintas_def)
  from config_set_get [OF this, of "orden ''CONFIG'' [''SET'', ''timeout'', ''9'']" "''timeout''" "''9''"
      "orden ''CONFIG'' [''GET'', ''timeout'']" "''timeout''" "entorno_ejemplo 0 Debug" "con_tabla []"]
  show ?thesis by auto
qed

end
