(* ===== verification/Persistencia.thy ===== *)
theory Persistencia
  imports Registro
begin

text \<open>
  \<open>persistencia.rs\<close>: the thread that writes the table it is sent to a file, the text format of the
  file, and \<open>levantar_tabla\<close>, which reads it back when the server starts. The file is opened
  without truncation: a write replaces the bytes from the start and what was longer stays.
\<close>

section \<open>The text of an entry\<close>

abbreviation STRING :: string where "STRING \<equiv> ''STRING''"
abbreviation LIST :: string where "LIST \<equiv> ''LIST''"
abbreviation SET :: string where "SET \<equiv> ''SET''"
abbreviation SEPARADOR :: string where "SEPARADOR \<equiv> '':''"

fun guardar_clave_valor :: "string \<Rightarrow> tipo_redis option \<Rightarrow> duracion option \<Rightarrow> string" where
  "guardar_clave_valor clave (Some (Str v)) (Some d) =
     STRING @ SEPARADOR @ clave @ SEPARADOR @ v @ SEPARADOR @ ''EX'' @ SEPARADOR @ show_nat (as_secs d)"
| "guardar_clave_valor clave (Some (Str v)) None = STRING @ SEPARADOR @ clave @ SEPARADOR @ v"
| "guardar_clave_valor clave (Some (Lista xs)) (Some d) =
     foldl (\<lambda>p v. p @ SEPARADOR @ v) (LIST @ SEPARADOR @ clave) xs
       @ SEPARADOR @ ''EX'' @ SEPARADOR @ show_nat (as_secs d)"
| "guardar_clave_valor clave (Some (Lista xs)) None =
     foldl (\<lambda>p v. p @ SEPARADOR @ v) (LIST @ SEPARADOR @ clave) xs"
| "guardar_clave_valor clave (Some (TSet xs)) (Some d) =
     foldl (\<lambda>p v. p @ SEPARADOR @ v) (SET @ SEPARADOR @ clave) xs
       @ SEPARADOR @ ''EX'' @ SEPARADOR @ show_nat (as_secs d)"
| "guardar_clave_valor clave (Some (TSet xs)) None =
     foldl (\<lambda>p v. p @ SEPARADOR @ v) (SET @ SEPARADOR @ clave) xs"
| "guardar_clave_valor clave _ _ = []"

section \<open>Writing\<close>

text \<open>
  A write at a position of an open file. \<open>guardar_en_archivo\<close> opens with \<open>write\<close> and \<open>create\<close> only
  and writes the lines one after the other; an error of a write is printed and ignored.
\<close>

definition escribir_en :: "nat \<Rightarrow> string \<Rightarrow> string \<Rightarrow> string" where
  "escribir_en pos s bs = take pos bs @ s @ drop (pos + length s) bs"

fun escribir_lineas :: "bool \<Rightarrow> string list \<Rightarrow> nat \<Rightarrow> string \<Rightarrow> string" where
  "escribir_lineas ok [] pos bs = bs"
| "escribir_lineas ok (l # ls) pos bs =
     (if ok then escribir_lineas ok ls (pos + length (l @ [CHR 0x0A])) (escribir_en pos (l @ [CHR 0x0A]) bs)
      else escribir_lineas ok ls pos bs)"

definition guardar_en_archivo :: "string \<Rightarrow> string list \<Rightarrow> disco \<Rightarrow> bool \<times> disco" where
  "guardar_en_archivo a instrucciones d =
     (if \<not> abrible d a then (False, d)
      else (let viejo = (case bytes_de d a of None \<Rightarrow> [] | Some bs \<Rightarrow> bs)
            in (True, d\<lparr>bytes_de := (bytes_de d)(a \<mapsto> escribir_lineas (grabable d a) instrucciones 0 viejo)\<rparr>)))"

record persistidor_handler =
  archivo_ph :: string
  intervalo :: duracion
  instante_ph :: instante

definition persistidor_handler_new :: "instante \<Rightarrow> string \<Rightarrow> nat \<Rightarrow> persistidor_handler" where
  "persistidor_handler_new t a n = \<lparr>archivo_ph = a, intervalo = from_secs n, instante_ph = t\<rparr>"

text \<open>One turn of the loop of \<open>persistir\<close>, for a message received at an instant: \<open>Inl\<close> is the \<open>break\<close>.\<close>

definition lineas_de_tabla :: "instante \<Rightarrow> tabla \<Rightarrow> string list" where
  "lineas_de_tabla t m = map (\<lambda>(k, v). guardar_clave_valor k (valor_get t v) (get_tiempo v)) m"

definition persistir_paso ::
    "instante \<Rightarrow> mensaje_persistencia \<Rightarrow> persistidor_handler \<times> disco \<Rightarrow>
     (persistidor_handler \<times> disco) + (persistidor_handler \<times> disco)" where
  "persistir_paso t msj s =
     (case s of (h, d) \<Rightarrow>
        (case msj of
           Info a_persistir \<Rightarrow>
             if t - instante_ph h \<ge> intervalo h
             then (case guardar_en_archivo (archivo_ph h) (lineas_de_tabla t a_persistir) d of
                     (True, d') \<Rightarrow> Inr (h\<lparr>instante_ph := t\<rparr>, d')
                   | (False, d') \<Rightarrow> Inl (h, d'))
             else Inr (h, d)
         | ArchivoAPersistir a \<Rightarrow> Inr (h\<lparr>archivo_ph := a\<rparr>, d)
         | CerrarPersistencia \<Rightarrow> Inl (h, d)))"

fun persistir ::
    "(instante \<times> mensaje_persistencia) list \<Rightarrow> persistidor_handler \<times> disco \<Rightarrow> persistidor_handler \<times> disco" where
  "persistir [] s = s"
| "persistir ((t, msj) # msjs) s =
     (case persistir_paso t msj s of Inl s' \<Rightarrow> s' | Inr s' \<Rightarrow> persistir msjs s')"

section \<open>Reading\<close>

definition es_expirable :: "string list \<Rightarrow> bool" where
  "es_expirable ps = list_ex (\<lambda>p. p = ''EX'') ps"

text \<open>\<open>c[0]\<close> panics when the support word is the last element.\<close>

definition pers_obtener_tiempo_expiracion :: "string list \<Rightarrow> string \<Rightarrow> nat option salida" where
  "pers_obtener_tiempo_expiracion ps support =
     luego (indice_vec (rsplit_primero (\<lambda>p. p = support) ps) 0) (\<lambda>c0. Devuelve (parse_u64 c0))"

definition unwrap_or :: "'a \<Rightarrow> 'a option \<Rightarrow> 'a" where
  "unwrap_or d x = (case x of Some a \<Rightarrow> a | None \<Rightarrow> d)"

definition valor_levantado :: "instante \<Rightarrow> tipo_redis \<Rightarrow> string list \<Rightarrow> valor salida" where
  "valor_levantado t v elemento =
     (if es_expirable elemento
      then luego (pers_obtener_tiempo_expiracion elemento ''EX'') (\<lambda>tiempo.
             Devuelve (expirable t v (unwrap_or 0 tiempo)))
      else Devuelve (no_expirable t v))"

definition remove_primero :: "'a list \<Rightarrow> ('a \<times> 'a list) salida" where
  "remove_primero xs = (case xs of [] \<Rightarrow> Panico | x # ys \<Rightarrow> Devuelve (x, ys))"

definition levantar_linea :: "instante \<Rightarrow> string \<Rightarrow> tabla \<Rightarrow> tabla salida" where
  "levantar_linea t linea m =
     (if linea = [] then Devuelve m
      else
        let elemento = split_char (CHR '':'') linea in
        if list_ex (\<lambda>p. p = ''STRING'') elemento then
          luego (indice_vec elemento 2) (\<lambda>v.
          luego (valor_levantado t (Str v) elemento) (\<lambda>valor.
          luego (indice_vec elemento 1) (\<lambda>clave. Devuelve (AList.update clave valor m))))
        else if list_ex (\<lambda>p. p = ''LIST'') elemento then
          luego (remove_primero elemento) (\<lambda>(_, elemento).
          luego (remove_primero elemento) (\<lambda>(clave, elemento).
          luego (valor_levantado t (Lista elemento) elemento) (\<lambda>valor.
            Devuelve (AList.update clave valor m))))
        else if list_ex (\<lambda>p. p = ''SET'') elemento then
          luego (remove_primero elemento) (\<lambda>(_, elemento).
          luego (remove_primero elemento) (\<lambda>(clave, elemento).
          luego (valor_levantado t (TSet (fold insertar_set elemento [])) elemento) (\<lambda>valor.
            Devuelve (AList.update clave valor m))))
        else Devuelve m)"

fun levantar_lineas :: "instante \<Rightarrow> string option list \<Rightarrow> tabla \<Rightarrow> tabla salida" where
  "levantar_lineas t (Some linea # lineas) m =
     luego (levantar_linea t linea m) (\<lambda>m'. levantar_lineas t lineas m')"
| "levantar_lineas t _ m = Devuelve m"

definition levantar_tabla :: "instante \<Rightarrow> disco \<Rightarrow> string \<Rightarrow> tabla salida" where
  "levantar_tabla t d a =
     (case bytes_de d a of
        None \<Rightarrow> Devuelve []
      | Some bs \<Rightarrow> levantar_lineas t (leer_lineas bs) [])"

section \<open>What is written and what is read back\<close>

lemma escribir_lineas_eq:
  assumes "pos \<le> length bs"
  shows "escribir_lineas True ls pos bs =
    take pos bs @ concat (map (\<lambda>l. l @ [CHR 0x0A]) ls) @ drop (pos + length (concat (map (\<lambda>l. l @ [CHR 0x0A]) ls))) bs"
  using assms
proof (induction ls arbitrary: pos bs)
  case Nil
  then show ?case by simp
next
  case (Cons l ls)
  let ?s = "l @ [CHR 0x0A]"
  have "pos + length ?s \<le> length (escribir_en pos ?s bs)"
    using Cons.prems by (simp add: escribir_en_def)
  from Cons.IH [OF this] show ?case
    using Cons.prems by (simp add: escribir_en_def ac_simps)
qed

text \<open>The lines of a file whose every line ends in a line feed.\<close>

definition linea_limpia :: "string \<Rightarrow> bool" where
  "linea_limpia l \<longleftrightarrow> CHR 0x0A \<notin> set l \<and> CHR 0x0D \<notin> set l \<and> utf8_valida l"

lemma cortar_lineas_concat:
  "\<forall>l \<in> set ls. linea_limpia l \<Longrightarrow>
    cortar_lineas (split_char (CHR 0x0A) (concat (map (\<lambda>l. l @ [CHR 0x0A]) ls))) = ls"
proof (induction ls)
  case Nil
  then show ?case by simp
next
  case (Cons l ls)
  let ?r = "concat (map (\<lambda>l. l @ [CHR 0x0A]) ls)"
  have l: "linea_limpia l" using Cons.prems by simp
  then have "sin_cr l = l" by (metis sin_cr_def linea_limpia_def last_in_set)
  moreover have "split_char (CHR 0x0A) (l @ CHR 0x0A # ?r) = l # split_char (CHR 0x0A) ?r"
    using l by (simp add: linea_limpia_def)
  moreover obtain p ps where "split_char (CHR 0x0A) ?r = p # ps" by (meson neq_Nil_conv split_char_noNil)
  ultimately show ?case using Cons by simp
qed

lemma leer_lineas_concat:
  "\<forall>l \<in> set ls. linea_limpia l \<Longrightarrow> leer_lineas (concat (map (\<lambda>l. l @ [CHR 0x0A]) ls)) = map Some ls"
  by (simp add: leer_lineas_def cortar_lineas_concat linea_limpia_def)

text \<open>
  The entries that the format can carry: no separator and no line end in the texts, none of
  the four words of the format as a text, and a lifetime on strings only.
\<close>

definition texto_limpio :: "string \<Rightarrow> bool" where
  "texto_limpio s \<longleftrightarrow>
     linea_limpia s \<and> CHR '':'' \<notin> set s \<and> s \<notin> {''STRING'', ''LIST'', ''SET'', ''EX''}"

definition persistible :: "valor \<Rightarrow> bool" where
  "persistible v \<longleftrightarrow> valor_bien v \<and>
     (case valor_de v of
        Str s \<Rightarrow> texto_limpio s
      | Lista xs \<Rightarrow> (\<forall>x \<in> set xs. texto_limpio x) \<and> vida_util v = None
      | TSet xs \<Rightarrow> (\<forall>x \<in> set xs. texto_limpio x) \<and> vida_util v = None
      | Canal _ \<Rightarrow> True)"

text \<open>What a value written at \<open>t\<close> and read at \<open>t'\<close> becomes: its clock restarts; an expired value and a channel are lost.\<close>

definition restaurado :: "instante \<Rightarrow> instante \<Rightarrow> valor \<Rightarrow> valor option" where
  "restaurado t t' v =
     (case valor_get t v of
        None \<Rightarrow> None
      | Some (Canal _) \<Rightarrow> None
      | Some _ \<Rightarrow> Some (v\<lparr>momento_de_creacion := t', ultimo_acceso := t'\<rparr>))"

lemma linea_limpia_append [simp]: "linea_limpia a \<Longrightarrow> linea_limpia b \<Longrightarrow> linea_limpia (a @ b)"
  by (simp add: linea_limpia_def)

lemma linea_limpia_Cons [simp]: "linea_limpia b \<Longrightarrow> linea_limpia (CHR '':'' # b)"
  by (simp add: linea_limpia_def)

lemma linea_limpia_consts [simp]:
  "linea_limpia ''STRING''" "linea_limpia ''LIST''" "linea_limpia ''SET''" "linea_limpia ''EX''"
  "linea_limpia []"
  by (simp_all add: linea_limpia_def)

lemma linea_limpia_show_nat [simp]: "linea_limpia (show_nat n)"
  using show_nat_digito [of "CHR 0x0A" n] show_nat_digito [of "CHR 0x0D" n]
    utf8_valida_ascii_append [OF ascii_show_nat, of n "[]"]
  by (auto simp: linea_limpia_def)

definition campos :: "string list \<Rightarrow> string" where
  "campos xs = concat (map (\<lambda>x. CHR '':'' # x) xs)"

lemma campos_simps [simp]:
  "campos [] = []" "campos (x # xs) = CHR '':'' # x @ campos xs" "campos (xs @ ys) = campos xs @ campos ys"
  by (simp_all add: campos_def)

lemma foldl_campos: "foldl (\<lambda>p v. p @ CHR '':'' # v) p xs = p @ campos xs"
  by (induction xs arbitrary: p) simp_all

lemma split_campos:
  "CHR '':'' \<notin> set a \<Longrightarrow> \<forall>x \<in> set xs. CHR '':'' \<notin> set x \<Longrightarrow> split_char (CHR '':'') (a @ campos xs) = a # xs"
  by (induction xs arbitrary: a) simp_all

lemma linea_limpia_campos [simp]: "\<forall>x \<in> set xs. linea_limpia x \<Longrightarrow> linea_limpia (campos xs)"
  by (induction xs) simp_all

lemma restaurado_simps:
  "expiro t v \<Longrightarrow> restaurado t t' v = None"
  "valor_de v = Canal c \<Longrightarrow> restaurado t t' v = None"
  "\<not> expiro t v \<Longrightarrow> valor_de v = Str s \<Longrightarrow> restaurado t t' v = Some (v\<lparr>momento_de_creacion := t', ultimo_acceso := t'\<rparr>)"
  "\<not> expiro t v \<Longrightarrow> valor_de v = Lista xs \<Longrightarrow> restaurado t t' v = Some (v\<lparr>momento_de_creacion := t', ultimo_acceso := t'\<rparr>)"
  "\<not> expiro t v \<Longrightarrow> valor_de v = TSet xs \<Longrightarrow> restaurado t t' v = Some (v\<lparr>momento_de_creacion := t', ultimo_acceso := t'\<rparr>)"
  by (simp_all add: restaurado_def valor_get_def)

lemma linea_eq:
  "guardar_clave_valor k (Some (Str s)) None = ''STRING'' @ campos [k, s]"
  "guardar_clave_valor k (Some (Str s)) (Some d) = ''STRING'' @ campos [k, s, ''EX'', show_nat (as_secs d)]"
  "guardar_clave_valor k (Some (Lista xs)) None = ''LIST'' @ campos (k # xs)"
  "guardar_clave_valor k (Some (TSet xs)) None = ''SET'' @ campos (k # xs)"
  by (simp_all add: foldl_campos)

lemma no_es_expirable: "\<forall>x \<in> set xs. texto_limpio x \<Longrightarrow> \<not> es_expirable xs"
  by (auto simp: es_expirable_def list_ex_iff texto_limpio_def)

lemma no_es_palabra:
  "\<forall>x \<in> set xs. texto_limpio x \<Longrightarrow> w \<in> {''STRING'', ''LIST'', ''SET''} \<Longrightarrow> \<not> list_ex (\<lambda>p. p = w) xs"
  by (auto simp: list_ex_iff texto_limpio_def)

lemma fold_insertar_set: "distinct (ys @ xs) \<Longrightarrow> fold insertar_set xs ys = ys @ xs"
  by (induction xs arbitrary: ys) (auto simp: insertar_set_def)

lemma valor_levantado_simple:
  "\<not> es_expirable xs \<Longrightarrow> valor_levantado t v xs = Devuelve (no_expirable t v)"
  by (simp add: valor_levantado_def)

lemma valor_levantado_ex:
  "n < 2 ^ 64 \<Longrightarrow> valor_levantado t v [a, b, c, ''EX'', show_nat n] = Devuelve (expirable t v n)"
proof -
  assume n: "n < 2 ^ 64"
  have ne: "show_nat n \<noteq> ''EX''"
    using show_nat_Cons [of n "CHR ''E''" "''X''"] by (auto simp: es_digito_def)
  have "rsplit_primero (\<lambda>p. p = ''EX'') ([a, b, c] @ ''EX'' # [show_nat n]) = [show_nat n]"
    by (rule rsplit_primero_append) (simp_all add: ne)
  moreover have "parse_u64 (show_nat n) = Some n" using n by simp
  ultimately show ?thesis
    by (simp add: valor_levantado_def es_expirable_def pers_obtener_tiempo_expiracion_def indice_vec_def unwrap_or_def)
qed

lemma levantar_str:
  assumes "texto_limpio k" "texto_limpio s"
  shows "levantar_linea t (''STRING'' @ campos [k, s]) m = Devuelve (AList.update k (no_expirable t (Str s)) m)"
proof -
  have "split_char (CHR '':'') (''STRING'' @ campos [k, s]) = [''STRING'', k, s]"
    using assms by (subst split_campos) (auto simp: texto_limpio_def)
  moreover have "\<not> es_expirable [''STRING'', k, s]"
    using assms by (auto simp: es_expirable_def texto_limpio_def)
  ultimately show ?thesis
    by (simp add: levantar_linea_def indice_vec_def valor_levantado_simple del: campos_simps)
qed

lemma levantar_str_ex:
  assumes "texto_limpio k" "texto_limpio s" "n < 2 ^ 64"
  shows "levantar_linea t (''STRING'' @ campos [k, s, ''EX'', show_nat n]) m =
    Devuelve (AList.update k (expirable t (Str s) n) m)"
proof -
  have "CHR '':'' \<notin> set (show_nat n)" using show_nat_digito [of "CHR '':''" n] by auto
  then have "split_char (CHR '':'') (''STRING'' @ campos [k, s, ''EX'', show_nat n]) =
      [''STRING'', k, s, ''EX'', show_nat n]"
    using assms by (subst split_campos) (auto simp: texto_limpio_def)
  then show ?thesis using valor_levantado_ex [OF assms(3)]
    by (simp add: levantar_linea_def indice_vec_def del: campos_simps)
qed

lemma levantar_lista:
  assumes "texto_limpio k" "\<forall>x \<in> set xs. texto_limpio x"
  shows "levantar_linea t (''LIST'' @ campos (k # xs)) m = Devuelve (AList.update k (no_expirable t (Lista xs)) m)"
proof -
  have "split_char (CHR '':'') (''LIST'' @ campos (k # xs)) = ''LIST'' # k # xs"
    using assms by (subst split_campos) (auto simp: texto_limpio_def)
  moreover have "\<not> list_ex (\<lambda>p. p = ''STRING'') (''LIST'' # k # xs)"
    using no_es_palabra [of "k # xs" "''STRING''"] assms by simp
  ultimately show ?thesis using assms no_es_expirable [of xs]
    by (simp add: levantar_linea_def remove_primero_def valor_levantado_simple del: campos_simps)
qed

lemma levantar_set:
  assumes "texto_limpio k" "\<forall>x \<in> set xs. texto_limpio x" "distinct xs"
  shows "levantar_linea t (''SET'' @ campos (k # xs)) m = Devuelve (AList.update k (no_expirable t (TSet xs)) m)"
proof -
  have "split_char (CHR '':'') (''SET'' @ campos (k # xs)) = ''SET'' # k # xs"
    using assms by (subst split_campos) (auto simp: texto_limpio_def)
  moreover have "\<not> list_ex (\<lambda>p. p = ''STRING'') (''SET'' # k # xs)" "\<not> list_ex (\<lambda>p. p = ''LIST'') (''SET'' # k # xs)"
    using no_es_palabra [of "k # xs"] assms by simp_all
  ultimately show ?thesis using assms no_es_expirable [of xs]
    by (simp add: levantar_linea_def remove_primero_def valor_levantado_simple fold_insertar_set del: campos_simps)
qed

lemma restaurar_no_expirable:
  "vida_util v = None \<Longrightarrow> no_expirable t' (valor_de v) = v\<lparr>momento_de_creacion := t', ultimo_acceso := t'\<rparr>"
  by (simp add: no_expirable_def)

lemma levantar_guardada:
  assumes "texto_limpio k" "persistible v"
  shows "levantar_linea t' (guardar_clave_valor k (valor_get t v) (get_tiempo v)) m =
    Devuelve (case restaurado t t' v of None \<Rightarrow> m | Some v' \<Rightarrow> AList.update k v' m)"
proof (cases "expiro t v")
  case True
  then show ?thesis by (simp add: valor_get_def restaurado_simps levantar_linea_def)
next
  case vivo: False
  then have g: "valor_get t v = Some (valor_de v)" by (simp add: valor_get_def)
  show ?thesis
  proof (cases "valor_de v")
    case (Str s)
    note r = restaurado_simps(3) [OF vivo Str]
    have s: "texto_limpio s" using assms(2) Str by (simp add: persistible_def)
    show ?thesis
    proof (cases "vida_util v")
      case None
      then show ?thesis using levantar_str [OF assms(1) s, of t' m] r g Str
        restaurar_no_expirable [of v t']
        by (simp add: get_tiempo_def linea_eq del: guardar_clave_valor.simps campos_simps)
    next
      case (Some d)
      have d: "d = from_secs (as_secs d)" "as_secs d < 2 ^ 64"
        using assms(2) Some by (simp_all add: persistible_def valor_bien_def)
      then have "expirable t' (Str s) (as_secs d) = v\<lparr>momento_de_creacion := t', ultimo_acceso := t'\<rparr>"
        using Some Str by (simp add: expirable_def)
      then show ?thesis using levantar_str_ex [OF assms(1) s d(2), of t' m] r g Str Some
        by (simp add: get_tiempo_def linea_eq del: guardar_clave_valor.simps campos_simps)
    qed
  next
    case (Lista xs)
    then have xs: "\<forall>x \<in> set xs. texto_limpio x" "vida_util v = None" using assms(2) by (simp_all add: persistible_def)
    then show ?thesis using levantar_lista [OF assms(1) xs(1), of t' m] restaurado_simps(4) [OF vivo Lista] g Lista
      restaurar_no_expirable [of v t']
        by (simp add: get_tiempo_def linea_eq del: guardar_clave_valor.simps campos_simps)
  next
    case (TSet xs)
    then have xs: "\<forall>x \<in> set xs. texto_limpio x" "distinct xs" "vida_util v = None"
      using assms(2) by (simp_all add: persistible_def valor_bien_def)
    then show ?thesis using levantar_set [OF assms(1) xs(1,2), of t' m] restaurado_simps(5) [OF vivo TSet] g TSet
      restaurar_no_expirable [of v t']
        by (simp add: get_tiempo_def linea_eq del: guardar_clave_valor.simps campos_simps)
  next
    case (Canal c)
    then show ?thesis by (simp add: g restaurado_simps(2) levantar_linea_def)
  qed
qed

lemma texto_limpio_linea: "texto_limpio s \<Longrightarrow> linea_limpia s"
  by (simp add: texto_limpio_def)

lemma linea_guardada_limpia:
  assumes "texto_limpio k" "persistible v"
  shows "linea_limpia (guardar_clave_valor k (valor_get t v) (get_tiempo v))"
proof (cases "valor_get t v")
  case (Some x)
  then have x: "valor_de v = x" by (simp add: valor_get_def split: if_splits)
  note d = linea_limpia_append linea_limpia_campos linea_limpia_consts
  show ?thesis
  proof (cases x)
    case (Str s)
    then show ?thesis using assms Some x
      by (cases "vida_util v")
        (simp_all add: linea_eq get_tiempo_def persistible_def texto_limpio_linea d
          del: guardar_clave_valor.simps campos_simps append.simps)
  qed (use assms Some x in \<open>simp_all add: linea_eq get_tiempo_def persistible_def texto_limpio_linea d
          del: guardar_clave_valor.simps(3-6) campos_simps append.simps\<close>)
qed simp

definition tabla_persistible :: "tabla \<Rightarrow> bool" where
  "tabla_persistible m \<longleftrightarrow> claves_distintas m \<and> (\<forall>(k, v) \<in> set m. texto_limpio k \<and> persistible v)"

definition reponer :: "instante \<Rightarrow> instante \<Rightarrow> string \<times> valor \<Rightarrow> tabla \<Rightarrow> tabla" where
  "reponer t t' kv m = (case restaurado t t' (snd kv) of None \<Rightarrow> m | Some v' \<Rightarrow> AList.update (fst kv) v' m)"

lemma levantar_lineas_de_tabla:
  "\<forall>(k, v) \<in> set m. texto_limpio k \<and> persistible v \<Longrightarrow>
    levantar_lineas t' (map Some (lineas_de_tabla t m)) m0 = Devuelve (fold (reponer t t') m m0)"
proof (induction m arbitrary: m0)
  case Nil
  then show ?case by (simp add: lineas_de_tabla_def)
next
  case (Cons kv m)
  obtain k v where kv: "kv = (k, v)" by force
  have "texto_limpio k" "persistible v" using Cons.prems kv by auto
  then have "levantar_linea t' (guardar_clave_valor k (valor_get t v) (get_tiempo v)) m0 = Devuelve (reponer t t' kv m0)"
    by (simp add: levantar_guardada reponer_def kv split: option.split)
  with Cons kv show ?case
    by (simp add: lineas_de_tabla_def del: guardar_clave_valor.simps)
qed

lemma map_of_reponer:
  "claves_distintas m \<Longrightarrow> fst ` set m \<inter> fst ` set m0 = {} \<Longrightarrow>
    map_of (fold (reponer t t') m m0) = map_of m0 ++ (\<lambda>k. Option.bind (map_of m k) (restaurado t t'))"
proof (induction m arbitrary: m0)
  case Nil
  then show ?case by simp
next
  case (Cons kv m)
  obtain k v where kv: "kv = (k, v)" by force
  let ?m0 = "reponer t t' kv m0"
  have k: "k \<notin> fst ` set m" "k \<notin> fst ` set m0" "claves_distintas m"
    using Cons.prems by (auto simp: kv claves_distintas_def)
  have "fst ` set ?m0 \<subseteq> insert k (fst ` set m0)"
    by (auto simp: reponer_def kv dom_update split: option.splits)
  then have "fst ` set m \<inter> fst ` set ?m0 \<subseteq> fst ` set m \<inter> insert k (fst ` set m0)" by blast
  also have "\<dots> = {}" using k Cons.prems by auto
  finally have "fst ` set m \<inter> fst ` set ?m0 = {}" by simp
  from Cons.IH [OF k(3) this] have "map_of (fold (reponer t t') (kv # m) m0) =
      map_of ?m0 ++ (\<lambda>k. Option.bind (map_of m k) (restaurado t t'))" by simp
  moreover have "map_of m k = None" "map_of m0 k = None" using k by (simp_all add: map_of_eq_None_iff)
  moreover have "map_of ?m0 = (map_of m0)(k := restaurado t t' v)"
    using \<open>map_of m0 k = None\<close> by (auto simp: reponer_def kv update_conv' split: option.splits)
  ultimately show ?case
    by (auto simp: kv map_add_def fun_eq_iff split: option.splits)
qed

text \<open>Whatever the file holds, the table that is read meets the invariant of the database.\<close>

lemma valor_levantado_bien: "valor_levantado t v xs = Devuelve x \<Longrightarrow> tipo_bien v \<Longrightarrow> valor_bien x"
proof -
  assume x: "valor_levantado t v xs = Devuelve x" and v: "tipo_bien v"
  have "unwrap_or 0 (parse_u64 c) < 2 ^ 64" for c
    using parse_unsigned_le [of "2 ^ 64 - 1" c] by (auto simp: unwrap_or_def split: option.splits)
  with x v show ?thesis
    by (auto simp: valor_levantado_def pers_obtener_tiempo_expiracion_def split: if_splits elim!: luego.elims)
qed

lemma distinct_fold_insertar_set: "distinct ys \<Longrightarrow> distinct (fold insertar_set xs ys)"
  by (induction xs arbitrary: ys) simp_all

lemma levantar_linea_inv:
  "levantar_linea t l m = Devuelve m' \<Longrightarrow> bdd_inv (bdd_new_con m) \<Longrightarrow> bdd_inv (bdd_new_con m')"
  using bdd_inv_update [of "bdd_new_con m"] distinct_fold_insertar_set [of "[]"]
  by (auto simp: levantar_linea_def Let_def bdd_new_con_def luego_eq_Devuelve split: if_splits
      dest!: valor_levantado_bien)

lemma levantar_lineas_inv:
  "levantar_lineas t ls m = Devuelve m' \<Longrightarrow> bdd_inv (bdd_new_con m) \<Longrightarrow> bdd_inv (bdd_new_con m')"
  by (induction t ls m rule: levantar_lineas.induct) (auto simp: luego_eq_Devuelve dest: levantar_linea_inv)

lemma levantar_tabla_inv: "levantar_tabla t d a = Devuelve m \<Longrightarrow> bdd_inv (bdd_new_con m)"
proof (cases "bytes_de d a")
  case (Some bs)
  moreover have "bdd_inv (bdd_new_con [])" by (simp add: bdd_new_con_def bdd_inv_def)
  moreover assume "levantar_tabla t d a = Devuelve m"
  ultimately show ?thesis by (auto simp: levantar_tabla_def dest: levantar_lineas_inv)
qed (auto simp: levantar_tabla_def bdd_new_con_def bdd_inv_def)

section \<open>Properties\<close>

definition texto_de :: "string list \<Rightarrow> string" where
  "texto_de ls = concat (map (\<lambda>l. l @ [CHR 0x0A]) ls)"

lemma guardado_se_levanta:
  assumes "tabla_persistible m" "abrible d a" "grabable d a"
    and "case bytes_de d a of None \<Rightarrow> True | Some bs \<Rightarrow> length bs \<le> length (texto_de (lineas_de_tabla t m))"
  shows "\<exists>m'. levantar_tabla t' (snd (guardar_en_archivo a (lineas_de_tabla t m) d)) a = Devuelve m' \<and>
    map_of m' = (\<lambda>k. Option.bind (map_of m k) (restaurado t t'))"
proof -
  let ?ls = "lineas_de_tabla t m"
  have m: "claves_distintas m" "\<forall>(k, v) \<in> set m. texto_limpio k \<and> persistible v"
    using assms(1) by (simp_all add: tabla_persistible_def)
  have "bytes_de (snd (guardar_en_archivo a ?ls d)) a = Some (texto_de ?ls)"
    using assms(2-4) escribir_lineas_eq [of 0 _ ?ls]
    by (auto simp: guardar_en_archivo_def Let_def texto_de_def split: option.splits)
  moreover have "\<forall>l \<in> set ?ls. linea_limpia l"
    using m(2) by (auto simp: lineas_de_tabla_def simp del: guardar_clave_valor.simps intro!: linea_guardada_limpia)
  ultimately have "levantar_tabla t' (snd (guardar_en_archivo a ?ls d)) a = Devuelve (fold (reponer t t') m [])"
    using leer_lineas_concat [of ?ls] levantar_lineas_de_tabla [OF m(2), of t' t "[]"]
    by (simp add: levantar_tabla_def texto_de_def)
  moreover have "map_of (fold (reponer t t') m []) = (\<lambda>k. Option.bind (map_of m k) (restaurado t t'))"
    using map_of_reponer [OF m(1), of "[]" t t'] by simp
  ultimately show ?thesis by blast
qed

text \<open>
  C7: writing a table to a file and reading it back when the server starts again. If the new text
  is at least as long as the old contents, every key that had not expired comes back with its
  value and its whole lifetime, restarted at the moment of reading; expired keys and channels are
  lost. The table is one the format can carry (\<open>tabla_persistible\<close>).
\<close>

theorem guardar_levantar:
  assumes "tabla_persistible m" "abrible d a" "grabable d a"
    and "case bytes_de d a of None \<Rightarrow> True | Some bs \<Rightarrow> length bs \<le> length (texto_de (lineas_de_tabla t m))"
  shows "\<exists>m'. levantar_tabla t' (snd (guardar_en_archivo a (lineas_de_tabla t m) d)) a = Devuelve m' \<and>
    map_of m' = (\<lambda>k. Option.bind (map_of m k) (restaurado t t'))"
  using guardado_se_levanta [OF assms] .

definition disco_ejemplo :: disco where
  "disco_ejemplo = \<lparr>bytes_de = \<lambda>_. None, abrible = \<lambda>_. True, grabable = \<lambda>_. True\<rparr>"

lemma guardar_levantar_testigo:
  "\<exists>m'. levantar_tabla 9 (snd (guardar_en_archivo ''dump.rb''
        (lineas_de_tabla 0 [(''k'', no_expirable 0 (Lista [''a'', ''b'']))]) disco_ejemplo)) ''dump.rb'' = Devuelve m' \<and>
     map_of m' ''k'' = Some (no_expirable 9 (Lista [''a'', ''b'']))"
  using guardar_levantar [of "[(''k'', no_expirable 0 (Lista [''a'', ''b'']))]" disco_ejemplo "''dump.rb''" 0 9]
  by (auto simp: disco_ejemplo_def tabla_persistible_def claves_distintas_def persistible_def texto_limpio_def
      linea_limpia_def no_expirable_def valor_bien_def restaurado_def valor_get_def expiro_def)

text \<open>
  C34: the file is not truncated: after a write it holds the new text followed by what the old
  contents had beyond that length. In particular the empty table of a \<open>FLUSHDB\<close> leaves every
  entry in the file.
\<close>

theorem guardar_no_trunca:
  assumes "abrible d a" "grabable d a" "bytes_de d a = Some viejo"
  shows "guardar_en_archivo a ls d =
      (True, d\<lparr>bytes_de := (bytes_de d)(a \<mapsto> texto_de ls @ drop (length (texto_de ls)) viejo)\<rparr>) \<and>
    bytes_de (snd (guardar_en_archivo a (lineas_de_tabla t []) d)) a = Some viejo"
  using assms escribir_lineas_eq [of 0 viejo]
  by (simp add: guardar_en_archivo_def texto_de_def lineas_de_tabla_def)

lemma guardar_no_trunca_testigo:
  "bytes_de (snd (guardar_en_archivo ''f'' [''x''] (disco_ejemplo\<lparr>bytes_de := (\<lambda>_. Some ''abcde'')\<rparr>))) ''f'' =
   Some (''x'' @ [CHR 0x0A] @ ''cde'')"
  using guardar_no_trunca [of "disco_ejemplo\<lparr>bytes_de := (\<lambda>_. Some ''abcde'')\<rparr>" "''f''" "''abcde''" "[''x'']"]
  by (simp add: disco_ejemplo_def texto_de_def)

text \<open>
  C35: a string whose value is the word \<open>EX\<close>, stored without a lifetime, is written as
  \<open>STRING:k:EX\<close>, and reading that file panics: the server does not start again.
\<close>

theorem levantar_valor_ex:
  assumes "texto_limpio k" "abrible d a" "grabable d a" "bytes_de d a = None"
  shows "levantar_tabla t' (snd (guardar_en_archivo a (lineas_de_tabla t [(k, no_expirable t0 (Str ''EX''))]) d)) a = Panico"
proof -
  let ?l = "''STRING'' @ campos [k, ''EX'']"
  have ls: "lineas_de_tabla t [(k, no_expirable t0 (Str ''EX''))] = [?l]"
    by (simp add: lineas_de_tabla_def get_tiempo_def no_expirable_def valor_get_def expiro_def)
  have "linea_limpia ?l"
    using texto_limpio_linea [OF assms(1)] by (intro linea_limpia_append linea_limpia_campos) simp_all
  then have "leer_lineas (?l @ [CHR 0x0A]) = [Some ?l]"
    using leer_lineas_concat [of "[?l]"] by simp
  moreover have "split_char (CHR '':'') ?l = [''STRING'', k, ''EX'']"
    using assms(1) by (subst split_campos) (auto simp: texto_limpio_def)
  moreover have "rsplit_primero (\<lambda>p. p = ''EX'') ([''STRING'', k] @ ''EX'' # []) = []"
    by (intro rsplit_primero_append) simp_all
  ultimately have "levantar_lineas t' (leer_lineas (?l @ [CHR 0x0A])) [] = Panico"
    by (simp add: levantar_linea_def valor_levantado_def es_expirable_def pers_obtener_tiempo_expiracion_def
        indice_vec_def del: campos_simps)
  then show ?thesis using assms(2-4) escribir_lineas_eq [of 0 "[]" "[?l]"]
    unfolding ls by (simp add: guardar_en_archivo_def levantar_tabla_def del: campos_simps escribir_lineas.simps)
qed

lemma levantar_valor_ex_testigo:
  "levantar_tabla 1 (snd (guardar_en_archivo ''dump.rb'' (lineas_de_tabla 0 [(''k'', no_expirable 0 (Str ''EX''))]) disco_ejemplo))
     ''dump.rb'' = Panico"
  using levantar_valor_ex [of "''k''" disco_ejemplo "''dump.rb''"]
  by (simp add: disco_ejemplo_def texto_limpio_def linea_limpia_def)

text \<open>
  Tables that reach the thread less than the interval after its last write are dropped: they
  change neither the file nor the state of the thread, so that what the last of them held is not
  persisted unless a later change is.
\<close>

lemma persistir_descarta:
  assumes "\<forall>(t, b) \<in> set msjs. t - instante_ph h < intervalo h"
  shows "persistir (map (\<lambda>(t, b). (t, Info b)) msjs @ resto) (h, d) = persistir resto (h, d)"
  using assms by (induction msjs) (auto simp: persistir_paso_def)

lemma persistir_descarta_testigo:
  "persistir [(1, Info [(''k'', no_expirable 0 (Str ''v''))]), (2, CerrarPersistencia)]
     (persistidor_handler_new 0 ''dump.rb'' 1, disco_ejemplo) = (persistidor_handler_new 0 ''dump.rb'' 1, disco_ejemplo)"
  using persistir_descarta [of "[(1, [(''k'', no_expirable 0 (Str ''v''))])]" "persistidor_handler_new 0 ''dump.rb'' 1"
      "[(2, CerrarPersistencia)]" disco_ejemplo]
  by (simp add: persistidor_handler_new_def from_secs_def persistir_paso_def)

end
