(* ===== verification/Redis.thy ===== *)
theory Redis
  imports Cadenas Listas Conjuntos Claves Pub_Sub Servidor Persistencia
begin

text \<open>
  \<open>comando.rs\<close>, \<open>comando_nulo_handler.rs\<close>, \<open>redis.rs\<close> and \<open>main.rs\<close>: the choice of the handler of a
  command, the loop that serves a client, and the start and the end of the server.
\<close>

section \<open>The choice of the handler\<close>

definition comando_nulo :: comando where
  "comando_nulo e comando m =
     (Devuelve (Error (''ComandoError '' @ [CHR 0x27] @ descripcion comando @ [CHR 0x27] @ '' no existe'')), m)"

text \<open>The box \<open>dyn ComandoHandler\<close>: the handlers that \<open>crear_comando_handler\<close> builds.\<close>

datatype comando_handler =
    HNulo comando_info
  | HString comando_info
  | HSet comando_info
  | HKey comando_info
  | HList comando_info
  | HPubSub comando_info cliente
  | HServer comando_info

definition crear_comando_handler :: "comando_info \<Rightarrow> cliente \<Rightarrow> comando_handler" where
  "crear_comando_handler comando cl =
     (if \<not> soporta_comando cl (get_nombre comando) then HNulo comando
      else if es_comando_string (get_nombre comando) then HString comando
      else if es_comando_set (get_nombre comando) then HSet comando
      else if es_comando_key (get_nombre comando) then HKey comando
      else if es_comando_list (get_nombre comando) then HList comando
      else if es_comando_pubsub (get_nombre comando) then HPubSub comando cl
      else if es_comando_server (get_nombre comando) then HServer comando
      else HNulo comando)"

text \<open>
  What the threads of the server share: the two mutexes, the sending side of the channel of the
  log, and the network.
\<close>

record mundo =
  w_bdd :: bdd_mutex
  w_config :: config_mutex
  w_log :: logger
  w_red :: red

definition con_bdd :: "comando \<Rightarrow> entorno \<Rightarrow> comando_info \<Rightarrow> mundo \<Rightarrow> resultado_redis salida \<times> mundo" where
  "con_bdd f e c w = (case f e c (w_bdd w) of (x, m') \<Rightarrow> (x, w\<lparr>w_bdd := m'\<rparr>))"

fun ejecutar :: "entorno \<Rightarrow> comando_handler \<Rightarrow> mundo \<Rightarrow> resultado_redis salida \<times> mundo" where
  "ejecutar e (HNulo c) w = con_bdd comando_nulo e c w"
| "ejecutar e (HString c) w = con_bdd ejecutar_string e c w"
| "ejecutar e (HSet c) w = con_bdd ejecutar_set e c w"
| "ejecutar e (HKey c) w = con_bdd ejecutar_key e c w"
| "ejecutar e (HList c) w = con_bdd ejecutar_list e c w"
| "ejecutar e (HPubSub c cl) w =
     (case ejecutar_pubsub e c cl (w_red w) (w_bdd w) of
        (x, r', m') \<Rightarrow> (x, w\<lparr>w_bdd := m', w_red := r'\<rparr>))"
| "ejecutar e (HServer c) w =
     (case ejecutar_server e c (w_bdd w) (w_config w) of
        (x, m', cm') \<Rightarrow> (x, w\<lparr>w_bdd := m', w_config := cm'\<rparr>))"

definition manejar_comando :: "entorno \<Rightarrow> comando_info \<Rightarrow> cliente \<Rightarrow> mundo \<Rightarrow> resultado_redis salida \<times> mundo" where
  "manejar_comando e entrada cl w = ejecutar e (crear_comando_handler entrada cl) w"

section \<open>Serving a client\<close>

definition manejar_error :: "redis_error \<Rightarrow> string \<Rightarrow> mundo \<Rightarrow> mundo" where
  "manejar_error err addr w = w\<lparr>w_log := log_error addr err (w_log w)\<rparr>"

text \<open>
  One turn of the loop of \<open>manejar_cliente\<close>: it goes on, returns from the function, or the
  thread panics.
\<close>

datatype turno = Continua | Retorna "redis_error + unit" | Muere

definition atender_comando :: "entorno \<Rightarrow> comando_info \<Rightarrow> cliente \<Rightarrow> mundo \<Rightarrow> turno \<times> cliente \<times> mundo" where
  "atender_comando e comando cl w =
     (let w = w\<lparr>w_log := log_comando (obtener_addr (w_red w) cl) comando (w_log w)\<rparr>
      in (case manejar_comando e comando (clone_cliente (duplicable e) cl) w of
            (Panico, w) \<Rightarrow> (Muere, cl, w)
          | (Devuelve res, w) \<Rightarrow>
              if envenenado (w_config w) then (Retorna (Inl RServer), cl, w)
              else (case config_actualizar (clone_cliente (duplicable e) cl) (contenido (w_config w)) (w_log w) of
                (cfg, l) \<Rightarrow>
                  (let w = w\<lparr>w_config := (w_config w)\<lparr>contenido := cfg\<rparr>, w_log := l\<rparr>
                   in (case enviar_resultado (ahora e) cl res (w_red w) of
                         (Inr _, cl, r) \<Rightarrow> (Continua, cl, w\<lparr>w_red := r\<rparr>)
                       | (Inl err, cl, r) \<Rightarrow> (Retorna (Inl err), cl, w\<lparr>w_red := r\<rparr>))))))"

definition manejar_cliente_paso :: "entorno \<Rightarrow> cliente \<Rightarrow> mundo \<Rightarrow> turno \<times> cliente \<times> mundo" where
  "manejar_cliente_paso e cl w =
     (if envio_informacion (w_red w) cl
      then (case obtener_comando (duplicable e) cl (w_red w) of
              (Panico, cl, r) \<Rightarrow> (Muere, cl, w\<lparr>w_red := r\<rparr>)
            | (Devuelve (Inr (Some comando)), cl, r) \<Rightarrow> atender_comando e comando cl (w\<lparr>w_red := r\<rparr>)
            | (Devuelve (Inr None), cl, r) \<Rightarrow> (Continua, cl, w\<lparr>w_red := r\<rparr>)
            | (Devuelve (Inl err), cl, r) \<Rightarrow> (Retorna (Inl err), cl, w\<lparr>w_red := r\<rparr>))
      else if \<not> esta_conectado (ahora e) (w_red w) cl then (Retorna (Inr ()), cl, w)
      else (Continua, cl, w))"

text \<open>
  The loop, along a schedule: before each turn the rest of the world (the other clients, the
  network) acts, and the turn reads the clock. With the schedule used up the loop still runs.
\<close>

fun manejar_cliente :: "(entorno \<times> (mundo \<Rightarrow> mundo)) list \<Rightarrow> cliente \<Rightarrow> mundo \<Rightarrow> turno \<times> cliente \<times> mundo" where
  "manejar_cliente [] cl w = (Continua, cl, w)"
| "manejar_cliente ((e, otros) # resto) cl w =
     (case manejar_cliente_paso e cl (otros w) of
        (Continua, cl', w') \<Rightarrow> manejar_cliente resto cl' w'
      | fin \<Rightarrow> fin)"

text \<open>The body of the thread that \<open>iniciar\<close> spawns for a connection.\<close>

definition hilo_cliente :: "(entorno \<times> (mundo \<Rightarrow> mundo)) list \<Rightarrow> cliente \<Rightarrow> mundo \<Rightarrow> turno \<times> cliente \<times> mundo" where
  "hilo_cliente plan cl w =
     (let w = w\<lparr>w_log := log_coneccion (obtener_addr (w_red w) cl) ''Se conecto usario'' (w_log w)\<rparr>
      in (case manejar_cliente plan cl w of
            (Retorna x, cl, w) \<Rightarrow>
              (let w = (case x of Inl err \<Rightarrow> manejar_error err (obtener_addr (w_red w) cl) w | Inr _ \<Rightarrow> w)
               in (Retorna x, cl,
                   w\<lparr>w_log := log_coneccion (obtener_addr (w_red w) cl) ''se desconecto usuario'' (w_log w)\<rparr>))
          | fin \<Rightarrow> fin))"

section \<open>The server\<close>

text \<open>
  The fields of \<open>Redis\<close> that are not threads; \<open>tx_pers\<close> are the messages the server itself sends to
  the thread that persists, apart from those of its two \<open>Persistidor\<close>.
\<close>

record redis =
  r_config :: config_mutex
  r_bdd :: bdd_mutex
  siguiente_id :: token
  tx_log :: logger
  tx_pers :: persistidor

definition redis_new ::
    "instante \<Rightarrow> disco \<Rightarrow> config \<Rightarrow> (redis \<times> log_handler \<times> persistidor_handler) salida" where
  "redis_new t d c =
     (let lh = log_handler_new (logfile c) (verbose c);
          ph = persistidor_handler_new t (dbfilename c) 1
      in luego (levantar_tabla t d (dbfilename c)) (\<lambda>m.
           Devuelve
            (\<lparr>r_config = \<lparr>contenido = set_persistidor persistidor_new c, envenenado = False\<rparr>,
              r_bdd = \<lparr>contenido = agregar_observador persistidor_new (bdd_new_con m), envenenado = False\<rparr>,
              siguiente_id = 0, tx_log = logger_new, tx_pers = persistidor_new\<rparr>, lh, ph)))"

text \<open>\<open>iniciar\<close>: the address it binds (\<open>bind\<close> says whether that succeeds), then one connection at a time.\<close>

definition iniciar_bind :: "(string \<Rightarrow> bool) \<Rightarrow> redis \<Rightarrow> redis_error + unit" where
  "iniciar_bind bind rd =
     (if envenenado (r_config rd) then Inl RServer
      else if bind (direccion (contenido (r_config rd))) then Inr () else Inl RInicializacion)"

definition iniciar_conexion ::
    "(string \<Rightarrow> string option) \<Rightarrow> entorno \<Rightarrow> string option \<Rightarrow> socket \<Rightarrow> redis \<Rightarrow> cliente option \<times> redis" where
  "iniciar_conexion archivos e visto stream rd =
     (if envenenado (r_config rd) then (None, rd)
      else (Some (crear_cliente archivos (ahora e) (siguiente_id rd)
                    (config_timeout (contenido (r_config rd))) visto stream),
            rd\<lparr>siguiente_id := siguiente_id rd + 1\<rparr>))"

text \<open>\<open>Drop for Redis\<close>, once the threads of the clients have ended.\<close>

definition redis_drop :: "redis \<Rightarrow> redis" where
  "redis_drop rd =
     rd\<lparr>tx_log := enviar_log Cerrar (tx_log rd), tx_pers := enviar_mensaje_pers CerrarPersistencia (tx_pers rd)\<rparr>"

text \<open>\<open>main\<close>: the configuration comes from the file named by the last argument.\<close>

definition main_config :: "disco \<Rightarrow> string list \<Rightarrow> config salida" where
  "main_config d argv =
     (if argv = [] then Devuelve config_new
      else luego (obtener_configuracion d (last argv)) (\<lambda>res.
             (case res of Inr c \<Rightarrow> Devuelve c | Inl _ \<Rightarrow> Devuelve config_new)))"

definition main :: "instante \<Rightarrow> disco \<Rightarrow> string list \<Rightarrow> (redis \<times> log_handler \<times> persistidor_handler) salida" where
  "main t d argv = luego (main_config d argv) (redis_new t d)"

section \<open>The contract of the whole dispatch\<close>

interpretation nulo: lector comando_nulo
  by unfold_locales (simp add: comando_nulo_def)

definition sobre_mundo :: "cliente \<Rightarrow> mundo \<Rightarrow> comando" where
  "sobre_mundo cl w e c m =
     (case manejar_comando e c cl (w\<lparr>w_bdd := m\<rparr>) of (x, w') \<Rightarrow> (x, w_bdd w'))"

lemma sobre_mundo_eq:
  "sobre_mundo cl w e c m =
    (case crear_comando_handler c cl of
       HNulo c \<Rightarrow> comando_nulo e c m
     | HString c \<Rightarrow> ejecutar_string e c m
     | HSet c \<Rightarrow> ejecutar_set e c m
     | HKey c \<Rightarrow> ejecutar_key e c m
     | HList c \<Rightarrow> ejecutar_list e c m
     | HPubSub c cl \<Rightarrow> sobre_bdd ejecutar_pubsub cl (w_red w) e c m
     | HServer c \<Rightarrow> sobre_bdd_config ejecutar_server (w_config w) e c m)"
  by (auto simp: sobre_mundo_def manejar_comando_def con_bdd_def sobre_bdd_def sobre_bdd_config_def
      split: comando_handler.split prod.split)

interpretation despacho: manejador "sobre_mundo cl w" for cl w
proof (rule manejadorI)
  fix e c m
  note ps = manejador_paso [OF nulo.manejador_axioms] manejador_paso [OF cadenas.manejador_axioms]
    manejador_paso [OF conjuntos.manejador_axioms] manejador_paso [OF llaves.manejador_axioms]
    manejador_paso [OF listas.manejador_axioms] manejador_paso [OF pubsubs.manejador_axioms]
    manejador_paso [OF servidor.manejador_axioms]
  show "paso_bien m (sobre_mundo cl w e c m)"
    by (simp add: sobre_mundo_eq ps split: comando_handler.split)
qed

lemma manejar_comando_sobre_mundo:
  "manejar_comando e c cl w = (x, w') \<Longrightarrow> sobre_mundo cl w e c (w_bdd w) = (x, w_bdd w')"
  by (simp add: sobre_mundo_def)

lemma ejecutar_server_config: "envenenado (snd (snd (ejecutar_server e c m cm))) = envenenado cm"
  by (simp add: ejecutar_server_def dbsize_def fconfig_def config_get_def config_set_def info_def monitor_def
      ping_def flushdb_def con_lock_def split: option.splits prod.splits sum.splits)

lemma manejar_comando_config:
  "manejar_comando e c cl w = (x, w') \<Longrightarrow> envenenado (w_config w') = envenenado (w_config w)"
  using ejecutar_server_config [of e _ "w_bdd w" "w_config w"]
  by (auto simp: manejar_comando_def con_bdd_def split: comando_handler.splits prod.splits
      elim!: ejecutar.elims) (metis snd_conv)+

section \<open>The initial state\<close>

text \<open>The state the threads share when the server starts.\<close>

definition mundo_inicial :: "redis \<Rightarrow> red \<Rightarrow> mundo" where
  "mundo_inicial rd r = \<lparr>w_bdd = r_bdd rd, w_config = r_config rd, w_log = tx_log rd, w_red = r\<rparr>"

definition mundo_inv :: "mundo \<Rightarrow> bool" where
  "mundo_inv w \<longleftrightarrow> bdd_mutex_inv (w_bdd w) \<and> \<not> envenenado (w_config w)"

lemma mundo_inv_sin_bdd [simp]:
  "mundo_inv (w\<lparr>w_red := r\<rparr>) = mundo_inv w" "mundo_inv (w\<lparr>w_log := l\<rparr>) = mundo_inv w"
  "mundo_inv (w\<lparr>w_config := (w_config w)\<lparr>contenido := c\<rparr>\<rparr>) = mundo_inv w"
  by (simp_all add: mundo_inv_def)

lemma redis_new_inv:
  "redis_new t d c = Devuelve (rd, lh, ph) \<Longrightarrow> mundo_inv (mundo_inicial rd r)"
  by (auto simp: redis_new_def mundo_inicial_def mundo_inv_def mutex_inv_def agregar_observador_def bdd_inv_def
      bdd_new_con_def Let_def luego_eq_Devuelve dest!: levantar_tabla_inv) (metis snd_conv)

end
