(* ===== verification/Secciones.thy ===== *)
theory Secciones
  imports Cadenas Listas Conjuntos Claves Pub_Sub Servidor
begin

text \<open>
  The commands cut at their locks. A client thread holds the mutex only during a critical section;
  between two sections the other threads run. A \<open>programa\<close> is what is left of a command: an answer,
  or a section with what follows it. Every section reads the clock anew. The commands of the six
  handlers that take the lock more than once are written here section by section; run alone, each
  has the result and the effect of the command of its handler.
\<close>

section \<open>Programs\<close>

datatype 's programa =
    Responde "resultado_redis salida"
  | Seccion "entorno \<Rightarrow> 's \<Rightarrow> 's" "entorno \<Rightarrow> 's \<Rightarrow> 's programa"

text \<open>A section with the value it hands on, a section that only reads, and a command of one section.\<close>

definition seccion :: "(entorno \<Rightarrow> 's \<Rightarrow> 'a \<times> 's) \<Rightarrow> (entorno \<Rightarrow> 'a \<Rightarrow> 's programa) \<Rightarrow> 's programa" where
  "seccion f k = Seccion (\<lambda>e s. snd (f e s)) (\<lambda>e s. k e (fst (f e s)))"

definition leer :: "(entorno \<Rightarrow> 's \<Rightarrow> 'a) \<Rightarrow> (entorno \<Rightarrow> 'a \<Rightarrow> 's programa) \<Rightarrow> 's programa" where
  "leer f k = seccion (\<lambda>e s. (f e s, s)) k"

definition atomica :: "(entorno \<Rightarrow> 's \<Rightarrow> resultado_redis salida \<times> 's) \<Rightarrow> 's programa" where
  "atomica f = seccion f (\<lambda>_. Responde)"

text \<open>What follows a section that may leave the function with a result, or panic.\<close>

definition o_responde :: "resultado_redis + 'a \<Rightarrow> ('a \<Rightarrow> 's programa) \<Rightarrow> 's programa" where
  "o_responde r k = (case r of Inl x \<Rightarrow> Responde (Devuelve x) | Inr a \<Rightarrow> k a)"

definition tras :: "(resultado_redis + 'a) salida \<Rightarrow> ('a \<Rightarrow> 's programa) \<Rightarrow> 's programa" where
  "tras r k = (case r of Panico \<Rightarrow> Responde Panico | Devuelve x \<Rightarrow> o_responde x k)"

text \<open>A loop over the parameters whose body has sections of its own.\<close>

primrec bucle ::
    "('p \<Rightarrow> 'x \<Rightarrow> ('x \<Rightarrow> 's programa) \<Rightarrow> 's programa) \<Rightarrow> 'p list \<Rightarrow> 'x \<Rightarrow> ('x \<Rightarrow> 's programa) \<Rightarrow> 's programa" where
  "bucle f [] x k = k x"
| "bucle f (p # ps) x k = f p x (\<lambda>x'. bucle f ps x' k)"

text \<open>A program that runs with nothing in between, and a program on a part of the state.\<close>

primrec correr :: "entorno \<Rightarrow> 's programa \<Rightarrow> 's \<Rightarrow> resultado_redis salida \<times> 's" where
  "correr e (Responde r) s = (r, s)"
| "correr e (Seccion f k) s = correr e (k e s) (f e s)"

primrec elevar :: "('t \<Rightarrow> 's) \<Rightarrow> ('s \<Rightarrow> 't \<Rightarrow> 't) \<Rightarrow> 's programa \<Rightarrow> 't programa" where
  "elevar g p (Responde r) = Responde r"
| "elevar g p (Seccion f k) = Seccion (\<lambda>e t. p (f e (g t)) t) (\<lambda>e t. elevar g p (k e (g t)))"

lemma correr_seccion [simp]:
  "correr e (seccion f k) s = (case f e s of (a, s') \<Rightarrow> correr e (k e a) s')"
  by (simp add: seccion_def split: prod.split)

lemma correr_leer [simp]: "correr e (leer f k) s = correr e (k e (f e s)) s"
  by (simp add: leer_def)

lemma correr_atomica [simp]: "correr e (atomica f) s = f e s"
  by (simp add: atomica_def split: prod.split)

lemma correr_o_responde:
  "correr e (o_responde r k) s = (case r of Inl x \<Rightarrow> (Devuelve x, s) | Inr a \<Rightarrow> correr e (k a) s)"
  by (simp add: o_responde_def split: sum.split)

lemma correr_tras:
  "correr e (tras r k) s = seguir (r, s) (\<lambda>a s. correr e (k a) s)"
  by (cases r) (simp_all add: tras_def correr_o_responde split: sum.split)

lemma correr_bucle:
  assumes "\<And>p x k s. correr e (f p x k) s = (case g p (x, s) of Inl r \<Rightarrow> r | Inr (x', s') \<Rightarrow> correr e (k x') s')"
  shows "correr e (bucle f ps x k) s = (case recorrer g ps (x, s) of Inl r \<Rightarrow> r | Inr (x', s') \<Rightarrow> correr e (k x') s')"
  by (induction ps arbitrary: x s) (simp_all add: assms split: sum.split prod.split)

lemma programa_induct [case_names Responde Seccion]:
  assumes "\<And>r. P (Responde r)" and "\<And>f k. (\<And>e s. P (k e s)) \<Longrightarrow> P (Seccion f k)"
  shows "P q"
proof (induction q)
  case (Seccion f k)
  show ?case by (rule assms(2)) (rule Seccion, rule rangeI, rule rangeI)
qed (rule assms(1))

lemma correr_elevar:
  assumes "\<And>s t. g (p s t) = s" and "\<And>s s' t. p s' (p s t) = p s' t" and "\<And>t. p (g t) t = t"
  shows "correr e (elevar g p q) t = (case correr e q (g t) of (r, s) \<Rightarrow> (r, p s t))"
proof (induction q arbitrary: t rule: programa_induct)
  case (Seccion f k)
  then show ?case by (simp add: assms split: prod.split)
qed (simp add: assms)

section \<open>String commands\<close>

definition operar_sobre_int_prog :: "(int \<Rightarrow> int \<Rightarrow> int) \<Rightarrow> comando_info \<Rightarrow> bdd_mutex programa" where
  "operar_sobre_int_prog f comando =
     (case get_clave comando of
        (None, _) \<Rightarrow> Responde (Devuelve (Error ''ERR wrong number of arguments''))
      | (Some clave, comando') \<Rightarrow>
          leer (\<lambda>e. operar_leer e clave) (\<lambda>e r. o_responde r (\<lambda>v.
            (case parse_i32 v of
               None \<Rightarrow> Responde (Devuelve err_int)
             | Some num \<Rightarrow>
                 (case parse_i32 (case get_parametro comando' of (Some p, _) \<Rightarrow> p | (None, _) \<Rightarrow> ''0'') of
                    None \<Rightarrow> Responde (Devuelve err_int)
                  | Some param \<Rightarrow>
                      (case arit_i32 (perfil_de e) (f num param) of
                         Panico \<Rightarrow> Responde Panico
                       | Devuelve num' \<Rightarrow> atomica (\<lambda>e. operar_escribir e clave num')))))))"

definition getdel_prog :: "comando_info \<Rightarrow> bdd_mutex programa" where
  "getdel_prog comando =
     (case get_clave comando of
        (None, _) \<Rightarrow> Responde (Devuelve (err_args ''getdel''))
      | (Some clave, comando') \<Rightarrow>
          seccion (\<lambda>e. get e comando') (\<lambda>_ r.
            (case r of
               Panico \<Rightarrow> Responde Panico
             | Devuelve (Error s) \<Rightarrow> Responde (Devuelve (Error s))
             | Devuelve (BulkStr v) \<Rightarrow>
                 atomica (\<lambda>e m. con_lock m (\<lambda>b. (Devuelve (BulkStr v), snd (eliminar_clave e clave b))) err_lock)
             | Devuelve _ \<Rightarrow> Responde (Devuelve RNil))))"

definition mget_prog :: "comando_info \<Rightarrow> bdd_mutex programa" where
  "mget_prog comando =
     bucle (\<lambda>p valores k. leer (\<lambda>e m. mget_paso e m p valores) (\<lambda>_ r. o_responde r k))
       (pendientes comando) []
       (\<lambda>valores. Responde (Devuelve
          (if valores = [] then Error ''ERR wrong number of arguments for mget command'' else Vector valores)))"

definition string_prog :: "comando_info \<Rightarrow> bdd_mutex programa" where
  "string_prog comando =
     (if get_nombre comando = ''GETDEL'' then getdel_prog comando
      else if get_nombre comando = ''DECRBY'' then operar_sobre_int_prog (\<lambda>a b. a - b) comando
      else if get_nombre comando = ''INCRBY'' then operar_sobre_int_prog (\<lambda>a b. a + b) comando
      else if get_nombre comando = ''MGET'' then mget_prog comando
      else atomica (\<lambda>e. ejecutar_string e comando))"

section \<open>List commands\<close>

definition pop_prog :: "bool \<Rightarrow> comando_info \<Rightarrow> bdd_mutex programa" where
  "pop_prog reversed comando =
     (case get_clave comando of
        (None, _) \<Rightarrow> Responde (Devuelve (err_args ''pop''))
      | (Some clave, comando') \<Rightarrow>
          (case (case get_parametro comando' of
                   (Some p, _) \<Rightarrow> parse_usize p
                 | (None, _) \<Rightarrow> Some 1) of
             None \<Rightarrow> Responde (Devuelve err_int)
           | Some indice \<Rightarrow>
               leer (\<lambda>e. leer_lista e clave (Inl RNil)) (\<lambda>_ r. o_responde r (\<lambda>lista.
                 (case drain_hasta (if reversed then rev lista else lista) indice of
                    Panico \<Rightarrow> Responde Panico
                  | Devuelve (drenados, resto) \<Rightarrow>
                      (let resto = (if reversed then rev resto else resto);
                           a_devolver = (if reversed then rev drenados else drenados)
                       in seccion (\<lambda>e. guardar_o_eliminar e clave resto) (\<lambda>_ r. tras r (\<lambda>_.
                            Responde (Devuelve
                              (if length a_devolver = 1 then BulkStr (a_devolver ! 0)
                               else Vector (map BulkStr a_devolver)))))))))))"

text \<open>The four push commands differ in their name, in the side, and in what a missing key means.\<close>

definition push_prog ::
    "string \<Rightarrow> resultado_redis + string list \<Rightarrow> bool \<Rightarrow> comando_info \<Rightarrow> bdd_mutex programa" where
  "push_prog n ausente reversed comando =
     (case get_clave comando of
        (None, _) \<Rightarrow> Responde (Devuelve (err_args n))
      | (Some clave, comando') \<Rightarrow>
          leer (\<lambda>e. leer_lista e clave ausente) (\<lambda>_ r. o_responde r (\<lambda>lista.
            atomica (\<lambda>e. push lista clave reversed e comando'))))"

definition lrem_prog :: "comando_info \<Rightarrow> bdd_mutex programa" where
  "lrem_prog comando =
     (case get_clave comando of
        (None, _) \<Rightarrow> Responde (Devuelve (err_args ''lrem''))
      | (Some clave, c1) \<Rightarrow>
          (case get_parametro c1 of
             (None, _) \<Rightarrow> Responde (Devuelve (err_args ''lrem''))
           | (Some p, c2) \<Rightarrow>
               (case parse_i32 p of
                  None \<Rightarrow> Responde (Devuelve err_int)
                | Some indice \<Rightarrow>
                    (case get_parametro c2 of
                       (None, _) \<Rightarrow> Responde (Devuelve (err_args ''lrem''))
                     | (Some a_eliminar, _) \<Rightarrow>
                         leer (\<lambda>e. leer_lista e clave (Inl (RInt 0))) (\<lambda>e r. o_responde r (\<lambda>lista.
                           (case lrem_de (perfil_de e) indice a_eliminar lista of
                              Panico \<Rightarrow> Responde Panico
                            | Devuelve (cant, filtrada) \<Rightarrow>
                                seccion (\<lambda>e. guardar_o_eliminar e clave filtrada) (\<lambda>_ r. tras r (\<lambda>_.
                                  Responde (Devuelve (RInt cant)))))))))))"

definition lset_prog :: "comando_info \<Rightarrow> bdd_mutex programa" where
  "lset_prog comando =
     (case get_clave comando of
        (None, _) \<Rightarrow> Responde (Devuelve (err_args ''lset''))
      | (Some clave, c1) \<Rightarrow>
          (case get_parametro c1 of
             (None, _) \<Rightarrow> Responde (Devuelve (err_args ''lset''))
           | (Some p, c2) \<Rightarrow>
               (case parse_i32 p of
                  None \<Rightarrow> Responde (Devuelve err_int)
                | Some indice \<Rightarrow>
                    (case get_parametro c2 of
                       (None, _) \<Rightarrow> Responde (Devuelve (err_args ''lset''))
                     | (Some parametro, _) \<Rightarrow>
                         leer (\<lambda>e. leer_lista e clave (Inr [])) (\<lambda>e r. o_responde r (\<lambda>lista.
                           tras (lset_de (perfil_de e) indice parametro lista) (\<lambda>lista'.
                             seccion (\<lambda>e m. con_lock m (\<lambda>b.
                                 (Devuelve (Inr ()), guardar_valor e clave (Lista lista') b)) (Inl err_lock))
                               (\<lambda>_ r. tras r (\<lambda>_. Responde (Devuelve (StrSimple ''OK'')))))))))))"

definition list_prog :: "comando_info \<Rightarrow> bdd_mutex programa" where
  "list_prog comando =
     (if get_nombre comando = ''LPOP'' then pop_prog False comando
      else if get_nombre comando = ''RPOP'' then pop_prog True comando
      else if get_nombre comando = ''LPUSH'' then push_prog ''lpush'' (Inr []) False comando
      else if get_nombre comando = ''LPUSHX'' then push_prog ''lpushx'' (Inl (RInt 0)) False comando
      else if get_nombre comando = ''RPUSH'' then push_prog ''rpush'' (Inr []) True comando
      else if get_nombre comando = ''RPUSHX'' then push_prog ''rpushx'' (Inl (RInt 0)) True comando
      else if get_nombre comando = ''LREM'' then lrem_prog comando
      else if get_nombre comando = ''LSET'' then lset_prog comando
      else atomica (\<lambda>e. ejecutar_list e comando))"

section \<open>Key commands\<close>

definition recorrer_y_ejecutar_prog ::
    "(entorno \<Rightarrow> base_de_datos \<Rightarrow> string \<Rightarrow> base_de_datos) \<Rightarrow> comando_info \<Rightarrow> bdd_mutex programa" where
  "recorrer_y_ejecutar_prog funcion comando =
     bucle (\<lambda>clave claves_eliminadas k.
         seccion (\<lambda>e m. con_lock m (\<lambda>b.
             if existe_clave e b clave then (Devuelve (Inr True), funcion e b clave)
             else (Devuelve (Inr False), b)) (Inl err_lock))
           (\<lambda>_ r. tras r (\<lambda>existia. k (if existia then claves_eliminadas + 1 else claves_eliminadas))))
       (pendientes comando) 0 (\<lambda>claves_eliminadas. Responde (Devuelve (RInt claves_eliminadas)))"

definition del_prog :: "comando_info \<Rightarrow> bdd_mutex programa" where
  "del_prog = recorrer_y_ejecutar_prog (\<lambda>e b clave. snd (eliminar_clave e clave b))"

definition exists_prog :: "comando_info \<Rightarrow> bdd_mutex programa" where
  "exists_prog = recorrer_y_ejecutar_prog (\<lambda>_ b _. b)"

text \<open>\<open>rename\<close> goes on after the answer of \<open>del\<close>, which it ignores.\<close>

primrec luego_prog :: "'s programa \<Rightarrow> (resultado_redis \<Rightarrow> 's programa) \<Rightarrow> 's programa" where
  "luego_prog (Responde r) k = (case r of Panico \<Rightarrow> Responde Panico | Devuelve x \<Rightarrow> k x)"
| "luego_prog (Seccion f g) k = Seccion f (\<lambda>e s. luego_prog (g e s) k)"

definition rename_prog :: "comando_info \<Rightarrow> bdd_mutex programa" where
  "rename_prog comando =
     (case get_clave comando of
        (None, _) \<Rightarrow> Responde (Devuelve (err_args ''rename''))
      | (Some clave, comando') \<Rightarrow>
          luego_prog (atomica (\<lambda>e. copy e comando')) (\<lambda>r.
            (case r of
               Error _ \<Rightarrow> Responde (Devuelve (Error ''ERR no such key''))
             | _ \<Rightarrow>
                 (case comando_info_new [''rename'', clave] of
                    Panico \<Rightarrow> Responde Panico
                  | Devuelve comando'' \<Rightarrow>
                      luego_prog (del_prog comando'') (\<lambda>_. Responde (Devuelve (StrSimple ''Ok'')))))))"

definition sort_configuracion_prog :: "string list \<Rightarrow> string list \<Rightarrow> bdd_mutex programa" where
  "sort_configuracion_prog ps valores = atomica (\<lambda>e. sort_configuracion_lista_ordenada e ps valores)"

definition sort_interno_prog :: "string list \<Rightarrow> string list \<Rightarrow> bdd_mutex programa" where
  "sort_interno_prog valores ps = atomica (\<lambda>e. sort_elemento_con_pesos_interno e valores ps)"

text \<open>The loops of \<open>BY\<close> and \<open>GET\<close> take the lock for every pair that matches.\<close>

definition peso_prog ::
    "string \<Rightarrow> string \<Rightarrow> (string \<times> string) list \<Rightarrow> ((string \<times> string) list \<Rightarrow> bdd_mutex programa) \<Rightarrow>
     bdd_mutex programa" where
  "peso_prog v peso tuplas k =
     (if ultima_parte peso = ultima_parte v
      then leer (\<lambda>e m. leer_lock m (\<lambda>b.
                  (case obtener_valor e b peso of
                     Some (Str w) \<Rightarrow> Inr (tuplas @ [(v, w)])
                   | _ \<Rightarrow> Inl (Error ''ERR syntax error''))) (Error ''ERR syntax error''))
             (\<lambda>_ r. o_responde r k)
      else k tuplas)"

definition tuplas_prog ::
    "string list \<Rightarrow> string list \<Rightarrow> ((string \<times> string) list \<Rightarrow> bdd_mutex programa) \<Rightarrow> bdd_mutex programa" where
  "tuplas_prog valores pesos k = bucle (\<lambda>v tuplas. bucle (peso_prog v) pesos tuplas) valores [] k"

definition objeto_prog ::
    "string \<Rightarrow> string \<Rightarrow> bool \<times> resultado_redis list \<Rightarrow> (bool \<times> resultado_redis list \<Rightarrow> bdd_mutex programa) \<Rightarrow>
     bdd_mutex programa" where
  "objeto_prog v objeto s k =
     (case s of (pusheado, res) \<Rightarrow>
        if contiene_str v objeto
        then leer (\<lambda>e m. leer_lock m (\<lambda>b.
                    Inr (case obtener_valor e b objeto of
                           Some (Str w) \<Rightarrow> (True, res @ [StrSimple w])
                         | _ \<Rightarrow> (pusheado, res))) err_lock)
               (\<lambda>_ r. o_responde r k)
        else k (pusheado, res))"

definition objetos_prog ::
    "string list \<Rightarrow> (string \<times> string) list \<Rightarrow> (bool \<times> resultado_redis list \<Rightarrow> bdd_mutex programa) \<Rightarrow>
     bdd_mutex programa" where
  "objetos_prog objetos tuplas k =
     bucle (\<lambda>v s k. bucle (objeto_prog (fst v)) objetos s (\<lambda>(pusheado, res).
              k (pusheado, if \<not> pusheado then res @ [RNil] else res)))
       tuplas (False, []) k"

definition sort_externos_prog :: "string list \<Rightarrow> string list \<Rightarrow> bdd_mutex programa" where
  "sort_externos_prog valores ps =
     (case indice_vec (rsplit_primero (\<lambda>p. p = ''BY'') ps) 0 of
        Panico \<Rightarrow> Responde Panico
      | Devuelve patron_pesos \<Rightarrow>
          leer (\<lambda>e m. leer_lock m (\<lambda>b. Inr (claves e b patron_pesos)) err_lock) (\<lambda>_ r. o_responde r (\<lambda>pesos.
            if length pesos \<noteq> length valores then Responde (Devuelve (Vector (map StrSimple valores)))
            else tuplas_prog valores pesos (\<lambda>tuplas.
              let tuplas = sort_key snd tuplas
              in if ''GET'' \<in> set ps then
                   (case indice_vec (rsplit_primero (\<lambda>p. p = ''GET'') ps) 0 of
                      Panico \<Rightarrow> Responde Panico
                    | Devuelve patron_obj \<Rightarrow>
                        leer (\<lambda>e m. leer_lock m (\<lambda>b. Inr (claves e b patron_obj)) err_lock)
                          (\<lambda>_ r. o_responde r (\<lambda>objetos.
                            objetos_prog objetos tuplas (\<lambda>(_, res). Responde (Devuelve (Vector res))))))
                 else sort_configuracion_prog ps (map fst tuplas)))))"

definition sort_prog :: "comando_info \<Rightarrow> bdd_mutex programa" where
  "sort_prog comando =
     (case get_parametros comando of
        None \<Rightarrow> Responde (Devuelve (err_args ''sort''))
      | Some ps \<Rightarrow>
          leer (\<lambda>e m. leer_lock m (\<lambda>b.
             (case obtener_valor e b (ps ! 0) of
                Some (Lista lista) \<Rightarrow> Inr lista
              | Some (TSet elems) \<Rightarrow> Inr elems
              | None \<Rightarrow> Inl (Vector [])
              | _ \<Rightarrow> Inl wrongtype)) (Error ''ERR when accessing the databases''))
            (\<lambda>_ r. o_responde r (\<lambda>valores.
               if valores = [] then Responde (Devuelve (Vector []))
               else if ''BY'' \<in> set ps then sort_externos_prog valores ps
               else sort_interno_prog valores ps)))"

definition key_prog :: "comando_info \<Rightarrow> bdd_mutex programa" where
  "key_prog comando =
     (if get_nombre comando = ''DEL'' then del_prog comando
      else if get_nombre comando = ''EXISTS'' then exists_prog comando
      else if get_nombre comando = ''RENAME'' then rename_prog comando
      else if get_nombre comando = ''SORT'' then sort_prog comando
      else atomica (\<lambda>e. ejecutar_key e comando))"

section \<open>Channel commands\<close>

text \<open>
  The state of these programs is the network with the database. Each write to a socket is a step of
  its own, and no step holds the lock while it writes.
\<close>

type_synonym red_bdd = "red \<times> bdd_mutex"

definition canal_prog ::
    "resultado_redis + unit \<Rightarrow> (entorno \<Rightarrow> canal \<Rightarrow> red \<Rightarrow> canal \<times> red) \<Rightarrow> string \<Rightarrow> unit \<Rightarrow>
     (unit \<Rightarrow> red_bdd programa) \<Rightarrow> red_bdd programa" where
  "canal_prog ausente accion clave _ k =
     leer (\<lambda>e (r, m). leer_canal e clave (case ausente of Inl x \<Rightarrow> Inl x | Inr _ \<Rightarrow> Inr (canal_new clave)) m)
       (\<lambda>_ x. o_responde x (\<lambda>c.
          seccion (\<lambda>e (r, m). (case accion e c r of (c', r') \<Rightarrow> (c', r', m))) (\<lambda>_ c'.
            seccion (\<lambda>e (r, m).
                (case con_lock m (\<lambda>b. (Devuelve (Inr ()), guardar_valor e clave (Canal c') b)) (Inl err_lock) of
                   (x, m') \<Rightarrow> (x, r, m')))
              (\<lambda>_ x. tras x k))))"

definition subscribe_prog :: "comando_info \<Rightarrow> cliente \<Rightarrow> red_bdd programa" where
  "subscribe_prog comando cl =
     bucle (canal_prog (Inr ()) (\<lambda>e c. suscribirse (ahora e) (duplicable e) c (clone_cliente (duplicable e) cl)))
       (pendientes comando) () (\<lambda>_. Responde (Devuelve Vacio))"

definition unsubscribe_prog :: "comando_info \<Rightarrow> cliente \<Rightarrow> red_bdd programa" where
  "unsubscribe_prog comando cl =
     bucle (canal_prog (Inl wrongtype)
             (\<lambda>e c. desuscribirse (ahora e) (duplicable e) c (clone_cliente (duplicable e) cl)))
       (pendientes comando) () (\<lambda>_. Responde (Devuelve Vacio))"

definition publish_prog :: "comando_info \<Rightarrow> red_bdd programa" where
  "publish_prog comando =
     (case get_clave comando of
        (None, _) \<Rightarrow> Responde (Devuelve (Error ''ClaveError no se encontro una clave''))
      | (Some clave, comando') \<Rightarrow>
          (case get_parametro comando' of
             (None, _) \<Rightarrow> Responde (Devuelve (err_args ''publish''))
           | (Some mensaje, _) \<Rightarrow>
               leer (\<lambda>e (r, m). leer_canal e clave (Inl wrongtype) m) (\<lambda>_ x. o_responde x (\<lambda>c.
                 bucle (\<lambda>s n k.
                     seccion (\<lambda>e (r, m).
                         (case enviar_resultado (ahora e) s
                                 (Vector [BulkStr ''message'', BulkStr (canal_nombre c), BulkStr mensaje]) r of
                            (x, _, r') \<Rightarrow> (x, r', m)))
                       (\<lambda>_ x. k (case x of Inr _ \<Rightarrow> n + 1 | Inl _ \<Rightarrow> n)))
                   (suscriptores c) (0 :: nat) (\<lambda>n. Responde (Devuelve (RInt (int n))))))))"

definition numsub_prog :: "comando_info \<Rightarrow> red_bdd programa" where
  "numsub_prog comando =
     bucle (\<lambda>clave cantidades k.
         leer (\<lambda>e (r, m). numsub_paso e m clave cantidades) (\<lambda>_ x. o_responde x k))
       (pendientes comando) [] (\<lambda>cantidades. Responde (Devuelve (Vector (map RInt cantidades))))"

definition pubsub_prog :: "comando_info \<Rightarrow> red_bdd programa" where
  "pubsub_prog comando =
     (case get_clave comando of
        (None, _) \<Rightarrow> Responde (Devuelve (err_args ''pubsub''))
      | (Some clave, comando') \<Rightarrow>
          if clave = ''CHANNELS'' then atomica (\<lambda>e (r, m). (Devuelve (channels e comando' m), r, m))
          else if clave = ''NUMSUB'' then numsub_prog comando'
          else Responde (Devuelve (err_args ''pubsub'')))"

definition canales_prog :: "comando_info \<Rightarrow> cliente \<Rightarrow> red_bdd programa" where
  "canales_prog comando cl =
     (if get_nombre comando = ''UNSUBSCRIBE'' then unsubscribe_prog comando cl
      else if get_nombre comando = ''PUBLISH'' then publish_prog comando
      else if get_nombre comando = ''PUBSUB'' then pubsub_prog comando
      else subscribe_prog comando cl)"

section \<open>A command that runs alone\<close>

text \<open>With nothing between its sections, a program is the command of its handler.\<close>

named_theorems a_solas \<open>a program that runs alone is the command of its handler\<close>

lemmas correr_simps = correr_o_responde correr_tras

lemma correr_luego_prog:
  "correr e (luego_prog p k) s =
    (case correr e p s of (Panico, s') \<Rightarrow> (Panico, s') | (Devuelve x, s') \<Rightarrow> correr e (k x) s')"
  by (induction p arbitrary: s rule: programa_induct) (simp_all split: salida.split)

lemma operar_a_solas [a_solas]: "correr e (operar_sobre_int_prog f c) m = operar_sobre_int f e c m"
  by (simp add: operar_sobre_int_prog_def operar_sobre_int_def correr_simps
      split: prod.split option.split sum.split salida.split)

lemma getdel_a_solas [a_solas]: "correr e (getdel_prog c) m = getdel e c m"
  by (simp add: getdel_prog_def getdel_def split: prod.split option.split salida.split resultado_redis.split)

lemma mget_a_solas [a_solas]: "correr e (mget_prog c) m = mget e c m"
proof -
  have "correr e (bucle (\<lambda>p valores k. leer (\<lambda>e m. mget_paso e m p valores) (\<lambda>_ r. o_responde r k)) ps vs
      (\<lambda>valores. Responde (g valores))) m =
    (case recorrer (mget_paso e m) ps vs of Inl r \<Rightarrow> (Devuelve r, m) | Inr valores \<Rightarrow> (g valores, m))" for ps vs g
    by (induction ps arbitrary: vs) (simp_all add: correr_simps split: sum.split)
  then show ?thesis by (simp add: mget_prog_def mget_def mientras_parametro_eq split: sum.split)
qed

lemma string_prog_a_solas [a_solas]: "correr e (string_prog c) m = ejecutar_string e c m"
  by (simp add: string_prog_def a_solas) (auto simp: ejecutar_string_def incrby_def decrby_def)

lemma pop_a_solas [a_solas]: "correr e (pop_prog r c) m = pop r e c m"
  by (simp add: pop_prog_def pop_def Let_def correr_simps split: prod.split option.split sum.split salida.split)

lemma push_a_solas [a_solas]:
  "correr e (push_prog ''lpush'' (Inr []) False c) m = lpush e c m"
  "correr e (push_prog ''lpushx'' (Inl (RInt 0)) False c) m = lpushx e c m"
  "correr e (push_prog ''rpush'' (Inr []) True c) m = rpush e c m"
  "correr e (push_prog ''rpushx'' (Inl (RInt 0)) True c) m = rpushx e c m"
  by (simp_all add: push_prog_def lpush_def lpushx_def rpush_def rpushx_def correr_simps
      split: prod.split option.split sum.split)

lemma lrem_a_solas [a_solas]: "correr e (lrem_prog c) m = lrem e c m"
  by (simp add: lrem_prog_def lrem_def correr_simps split: prod.split option.split sum.split salida.split)

lemma lset_a_solas [a_solas]: "correr e (lset_prog c) m = lset e c m"
  by (simp add: lset_prog_def lset_def correr_simps split: prod.split option.split sum.split salida.split)

lemma list_prog_a_solas [a_solas]: "correr e (list_prog c) m = ejecutar_list e c m"
  by (simp add: list_prog_def a_solas) (auto simp: ejecutar_list_def lpop_def rpop_def)

lemma recorrer_a_solas:
  "correr e (recorrer_y_ejecutar_prog f c) m = recorrer_y_ejecutar (f e) e c m"
proof -
  let ?g = "\<lambda>k (n, m). (case recorrer_paso e (f e) k (m, n) of Inl r \<Rightarrow> Inl r | Inr (m', n') \<Rightarrow> Inr (n', m'))"
  have "recorrer ?g ps (n, m) =
      (case recorrer (recorrer_paso e (f e)) ps (m, n) of Inl r \<Rightarrow> Inl r | Inr (m', n') \<Rightarrow> Inr (n', m'))" for ps n m
    by (induction ps arbitrary: n m) (auto split: sum.split)
  then show ?thesis
    unfolding recorrer_y_ejecutar_prog_def recorrer_y_ejecutar_def mientras_parametro_eq
    by (subst correr_bucle [where g = ?g])
      (auto simp: recorrer_paso_def correr_simps split: prod.split sum.split salida.split)
qed

lemma del_a_solas [a_solas]:
  "correr e (del_prog c) m = del e c m" "correr e (exists_prog c) m = exists e c m"
  by (simp_all add: del_prog_def exists_prog_def del_def exists_def recorrer_a_solas)

lemma rename_a_solas [a_solas]: "correr e (rename_prog c) m = rename e c m"
  by (simp add: rename_prog_def rename_def correr_luego_prog a_solas
      split: prod.split option.split salida.split resultado_redis.split)

lemma tuplas_a_solas:
  "correr e (bucle (peso_prog v) pesos tuplas k) m =
    (case tuplas_de_valor e m v pesos tuplas of
       None \<Rightarrow> (Devuelve (Error ''ERR syntax error''), m) | Some ts \<Rightarrow> correr e (k ts) m)"
  by (induction pesos arbitrary: tuplas)
    (auto simp: peso_prog_def correr_simps leer_lock_def split: option.split tipo_redis.split)

lemma tuplas_prog_a_solas:
  "correr e (bucle (\<lambda>v tuplas. bucle (peso_prog v) pesos tuplas) valores tuplas k) m =
    (case obetener_tupla_valor_peso e m valores pesos tuplas of
       None \<Rightarrow> (Devuelve (Error ''ERR syntax error''), m) | Some ts \<Rightarrow> correr e (k ts) m)"
  by (induction valores arbitrary: tuplas) (simp_all add: tuplas_a_solas split: option.split)

lemma objeto_a_solas:
  "correr e (bucle (objeto_prog v) objetos s k) m =
    (case objetos_de_valor e m v objetos s of Inl r \<Rightarrow> (Devuelve r, m) | Inr s' \<Rightarrow> correr e (k s') m)"
  by (induction e m v objetos s rule: objetos_de_valor.induct)
    (simp_all add: objeto_prog_def correr_simps split: sum.split)

lemma objetos_a_solas:
  "correr e (bucle (\<lambda>v s k. bucle (objeto_prog (fst v)) objetos s (\<lambda>(pusheado, res).
              k (pusheado, if \<not> pusheado then res @ [RNil] else res))) tuplas s
      (\<lambda>(_, res). Responde (Devuelve (Vector res)))) m =
    (case objetos_de_tuplas e m objetos tuplas s of Inl r \<Rightarrow> (Devuelve r, m) | Inr res \<Rightarrow> (Devuelve (Vector res), m))"
  by (induction e m objetos tuplas s rule: objetos_de_tuplas.induct)
    (simp_all add: objeto_a_solas split: sum.split prod.split)

lemma sort_a_solas [a_solas]: "correr e (sort_prog c) m = sort_cmd e c m"
  by (simp add: sort_prog_def sort_cmd_def sort_externos_prog_def sort_elemento_con_pesos_externos_def
      sort_configuracion_prog_def sort_interno_prog_def tuplas_prog_def tuplas_prog_a_solas objetos_prog_def
      objetos_a_solas correr_simps Let_def split: option.split sum.split salida.split)

lemma key_prog_a_solas [a_solas]: "correr e (key_prog c) m = ejecutar_key e c m"
  by (simp add: key_prog_def a_solas) (auto simp: ejecutar_key_def)

text \<open>The channel commands, up to the order of the components of the result.\<close>

lemma canal_prog_a_solas:
  "correr e (canal_prog (Inr ()) (\<lambda>e c. suscribirse (ahora e) (duplicable e) c (clone_cliente (duplicable e) cl)) clave u k) s =
    (case subscribe_paso e cl clave s of Inl x \<Rightarrow> x | Inr s' \<Rightarrow> correr e (k ()) s')"
  "correr e (canal_prog (Inl wrongtype) (\<lambda>e c. desuscribirse (ahora e) (duplicable e) c (clone_cliente (duplicable e) cl)) clave u k) s =
    (case unsubscribe_paso e cl clave s of Inl x \<Rightarrow> x | Inr s' \<Rightarrow> correr e (k ()) s')"
  by (auto simp: canal_prog_def subscribe_paso_def unsubscribe_paso_def guardar_canal_def correr_simps
      split: prod.split sum.split salida.split)

lemma bucle_unit_a_solas:
  assumes "\<And>p k s. correr e (f p () k) s = (case g p s of Inl r \<Rightarrow> r | Inr s' \<Rightarrow> correr e (k ()) s')"
  shows "correr e (bucle f ps () k) s = (case recorrer g ps s of Inl r \<Rightarrow> r | Inr s' \<Rightarrow> correr e (k ()) s')"
  by (induction ps arbitrary: s) (simp_all add: assms split: sum.split)

lemma subscribe_a_solas [a_solas]:
  "correr e (subscribe_prog c cl) (r, m) = subscribe e c cl r m"
  "correr e (unsubscribe_prog c cl) (r, m) = unsubscribe e c cl r m"
  unfolding subscribe_prog_def unsubscribe_prog_def subscribe_def unsubscribe_def mientras_parametro_eq
  by (subst bucle_unit_a_solas [where g = "subscribe_paso e cl"];
      simp add: canal_prog_a_solas(1) split: sum.split prod.split)
    (subst bucle_unit_a_solas [where g = "unsubscribe_paso e cl"];
      simp add: canal_prog_a_solas(2) split: sum.split prod.split)

lemma publicar_a_solas:
  "correr e (bucle (\<lambda>s n k.
       seccion (\<lambda>e (r, m). (case enviar_resultado (ahora e) s res r of (x, _, r') \<Rightarrow> (x, r', m)))
         (\<lambda>_ x. k (case x of Inr _ \<Rightarrow> n + 1 | Inl _ \<Rightarrow> n))) ss n0 (\<lambda>n. Responde (Devuelve (RInt (int n))))) (r, m) =
    (case publicar_a (ahora e) res ss r of (n, _, r') \<Rightarrow> (Devuelve (RInt (int (n0 + n))), r', m))"
  by (induction ss arbitrary: n0 r) (auto split: prod.split sum.split)

lemma publish_a_solas [a_solas]: "correr e (publish_prog c) (r, m) = publish e c cl r m"
  by (simp add: publish_prog_def publish_def publicar_def Let_def correr_simps publicar_a_solas [simplified]
      split: prod.split option.split sum.split)

lemma numsub_a_solas: "correr e (numsub_prog c) (r, m) = (Devuelve (numsub e c m), r, m)"
proof -
  have "correr e (bucle (\<lambda>clave cantidades k. leer (\<lambda>e (r, m). numsub_paso e m clave cantidades)
        (\<lambda>_ x. o_responde x k)) ps xs (\<lambda>cantidades. Responde (Devuelve (Vector (map RInt cantidades))))) (r, m) =
    (case recorrer (numsub_paso e m) ps xs of
       Inl x \<Rightarrow> (Devuelve x, r, m) | Inr xs' \<Rightarrow> (Devuelve (Vector (map RInt xs')), r, m))" for ps xs
    by (induction ps arbitrary: xs) (simp_all add: correr_simps split: sum.split)
  then show ?thesis by (simp add: numsub_prog_def numsub_def mientras_parametro_eq split: sum.split)
qed

lemma pubsub_a_solas [a_solas]: "correr e (pubsub_prog c) (r, m) = pubsub e c cl r m"
  by (simp add: pubsub_prog_def pubsub_def numsub_a_solas split: prod.split option.split)

lemma canales_prog_a_solas [a_solas]: "correr e (canales_prog c cl) (r, m) = ejecutar_pubsub e c cl r m"
  by (simp add: canales_prog_def ejecutar_pubsub_def subscribe_a_solas publish_a_solas [of e c r m cl]
      pubsub_a_solas [of e c r m cl])

section \<open>The contract of a program\<close>

text \<open>
  Every section of a program meets the contract of a handler, from every state the other threads may
  leave: it keeps the invariant, leaves a poisoned mutex alone, and poisons it only if the thread dies
  of a panic right there. \<open>\<pi>\<close> selects the mutex from the state.
\<close>

primrec fallo :: "'s programa \<Rightarrow> unit salida" where
  "fallo (Responde r) = (case r of Panico \<Rightarrow> Panico | Devuelve _ \<Rightarrow> Devuelve ())"
| "fallo (Seccion f k) = Devuelve ()"

primrec prog_bien :: "('s \<Rightarrow> bdd_mutex) \<Rightarrow> 's programa \<Rightarrow> bool" where
  "prog_bien \<pi> (Responde r) = True"
| "prog_bien \<pi> (Seccion f k) =
     (\<forall>e s. paso_bien (\<pi> s) (fallo (k e s), \<pi> (f e s)) \<and> prog_bien \<pi> (k e s))"

named_theorems progs \<open>rules that establish the contract of a program\<close>

lemma prog_seccion:
  assumes "\<And>e s. paso_bien (\<pi> s) (fallo (k e (fst (f e s))), \<pi> (snd (f e s)))" and "\<And>e a. prog_bien \<pi> (k e a)"
  shows "prog_bien \<pi> (seccion f k)"
  using assms by (simp add: seccion_def)

lemma prog_seccion_lectora:
  "(\<And>e s. \<pi> (snd (f e s)) = \<pi> s) \<Longrightarrow> (\<And>e a. prog_bien \<pi> (k e a)) \<Longrightarrow> prog_bien \<pi> (seccion f k)"
  by (rule prog_seccion) (simp_all add: paso_bien_def)

lemma prog_responde [progs]: "prog_bien \<pi> (Responde r)"
  by simp

lemma prog_leer [progs]: "(\<And>e a. prog_bien \<pi> (k e a)) \<Longrightarrow> prog_bien \<pi> (leer f k)"
  unfolding leer_def by (rule prog_seccion_lectora) simp_all

lemma paso_bien_fallo: "paso_bien m (r, m') \<Longrightarrow> paso_bien m (fallo (Responde r), m')"
  by (auto simp: paso_bien_def split: salida.splits)

lemma prog_atomica [progs]: "(\<And>e m. paso_bien m (f e m)) \<Longrightarrow> prog_bien (\<lambda>m. m) (atomica f)"
  unfolding atomica_def by (rule prog_seccion) (metis paso_bien_fallo prod.collapse, simp)

lemma prog_o_responde [progs]: "(\<And>a. prog_bien \<pi> (k a)) \<Longrightarrow> prog_bien \<pi> (o_responde r k)"
  by (simp add: o_responde_def split: sum.split)

lemma prog_tras [progs]: "(\<And>a. prog_bien \<pi> (k a)) \<Longrightarrow> prog_bien \<pi> (tras r k)"
  by (simp add: tras_def prog_o_responde split: salida.split)

lemma prog_bucle [progs]:
  "(\<And>p x k. (\<And>x. prog_bien \<pi> (k x)) \<Longrightarrow> prog_bien \<pi> (f p x k)) \<Longrightarrow> (\<And>x. prog_bien \<pi> (k x)) \<Longrightarrow>
    prog_bien \<pi> (bucle f ps x k)"
  by (induction ps arbitrary: x) auto

text \<open>A section followed by \<open>tras\<close>: a panic inside the section is the panic of the thread.\<close>

lemma prog_seccion_tras [progs]:
  assumes "\<And>e s. paso_bien (\<pi> s) (fst (f e s), \<pi> (snd (f e s)))" and "\<And>a. prog_bien \<pi> (k a)"
  shows "prog_bien \<pi> (seccion f (\<lambda>_ r. tras r k))"
proof (rule prog_seccion)
  fix e s
  show "paso_bien (\<pi> s) (fallo (tras (fst (f e s)) k), \<pi> (snd (f e s)))"
    using assms(1) [of s e] by (auto simp: paso_bien_def tras_def)
qed (intro prog_tras assms(2))

lemma prog_bien_elevar:
  assumes "prog_bien \<pi> q" and "\<And>s t. \<rho> (p s t) = \<pi> s" and "\<And>t. \<rho> t = \<pi> (g t)"
  shows "prog_bien \<rho> (elevar g p q)"
  using assms(1)
proof (induction q rule: programa_induct)
  case (Seccion f k)
  have "fallo (elevar g p q) = fallo q" for q by (cases q) simp_all
  then show ?case using Seccion assms(2,3) by simp
qed simp

lemma prog_luego [progs]:
  assumes "prog_bien \<pi> q" and "\<And>x. prog_bien \<pi> (k x)"
  shows "prog_bien \<pi> (luego_prog q k)"
  using assms(1)
proof (induction q rule: programa_induct)
  case (Responde r)
  then show ?case using assms(2) by (simp split: salida.split)
next
  case (Seccion f g)
  have "paso_bien m (fallo q, m') \<Longrightarrow> paso_bien m (fallo (luego_prog q k), m')" for q m m'
    by (cases q) (auto simp: paso_bien_def split: salida.splits)
  then show ?case using Seccion by simp
qed

section \<open>Every command meets it\<close>

lemma operar_escribir_paso: "paso_bien m (operar_escribir e k n m)"
  by (auto simp: operar_escribir_def intro!: pasos guardar_valor_inv)

lemma operar_prog_bien: "prog_bien (\<lambda>m. m) (operar_sobre_int_prog f c)"
  by (auto simp: operar_sobre_int_prog_def intro!: progs operar_escribir_paso
      split: prod.split option.split salida.split)

lemma getdel_prog_bien: "prog_bien (\<lambda>m. m) (getdel_prog c)"
proof -
  have "prog_bien (\<lambda>m. m) (seccion (\<lambda>e. get e c') (\<lambda>_ r. (case r of
      Panico \<Rightarrow> Responde Panico | Devuelve (Error s) \<Rightarrow> Responde (Devuelve (Error s))
    | Devuelve (BulkStr v) \<Rightarrow> atomica (\<lambda>e m. con_lock m (\<lambda>b. (Devuelve (BulkStr v), snd (eliminar_clave e k b))) err_lock)
    | Devuelve _ \<Rightarrow> Responde (Devuelve RNil))))" for c' k
    by (rule prog_seccion)
      (auto simp: get_no_cambia paso_bien_def intro!: progs pasos eliminar_clave_inv split: salida.split resultado_redis.split)
  then show ?thesis by (simp add: getdel_prog_def split: prod.split option.split)
qed

lemma mget_prog_bien: "prog_bien (\<lambda>m. m) (mget_prog c)"
  by (auto simp: mget_prog_def intro!: progs)

lemma string_prog_bien: "prog_bien (\<lambda>m. m) (string_prog c)"
  by (simp add: string_prog_def operar_prog_bien getdel_prog_bien mget_prog_bien prog_atomica ejecutar_string_paso)

lemma pop_prog_bien: "prog_bien (\<lambda>m. m) (pop_prog r c)"
  by (auto simp: pop_prog_def Let_def guardar_o_eliminar_paso intro!: progs split: prod.split option.split salida.split)

lemma push_prog_bien: "prog_bien (\<lambda>m. m) (push_prog n a r c)"
  by (auto simp: push_prog_def intro!: progs push_paso_bien split: prod.split option.split)

lemma lrem_prog_bien: "prog_bien (\<lambda>m. m) (lrem_prog c)"
  by (auto simp: lrem_prog_def guardar_o_eliminar_paso intro!: progs split: prod.split option.split salida.split)

lemma lset_prog_bien: "prog_bien (\<lambda>m. m) (lset_prog c)"
  by (auto simp: lset_prog_def intro!: progs paso_con_lock guardar_valor_inv split: prod.split option.split)

lemma list_prog_bien: "prog_bien (\<lambda>m. m) (list_prog c)"
  by (simp add: list_prog_def pop_prog_bien push_prog_bien lrem_prog_bien lset_prog_bien prog_atomica ejecutar_list_paso)

lemma recorrer_prog_bien:
  "(\<And>e b k. bdd_inv b \<Longrightarrow> bdd_inv (f e b k)) \<Longrightarrow> prog_bien (\<lambda>m. m) (recorrer_y_ejecutar_prog f c)"
  by (auto simp: recorrer_y_ejecutar_prog_def intro!: progs paso_con_lock)

lemma del_prog_bien: "prog_bien (\<lambda>m. m) (del_prog c)" "prog_bien (\<lambda>m. m) (exists_prog c)"
  by (simp_all add: del_prog_def exists_prog_def recorrer_prog_bien eliminar_clave_inv)

lemma rename_prog_bien: "prog_bien (\<lambda>m. m) (rename_prog c)"
  by (auto simp: rename_prog_def intro!: progs copy_paso del_prog_bien
      split: prod.split option.split salida.split resultado_redis.split)

lemma sort_prog_bien: "prog_bien (\<lambda>m. m) (sort_prog c)"
proof -
  have t: "(\<And>ts. prog_bien (\<lambda>m. m) (k ts)) \<Longrightarrow> prog_bien (\<lambda>m. m) (tuplas_prog vs ws k)" for vs ws k
    by (auto simp: tuplas_prog_def peso_prog_def intro!: progs)
  have o: "(\<And>x. prog_bien (\<lambda>m. m) (k x)) \<Longrightarrow> prog_bien (\<lambda>m. m) (objetos_prog os ts k)" for os ts k
    by (auto simp: objetos_prog_def objeto_prog_def intro!: progs split: prod.split)
  have i: "paso_bien m (sort_elemento_con_pesos_interno e vs ps m)" for e vs ps m
    by (simp add: sort_elemento_con_pesos_interno_def paso_sin_cambio sort_configuracion_paso)
  show ?thesis
    by (auto simp: sort_prog_def sort_externos_prog_def sort_interno_prog_def sort_configuracion_prog_def Let_def
        intro!: progs t o i sort_configuracion_paso split: option.split salida.split)
qed

lemma key_prog_bien: "prog_bien (\<lambda>m. m) (key_prog c)"
  by (simp add: key_prog_def del_prog_bien rename_prog_bien sort_prog_bien prog_atomica ejecutar_key_paso)

lemma canal_prog_bien:
  assumes "\<And>x. prog_bien snd (k x)"
  shows "prog_bien snd (canal_prog a f clave u k)"
proof -
  have g: "prog_bien snd (seccion (\<lambda>e (r, m).
      (case con_lock m (\<lambda>b. (Devuelve (Inr ()), guardar_valor e clave (Canal c') b)) (Inl err_lock) of
         (x, m') \<Rightarrow> (x, r, m'))) (\<lambda>_ x. tras x k))" for c'
  proof (rule prog_seccion_tras)
    fix e and s :: red_bdd
    show "paso_bien (snd s) (fst (case s of (r, m) \<Rightarrow> (case con_lock m (\<lambda>b. (Devuelve (Inr ()), guardar_valor e clave (Canal c') b)) (Inl err_lock) of
         (x, m') \<Rightarrow> (x, r, m'))), snd (snd (case s of (r, m) \<Rightarrow> (case con_lock m (\<lambda>b. (Devuelve (Inr ()), guardar_valor e clave (Canal c') b)) (Inl err_lock) of
         (x, m') \<Rightarrow> (x, r, m')))))"
      using paso_con_lock [of "\<lambda>b. (Devuelve (Inr ()), guardar_valor e clave (Canal c') b)" "snd s" "Inl err_lock"]
        guardar_valor_inv by (auto simp: split_def)
  qed (rule assms)
  show ?thesis unfolding canal_prog_def
    by (rule prog_leer, rule prog_o_responde, rule prog_seccion_lectora) (simp add: split_def, rule g)
qed

lemma publish_prog_bien: "prog_bien snd (publish_prog c)"
proof -
  have "prog_bien snd (seccion (\<lambda>e (r, m). (case enviar_resultado (ahora e) s res r of (x, _, r') \<Rightarrow> (x, r', m)))
         (\<lambda>_ x. k (case x of Inr _ \<Rightarrow> n + 1 | Inl _ \<Rightarrow> n)))"
    if "\<And>n. prog_bien snd (k n)" for s res and n :: nat and k
    using that by (intro prog_seccion_lectora) (simp_all add: split_def)
  then show ?thesis
    by (auto simp: publish_prog_def intro!: progs split: prod.split option.split)
qed

lemma pubsub_prog_bien: "prog_bien snd (pubsub_prog c)"
proof -
  have "prog_bien snd (atomica (\<lambda>e (r :: red, m). (Devuelve (channels e c' m), r, m)))" for c'
    unfolding atomica_def by (rule prog_seccion_lectora) (simp_all add: split_def)
  moreover have "prog_bien snd (numsub_prog c')" for c'
    by (auto simp: numsub_prog_def intro!: progs)
  ultimately show ?thesis by (simp add: pubsub_prog_def split: prod.split option.split)
qed

lemma canales_prog_bien: "prog_bien snd (canales_prog c cl)"
  by (auto simp: canales_prog_def subscribe_prog_def unsubscribe_prog_def
      intro!: publish_prog_bien pubsub_prog_bien prog_bucle canal_prog_bien)

end
