(* ===== verification/Sistema.thy ===== *)
theory Sistema
  imports Redis Secciones
begin

text \<open>
  The whole server as a transition system (\<open>redis.rs\<close>, with the loops of \<open>log_handler.rs\<close> and
  \<open>persistencia.rs\<close>): the threads of the clients, each at a place of its own, the thread of the log and
  the thread that persists with the channel each one receives from, the connections that arrive and
  the end of the server. One step is one critical section of one thread, or one message received.
\<close>

section \<open>The program of a handler\<close>

primrec programa_de :: "comando_handler \<Rightarrow> mundo programa" where
  "programa_de (HNulo c) = elevar w_bdd (\<lambda>m w. w\<lparr>w_bdd := m\<rparr>) (atomica (\<lambda>e. comando_nulo e c))"
| "programa_de (HString c) = elevar w_bdd (\<lambda>m w. w\<lparr>w_bdd := m\<rparr>) (string_prog c)"
| "programa_de (HSet c) = elevar w_bdd (\<lambda>m w. w\<lparr>w_bdd := m\<rparr>) (atomica (\<lambda>e. ejecutar_set e c))"
| "programa_de (HKey c) = elevar w_bdd (\<lambda>m w. w\<lparr>w_bdd := m\<rparr>) (key_prog c)"
| "programa_de (HList c) = elevar w_bdd (\<lambda>m w. w\<lparr>w_bdd := m\<rparr>) (list_prog c)"
| "programa_de (HPubSub c cl) =
     elevar (\<lambda>w. (w_red w, w_bdd w)) (\<lambda>(r, m) w. w\<lparr>w_bdd := m, w_red := r\<rparr>) (canales_prog c cl)"
| "programa_de (HServer c) = atomica (\<lambda>e. ejecutar e (HServer c))"

lemma correr_programa_de: "correr e (programa_de h) w = ejecutar e h w"
proof (cases h)
  case (HPubSub c cl)
  have "correr e (elevar (\<lambda>w. (w_red w, w_bdd w)) (\<lambda>(r, m) w. w\<lparr>w_bdd := m, w_red := r\<rparr>) q) w =
      (case correr e q (w_red w, w_bdd w) of (x, s) \<Rightarrow> (x, (case s of (r, m) \<Rightarrow> w\<lparr>w_bdd := m, w_red := r\<rparr>)))" for q
    by (subst correr_elevar) (auto split: prod.splits)
  then show ?thesis using HPubSub canales_prog_a_solas [of e c cl "w_red w" "w_bdd w"]
    by (simp split: prod.split)
qed (simp_all add: correr_elevar a_solas con_bdd_def split: prod.split)

lemma programa_de_bien: "prog_bien w_bdd (programa_de h)"
proof (cases h)
  case (HServer c)
  have "paso_bien (w_bdd w) (fst (ejecutar e (HServer c) w), w_bdd (snd (ejecutar e (HServer c) w)))" for e w
    using ejecutar_server_paso [of "w_bdd w" "w_config w" e c] by (simp add: sobre_bdd_config_def split_def)
  then have "paso_bien (w_bdd w) (fallo (Responde (fst (ejecutar e (HServer c) w)) :: mundo programa),
      w_bdd (snd (ejecutar e (HServer c) w)))" for e w
    by (rule paso_bien_fallo)
  then have "prog_bien w_bdd (atomica (\<lambda>e. ejecutar e (HServer c)))"
    unfolding atomica_def by (intro prog_seccion) (simp_all del: ejecutar.simps)
  then show ?thesis using HServer by simp
qed (auto intro!: prog_bien_elevar prog_atomica string_prog_bien key_prog_bien list_prog_bien canales_prog_bien
  manejador_paso nulo.manejador_axioms conjuntos.manejador_axioms)

text \<open>What every section of a program keeps, whatever the rest of the state.\<close>

primrec prog_conserva :: "('s \<Rightarrow> 's \<Rightarrow> bool) \<Rightarrow> 's programa \<Rightarrow> bool" where
  "prog_conserva R (Responde r) = True"
| "prog_conserva R (Seccion f k) = (\<forall>e s. R s (f e s) \<and> prog_conserva R (k e s))"

lemma prog_conserva_elevar: "(\<And>s t. R t (p s t)) \<Longrightarrow> prog_conserva R (elevar g p q)"
  by (induction q rule: programa_induct) auto

lemma prog_conserva_atomica: "(\<And>e s. R s (snd (f e s))) \<Longrightarrow> prog_conserva R (atomica f)"
  by (simp add: atomica_def seccion_def)

definition veneno_config_igual :: "mundo \<Rightarrow> mundo \<Rightarrow> bool" where
  "veneno_config_igual w w' \<longleftrightarrow> envenenado (w_config w') = envenenado (w_config w)"

lemma programa_de_config: "prog_conserva veneno_config_igual (programa_de h)"
proof (cases h)
  case (HServer c)
  then show ?thesis
    using ejecutar_server_config by (auto simp: veneno_config_igual_def split_def intro!: prog_conserva_atomica)
qed (auto simp: veneno_config_igual_def intro!: prog_conserva_elevar)

section \<open>The thread of a client\<close>

text \<open>
  Where a thread is in the closure that \<open>iniciar\<close> spawns: before its first message to the log, at the
  head of the loop of \<open>manejar_cliente\<close>, inside a command, before the answer is sent, after the loop,
  at the end, or dead of a panic.
\<close>

datatype fase =
    Nuevo
  | Leyendo
  | Ejecutando "mundo programa"
  | Respondiendo resultado_redis
  | Saliendo "redis_error + unit"
  | Terminado
  | Muerto

record hilo =
  h_cliente :: cliente
  h_fase :: fase

definition leer_comando :: "entorno \<Rightarrow> cliente \<Rightarrow> mundo \<Rightarrow> hilo \<times> mundo" where
  "leer_comando e cl w =
     (if envio_informacion (w_red w) cl
      then (case obtener_comando (duplicable e) cl (w_red w) of
              (Panico, cl, r) \<Rightarrow> (\<lparr>h_cliente = cl, h_fase = Muerto\<rparr>, w\<lparr>w_red := r\<rparr>)
            | (Devuelve (Inr (Some comando)), cl, r) \<Rightarrow>
                (\<lparr>h_cliente = cl,
                  h_fase = Ejecutando (programa_de (crear_comando_handler comando (clone_cliente (duplicable e) cl)))\<rparr>,
                 w\<lparr>w_red := r, w_log := log_comando (obtener_addr r cl) comando (w_log w)\<rparr>)
            | (Devuelve (Inr None), cl, r) \<Rightarrow> (\<lparr>h_cliente = cl, h_fase = Leyendo\<rparr>, w\<lparr>w_red := r\<rparr>)
            | (Devuelve (Inl err), cl, r) \<Rightarrow> (\<lparr>h_cliente = cl, h_fase = Saliendo (Inl err)\<rparr>, w\<lparr>w_red := r\<rparr>))
      else if \<not> esta_conectado (ahora e) (w_red w) cl then (\<lparr>h_cliente = cl, h_fase = Saliendo (Inr ())\<rparr>, w)
      else (\<lparr>h_cliente = cl, h_fase = Leyendo\<rparr>, w))"

definition actualizar_config :: "entorno \<Rightarrow> cliente \<Rightarrow> resultado_redis \<Rightarrow> mundo \<Rightarrow> hilo \<times> mundo" where
  "actualizar_config e cl res w =
     (if envenenado (w_config w) then (\<lparr>h_cliente = cl, h_fase = Saliendo (Inl RServer)\<rparr>, w)
      else (case config_actualizar (clone_cliente (duplicable e) cl) (contenido (w_config w)) (w_log w) of
        (cfg, l) \<Rightarrow>
          (\<lparr>h_cliente = cl, h_fase = Respondiendo res\<rparr>,
           w\<lparr>w_config := (w_config w)\<lparr>contenido := cfg\<rparr>, w_log := l\<rparr>)))"

definition responder :: "entorno \<Rightarrow> cliente \<Rightarrow> resultado_redis \<Rightarrow> mundo \<Rightarrow> hilo \<times> mundo" where
  "responder e cl res w =
     (case enviar_resultado (ahora e) cl res (w_red w) of
        (Inr _, cl, r) \<Rightarrow> (\<lparr>h_cliente = cl, h_fase = Leyendo\<rparr>, w\<lparr>w_red := r\<rparr>)
      | (Inl err, cl, r) \<Rightarrow> (\<lparr>h_cliente = cl, h_fase = Saliendo (Inl err)\<rparr>, w\<lparr>w_red := r\<rparr>))"

definition despedir :: "cliente \<Rightarrow> redis_error + unit \<Rightarrow> mundo \<Rightarrow> mundo" where
  "despedir cl x w =
     (let w = (case x of Inl err \<Rightarrow> manejar_error err (obtener_addr (w_red w) cl) w | Inr _ \<Rightarrow> w)
      in w\<lparr>w_log := log_coneccion (obtener_addr (w_red w) cl) ''se desconecto usuario'' (w_log w)\<rparr>)"

definition hilo_paso :: "entorno \<Rightarrow> hilo \<Rightarrow> mundo \<Rightarrow> hilo \<times> mundo" where
  "hilo_paso e h w =
     (case h_fase h of
        Nuevo \<Rightarrow>
          (h\<lparr>h_fase := Leyendo\<rparr>,
           w\<lparr>w_log := log_coneccion (obtener_addr (w_red w) (h_cliente h)) ''Se conecto usario'' (w_log w)\<rparr>)
      | Leyendo \<Rightarrow> leer_comando e (h_cliente h) w
      | Ejecutando (Seccion f k) \<Rightarrow> (h\<lparr>h_fase := Ejecutando (k e w)\<rparr>, f e w)
      | Ejecutando (Responde Panico) \<Rightarrow> (h\<lparr>h_fase := Muerto\<rparr>, w)
      | Ejecutando (Responde (Devuelve res)) \<Rightarrow> actualizar_config e (h_cliente h) res w
      | Respondiendo res \<Rightarrow> responder e (h_cliente h) res w
      | Saliendo x \<Rightarrow> (h\<lparr>h_fase := Terminado\<rparr>, despedir (h_cliente h) x w)
      | Terminado \<Rightarrow> (h, w)
      | Muerto \<Rightarrow> (h, w))"

section \<open>The server\<close>

text \<open>
  \<open>s_cola_pers\<close> is the channel that the two \<open>Persistidor\<close> and the server itself send to, \<open>s_cola_log\<close>
  the channel of the log: what was sent and not yet received, in order.
\<close>

record sistema =
  s_hilos :: "hilo list"
  s_mundo :: mundo
  s_siguiente_id :: token
  s_cola_pers :: "mensaje_persistencia list"
  s_pers :: persistidor_handler
  s_pers_vivo :: bool
  s_cola_log :: "mensaje list"
  s_log :: log_handler
  s_log_vivo :: bool
  s_disco :: disco
  s_stdout :: "string list"

text \<open>
  The messages that a step sends: those that each sending side has after it and had not before. A
  step sends through one \<open>Persistidor\<close> at most, so their order is the order of the channel.
\<close>

definition nuevos :: "persistidor \<Rightarrow> persistidor \<Rightarrow> mensaje_persistencia list" where
  "nuevos p p' = drop (length (mensajes p)) (mensajes p')"

definition nuevos_pers :: "mundo \<Rightarrow> mundo \<Rightarrow> mensaje_persistencia list" where
  "nuevos_pers w w' =
     concat (map2 nuevos (observadores (contenido (w_bdd w))) (observadores (contenido (w_bdd w')))) @
     (case (cfg_persistidor (contenido (w_config w)), cfg_persistidor (contenido (w_config w'))) of
        (Some p, Some p') \<Rightarrow> nuevos p p'
      | _ \<Rightarrow> [])"

definition nuevos_log :: "mundo \<Rightarrow> mundo \<Rightarrow> mensaje list" where
  "nuevos_log w w' = drop (length (log_enviados (w_log w))) (log_enviados (w_log w'))"

definition con_mundo :: "sistema \<Rightarrow> mundo \<Rightarrow> sistema" where
  "con_mundo s w' =
     s\<lparr>s_mundo := w', s_cola_pers := s_cola_pers s @ nuevos_pers (s_mundo s) w',
       s_cola_log := s_cola_log s @ nuevos_log (s_mundo s) w'\<rparr>"

text \<open>A step of a thread, a connection, a change of the network from outside, a message received.\<close>

datatype accion =
    Mover nat
  | Aceptar "string option" socket
  | Externo red
  | Persistir
  | Logear
  | ApagarLog
  | ApagarPers

definition mover :: "entorno \<Rightarrow> nat \<Rightarrow> sistema \<Rightarrow> sistema" where
  "mover e i s =
     (if i < length (s_hilos s)
      then (case hilo_paso e (s_hilos s ! i) (s_mundo s) of
              (h, w) \<Rightarrow> con_mundo (s\<lparr>s_hilos := (s_hilos s)[i := h]\<rparr>) w)
      else s)"

definition redis_de :: "sistema \<Rightarrow> redis" where
  "redis_de s =
     \<lparr>r_config = w_config (s_mundo s), r_bdd = w_bdd (s_mundo s), siguiente_id = s_siguiente_id s,
      tx_log = w_log (s_mundo s), tx_pers = persistidor_new\<rparr>"

definition aceptar :: "entorno \<Rightarrow> string option \<Rightarrow> socket \<Rightarrow> sistema \<Rightarrow> sistema" where
  "aceptar e visto stream s =
     (case iniciar_conexion (bytes_de (s_disco s)) e visto stream (redis_de s) of
        (None, _) \<Rightarrow> s
      | (Some cl, rd) \<Rightarrow>
          s\<lparr>s_hilos := s_hilos s @ [\<lparr>h_cliente = cl, h_fase = Nuevo\<rparr>], s_siguiente_id := siguiente_id rd\<rparr>)"

definition recibir_pers :: "entorno \<Rightarrow> sistema \<Rightarrow> sistema" where
  "recibir_pers e s =
     (if \<not> s_pers_vivo s then s
      else (case s_cola_pers s of
              [] \<Rightarrow> s
            | msj # cola \<Rightarrow>
                (case persistir_paso (ahora e) msj (s_pers s, s_disco s) of
                   Inr (h, d) \<Rightarrow> s\<lparr>s_cola_pers := cola, s_pers := h, s_disco := d\<rparr>
                 | Inl (h, d) \<Rightarrow> s\<lparr>s_cola_pers := cola, s_pers := h, s_disco := d, s_pers_vivo := False\<rparr>)))"

definition recibir_log :: "entorno \<Rightarrow> sistema \<Rightarrow> sistema" where
  "recibir_log e s =
     (if \<not> s_log_vivo s then s
      else (case s_cola_log s of
              [] \<Rightarrow> s
            | msj # cola \<Rightarrow>
                (let fin = (\<lambda>vivo (lh, ml).
                       s\<lparr>s_cola_log := cola, s_log := lh, s_log_vivo := vivo, s_disco := ml_disco ml,
                         s_stdout := ml_stdout ml, s_mundo := (s_mundo s)\<lparr>w_red := ml_red ml\<rparr>\<rparr>)
                 in (case logear_paso e msj (s_log s,
                            \<lparr>ml_red = w_red (s_mundo s), ml_disco = s_disco s, ml_stdout = s_stdout s\<rparr>) of
                       Inr x \<Rightarrow> fin True x
                     | Inl x \<Rightarrow> fin False x))))"

text \<open>
  \<open>Drop for Redis\<close>: once the threads of the clients have ended, the log is told to close, and once its
  thread has ended, so is the thread that persists.
\<close>

definition todos_terminados :: "sistema \<Rightarrow> bool" where
  "todos_terminados s = list_all (\<lambda>h. h_fase h = Terminado \<or> h_fase h = Muerto) (s_hilos s)"

fun paso :: "entorno \<Rightarrow> accion \<Rightarrow> sistema \<Rightarrow> sistema" where
  "paso e (Mover i) s = mover e i s"
| "paso e (Aceptar visto stream) s = aceptar e visto stream s"
| "paso e (Externo r) s =
     s\<lparr>s_mundo := (s_mundo s)\<lparr>w_red := r\<lparr>enviados := enviados (w_red (s_mundo s))\<rparr>\<rparr>\<rparr>"
| "paso e Persistir s = recibir_pers e s"
| "paso e Logear s = recibir_log e s"
| "paso e ApagarLog s =
     (if todos_terminados s then s\<lparr>s_cola_log := s_cola_log s @ [Cerrar]\<rparr> else s)"
| "paso e ApagarPers s =
     (if todos_terminados s \<and> \<not> s_log_vivo s then s\<lparr>s_cola_pers := s_cola_pers s @ [CerrarPersistencia]\<rparr> else s)"

definition arrancar :: "instante \<Rightarrow> disco \<Rightarrow> string list \<Rightarrow> red \<Rightarrow> sistema salida" where
  "arrancar t d argv r =
     luego (main t d argv) (\<lambda>(rd, lh, ph). Devuelve
       \<lparr>s_hilos = [], s_mundo = mundo_inicial rd r, s_siguiente_id = siguiente_id rd,
        s_cola_pers = [], s_pers = ph, s_pers_vivo = True,
        s_cola_log = [], s_log = lh, s_log_vivo = True, s_disco = d, s_stdout = []\<rparr>)"

inductive llega :: "sistema \<Rightarrow> sistema \<Rightarrow> bool" where
  aqui: "llega s s"
| da_un_paso: "llega s s' \<Longrightarrow> llega s (paso e a s')"

inductive alcanzable :: "sistema \<Rightarrow> bool" where
  "arrancar t d argv r = Devuelve s0 \<Longrightarrow> llega s0 s \<Longrightarrow> alcanzable s"

inductive_cases alcanzableE: "alcanzable s"

text \<open>A run along a list of actions, and along an endless one.\<close>

definition ejecucion :: "(entorno \<times> accion) list \<Rightarrow> sistema \<Rightarrow> sistema" where
  "ejecucion plan s = fold (\<lambda>(e, a). paso e a) plan s"

primrec traza :: "(nat \<Rightarrow> entorno \<times> accion) \<Rightarrow> sistema \<Rightarrow> nat \<Rightarrow> sistema" where
  "traza plan s 0 = s"
| "traza plan s (Suc n) = (case plan n of (e, a) \<Rightarrow> paso e a (traza plan s n))"

section \<open>The invariant\<close>

text \<open>
  The shared state is well formed, every command in flight meets its contract, and no two clients
  have the same token.
\<close>

primrec fase_bien :: "fase \<Rightarrow> bool" where
  "fase_bien Nuevo = True"
| "fase_bien Leyendo = True"
| "fase_bien (Ejecutando p) = (prog_bien w_bdd p \<and> prog_conserva veneno_config_igual p)"
| "fase_bien (Respondiendo r) = True"
| "fase_bien (Saliendo x) = True"
| "fase_bien Terminado = True"
| "fase_bien Muerto = True"

definition sistema_inv :: "sistema \<Rightarrow> bool" where
  "sistema_inv s \<longleftrightarrow>
     mundo_inv (s_mundo s) \<and> list_all (\<lambda>h. fase_bien (h_fase h)) (s_hilos s) \<and>
     distinct (map (\<lambda>h. obtener_token (h_cliente h)) (s_hilos s)) \<and>
     list_all (\<lambda>h. obtener_token (h_cliente h) < s_siguiente_id s) (s_hilos s)"

text \<open>One step of a thread: what it keeps of the shared state, of its own phase and of its client.\<close>

lemma hilo_paso_bdd:
  assumes "fase_bien (h_fase h)" "hilo_paso e h w = (h', w')"
  shows "paso_bien (w_bdd w) (case h_fase h' of Ejecutando p \<Rightarrow> fallo p | _ \<Rightarrow> Devuelve (), w_bdd w') \<and>
    veneno_config_igual w w' \<and> fase_bien (h_fase h')"
proof (cases "h_fase h")
  case (Ejecutando p)
  then show ?thesis using assms
    by (cases p)
      (auto simp: hilo_paso_def actualizar_config_def veneno_config_igual_def paso_bien_def
        split: salida.splits if_splits prod.splits)
qed (use assms in \<open>auto simp: hilo_paso_def leer_comando_def responder_def despedir_def manejar_error_def Let_def
    veneno_config_igual_def paso_sin_cambio programa_de_bien programa_de_config
    split: if_splits prod.splits salida.splits sum.splits option.splits\<close>)

lemma token_obtener_comando [simp]:
  "obtener_token (fst (snd (obtener_comando dup cl r))) = obtener_token cl"
  by (cases cl) (auto simp: ch_obtener_comando_def Let_def split: option.splits salida.splits sum.splits prod.splits)

lemma leer_comando_token [simp]: "obtener_token (h_cliente (fst (leer_comando e cl w))) = obtener_token cl"
  using token_obtener_comando [of "duplicable e" cl "w_red w"]
  by (auto simp: leer_comando_def simp del: token_obtener_comando
      split: prod.split salida.split sum.split option.split)

lemma responder_token [simp]: "obtener_token (h_cliente (fst (responder e cl res w))) = obtener_token cl"
  using token_enviar_resultado [of "ahora e" cl res "w_red w"]
  by (auto simp: responder_def simp del: token_enviar_resultado split: prod.split sum.split)

lemma hilo_paso_token [simp]: "obtener_token (h_cliente (fst (hilo_paso e h w))) = obtener_token (h_cliente h)"
  by (simp add: hilo_paso_def actualizar_config_def split: fase.split programa.split salida.split prod.split)

lemma mover_inv:
  assumes "sistema_inv s" shows "sistema_inv (mover e i s)"
proof (cases "i < length (s_hilos s)")
  case True
  obtain h w where p: "hilo_paso e (s_hilos s ! i) (s_mundo s) = (h, w)" by force
  have "fase_bien (h_fase (s_hilos s ! i))" using assms True by (simp add: sistema_inv_def list_all_length)
  from hilo_paso_bdd [OF this p] have f: "mundo_inv w" "fase_bien (h_fase h)"
    using assms by (auto simp: sistema_inv_def mundo_inv_def paso_bien_def veneno_config_igual_def)
  have t: "obtener_token (h_cliente h) = obtener_token (h_cliente (s_hilos s ! i))"
    using hilo_paso_token [of e "s_hilos s ! i" "s_mundo s"] p by simp
  then have "map (\<lambda>h. obtener_token (h_cliente h)) ((s_hilos s)[i := h]) = map (\<lambda>h. obtener_token (h_cliente h)) (s_hilos s)"
    using True by (intro nth_equalityI) (auto simp: nth_list_update)
  moreover have "list_all Q ((s_hilos s)[i := h])" if "list_all Q (s_hilos s)" "Q h" for Q
    using that by (auto simp: list_all_iff dest!: subsetD [OF set_update_subset_insert])
  moreover have "obtener_token (h_cliente h) < s_siguiente_id s"
    using assms True t by (auto simp: sistema_inv_def list_all_length)
  ultimately show ?thesis using assms True p f by (simp add: sistema_inv_def mover_def con_mundo_def)
qed (use assms in \<open>simp add: mover_def\<close>)

lemma token_crear_cliente [simp]: "obtener_token (crear_cliente as t i tout v st) = i"
  by (simp add: crear_cliente_def cliente_redis_new_def cliente_http_new_def Let_def split: option.split)

lemma aceptar_inv: "sistema_inv s \<Longrightarrow> sistema_inv (aceptar e v st s)"
  by (auto simp: sistema_inv_def aceptar_def iniciar_conexion_def redis_de_def list_all_iff)

lemma recibir_inv:
  "sistema_inv s \<Longrightarrow> sistema_inv (recibir_pers e s)" "sistema_inv s \<Longrightarrow> sistema_inv (recibir_log e s)"
  by (auto simp: sistema_inv_def recibir_pers_def recibir_log_def Let_def split: list.split sum.split prod.split)

lemma paso_inv: "sistema_inv s \<Longrightarrow> sistema_inv (paso e a s)"
proof (cases a)
  case (Externo r)
  then show "sistema_inv s \<Longrightarrow> sistema_inv (paso e a s)" by (simp add: sistema_inv_def)
qed (simp_all add: mover_inv aceptar_inv recibir_inv, simp_all add: sistema_inv_def)

lemma llega_inv: "llega s s' \<Longrightarrow> sistema_inv s \<Longrightarrow> sistema_inv s'"
  by (induction rule: llega.induct) (auto intro: paso_inv)

lemma arrancar_inv: "arrancar t d argv r = Devuelve s \<Longrightarrow> sistema_inv s"
  by (auto simp: arrancar_def main_def luego_eq_Devuelve sistema_inv_def dest!: redis_new_inv)

lemma alcanzable_inv: "alcanzable s \<Longrightarrow> sistema_inv s"
  by (auto elim!: alcanzableE dest!: arrancar_inv llega_inv)

section \<open>A poisoned mutex\<close>

lemma mover_envenenado:
  assumes "sistema_inv s" "envenenado (w_bdd (s_mundo s))"
  shows "w_bdd (s_mundo (mover e i s)) = w_bdd (s_mundo s)"
proof (cases "i < length (s_hilos s)")
  case True
  obtain h w where p: "hilo_paso e (s_hilos s ! i) (s_mundo s) = (h, w)" by force
  have "fase_bien (h_fase (s_hilos s ! i))" using assms True by (simp add: sistema_inv_def list_all_length)
  from hilo_paso_bdd [OF this p] show ?thesis using assms True p
    by (simp add: mover_def con_mundo_def paso_bien_def)
qed (simp add: mover_def)

lemma paso_sin_hilo_bdd: "(\<And>i. a \<noteq> Mover i) \<Longrightarrow> w_bdd (s_mundo (paso e a s)) = w_bdd (s_mundo s)"
  by (cases a) (auto simp: aceptar_def recibir_pers_def recibir_log_def Let_def
      split: option.split list.split sum.split prod.split)

lemma llega_envenenado:
  "llega s s' \<Longrightarrow> sistema_inv s \<Longrightarrow> envenenado (w_bdd (s_mundo s)) \<Longrightarrow> w_bdd (s_mundo s') = w_bdd (s_mundo s)"
proof (induction rule: llega.induct)
  case (da_un_paso s s' e a)
  then have "sistema_inv s'" by (blast intro: llega_inv)
  then show ?case using da_un_paso mover_envenenado [of s' e] paso_sin_hilo_bdd [of a e s'] by (cases a) auto
qed simp

section \<open>A turn without interference\<close>

text \<open>A thread that is the only one to move: it takes the steps of its turn one after the other.\<close>

primrec hilo_solo :: "entorno \<Rightarrow> nat \<Rightarrow> hilo \<times> mundo \<Rightarrow> hilo \<times> mundo" where
  "hilo_solo e 0 s = s"
| "hilo_solo e (Suc n) s = hilo_solo e n (hilo_paso e (fst s) (snd s))"

primrec fase_de :: "turno \<Rightarrow> fase" where
  "fase_de Continua = Leyendo"
| "fase_de (Retorna x) = Saliendo x"
| "fase_de Muere = Muerto"

lemma hilo_solo_mas: "hilo_solo e (n + m) s = hilo_solo e m (hilo_solo e n s)"
  by (induction n arbitrary: s) simp_all

lemma hilo_solo_sigue: "hilo_solo e n s = s' \<Longrightarrow> \<exists>m. hilo_solo e m s' = t \<Longrightarrow> \<exists>m. hilo_solo e m s = t"
  by (metis hilo_solo_mas)

lemma programa_solo:
  "\<exists>n. hilo_solo e n (\<lparr>h_cliente = cl, h_fase = Ejecutando p\<rparr>, w) =
    (case correr e p w of (r, w') \<Rightarrow> (\<lparr>h_cliente = cl, h_fase = Ejecutando (Responde r)\<rparr>, w'))"
proof (induction p arbitrary: w rule: programa_induct)
  case (Responde r)
  then show ?case by (intro exI [of _ 0]) simp
next
  case (Seccion f k)
  obtain n where "hilo_solo e n (\<lparr>h_cliente = cl, h_fase = Ejecutando (k e w)\<rparr>, f e w) =
    (case correr e (k e w) (f e w) of (r, w') \<Rightarrow> (\<lparr>h_cliente = cl, h_fase = Ejecutando (Responde r)\<rparr>, w'))"
    using Seccion by blast
  then show ?case by (intro exI [of _ "Suc n"]) (simp add: hilo_paso_def)
qed

lemma atender_solo:
  "\<exists>n. hilo_solo e n
      (\<lparr>h_cliente = cl, h_fase = Ejecutando (programa_de (crear_comando_handler c (clone_cliente (duplicable e) cl)))\<rparr>,
       w\<lparr>w_log := log_comando (obtener_addr (w_red w) cl) c (w_log w)\<rparr>) =
    (case atender_comando e c cl w of (x, cl', w') \<Rightarrow> (\<lparr>h_cliente = cl', h_fase = fase_de x\<rparr>, w'))"
proof -
  let ?w = "w\<lparr>w_log := log_comando (obtener_addr (w_red w) cl) c (w_log w)\<rparr>"
  let ?p = "programa_de (crear_comando_handler c (clone_cliente (duplicable e) cl))"
  obtain r w' where m: "manejar_comando e c (clone_cliente (duplicable e) cl) ?w = (r, w')" by force
  obtain n where n: "hilo_solo e n (\<lparr>h_cliente = cl, h_fase = Ejecutando ?p\<rparr>, ?w) =
      (\<lparr>h_cliente = cl, h_fase = Ejecutando (Responde r)\<rparr>, w')"
    using programa_solo [of e cl ?p ?w] m by (auto simp: correr_programa_de manejar_comando_def)
  show ?thesis
  proof (rule hilo_solo_sigue [OF n], cases r)
    case Panico
    then show "\<exists>k. hilo_solo e k (\<lparr>h_cliente = cl, h_fase = Ejecutando (Responde r)\<rparr>, w') =
        (case atender_comando e c cl w of (x, cl', w') \<Rightarrow> (\<lparr>h_cliente = cl', h_fase = fase_de x\<rparr>, w'))" using m
      by (intro exI [of _ "Suc 0"]) (simp add: hilo_paso_def atender_comando_def)
  next
    case (Devuelve res)
    then show "\<exists>k. hilo_solo e k (\<lparr>h_cliente = cl, h_fase = Ejecutando (Responde r)\<rparr>, w') =
        (case atender_comando e c cl w of (x, cl', w') \<Rightarrow> (\<lparr>h_cliente = cl', h_fase = fase_de x\<rparr>, w'))" using m
      by (intro exI [of _ "if envenenado (w_config w') then Suc 0 else Suc (Suc 0)"])
        (auto simp: hilo_paso_def actualizar_config_def responder_def atender_comando_def Let_def
          split: prod.split sum.split)
  qed
qed

lemma turno_solo:
  "\<exists>n. hilo_solo e n (\<lparr>h_cliente = cl, h_fase = Leyendo\<rparr>, w) =
    (case manejar_cliente_paso e cl w of (x, cl', w') \<Rightarrow> (\<lparr>h_cliente = cl', h_fase = fase_de x\<rparr>, w'))"
proof (cases "\<exists>c cl1 r. envio_informacion (w_red w) cl \<and>
    obtener_comando (duplicable e) cl (w_red w) = (Devuelve (Inr (Some c)), cl1, r)")
  case True
  then obtain c cl1 r where o: "envio_informacion (w_red w) cl"
    "obtener_comando (duplicable e) cl (w_red w) = (Devuelve (Inr (Some c)), cl1, r)" by blast
  obtain n where "hilo_solo e n
      (\<lparr>h_cliente = cl1, h_fase = Ejecutando (programa_de (crear_comando_handler c (clone_cliente (duplicable e) cl1)))\<rparr>,
       w\<lparr>w_red := r, w_log := log_comando (obtener_addr r cl1) c (w_log w)\<rparr>) =
    (case atender_comando e c cl1 (w\<lparr>w_red := r\<rparr>) of (x, cl', w') \<Rightarrow> (\<lparr>h_cliente = cl', h_fase = fase_de x\<rparr>, w'))"
    using atender_solo [of e cl1 c "w\<lparr>w_red := r\<rparr>"] by auto
  then show ?thesis using o
    by (intro exI [of _ "Suc n"]) (simp add: hilo_paso_def leer_comando_def manejar_cliente_paso_def)
next
  case False
  then show ?thesis
    by (intro exI [of _ "Suc 0"])
      (auto simp: hilo_paso_def leer_comando_def manejar_cliente_paso_def
        split: prod.split salida.split sum.split option.split)
qed

section \<open>Fair runs\<close>

text \<open>In a fair run thread \<open>i\<close> is scheduled again and again; the system decides when, and what else moves.\<close>

definition justa :: "nat \<Rightarrow> (nat \<Rightarrow> entorno \<times> accion) \<Rightarrow> bool" where
  "justa i plan \<longleftrightarrow> (\<forall>n. \<exists>m \<ge> n. snd (plan m) = Mover i)"

lemma traza_mas: "traza plan s (n + m) = traza (\<lambda>k. plan (n + k)) (traza plan s n) m"
  by (induction m) simp_all

lemma justa_mas: "justa i plan \<Longrightarrow> justa i (\<lambda>k. plan (n + k))"
  unfolding justa_def by (metis add_le_cancel_left le_Suc_ex le_add1 le_trans)

lemma justa_primero:
  assumes "justa i plan" obtains n e where "plan n = (e, Mover i)" "\<forall>j < n. snd (plan j) \<noteq> Mover i"
proof -
  from assms have "\<exists>n. snd (plan n) = Mover i" by (auto simp: justa_def)
  then obtain n where "snd (plan n) = Mover i" "\<forall>j < n. snd (plan j) \<noteq> Mover i"
    using exists_least_iff [of "\<lambda>n. snd (plan n) = Mover i"] by auto
  then show thesis using that by (metis prod.collapse)
qed

lemma paso_otro:
  "i < length (s_hilos s) \<Longrightarrow> a \<noteq> Mover i \<Longrightarrow>
    s_hilos (paso e a s) ! i = s_hilos s ! i \<and> i < length (s_hilos (paso e a s))"
  by (cases a) (auto simp: mover_def con_mundo_def aceptar_def recibir_pers_def recibir_log_def Let_def nth_append
      split: option.split list.split sum.split prod.split)

lemma traza_otros:
  "i < length (s_hilos s) \<Longrightarrow> \<forall>j < n. snd (plan j) \<noteq> Mover i \<Longrightarrow>
    s_hilos (traza plan s n) ! i = s_hilos s ! i \<and> i < length (s_hilos (traza plan s n))"
  by (induction n) (auto simp: paso_otro split: prod.split)

lemma traza_length: "i < length (s_hilos s) \<Longrightarrow> i < length (s_hilos (traza plan s n))"
proof (induction n)
  case (Suc n)
  have "length (s_hilos s') \<le> length (s_hilos (paso e a s'))" for e a s'
    by (cases a) (auto simp: mover_def con_mundo_def aceptar_def recibir_pers_def recibir_log_def Let_def
        split: option.split list.split sum.split prod.split)
  then show ?case using Suc by (auto split: prod.split intro: less_le_trans)
qed simp

text \<open>The next step of the thread in a fair run, and what it finds.\<close>

lemma justa_mueve:
  assumes "justa i plan" "i < length (s_hilos s)"
  obtains n e where "plan n = (e, Mover i)" "\<forall>j < n. snd (plan j) \<noteq> Mover i" "s_hilos (traza plan s n) ! i = s_hilos s ! i"
    "i < length (s_hilos (traza plan s n))"
    "s_hilos (traza plan s (Suc n)) ! i = fst (hilo_paso e (s_hilos s ! i) (s_mundo (traza plan s n)))"
    "i < length (s_hilos (traza plan s (Suc n)))"
proof -
  obtain n e where n: "plan n = (e, Mover i)" "\<forall>j < n. snd (plan j) \<noteq> Mover i"
    using justa_primero [OF assms(1)] .
  note t = traza_otros [OF assms(2) n(2)]
  then show thesis using that [of n e] n by (simp add: mover_def con_mundo_def split: prod.split)
qed

text \<open>
  What is left of the command \<open>q\<close> of thread \<open>i\<close> after \<open>n\<close> steps of a run: every step of the thread takes one
  critical section off, and the section decides by the shared state it finds how the command goes on.
\<close>

primrec resto_de :: "nat \<Rightarrow> (nat \<Rightarrow> entorno \<times> accion) \<Rightarrow> sistema \<Rightarrow> mundo programa \<Rightarrow> nat \<Rightarrow> mundo programa" where
  "resto_de i plan s q 0 = q"
| "resto_de i plan s q (Suc n) =
     (case resto_de i plan s q n of
        Responde r \<Rightarrow> Responde r
      | Seccion f k \<Rightarrow>
          if snd (plan n) = Mover i then k (fst (plan n)) (s_mundo (traza plan s n)) else Seccion f k)"

lemma resto_de_otros: "\<forall>j < n. snd (plan j) \<noteq> Mover i \<Longrightarrow> resto_de i plan s q n = q"
  by (induction n) (auto split: programa.split)

lemma resto_de_mas:
  "resto_de i plan s q (n + m) = resto_de i (\<lambda>k. plan (n + k)) (traza plan s n) (resto_de i plan s q n) m"
  by (induction m) (auto simp: traza_mas split: programa.split)

lemma elevar_atomica: "elevar g p (atomica f) = atomica (\<lambda>e t. case f e (g t) of (x, s) \<Rightarrow> (x, p s t))"
  by (simp add: atomica_def seccion_def split_def)

text \<open>A command of one section: its answer is the one that section gives at the state it finds.\<close>

lemma resto_de_atomica:
  "resto_de i plan s (atomica f) n = Responde r \<Longrightarrow>
    \<exists>m < n. \<exists>e. plan m = (e, Mover i) \<and> r = fst (f e (s_mundo (traza plan s m)))"
proof (induction n)
  case (Suc n)
  let ?q = "resto_de i plan s (atomica f)"
  have "?q m = atomica f \<or> (\<exists>x. ?q m = Responde x)" for m
    by (induction m) (auto simp: atomica_def seccion_def)
  then consider "?q n = atomica f" | x where "?q n = Responde x" by blast
  then show ?case
  proof cases
    case 1
    then have "snd (plan n) = Mover i \<and> r = fst (f (fst (plan n)) (s_mundo (traza plan s n)))"
      using Suc.prems by (simp add: atomica_def seccion_def split: if_splits)
    then show ?thesis by (intro exI [of _ n]) (auto simp: prod_eq_iff)
  next
    case 2
    then show ?thesis using Suc less_Suc_eq by fastforce
  qed
qed (simp add: atomica_def seccion_def)

lemma comando_concluye:
  assumes "justa i plan" "i < length (s_hilos s)" "h_fase (s_hilos s ! i) = Ejecutando q"
  shows "\<exists>n r. i < length (s_hilos (traza plan s n)) \<and> h_cliente (s_hilos (traza plan s n) ! i) = h_cliente (s_hilos s ! i) \<and>
    h_fase (s_hilos (traza plan s n) ! i) = Ejecutando (Responde r) \<and> resto_de i plan s q n = Responde r"
  using assms
proof (induction q arbitrary: plan s rule: programa_induct)
  case (Responde r)
  then show ?case by (intro exI [of _ 0] exI [of _ r]) simp
next
  case (Seccion f k)
  obtain n e where n: "plan n = (e, Mover i)" "\<forall>j < n. snd (plan j) \<noteq> Mover i"
    "s_hilos (traza plan s (Suc n)) ! i = fst (hilo_paso e (s_hilos s ! i) (s_mundo (traza plan s n)))"
    "i < length (s_hilos (traza plan s (Suc n)))"
    using justa_mueve [OF Seccion.prems(1,2)] by blast
  let ?s = "traza plan s (Suc n)"
  have f: "h_fase (s_hilos ?s ! i) = Ejecutando (k e (s_mundo (traza plan s n)))"
    "h_cliente (s_hilos ?s ! i) = h_cliente (s_hilos s ! i)"
    using n(3) Seccion.prems(3) by (simp_all add: hilo_paso_def)
  have "resto_de i plan s (Seccion f k) (Suc n) = k e (s_mundo (traza plan s n))"
    using n(1) resto_de_otros [OF n(2), of s "Seccion f k"] by simp
  then have "resto_de i plan s (Seccion f k) (Suc n + m) =
      resto_de i (\<lambda>j. plan (Suc n + j)) ?s (k e (s_mundo (traza plan s n))) m" for m
    by (simp only: resto_de_mas)
  with Seccion.IH [OF justa_mas [OF Seccion.prems(1), of "Suc n"] n(4) f(1)] f(2)
  show ?case by (metis traza_mas)
qed

lemma traza_llega: "llega s (traza plan s n)"
  by (induction n) (auto intro: llega.intros split: prod.split)

text \<open>How a command whose sections are done ends: of a panic, or with the sending of its own answer.\<close>

lemma respuesta_sale:
  assumes "sistema_inv s" "justa i plan" "i < length (s_hilos s)" "h_fase (s_hilos s ! i) = Ejecutando (Responde r)"
  shows "case r of
      Panico \<Rightarrow> (\<exists>n. h_fase (s_hilos (traza plan s n) ! i) = Muerto)
    | Devuelve res \<Rightarrow> (\<exists>n e. plan n = (e, Mover i) \<and> h_fase (s_hilos (traza plan s n) ! i) = Respondiendo res \<and>
        h_cliente (s_hilos (traza plan s n) ! i) = h_cliente (s_hilos s ! i))"
proof -
  obtain m e where m: "plan m = (e, Mover i)"
    "s_hilos (traza plan s (Suc m)) ! i = fst (hilo_paso e (s_hilos s ! i) (s_mundo (traza plan s m)))"
    "i < length (s_hilos (traza plan s (Suc m)))"
    using justa_mueve [OF assms(2,3)] by blast
  let ?s = "traza plan s (Suc m)" and ?p = "\<lambda>k. plan (Suc m + k)"
  show ?thesis
  proof (cases r)
    case Panico
    then have "h_fase (s_hilos ?s ! i) = Muerto" using m(2) assms(4) by (simp add: hilo_paso_def)
    then show ?thesis using Panico by (auto simp del: traza.simps)
  next
    case (Devuelve res)
    have "sistema_inv (traza plan s m)" using llega_inv [OF traza_llega assms(1)] .
    then have f: "h_fase (s_hilos ?s ! i) = Respondiendo res" "h_cliente (s_hilos ?s ! i) = h_cliente (s_hilos s ! i)"
      using m(2) assms(4) Devuelve
      by (simp_all add: hilo_paso_def actualizar_config_def sistema_inv_def mundo_inv_def split: prod.split)
    obtain l e' where "?p l = (e', Mover i)" "s_hilos (traza ?p ?s l) ! i = s_hilos ?s ! i"
      using justa_mueve [OF justa_mas [OF assms(2)] m(3)] by blast
    moreover have "traza plan s (Suc m + l) = traza ?p ?s l" by (rule traza_mas)
    ultimately have "plan (Suc m + l) = (e', Mover i) \<and> h_fase (s_hilos (traza plan s (Suc m + l)) ! i) = Respondiendo res \<and>
        h_cliente (s_hilos (traza plan s (Suc m + l)) ! i) = h_cliente (s_hilos s ! i)"
      using f by metis
    then show ?thesis using Devuelve by (simp del: add_Suc traza.simps) blast
  qed
qed

lemma comando_sale:
  assumes "sistema_inv s" "justa i plan" "i < length (s_hilos s)" "h_fase (s_hilos s ! i) = Ejecutando q"
  shows "\<exists>n r. resto_de i plan s q n = Responde r \<and>
    (case r of
       Panico \<Rightarrow> (\<exists>m \<ge> n. h_fase (s_hilos (traza plan s m) ! i) = Muerto)
     | Devuelve res \<Rightarrow> (\<exists>m \<ge> n. \<exists>e. plan m = (e, Mover i) \<and> h_fase (s_hilos (traza plan s m) ! i) = Respondiendo res \<and>
         h_cliente (s_hilos (traza plan s m) ! i) = h_cliente (s_hilos s ! i)))"
proof -
  obtain n r where n: "i < length (s_hilos (traza plan s n))" "h_fase (s_hilos (traza plan s n) ! i) = Ejecutando (Responde r)"
    "h_cliente (s_hilos (traza plan s n) ! i) = h_cliente (s_hilos s ! i)" "resto_de i plan s q n = Responde r"
    using comando_concluye [OF assms(2-4)] by blast
  note sale = respuesta_sale [OF llega_inv [OF traza_llega assms(1)] justa_mas [OF assms(2), of n] n(1,2)]
  have "case r of
       Panico \<Rightarrow> (\<exists>m \<ge> n. h_fase (s_hilos (traza plan s m) ! i) = Muerto)
     | Devuelve res \<Rightarrow> (\<exists>m \<ge> n. \<exists>e. plan m = (e, Mover i) \<and> h_fase (s_hilos (traza plan s m) ! i) = Respondiendo res \<and>
         h_cliente (s_hilos (traza plan s m) ! i) = h_cliente (s_hilos s ! i))"
  proof (cases r)
    case Panico
    then obtain m where "h_fase (s_hilos (traza plan s (n + m)) ! i) = Muerto" using sale by (auto simp: traza_mas)
    then show ?thesis using Panico by (auto intro!: exI [of _ "n + m"])
  next
    case (Devuelve res)
    then obtain m e where "plan (n + m) = (e, Mover i)" "h_fase (s_hilos (traza plan s (n + m)) ! i) = Respondiendo res"
      "h_cliente (s_hilos (traza plan s (n + m)) ! i) = h_cliente (s_hilos s ! i)"
      using sale n(3) by (auto simp: traza_mas)
    then show ?thesis using Devuelve by (auto intro!: exI [of _ "n + m"])
  qed
  then show ?thesis using n(4) by blast
qed

text \<open>A server with commands in flight, for the witnesses.\<close>

definition sistema_ejemplo :: "bdd_mutex \<Rightarrow> comando_handler list \<Rightarrow> sistema" where
  "sistema_ejemplo m hs =
     \<lparr>s_hilos = map (\<lambda>h. \<lparr>h_cliente = CRedis (cliente_redis_new 0 0 0 0), h_fase = Ejecutando (programa_de h)\<rparr>) hs,
      s_mundo = \<lparr>w_bdd = m, w_config = \<lparr>contenido = config_new, envenenado = False\<rparr>, w_log = logger_new,
                 w_red = red_ejemplo\<rparr>,
      s_siguiente_id = 2, s_cola_pers = [], s_pers = persistidor_handler_new 0 ''dump.rb'' 1, s_pers_vivo = True,
      s_cola_log = [], s_log = log_handler_new ''redis.log'' False, s_log_vivo = True, s_disco = disco_ejemplo, s_stdout = []\<rparr>"

lemma sistema_ejemplo_simps [simp]:
  "w_bdd (s_mundo (sistema_ejemplo m hs)) = m"
  "s_hilos (sistema_ejemplo m hs) =
    map (\<lambda>h. \<lparr>h_cliente = CRedis (cliente_redis_new 0 0 0 0), h_fase = Ejecutando (programa_de h)\<rparr>) hs"
  by (simp_all add: sistema_ejemplo_def)

end
