(* ===== verification/Concurrencia.thy ===== *)
theory Concurrencia
  imports Sistema
begin

text \<open>
  What the threads of the clients can do to one another. A command that reads in one critical section
  and writes in the next is atomic as long as its key shows the same at both; when two clients
  interleave on one key, an acknowledged update can be lost.
\<close>

section \<open>Commands in two sections\<close>

text \<open>What is left of a program after its first section, run at \<open>e\<close> in the state \<open>s\<close>.\<close>

definition tras_primera :: "entorno \<Rightarrow> 's programa \<Rightarrow> 's \<Rightarrow> 's programa" where
  "tras_primera e p s = (case p of Responde r \<Rightarrow> p | Seccion f k \<Rightarrow> k e s)"

definition misma_lectura :: "entorno \<Rightarrow> bdd_mutex \<Rightarrow> entorno \<Rightarrow> bdd_mutex \<Rightarrow> string \<Rightarrow> bool" where
  "misma_lectura e m e' m' k \<longleftrightarrow>
     vista e m k = vista e' m' k \<and> envenenado m = envenenado m' \<and> perfil_de e = perfil_de e'"

lemma tras_primera_simps [simp]:
  "tras_primera e (Responde r) s = Responde r"
  "tras_primera e (seccion f k) s = k e (fst (f e s))"
  "tras_primera e (leer g k') s = k' e (g e s)"
  by (simp_all add: tras_primera_def leer_def seccion_def)

lemma leer_lista_misma:
  "misma_lectura e m e' m' k \<Longrightarrow> leer_lista e k a m = leer_lista e' k a m'"
  by (simp add: leer_lista_def leer_lock_def misma_lectura_def)

lemma operar_leer_misma:
  "misma_lectura e m e' m' k \<Longrightarrow> operar_leer e k m = operar_leer e' k m'"
  by (simp add: operar_leer_def leer_lock_def misma_lectura_def)

lemma get_misma:
  "misma_lectura e m e' m' k \<Longrightarrow> parametros c = k # ps \<Longrightarrow> fst (get e c m) = fst (get e' c m')"
  by (simp add: get_def con_lock_def misma_lectura_def)

lemma operar_lineal:
  assumes "misma_lectura e m e' m' k" "parametros c = k # ps"
  shows "correr e' (tras_primera e (operar_sobre_int_prog f c) m) m' = operar_sobre_int f e' c m'"
  using assms operar_leer_misma [OF assms(1)]
  by (simp add: operar_sobre_int_prog_def operar_sobre_int_def correr_simps misma_lectura_def
      split: prod.split option.split sum.split salida.split)

lemma getdel_lineal:
  assumes "misma_lectura e m e' m' k" "parametros c = k # ps"
  shows "correr e' (tras_primera e (getdel_prog c) m) m' = getdel e' c m'"
proof -
  let ?c = "c\<lparr>index := 1\<rparr>"
  obtain r where "get e' ?c m' = (r, m')" using get_no_cambia [of e' ?c m'] by (metis prod.collapse)
  moreover from this have "fst (get e ?c m) = r" using get_misma [OF assms(1), of ?c ps] assms(2) by simp
  ultimately show ?thesis using assms(2)
    by (simp add: getdel_prog_def getdel_def split: salida.split resultado_redis.split)
qed

lemma pop_lineal:
  assumes "misma_lectura e m e' m' k" "parametros c = k # ps"
  shows "correr e' (tras_primera e (pop_prog r c) m) m' = pop r e' c m'"
  using assms leer_lista_misma [OF assms(1)]
  by (simp add: pop_prog_def pop_def Let_def correr_simps split: prod.split option.split sum.split salida.split)

lemma push_lineal:
  assumes "misma_lectura e m e' m' k" "parametros c = k # ps"
  shows "correr e' (tras_primera e (push_prog n a r c) m) m' = correr e' (push_prog n a r c) m'"
  using assms leer_lista_misma [OF assms(1)] by (simp add: push_prog_def)

lemma lrem_lineal:
  assumes "misma_lectura e m e' m' k" "parametros c = k # ps"
  shows "correr e' (tras_primera e (lrem_prog c) m) m' = lrem e' c m'"
  using assms leer_lista_misma [OF assms(1)]
  by (simp add: lrem_prog_def lrem_def correr_simps misma_lectura_def
      split: prod.split option.split sum.split salida.split)

lemma lset_lineal:
  assumes "misma_lectura e m e' m' k" "parametros c = k # ps"
  shows "correr e' (tras_primera e (lset_prog c) m) m' = lset e' c m'"
  using assms leer_lista_misma [OF assms(1)]
  by (simp add: lset_prog_def lset_def correr_simps misma_lectura_def
      split: prod.split option.split sum.split salida.split)

definition dos_secciones :: "string list" where
  "dos_secciones =
     [''LPOP'', ''RPOP'', ''LPUSH'', ''LPUSHX'', ''RPUSH'', ''RPUSHX'', ''LREM'', ''LSET'']"

lemma string_lineal:
  assumes "misma_lectura e m e' m' k" "parametros c = k # ps" "nombre c \<in> {''INCRBY'', ''DECRBY'', ''GETDEL''}"
  shows "correr e' (tras_primera e (string_prog c) m) m' = ejecutar_string e' c m'"
  using assms(3)
  by (auto simp: string_prog_def ejecutar_string_def get_nombre_def incrby_def decrby_def
      operar_lineal [OF assms(1,2)] getdel_lineal [OF assms(1,2)])

lemma list_lineal:
  assumes "misma_lectura e m e' m' k" "parametros c = k # ps" "nombre c \<in> set dos_secciones"
  shows "correr e' (tras_primera e (list_prog c) m) m' = ejecutar_list e' c m'"
  using assms(3)
  by (auto simp: dos_secciones_def list_prog_def ejecutar_list_def get_nombre_def lpop_def rpop_def push_a_solas
      pop_lineal [OF assms(1,2)] push_lineal [OF assms(1,2)] lrem_lineal [OF assms(1,2)] lset_lineal [OF assms(1,2)])

section \<open>Two clients at once\<close>

text \<open>A thread in the middle of a command: one step runs the next section.\<close>

lemma mover_ejecutando:
  assumes "i < length (s_hilos s)" "h_fase (s_hilos s ! i) = Ejecutando (Seccion f k)"
  shows "s_hilos (mover e i s) = (s_hilos s)[i := (s_hilos s ! i)\<lparr>h_fase := Ejecutando (k e (s_mundo s))\<rparr>] \<and>
    s_mundo (mover e i s) = f e (s_mundo s)"
  using assms by (simp add: mover_def hilo_paso_def con_mundo_def)

abbreviation sobre_w :: "bdd_mutex programa \<Rightarrow> mundo programa" where
  "sobre_w \<equiv> elevar w_bdd (\<lambda>m w. w\<lparr>w_bdd := m\<rparr>)"

abbreviation en_curso :: "sistema \<Rightarrow> nat \<Rightarrow> mundo programa \<Rightarrow> bool" where
  "en_curso s i p \<equiv> i < length (s_hilos s) \<and> h_fase (s_hilos s ! i) = Ejecutando p"

definition lectora :: "'s programa \<Rightarrow> bool" where
  "lectora p \<longleftrightarrow> (\<exists>k. p = Seccion (\<lambda>e s. s) k)"

lemma lectora_leer [simp]: "lectora (leer g k)"
  by (simp add: lectora_def leer_def seccion_def)

lemma mover_leer:
  assumes "en_curso s i (sobre_w p)" "lectora p" "tras_primera e p (w_bdd (s_mundo s)) = q"
  shows "en_curso (mover e i s) i (sobre_w q) \<and> s_mundo (mover e i s) = s_mundo s"
  using assms by (auto simp: lectora_def tras_primera_def mover_ejecutando)

lemma mover_atomica:
  assumes "en_curso s i (sobre_w (atomica f))" "f e (w_bdd (s_mundo s)) = (r, m)"
  shows "en_curso (mover e i s) i (Responde r) \<and> w_bdd (s_mundo (mover e i s)) = m"
  using assms by (simp add: atomica_def seccion_def mover_ejecutando)

lemma mover_otro: "en_curso s j p \<Longrightarrow> i \<noteq> j \<Longrightarrow> en_curso (mover e i s) j p"
  by (auto simp: mover_def con_mundo_def split: prod.split)

text \<open>Both read before either writes.\<close>

lemma entrelazados:
  assumes "i \<noteq> j" "en_curso s i (sobre_w p)" "en_curso s j (sobre_w q)" "lectora p" "lectora q"
    and "tras_primera e p (w_bdd (s_mundo s)) = atomica f" "tras_primera e q (w_bdd (s_mundo s)) = atomica g"
    and "f e (w_bdd (s_mundo s)) = (r1, m1)" "g e m1 = (r2, m2)"
  defines "s' \<equiv> ejecucion [(e, Mover i), (e, Mover j), (e, Mover i), (e, Mover j)] s"
  shows "en_curso s' i (Responde r1) \<and> en_curso s' j (Responde r2) \<and> w_bdd (s_mundo s') = m2"
proof -
  let ?s1 = "mover e i s" let ?s2 = "mover e j ?s1" let ?s3 = "mover e i ?s2"
  have 1: "en_curso ?s1 i (sobre_w (atomica f))" "s_mundo ?s1 = s_mundo s" "en_curso ?s1 j (sobre_w q)"
    using mover_leer [OF assms(2,4,6)] mover_otro [OF assms(3,1)] by blast+
  have 2: "en_curso ?s2 j (sobre_w (atomica g))" "s_mundo ?s2 = s_mundo s" "en_curso ?s2 i (sobre_w (atomica f))"
    using mover_leer [OF 1(3) assms(5), of e "atomica g"] mover_otro [OF 1(1) assms(1) [symmetric]] assms(7) 1(2) by simp_all
  have 3: "en_curso ?s3 i (Responde r1)" "w_bdd (s_mundo ?s3) = m1" "en_curso ?s3 j (sobre_w (atomica g))"
    using mover_atomica [OF 2(3), of e r1 m1] mover_otro [OF 2(1) assms(1)] assms(8) 2(2) by simp_all
  have "s' = mover e j ?s3" by (simp add: s'_def ejecucion_def)
  then show ?thesis using mover_atomica [OF 3(3), of e r2 m2] mover_otro [OF 3(1) assms(1) [symmetric]] 3(2) assms(9) by simp
qed

text \<open>One after the other.\<close>

lemma sucesivos:
  assumes "i \<noteq> j" "en_curso s i (sobre_w p)" "en_curso s j (sobre_w q)" "lectora p" "lectora q"
    and "tras_primera e p (w_bdd (s_mundo s)) = atomica f" "tras_primera e q m1 = atomica g"
    and "f e (w_bdd (s_mundo s)) = (r1, m1)" "g e m1 = (r2, m2)"
  shows "w_bdd (s_mundo (ejecucion [(e, Mover i), (e, Mover i), (e, Mover j), (e, Mover j)] s)) = m2"
proof -
  let ?s1 = "mover e i s" let ?s2 = "mover e i ?s1" let ?s3 = "mover e j ?s2"
  have 1: "en_curso ?s1 i (sobre_w (atomica f))" "s_mundo ?s1 = s_mundo s" "en_curso ?s1 j (sobre_w q)"
    using mover_leer [OF assms(2,4,6)] mover_otro [OF assms(3,1)] by blast+
  have 2: "w_bdd (s_mundo ?s2) = m1" "en_curso ?s2 j (sobre_w q)"
    using mover_atomica [OF 1(1), of e r1 m1] mover_otro [OF 1(3) assms(1)] assms(8) 1(2) by simp_all
  have 3: "en_curso ?s3 j (sobre_w (atomica g))" "s_mundo ?s3 = s_mundo ?s2"
    using mover_leer [OF 2(2) assms(5), of e "atomica g"] assms(7) 2(1) by simp_all
  show ?thesis using mover_atomica [OF 3(1), of e r2 m2] 2(1) 3(2) assms(9) by (simp add: ejecucion_def)
qed

lemma incrby_partes:
  assumes "\<not> envenenado m" "numero e m k = Some n" "nombre c = ''INCRBY''" "parametros c = [k, p]" "parse_i32 p = Some i"
    and "en_i32 (n + i)"
  shows "lectora (string_prog c)" "tras_primera e (string_prog c) m = atomica (\<lambda>e. operar_escribir e k (n + i))"
proof -
  from assms(1,2) parse_i32_cero obtain v where v: "operar_leer e k m = Inr v" "parse_i32 v = Some n"
    by (auto simp: numero_def operar_leer_def split: option.splits tipo_redis.splits)
  show "lectora (string_prog c)" "tras_primera e (string_prog c) m = atomica (\<lambda>e. operar_escribir e k (n + i))"
    using assms(3-6) v by (simp_all add: string_prog_def get_nombre_def operar_sobre_int_prog_def o_responde_def)
qed

lemma operar_escribir_ok:
  "\<not> envenenado m \<Longrightarrow> operar_escribir e k x m =
    (Devuelve (BulkStr (show_int x)), m\<lparr>contenido := guardar_valor e k (Str (show_int x)) (contenido m)\<rparr>)"
  by (simp add: operar_escribir_def con_lock_ok)

lemma rpush_partes:
  assumes "\<not> envenenado m" "lista_en e m k = Some l" "nombre c = ''RPUSH''" "parametros c = k # ps"
  shows "lectora (list_prog c)" "tras_primera e (list_prog c) m = atomica (\<lambda>e. push l k True e (c\<lparr>index := 1\<rparr>))"
  using assms leer_lista_en [OF assms(1,2)]
  by (simp_all add: list_prog_def get_nombre_def push_prog_def o_responde_def)

lemma push_ok:
  "\<not> envenenado m \<Longrightarrow> parametros c = k # ps \<Longrightarrow> push l k True e (c\<lparr>index := 1\<rparr>) m =
    (Devuelve (RInt (int (length (l @ ps)))), m\<lparr>contenido := guardar_valor e k (Lista (l @ ps)) (contenido m)\<rparr>)"
  by (simp add: push_def mientras_parametro_eq push_recorrer con_lock_ok)

section \<open>Properties\<close>

text \<open>
  C3: the counters, \<open>GETDEL\<close> and the list commands that write take the lock twice. Let a thread run its
  first section at \<open>e\<close> in the state \<open>m\<close>, let the other threads turn \<open>m\<close> into \<open>m'\<close> in any way, and let it finish at
  \<open>e'\<close>. If the key of the command shows the same value in \<open>m\<close> and in \<open>m'\<close> (and the mutex was not poisoned in
  between), answer and effect are those of the whole command executed at once at \<open>e'\<close> in \<open>m'\<close>: the command
  takes place at its last section, and what the others did to other keys is kept.
\<close>

theorem linealizable:
  assumes "misma_lectura e m e' m' k" "parametros c = k # ps"
  shows "(nombre c \<in> {''INCRBY'', ''DECRBY'', ''GETDEL''} \<longrightarrow>
      correr e' (tras_primera e (string_prog c) m) m' = ejecutar_string e' c m') \<and>
    (nombre c \<in> set dos_secciones \<longrightarrow> correr e' (tras_primera e (list_prog c) m) m' = ejecutar_list e' c m')"
  using string_lineal [OF assms] list_lineal [OF assms] by simp

lemma linealizable_testigo:
  "correr (entorno_ejemplo 5 Debug) (tras_primera (entorno_ejemplo 0 Debug) (list_prog (orden ''RPUSH'' [''k'', ''b'']))
      (con_tabla [(''k'', Lista [''a''])])) (con_tabla [(''x'', Str ''1''), (''k'', Lista [''a''])]) =
    ejecutar_list (entorno_ejemplo 5 Debug) (orden ''RPUSH'' [''k'', ''b'']) (con_tabla [(''x'', Str ''1''), (''k'', Lista [''a''])])"
  using linealizable [of "entorno_ejemplo 0 Debug" "con_tabla [(''k'', Lista [''a''])]" "entorno_ejemplo 5 Debug"
      "con_tabla [(''x'', Str ''1''), (''k'', Lista [''a''])]" "''k''" "orden ''RPUSH'' [''k'', ''b'']" "[''b'']"]
  by (simp add: misma_lectura_def dos_secciones_def)

text \<open>
  C12: two clients run \<open>INCRBY k a\<close> and \<open>INCRBY k b\<close> at once. When both read before either writes, both get
  an answer and the first increment is lost: the key ends with \<open>n + b\<close> in place of \<open>n + a + b\<close>, which the
  same two threads give one after the other.
\<close>

theorem incrby_actualizacion_perdida:
  assumes "i \<noteq> j" "en_curso s i (programa_de (HString c1))" "en_curso s j (programa_de (HString c2))"
    and "nombre c1 = ''INCRBY''" "parametros c1 = [k, p]" "parse_i32 p = Some a"
    and "nombre c2 = ''INCRBY''" "parametros c2 = [k, q]" "parse_i32 q = Some b"
    and "\<not> envenenado (w_bdd (s_mundo s))" "numero e (w_bdd (s_mundo s)) k = Some n"
    and "en_i32 (n + a)" "en_i32 (n + b)" "en_i32 (n + a + b)"
  defines "entrelazada \<equiv> ejecucion [(e, Mover i), (e, Mover j), (e, Mover i), (e, Mover j)] s"
  shows "en_curso entrelazada i (Responde (Devuelve (BulkStr (show_int (n + a))))) \<and>
    en_curso entrelazada j (Responde (Devuelve (BulkStr (show_int (n + b))))) \<and>
    vista e (w_bdd (s_mundo entrelazada)) = (vista e (w_bdd (s_mundo s)))(k \<mapsto> Str (show_int (n + b))) \<and>
    vista e (w_bdd (s_mundo (ejecucion [(e, Mover i), (e, Mover i), (e, Mover j), (e, Mover j)] s))) =
      (vista e (w_bdd (s_mundo s)))(k \<mapsto> Str (show_int (n + a + b)))"
proof -
  let ?m = "w_bdd (s_mundo s)"
  let ?m1 = "?m\<lparr>contenido := guardar_valor e k (Str (show_int (n + a))) (contenido ?m)\<rparr>"
  have p: "en_curso s i (sobre_w (string_prog c1))" "en_curso s j (sobre_w (string_prog c2))" using assms(2,3) by simp_all
  have n: "numero e ?m1 k = Some (n + a)" using assms(12) by (simp add: numero_def)
  note w = operar_escribir_ok [of _ e k]
  have "en_curso entrelazada i (Responde (Devuelve (BulkStr (show_int (n + a))))) \<and>
      en_curso entrelazada j (Responde (Devuelve (BulkStr (show_int (n + b))))) \<and>
      w_bdd (s_mundo entrelazada) = ?m1\<lparr>contenido := guardar_valor e k (Str (show_int (n + b))) (contenido ?m1)\<rparr>"
    unfolding entrelazada_def using assms(10)
    by (intro entrelazados [OF assms(1) p incrby_partes(1) [OF assms(10,11,4,5,6,12)] incrby_partes(1) [OF assms(10,11,7,8,9,13)]
          incrby_partes(2) [OF assms(10,11,4,5,6,12)] incrby_partes(2) [OF assms(10,11,7,8,9,13)]]) (simp add: w, simp add: w)
  moreover have "w_bdd (s_mundo (ejecucion [(e, Mover i), (e, Mover i), (e, Mover j), (e, Mover j)] s)) =
      ?m1\<lparr>contenido := guardar_valor e k (Str (show_int (n + a + b))) (contenido ?m1)\<rparr>"
    using assms(10)
    by (intro sucesivos [OF assms(1) p incrby_partes(1) [OF assms(10,11,4,5,6,12)] incrby_partes(1) [OF assms(10,11,7,8,9,13)]
          incrby_partes(2) [OF assms(10,11,4,5,6,12)] incrby_partes(2) [OF _ n assms(7,8,9,14)]])
      (simp, simp add: w, rule operar_escribir_ok, simp)
  ultimately show ?thesis by simp
qed

lemma incrby_actualizacion_perdida_testigo:
  "vista (entorno_ejemplo 0 Debug) (w_bdd (s_mundo (ejecucion
     [(entorno_ejemplo 0 Debug, Mover 0), (entorno_ejemplo 0 Debug, Mover 1), (entorno_ejemplo 0 Debug, Mover 0),
      (entorno_ejemplo 0 Debug, Mover 1)]
     (sistema_ejemplo (con_tabla []) [HString (orden ''INCRBY'' [''k'', ''1'']), HString (orden ''INCRBY'' [''k'', ''2''])])))) ''k'' =
   Some (Str (show_int 2))"
  using incrby_actualizacion_perdida [of 0 1
      "sistema_ejemplo (con_tabla []) [HString (orden ''INCRBY'' [''k'', ''1'']), HString (orden ''INCRBY'' [''k'', ''2''])]"
      "orden ''INCRBY'' [''k'', ''1'']" "orden ''INCRBY'' [''k'', ''2'']" "''k''" "''1''" 1 "''2''" 2 "entorno_ejemplo 0 Debug" 0]
  by (simp add: numero_def rust_simps del: programa_de.simps)

text \<open>
  C13: the same for \<open>RPUSH\<close>: two clients append to one list, both are told the length after their own
  elements, and those of the first are gone.
\<close>

theorem rpush_elementos_perdidos:
  assumes "i \<noteq> j" "en_curso s i (programa_de (HList c1))" "en_curso s j (programa_de (HList c2))"
    and "nombre c1 = ''RPUSH''" "parametros c1 = k # ps" "nombre c2 = ''RPUSH''" "parametros c2 = k # qs"
    and "\<not> envenenado (w_bdd (s_mundo s))" "lista_en e (w_bdd (s_mundo s)) k = Some l"
  defines "entrelazada \<equiv> ejecucion [(e, Mover i), (e, Mover j), (e, Mover i), (e, Mover j)] s"
  shows "en_curso entrelazada i (Responde (Devuelve (RInt (int (length (l @ ps)))))) \<and>
    en_curso entrelazada j (Responde (Devuelve (RInt (int (length (l @ qs)))))) \<and>
    vista e (w_bdd (s_mundo entrelazada)) = (vista e (w_bdd (s_mundo s)))(k \<mapsto> Lista (l @ qs)) \<and>
    vista e (w_bdd (s_mundo (ejecucion [(e, Mover i), (e, Mover i), (e, Mover j), (e, Mover j)] s))) =
      (vista e (w_bdd (s_mundo s)))(k \<mapsto> Lista (l @ ps @ qs))"
proof -
  let ?m = "w_bdd (s_mundo s)"
  let ?m1 = "?m\<lparr>contenido := guardar_valor e k (Lista (l @ ps)) (contenido ?m)\<rparr>"
  have p: "en_curso s i (sobre_w (list_prog c1))" "en_curso s j (sobre_w (list_prog c2))" using assms(2,3) by simp_all
  have n: "lista_en e ?m1 k = Some (l @ ps)" by (simp add: lista_en_def)
  note partes = rpush_partes [OF assms(8,9)]
  note w = push_ok [OF _ assms(5)] push_ok [OF _ assms(7)]
  have "en_curso entrelazada i (Responde (Devuelve (RInt (int (length (l @ ps)))))) \<and>
      en_curso entrelazada j (Responde (Devuelve (RInt (int (length (l @ qs)))))) \<and>
      w_bdd (s_mundo entrelazada) = ?m1\<lparr>contenido := guardar_valor e k (Lista (l @ qs)) (contenido ?m1)\<rparr>"
    unfolding entrelazada_def using assms(8)
    by (intro entrelazados [OF assms(1) p partes(1) [OF assms(4,5)] partes(1) [OF assms(6,7)]
          partes(2) [OF assms(4,5)] partes(2) [OF assms(6,7)]]) (simp add: w [simplified], simp add: w [simplified])
  moreover have "w_bdd (s_mundo (ejecucion [(e, Mover i), (e, Mover i), (e, Mover j), (e, Mover j)] s)) =
      ?m1\<lparr>contenido := guardar_valor e k (Lista ((l @ ps) @ qs)) (contenido ?m1)\<rparr>"
    using assms(8)
    by (intro sucesivos [OF assms(1) p partes(1) [OF assms(4,5)] partes(1) [OF assms(6,7)]
          partes(2) [OF assms(4,5)] rpush_partes(2) [OF _ n assms(6,7)]])
      (simp, simp add: w [simplified], rule push_ok, simp, rule assms(7))
  ultimately show ?thesis by simp
qed

lemma rpush_elementos_perdidos_testigo:
  "vista (entorno_ejemplo 0 Debug) (w_bdd (s_mundo (ejecucion
     [(entorno_ejemplo 0 Debug, Mover 0), (entorno_ejemplo 0 Debug, Mover 1), (entorno_ejemplo 0 Debug, Mover 0),
      (entorno_ejemplo 0 Debug, Mover 1)]
     (sistema_ejemplo (con_tabla []) [HList (orden ''RPUSH'' [''k'', ''a'']), HList (orden ''RPUSH'' [''k'', ''b''])])))) ''k'' =
   Some (Lista [''b''])"
  using rpush_elementos_perdidos [of 0 1
      "sistema_ejemplo (con_tabla []) [HList (orden ''RPUSH'' [''k'', ''a'']), HList (orden ''RPUSH'' [''k'', ''b''])]"
      "orden ''RPUSH'' [''k'', ''a'']" "orden ''RPUSH'' [''k'', ''b'']" "''k''" "[''a'']" "[''b'']" "entorno_ejemplo 0 Debug" "[]"]
  by (simp add: lista_en_def del: programa_de.simps)

end
