(* ===== verification/Pedidos.thy ===== *)
theory Pedidos
  imports Clientes
begin

text \<open>
  What the HTTP parser makes of a well-formed request.  \<open>pedido_http\<close> is the text of a request, with
  its headers given as whole lines, and \<open>cuerpo_de\<close> the body in which the page sends a command.  The
  parser gives back the parts of the request, although it reads into a buffer of fixed size whose
  zero bytes end up behind the body.
\<close>

definition pedido_http :: "string \<Rightarrow> string \<Rightarrow> string \<Rightarrow> string list \<Rightarrow> string \<Rightarrow> string" where
  "pedido_http m ruta version hs cuerpo =
     (m @ '' '' @ ruta @ '' '' @ version) @ CRLF @ concat (map (\<lambda>h. h @ CRLF) hs) @ CRLF @ cuerpo"

definition palabra :: "string \<Rightarrow> bool" where
  "palabra s \<longleftrightarrow> CHR '' '' \<notin> set s \<and> CHR 0x0D \<notin> set s"

definition header_bien :: "string \<Rightarrow> bool" where
  "header_bien h \<longleftrightarrow> h \<noteq> [] \<and> CHR 0x0D \<notin> set h \<and> length (split_str '': '' h) = 2"

fun unir :: "char \<Rightarrow> string list \<Rightarrow> string" where
  "unir c [] = []"
| "unir c [s] = s"
| "unir c (s # t # ss) = s @ c # unir c (t # ss)"

definition cuerpo_de :: "string list \<Rightarrow> string" where
  "cuerpo_de ps = ''comando='' @ unir (CHR ''+'') ps"

definition argumento_bien :: "string \<Rightarrow> bool" where
  "argumento_bien p \<longleftrightarrow> set p \<inter> {CHR ''+'', CHR ''='', CHR 0x00, CHR 0x0D} = {}"

definition pedido_bien :: "string \<Rightarrow> string \<Rightarrow> string \<Rightarrow> string list \<Rightarrow> string \<Rightarrow> bool" where
  "pedido_bien m ruta version hs cuerpo \<longleftrightarrow>
     palabra m \<and> palabra ruta \<and> palabra version \<and> list_all header_bien hs \<and>
     length (pedido_http m ruta version hs cuerpo) \<le> 5000 \<and> utf8_valida (pedido_http m ruta version hs cuerpo)"

lemma split_str_crlf: "CHR 0x0D \<notin> set l \<Longrightarrow> split_str CRLF (l @ CRLF @ r) = l # split_str CRLF r"
  by (induction l) auto

lemma split_str_sin_cr: "CHR 0x0D \<notin> set l \<Longrightarrow> split_str CRLF l = [l]"
  by (induction l) auto

lemma split_str_lineas:
  "\<forall>l \<in> set ls. CHR 0x0D \<notin> set l \<Longrightarrow>
    split_str CRLF (concat (map (\<lambda>l. l @ CRLF) ls) @ r) = ls @ split_str CRLF r"
  using split_str_crlf by (induction ls) simp_all

lemma split_char_unir:
  "\<forall>s \<in> set ss. c \<notin> set s \<Longrightarrow> ss \<noteq> [] \<Longrightarrow> split_char c (unir c ss) = ss"
  by (induction c ss rule: unir.induct) simp_all

lemma set_unir: "set (unir c ss) \<subseteq> insert c (\<Union> (set ` set ss))"
  by (induction c ss rule: unir.induct) auto

lemma recorrer_headers_lineas:
  "\<forall>h \<in> set hs. header_bien h \<Longrightarrow>
    recorrer_headers (hs @ [] # r) acc i = Inr (acc @ concat (map (split_str '': '') hs), i + length hs)"
  by (induction hs arbitrary: acc i) (auto simp: header_bien_def)

lemma obtener_headers_lineas:
  assumes "\<forall>h \<in> set hs. header_bien h"
  shows "obtener_headers (hs @ [] # r) = Devuelve (Inr (concat (map (split_str '': '') hs), r))"
  using recorrer_headers_lineas [OF assms, of r "[]" 0] by (simp add: obtener_headers_def drain_hasta_def)

lemma http_parsear_pedido:
  assumes "pedido_bien m ruta version hs cuerpo"
  shows "\<exists>n. http_parsear_stream True (pedido_http m ruta version hs cuerpo) =
    luego (obtener_comando_redis (split_str CRLF (cuerpo @ replicate n (CHR 0x00) @ CRLF)) m) (\<lambda>rc.
      case rc of Inl e \<Rightarrow> Devuelve (Inl e)
      | Inr comando \<Rightarrow> luego (comando_http_new [m, ruta, version] (concat (map (split_str '': '') hs)) comando)
          (\<lambda>c. Devuelve (Inr c)))"
proof (intro exI)
  note b = assms [unfolded pedido_bien_def list_all_iff]
  let ?s = "pedido_http m ruta version hs cuerpo" and ?l = "m @ '' '' @ ruta @ '' '' @ version"
  let ?n = "5000 - length ?s" and ?r = "cuerpo @ replicate (5000 - length ?s) (CHR 0x00) @ CRLF"
  have "utf8_valida (replicate k (CHR 0x00))" for k by (induction k) simp_all
  then have u: "utf8_valida (?s @ replicate ?n (CHR 0x00))" using b by simp
  have l: "CHR 0x0D \<notin> set ?l" using b by (simp add: palabra_def)
  have "\<forall>h \<in> set (?l # hs @ [[]]). CHR 0x0D \<notin> set h" using b l by (auto simp: header_bien_def)
  from split_str_lineas [OF this, of ?r]
  have s: "split_str CRLF (?s @ replicate ?n (CHR 0x00) @ CRLF) = ?l # hs @ [] # split_str CRLF ?r"
    by (simp add: pedido_http_def)
  have "split_char (CHR '' '') ?l = [m, ruta, version]" using b by (simp add: palabra_def)
  then have "obtener_metodo ?l = Inr [m, ruta, version]" by (simp add: obtener_metodo_def)
  then show "http_parsear_stream True ?s =
    luego (obtener_comando_redis (split_str CRLF (cuerpo @ replicate ?n (CHR 0x00) @ CRLF)) m) (\<lambda>rc.
      case rc of Inl e \<Rightarrow> Devuelve (Inl e)
      | Inr comando \<Rightarrow> luego (comando_http_new [m, ruta, version] (concat (map (split_str '': '') hs)) comando)
          (\<lambda>c. Devuelve (Inr c)))"
    using u b obtener_headers_lineas [of hs] by (simp add: http_parsear_stream_def s Let_def)
qed

lemma obtener_comando_de_cuerpo:
  assumes "\<forall>p \<in> set ps. argumento_bien p" "ps \<noteq> []"
  shows "obtener_comando_redis (split_str CRLF (cuerpo_de ps @ replicate n (CHR 0x00) @ CRLF)) ''POST'' = Devuelve (Inr ps)"
proof -
  let ?u = "unir (CHR ''+'') ps"
  have u: "CHR ''='' \<notin> set ?u" "CHR 0x00 \<notin> set ?u" "CHR 0x0D \<notin> set ?u"
    using set_unir [of "CHR ''+''" ps] assms(1) by (auto simp: argumento_bien_def)
  have "CHR 0x0D \<notin> set (cuerpo_de ps @ replicate n (CHR 0x00))" using u by (simp add: cuerpo_de_def)
  from split_str_crlf [OF this, of "[]"]
  have s: "split_str CRLF (cuerpo_de ps @ replicate n (CHR 0x00) @ CRLF) = [cuerpo_de ps @ replicate n (CHR 0x00), []]"
    by simp
  have "filter (\<lambda>c. c \<noteq> CHR 0x00) ?u = ?u" using u(2) by (intro filter_True) auto
  then have "filter (\<lambda>c. c \<noteq> CHR 0x00) (cuerpo_de ps) = ''comando'' @ CHR ''='' # ?u"
    by (simp add: cuerpo_de_def)
  then have f: "split_char (CHR ''='') (filter (\<lambda>c. c \<noteq> CHR 0x00) (cuerpo_de ps)) = [''comando'', ?u]"
    using u(1) by (simp only: split_char_append) simp
  have "split_char (CHR ''+'') ?u = ps"
    using assms by (intro split_char_unir) (auto simp: argumento_bien_def)
  then show ?thesis unfolding s by (simp add: obtener_comando_redis_def indice_vec_def f)
qed

lemma http_parsear_otro:
  assumes "pedido_bien m ruta version hs cuerpo" "m \<noteq> ''POST''"
  shows "http_parsear_stream True (pedido_http m ruta version hs cuerpo) =
    Devuelve (Inr \<lparr>metodo = m, args = [ruta, version], headers = concat (map (split_str '': '') hs), comando_redis = None\<rparr>)"
proof -
  have "obtener_comando_redis xs m = Devuelve (Inr [])" for xs using assms(2) by (simp add: obtener_comando_redis_def)
  then show ?thesis using http_parsear_pedido [OF assms(1)] by (simp add: comando_http_new_def indice_vec_def)
qed

lemma http_parsear_post:
  assumes "pedido_bien ''POST'' ruta version hs (cuerpo_de (n # ps))" "\<forall>p \<in> set (n # ps). argumento_bien p"
  shows "http_parsear_stream True (pedido_http ''POST'' ruta version hs (cuerpo_de (n # ps))) =
    Devuelve (Inr \<lparr>metodo = ''POST'', args = [ruta, version], headers = concat (map (split_str '': '') hs),
      comando_redis = Some \<lparr>nombre = to_uppercase n, parametros = ps, index = 0\<rparr>\<rparr>)"
  using http_parsear_pedido [OF assms(1)] obtener_comando_de_cuerpo [OF assms(2)]
  by (simp add: comando_http_new_def indice_vec_def)

text \<open>
  C16: an HTTP request of at most 5000 bytes whose header lines hold one separator each is parsed to
  its method, route, version and headers.  A \<open>POST\<close> whose body is \<open>comando=\<close> and the words of a command
  joined by \<open>+\<close>, the first of them in ASCII, gives that command with its name in upper case and without the
  zero bytes of the buffer; any other method gives none, whatever the body is.
\<close>

theorem pedido_ida_y_vuelta:
  assumes "pedido_bien m ruta version hs cuerpo"
    and "m = ''POST'' \<Longrightarrow> cuerpo = cuerpo_de (n # ps) \<and> (\<forall>p \<in> set (n # ps). argumento_bien p) \<and> ascii n"
  shows "http_parsear_stream True (pedido_http m ruta version hs cuerpo) =
    Devuelve (Inr \<lparr>metodo = m, args = [ruta, version], headers = concat (map (split_str '': '') hs),
      comando_redis = if m = ''POST'' then Some \<lparr>nombre = map a_mayuscula n, parametros = ps, index = 0\<rparr> else None\<rparr>)"
  using http_parsear_post [of ruta version hs n ps] http_parsear_otro [OF assms(1)] assms to_uppercase_ascii [of n]
  by (cases "m = ''POST''") auto

lemma pedido_ida_y_vuelta_testigo:
  "http_parsear_stream True (pedido_http ''POST'' ''/'' ''HTTP/1.1'' [''Host: a''] (cuerpo_de [''get'', ''k''])) =
    Devuelve (Inr \<lparr>metodo = ''POST'', args = [''/'', ''HTTP/1.1''], headers = [''Host'', ''a''],
      comando_redis = Some \<lparr>nombre = map a_mayuscula ''get'', parametros = [''k''], index = 0\<rparr>\<rparr>)"
proof -
  have "pedido_bien ''POST'' ''/'' ''HTTP/1.1'' [''Host: a''] (cuerpo_de [''get'', ''k''])" by code_simp
  moreover have "\<forall>p \<in> set [''get'', ''k'']. argumento_bien p" by code_simp
  moreover have "ascii ''get''" by code_simp
  moreover have "concat (map (split_str '': '') [''Host: a'']) = [''Host'', ''a'']" by code_simp
  ultimately show ?thesis
    using pedido_ida_y_vuelta [of "''POST''" "''/''" "''HTTP/1.1''" "[''Host: a'']" "cuerpo_de [''get'', ''k'']" "''get''" "[''k'']"]
    by simp
qed

end
