(* ===== verification/Conversacion.thy ===== *)
theory Conversacion
  imports Sistema Pedidos "HOL-Library.Sublist"
begin

text \<open>
  A conversation over the network: from the bytes of a command in the socket of a client, through the
  parser, the dispatch, the critical section of the command and the encoder, to the bytes of the answer
  in the same socket. Here for the string commands of one section.
\<close>

section \<open>A request in a socket\<close>

text \<open>
  The socket \<open>a\<close> can be duplicated and written, it has something to read, and what it has begins with the
  command \<open>as\<close> as an array of bulk strings; no part of it has a line feed, is not UTF-8 or is too long for
  \<open>u32\<close>.
\<close>

definition pide :: "entorno \<Rightarrow> red \<Rightarrow> socket \<Rightarrow> string list \<Rightarrow> bool" where
  "pide e r a as \<longleftrightarrow>
     duplicable e a \<and> escribible r a \<and> (case espia r a of Some len \<Rightarrow> 0 < len | None \<Rightarrow> False) \<and>
     prefix (parsear_respuesta (Vector (map BulkStr as))) (recibido r a) \<and>
     as \<noteq> [] \<and> length as < 2 ^ 32 \<and> (\<forall>x \<in> set as. length x < 2 ^ 32 \<and> CHR 0x0A \<notin> set x \<and> utf8_valida x)"

definition pedido_de :: "string list \<Rightarrow> comando_info" where
  "pedido_de as = \<lparr>nombre = to_uppercase (hd as), parametros = tl as, index = 0\<rparr>"

lemma pide_parsear:
  assumes "pide e r a as" shows "parsear_stream (recibido r a) = Devuelve (Inr (pedido_de as))"
  using assms parsear_comando [of "hd as" "tl as"] by (auto simp: pide_def pedido_de_def prefix_def)

lemma pide_enviados [simp]: "pide e (r\<lparr>enviados := x\<rparr>) a as = pide e r a as"
  by (simp add: pide_def)

section \<open>A turn\<close>

lemma mover_hilo:
  assumes "i < length (s_hilos s)" "hilo_paso e (s_hilos s ! i) (s_mundo s) = (h, w)"
  shows "s_hilos (mover e i s) = (s_hilos s)[i := h] \<and> s_mundo (mover e i s) = w"
  using assms by (simp add: mover_def con_mundo_def)

lemma leer_pedido:
  assumes "cr_socket c = Some a" "pide e (w_red w) a as" "es_comando_string (to_uppercase (hd as))"
  shows "\<exists>l. hilo_paso e \<lparr>h_cliente = CRedis c, h_fase = Leyendo\<rparr> w =
    (\<lparr>h_cliente = CRedis c, h_fase = Ejecutando (programa_de (HString (pedido_de as)))\<rparr>, w\<lparr>w_log := l\<rparr>)"
  using assms pide_parsear [OF assms(2)]
  by (auto simp: hilo_paso_def leer_comando_def cr_envio_informacion_def cr_obtener_comando_def cr_obtener_socket_def pide_def
      crear_comando_handler_def get_nombre_def pedido_de_def cr_soporta_comando_def simp del: programa_de.simps split: option.splits)

text \<open>The two steps between the reading of a command of one section and the sending of its answer.\<close>

lemma pasos_de_una_seccion:
  assumes "i < length (s_hilos s)" "s_hilos s ! i = \<lparr>h_cliente = cl, h_fase = Ejecutando (programa_de (HString c))\<rparr>"
    and "\<not> envenenado (w_config (s_mundo s))" "string_prog c = atomica (\<lambda>e. ejecutar_string e c)"
    and "ejecutar_string e1 c (w_bdd (s_mundo s)) = (Devuelve res, m)"
  shows "\<exists>cfg l. s_hilos (mover e2 i (mover e1 i s)) = (s_hilos s)[i := \<lparr>h_cliente = cl, h_fase = Respondiendo res\<rparr>] \<and>
    s_mundo (mover e2 i (mover e1 i s)) =
      (s_mundo s)\<lparr>w_bdd := m, w_config := (w_config (s_mundo s))\<lparr>contenido := cfg\<rparr>, w_log := l\<rparr>"
proof -
  let ?w = "s_mundo s" and ?s1 = "mover e1 i s"
  have "hilo_paso e1 (s_hilos s ! i) ?w =
      (\<lparr>h_cliente = cl, h_fase = Ejecutando (Responde (Devuelve res))\<rparr>, ?w\<lparr>w_bdd := m\<rparr>)"
    using assms(2,4,5) by (simp add: hilo_paso_def atomica_def seccion_def)
  note p1 = mover_hilo [OF assms(1) this]
  obtain cfg l where "config_actualizar (clone_cliente (duplicable e2) cl) (contenido (w_config ?w)) (w_log ?w) = (cfg, l)"
    by (metis prod.exhaust)
  then have "hilo_paso e2 (s_hilos ?s1 ! i) (s_mundo ?s1) = (\<lparr>h_cliente = cl, h_fase = Respondiendo res\<rparr>,
      ?w\<lparr>w_bdd := m, w_config := (w_config ?w)\<lparr>contenido := cfg\<rparr>, w_log := l\<rparr>)"
    using p1 assms(1,3) by (simp add: hilo_paso_def actualizar_config_def)
  from mover_hilo [OF _ this] p1 assms(1) show ?thesis by auto
qed

text \<open>The four steps of the thread of a Redis client that answers a command of one section.\<close>

lemma turno_de_una_seccion:
  fixes e0 e1 e2 e3 :: entorno
  assumes "i < length (s_hilos s)" "s_hilos s ! i = \<lparr>h_cliente = CRedis c, h_fase = Leyendo\<rparr>" "cr_socket c = Some a"
    and "pide e0 (w_red (s_mundo s)) a as" "es_comando_string (to_uppercase (hd as))" "\<not> envenenado (w_config (s_mundo s))"
    and "string_prog (pedido_de as) = atomica (\<lambda>e. ejecutar_string e (pedido_de as))"
    and "ejecutar_string e1 (pedido_de as) (w_bdd (s_mundo s)) = (Devuelve res, m)"
  defines "s' \<equiv> ejecucion (map (\<lambda>e. (e, Mover i)) [e0, e1, e2, e3]) s"
  shows "s_hilos s' = (s_hilos s)[i := \<lparr>h_cliente = CRedis (c\<lparr>ultimo_mensaje := ahora e3\<rparr>), h_fase = Leyendo\<rparr>] \<and>
    w_bdd (s_mundo s') = m \<and> envenenado (w_config (s_mundo s')) = envenenado (w_config (s_mundo s)) \<and>
    w_red (s_mundo s') = (w_red (s_mundo s))\<lparr>enviados := enviados (w_red (s_mundo s)) @ [(a, parsear_respuesta res)]\<rparr>"
proof -
  let ?w = "s_mundo s" and ?s1 = "mover e0 i s"
  obtain l where "hilo_paso e0 (s_hilos s ! i) ?w =
      (\<lparr>h_cliente = CRedis c, h_fase = Ejecutando (programa_de (HString (pedido_de as)))\<rparr>, ?w\<lparr>w_log := l\<rparr>)"
    using leer_pedido [OF assms(3-5)] assms(2) by auto
  note p0 = mover_hilo [OF assms(1) this]
  let ?s3 = "mover e2 i (mover e1 i ?s1)"
  obtain cfg l' where p2: "s_hilos ?s3 = (s_hilos s)[i := \<lparr>h_cliente = CRedis c, h_fase = Respondiendo res\<rparr>]"
    "s_mundo ?s3 = ?w\<lparr>w_bdd := m, w_config := (w_config ?w)\<lparr>contenido := cfg\<rparr>, w_log := l'\<rparr>"
    using pasos_de_una_seccion [of i ?s1 "CRedis c" "pedido_de as" e1 res m e2] p0 assms(1,6-8)
    by (auto simp del: programa_de.simps)
  have "escribible (w_red ?w) a" using assms(4) by (simp add: pide_def)
  then have "hilo_paso e3 (s_hilos ?s3 ! i) (s_mundo ?s3) =
      (\<lparr>h_cliente = CRedis (c\<lparr>ultimo_mensaje := ahora e3\<rparr>), h_fase = Leyendo\<rparr>,
       (s_mundo ?s3)\<lparr>w_red := (w_red ?w)\<lparr>enviados := enviados (w_red ?w) @ [(a, parsear_respuesta res)]\<rparr>\<rparr>)"
    using p2 assms(1,3)
    by (simp add: hilo_paso_def responder_def cr_enviar_resultado_def cr_enviar_mensaje_def escribir_socket_def)
  note p3 = mover_hilo [OF _ this]
  have "s' = mover e3 i ?s3" by (simp add: s'_def ejecucion_def)
  then show ?thesis using p2 p3 assms(1) by simp
qed

lemma ejecucion_append: "ejecucion (p @ q) s = ejecucion q (ejecucion p s)"
  by (simp add: ejecucion_def)

lemma es_string_set_get: "es_comando_string ''SET''" "es_comando_string ''GET''"
  by (simp_all add: es_comando_string_def)

lemma turno_set:
  fixes e0 e1 e2 e3 :: entorno
  assumes "i < length (s_hilos s)" "s_hilos s ! i = \<lparr>h_cliente = CRedis c, h_fase = Leyendo\<rparr>" "cr_socket c = Some a"
    and "pide e0 (w_red (s_mundo s)) a [n, k, v]" "to_uppercase n = ''SET''" "{k, v} \<inter> {''EX'', ''PX''} = {}"
    and "\<not> envenenado (w_config (s_mundo s))" "\<not> envenenado (w_bdd (s_mundo s))"
  defines "s' \<equiv> ejecucion (map (\<lambda>e. (e, Mover i)) [e0, e1, e2, e3]) s"
  shows "s_hilos s' = (s_hilos s)[i := \<lparr>h_cliente = CRedis (c\<lparr>ultimo_mensaje := ahora e3\<rparr>), h_fase = Leyendo\<rparr>] \<and>
    w_bdd (s_mundo s') = (w_bdd (s_mundo s))\<lparr>contenido := guardar_valor e1 k (Str v) (contenido (w_bdd (s_mundo s)))\<rparr> \<and>
    envenenado (w_config (s_mundo s')) = envenenado (w_config (s_mundo s)) \<and>
    w_red (s_mundo s') = (w_red (s_mundo s))\<lparr>enviados := enviados (w_red (s_mundo s)) @ [(a, ''+OK'' @ CRLF)]\<rparr>"
proof -
  have "ejecutar_string e1 (pedido_de [n, k, v]) (w_bdd (s_mundo s)) =
      (Devuelve (StrSimple ''OK''), (w_bdd (s_mundo s))\<lparr>contenido := guardar_valor e1 k (Str v) (contenido (w_bdd (s_mundo s)))\<rparr>)"
    by (rule set_simple [OF assms(8)]) (use assms(5,6) in \<open>auto simp: pedido_de_def\<close>)
  from turno_de_una_seccion [OF assms(1-4) _ assms(7) _ this, of e2 e3] show ?thesis
    unfolding s'_def using assms(5) by (simp add: es_string_set_get string_prog_def get_nombre_def pedido_de_def)
qed

lemma turno_get:
  fixes e0 e1 e2 e3 :: entorno
  assumes "i < length (s_hilos s)" "s_hilos s ! i = \<lparr>h_cliente = CRedis c, h_fase = Leyendo\<rparr>" "cr_socket c = Some a"
    and "pide e0 (w_red (s_mundo s)) a [n, k]" "to_uppercase n = ''GET''" "vista e1 (w_bdd (s_mundo s)) k = Some (Str v)"
    and "\<not> envenenado (w_config (s_mundo s))" "\<not> envenenado (w_bdd (s_mundo s))"
  defines "s' \<equiv> ejecucion (map (\<lambda>e. (e, Mover i)) [e0, e1, e2, e3]) s"
  shows "w_bdd (s_mundo s') = w_bdd (s_mundo s) \<and>
    w_red (s_mundo s') = (w_red (s_mundo s))\<lparr>enviados := enviados (w_red (s_mundo s)) @
      [(a, ''$'' @ show_nat (length v) @ CRLF @ v @ CRLF)]\<rparr>"
proof -
  have "ejecutar_string e1 (pedido_de [n, k]) (w_bdd (s_mundo s)) = (Devuelve (BulkStr v), w_bdd (s_mundo s))"
    using assms(5,6,8) by (simp add: pedido_de_def ejecutar_string_def get_nombre_def get_def con_lock_ok)
  from turno_de_una_seccion [OF assms(1-4) _ assms(7) _ this, of e2 e3] show ?thesis
    unfolding s'_def using assms(5) by (simp add: es_string_set_get string_prog_def get_nombre_def pedido_de_def)
qed

section \<open>A request over HTTP\<close>

text \<open>
  The socket \<open>a\<close> can be read, duplicated, written and flushed, and what it has is a well-formed \<open>POST\<close> with the
  words \<open>as\<close> of a command in its body.
\<close>

definition postea :: "entorno \<Rightarrow> red \<Rightarrow> socket \<Rightarrow> string \<Rightarrow> string \<Rightarrow> string list \<Rightarrow> string list \<Rightarrow> bool" where
  "postea e r a camino version hs as \<longleftrightarrow>
     duplicable e a \<and> legible r a \<and> escribible r a \<and> descarga r a \<and>
     recibido r a = pedido_http ''POST'' camino version hs (cuerpo_de as) \<and>
     pedido_bien ''POST'' camino version hs (cuerpo_de as) \<and> as \<noteq> [] \<and> list_all argumento_bien as"

lemma leer_post:
  assumes "ch_socket c = Some a" "\<not> mando c" "postea e (w_red w) a camino version hs as" "to_uppercase (hd as) = ''SET''"
  shows "\<exists>l. hilo_paso e \<lparr>h_cliente = CHttp c, h_fase = Leyendo\<rparr> w =
    (\<lparr>h_cliente = CHttp (c\<lparr>mando := True\<rparr>), h_fase = Ejecutando (programa_de (HString (pedido_de as)))\<rparr>, w\<lparr>w_log := l\<rparr>)"
proof -
  have "http_parsear_stream True (recibido (w_red w) a) = Devuelve (Inr \<lparr>metodo = ''POST'', args = [camino, version],
      headers = concat (map (split_str '': '') hs), comando_redis = Some (pedido_de as)\<rparr>)"
    using assms(3) http_parsear_post [of camino version hs "hd as" "tl as"] by (auto simp: postea_def pedido_de_def list_all_iff)
  then show ?thesis using assms
    by (auto simp: hilo_paso_def leer_comando_def ch_obtener_comando_def ch_obtener_socket_def postea_def get_metodo_def
        obtener_comando_de_post_def get_comando_def crear_comando_handler_def get_nombre_def pedido_de_def es_string_set_get
        ch_soporta_comando_def ch_comandos_def Let_def simp del: programa_de.simps)
qed

text \<open>The last two steps of the thread of an HTTP client that has been answered.\<close>

lemma http_se_va:
  assumes "i < length (s_hilos s)" "s_hilos s ! i = \<lparr>h_cliente = CHttp c, h_fase = Leyendo\<rparr>" "mando c"
  shows "h_fase (s_hilos (mover e' i (mover e i s)) ! i) = Terminado \<and>
    w_bdd (s_mundo (mover e' i (mover e i s))) = w_bdd (s_mundo s) \<and>
    w_red (s_mundo (mover e' i (mover e i s))) = w_red (s_mundo s)"
proof -
  have "hilo_paso e (s_hilos s ! i) (s_mundo s) = (\<lparr>h_cliente = CHttp c, h_fase = Saliendo (Inr ())\<rparr>, s_mundo s)"
    using assms(2,3) by (simp add: hilo_paso_def leer_comando_def)
  note p = mover_hilo [OF assms(1) this]
  then have "hilo_paso e' (s_hilos (mover e i s) ! i) (s_mundo (mover e i s)) =
      (\<lparr>h_cliente = CHttp c, h_fase = Terminado\<rparr>, despedir (CHttp c) (Inr ()) (s_mundo s))"
    using assms(1) by (simp add: hilo_paso_def)
  from mover_hilo [OF _ this] p assms(1) show ?thesis by (simp add: despedir_def Let_def)
qed

section \<open>Properties\<close>

text \<open>
  C10: a conversation of two clients, byte for byte. The thread of one finds the command \<open>SET k v\<close> in its socket
  (its name in letters of any case), the thread of the other \<open>GET k\<close>; neither \<open>k\<close> nor \<open>v\<close> is \<open>EX\<close> or \<open>PX\<close>, and the
  mutex of the database is not poisoned. When the first thread takes its four steps and then the second, the
  server sends exactly \<open>+OK\<close> to the first socket and \<open>v\<close> as a bulk string to the second, and at every
  instant the table shows \<open>v\<close> at \<open>k\<close> and at the other keys what it showed.
\<close>

theorem set_get_por_la_red:
  fixes e0 e1 e2 e3 f0 f1 f2 f3 :: entorno
  assumes "sistema_inv s" "\<not> envenenado (w_bdd (s_mundo s))" "i < length (s_hilos s)" "j < length (s_hilos s)" "i \<noteq> j"
    and "s_hilos s ! i = \<lparr>h_cliente = CRedis c, h_fase = Leyendo\<rparr>" "cr_socket c = Some a"
    and "s_hilos s ! j = \<lparr>h_cliente = CRedis d, h_fase = Leyendo\<rparr>" "cr_socket d = Some b"
    and "pide e0 (w_red (s_mundo s)) a [n, k, v]" "to_uppercase n = ''SET''" "{k, v} \<inter> {''EX'', ''PX''} = {}"
    and "pide f0 (w_red (s_mundo s)) b [n', k]" "to_uppercase n' = ''GET''"
  defines "s' \<equiv> ejecucion (map (\<lambda>e. (e, Mover i)) [e0, e1, e2, e3] @ map (\<lambda>e. (e, Mover j)) [f0, f1, f2, f3]) s"
  shows "enviados (w_red (s_mundo s')) = enviados (w_red (s_mundo s)) @
      [(a, ''+OK'' @ CRLF), (b, ''$'' @ show_nat (length v) @ CRLF @ v @ CRLF)] \<and>
    (\<forall>e. vista e (w_bdd (s_mundo s')) = (vista e (w_bdd (s_mundo s)))(k \<mapsto> Str v))"
proof -
  have c: "\<not> envenenado (w_config (s_mundo s))" using assms(1) by (simp add: sistema_inv_def mundo_inv_def)
  let ?s = "ejecucion (map (\<lambda>e. (e, Mover i)) [e0, e1, e2, e3]) s"
  note t = turno_set [OF assms(3,6,7,10-12) c assms(2), of e1 e2 e3]
  then have v: "vista e (w_bdd (s_mundo ?s)) = (vista e (w_bdd (s_mundo s)))(k \<mapsto> Str v)" for e
    using assms(2) by (simp add: con_lock_ok)
  from t v turno_get [of j ?s d b f0 n' k f1 v f2 f3] assms(2,4,5,8,9,13,14) c show ?thesis
    unfolding s'_def ejecucion_append by simp
qed

text \<open>Two clients, at the sockets 1 and 2, that have sent \<open>set k v\<close> and \<open>Get k\<close>.\<close>

definition red_con_pedidos :: red where
  "red_con_pedidos = red_ejemplo\<lparr>recibido := \<lambda>k. parsear_respuesta (Vector (map BulkStr
     (if k = 1 then [''set'', ''k'', ''v''] else [''Get'', ''k''])))\<rparr>"

definition sistema_con_pedidos :: sistema where
  "sistema_con_pedidos = (sistema_ejemplo (con_tabla []) [])
     \<lparr>s_hilos := [\<lparr>h_cliente = CRedis (cliente_redis_new 0 0 0 1), h_fase = Leyendo\<rparr>,
                  \<lparr>h_cliente = CRedis (cliente_redis_new 0 1 0 2), h_fase = Leyendo\<rparr>],
      s_mundo := (s_mundo (sistema_ejemplo (con_tabla []) []))\<lparr>w_red := red_con_pedidos\<rparr>\<rparr>"

lemma pedidos_ejemplo:
  "pide (entorno_ejemplo t Debug) red_con_pedidos 1 [''set'', ''k'', ''v'']"
  "pide (entorno_ejemplo t Debug) red_con_pedidos 2 [''Get'', ''k'']"
  by (simp_all add: pide_def red_con_pedidos_def red_ejemplo_def)

lemma nombres_ejemplo: "to_uppercase ''set'' = ''SET''" "to_uppercase ''Get'' = ''GET''"
proof -
  have "map a_mayuscula ''set'' = ''SET''" "map a_mayuscula ''Get'' = ''GET''" by code_simp+
  then show "to_uppercase ''set'' = ''SET''" "to_uppercase ''Get'' = ''GET''" by (simp_all add: to_uppercase_ascii ascii_def)
qed

lemma sistema_con_pedidos_inv: "sistema_inv sistema_con_pedidos"
  by (simp add: sistema_con_pedidos_def sistema_inv_def sistema_ejemplo_def mundo_inv_def mutex_inv_def con_tabla_def
      bdd_new_con_def bdd_inv_def cliente_redis_new_def claves_distintas_def)

lemma set_get_por_la_red_testigo:
  "enviados (w_red (s_mundo (ejecucion (map (\<lambda>t. (entorno_ejemplo t Debug, Mover 0)) [0, 1, 2, 3] @
       map (\<lambda>t. (entorno_ejemplo t Debug, Mover 1)) [4, 5, 6, 7]) sistema_con_pedidos))) =
   [(1, ''+OK'' @ CRLF), (2, ''$1'' @ CRLF @ ''v'' @ CRLF)]"
proof -
  let ?e = "\<lambda>t. entorno_ejemplo t Debug"
  have s: "s_hilos sistema_con_pedidos ! 0 = \<lparr>h_cliente = CRedis (cliente_redis_new 0 0 0 1), h_fase = Leyendo\<rparr>"
    "s_hilos sistema_con_pedidos ! 1 = \<lparr>h_cliente = CRedis (cliente_redis_new 0 1 0 2), h_fase = Leyendo\<rparr>"
    "length (s_hilos sistema_con_pedidos) = 2" "w_red (s_mundo sistema_con_pedidos) = red_con_pedidos"
    "\<not> envenenado (w_bdd (s_mundo sistema_con_pedidos))" "enviados red_con_pedidos = []"
    by (simp_all add: sistema_con_pedidos_def con_tabla_def red_con_pedidos_def red_ejemplo_def)
  have "show_nat 1 = ''1''" by code_simp
  then show ?thesis
    using set_get_por_la_red [OF sistema_con_pedidos_inv s(5) _ _ _ s(1) _ s(2), of 1 2 "?e 0" "''set''" "''k''" "''v''" "?e 4" "''Get''"
        "?e 1" "?e 2" "?e 3" "?e 5" "?e 6" "?e 7"] pedidos_ejemplo nombres_ejemplo s
    by (simp add: cliente_redis_new_def)
qed

text \<open>
  C11: a command over HTTP, byte for byte. The thread of an HTTP client finds a well-formed \<open>POST\<close> whose body has the
  words of \<open>SET k v\<close>; neither \<open>k\<close> nor \<open>v\<close> is \<open>EX\<close> or \<open>PX\<close>, and the mutex of the database is not poisoned. After
  six steps the thread has ended, the server has sent to the socket exactly the status line, the empty line and
  the text of the answer, once, and at every instant the table shows \<open>v\<close> at \<open>k\<close> and at the other keys what it showed.
\<close>

theorem post_por_la_red:
  fixes e0 e1 e2 e3 e4 e5 :: entorno
  assumes "sistema_inv s" "\<not> envenenado (w_bdd (s_mundo s))" "i < length (s_hilos s)"
    and "s_hilos s ! i = \<lparr>h_cliente = CHttp c, h_fase = Leyendo\<rparr>" "ch_socket c = Some a" "\<not> mando c"
    and "postea e0 (w_red (s_mundo s)) a camino version hs [n, k, v]" "to_uppercase n = ''SET''" "{k, v} \<inter> {''EX'', ''PX''} = {}"
  defines "s' \<equiv> ejecucion (map (\<lambda>e. (e, Mover i)) [e0, e1, e2, e3, e4, e5]) s"
  shows "h_fase (s_hilos s' ! i) = Terminado \<and>
    enviados (w_red (s_mundo s')) = enviados (w_red (s_mundo s)) @ [(a, ''HTTP/1.1 200 OK'' @ CRLF @ CRLF @ ''OK'')] \<and>
    (\<forall>e. vista e (w_bdd (s_mundo s')) = (vista e (w_bdd (s_mundo s)))(k \<mapsto> Str v))"
proof -
  let ?w = "s_mundo s" and ?s1 = "mover e0 i s" and ?c = "CHttp (c\<lparr>mando := True\<rparr>)"
  let ?m = "(w_bdd ?w)\<lparr>contenido := guardar_valor e1 k (Str v) (contenido (w_bdd ?w))\<rparr>"
  have g: "\<not> envenenado (w_config ?w)" using assms(1) by (simp add: sistema_inv_def mundo_inv_def)
  obtain l where "hilo_paso e0 (s_hilos s ! i) ?w =
      (\<lparr>h_cliente = ?c, h_fase = Ejecutando (programa_de (HString (pedido_de [n, k, v])))\<rparr>, ?w\<lparr>w_log := l\<rparr>)"
    using leer_post [OF assms(5-7)] assms(4,8) by auto
  note p0 = mover_hilo [OF assms(3) this]
  let ?s3 = "mover e2 i (mover e1 i ?s1)"
  have "ejecutar_string e1 (pedido_de [n, k, v]) (w_bdd ?w) = (Devuelve (StrSimple ''OK''), ?m)"
    by (rule set_simple [OF assms(2)]) (use assms(8,9) in \<open>auto simp: pedido_de_def\<close>)
  then obtain cfg l' where p2: "s_hilos ?s3 = (s_hilos s)[i := \<lparr>h_cliente = ?c, h_fase = Respondiendo (StrSimple ''OK'')\<rparr>]"
    "s_mundo ?s3 = ?w\<lparr>w_bdd := ?m, w_config := (w_config ?w)\<lparr>contenido := cfg\<rparr>, w_log := l'\<rparr>"
    using pasos_de_una_seccion [of i ?s1 ?c "pedido_de [n, k, v]" e1 "StrSimple ''OK''" ?m e2] p0 assms(3,8) g
    by (auto simp: string_prog_def get_nombre_def pedido_de_def simp del: programa_de.simps)
  have "escribible (w_red ?w) a" "descarga (w_red ?w) a" using assms(7) by (simp_all add: postea_def)
  then have "hilo_paso e3 (s_hilos ?s3 ! i) (s_mundo ?s3) = (\<lparr>h_cliente = ?c, h_fase = Leyendo\<rparr>,
      (s_mundo ?s3)\<lparr>w_red := (w_red ?w)\<lparr>enviados := enviados (w_red ?w) @ [(a, ''HTTP/1.1 200 OK'' @ CRLF @ CRLF @ ''OK'')]\<rparr>\<rparr>)"
    using p2 assms(3,5)
    by (simp add: hilo_paso_def responder_def ch_enviar_resultado_def ch_enviar_mensaje_def ch_enviar_bytes_def escribir_socket_def)
  note p3 = mover_hilo [OF _ this]
  have "s' = mover e5 i (mover e4 i (mover e3 i ?s3))" by (simp add: s'_def ejecucion_def)
  then show ?thesis
    using http_se_va [of i "mover e3 i ?s3" "c\<lparr>mando := True\<rparr>" e5 e4] p2 p3 assms(2,3) by (simp add: con_lock_ok)
qed

text \<open>An HTTP client at the socket 1 that has posted \<open>set k v\<close>.\<close>

definition sistema_con_post :: sistema where
  "sistema_con_post = (sistema_ejemplo (con_tabla []) [])
     \<lparr>s_hilos := [\<lparr>h_cliente = CHttp (cliente_http_new (\<lambda>_. None) 0 1), h_fase = Leyendo\<rparr>],
      s_mundo := (s_mundo (sistema_ejemplo (con_tabla []) []))\<lparr>w_red := red_ejemplo\<lparr>recibido :=
        \<lambda>_. pedido_http ''POST'' ''/'' ''HTTP/1.1'' [''Host: a''] (cuerpo_de [''set'', ''k'', ''v''])\<rparr>\<rparr>\<rparr>"

lemma sistema_con_post_inv: "sistema_inv sistema_con_post"
  by (simp add: sistema_con_post_def sistema_inv_def sistema_ejemplo_def mundo_inv_def mutex_inv_def con_tabla_def
      bdd_new_con_def bdd_inv_def cliente_http_new_def claves_distintas_def)

lemma post_por_la_red_testigo:
  "enviados (w_red (s_mundo (ejecucion (map (\<lambda>t. (entorno_ejemplo t Debug, Mover 0)) [0, 1, 2, 3, 4, 5]) sistema_con_post))) =
   [(1, ''HTTP/1.1 200 OK'' @ CRLF @ CRLF @ ''OK'')]"
proof -
  let ?e = "\<lambda>t. entorno_ejemplo t Debug" and ?c = "cliente_http_new (\<lambda>_. None) 0 1"
  have s: "s_hilos sistema_con_post = [\<lparr>h_cliente = CHttp ?c, h_fase = Leyendo\<rparr>]" "ch_socket ?c = Some 1" "\<not> mando ?c"
    "\<not> envenenado (w_bdd (s_mundo sistema_con_post))" "enviados (w_red (s_mundo sistema_con_post)) = []"
    by (simp_all add: sistema_con_post_def con_tabla_def red_ejemplo_def cliente_http_new_def)
  have "pedido_bien ''POST'' ''/'' ''HTTP/1.1'' [''Host: a''] (cuerpo_de [''set'', ''k'', ''v''])" by code_simp
  then have "postea (?e 0) (w_red (s_mundo sistema_con_post)) 1 ''/'' ''HTTP/1.1'' [''Host: a''] [''set'', ''k'', ''v'']"
    by (simp add: postea_def sistema_con_post_def red_ejemplo_def argumento_bien_def)
  from post_por_la_red [OF sistema_con_post_inv s(4) _ _ s(2,3) this, of 0 "?e 1" "?e 2" "?e 3" "?e 4" "?e 5"]
  show ?thesis using s nombres_ejemplo by simp
qed

end
