(* ===== verification/Durabilidad.thy ===== *)
theory Durabilidad
  imports Sistema
begin

text \<open>
  What the thread that persists does for the clients: the tables that the database sends it through
  the channel reach the file, and a server that starts again from that file shows them. And the end of
  the server: after \<open>Drop for Redis\<close> both message threads end.
\<close>

section \<open>Receiving\<close>

definition drenar_pers :: "entorno list \<Rightarrow> sistema \<Rightarrow> sistema" where
  "drenar_pers es s = ejecucion (map (\<lambda>e. (e, Persistir)) es) s"

definition drenar_log :: "entorno list \<Rightarrow> sistema \<Rightarrow> sistema" where
  "drenar_log es s = ejecucion (map (\<lambda>e. (e, Logear)) es) s"

lemma drenar_simps [simp]:
  "drenar_pers [] s = s" "drenar_pers (e # es) s = drenar_pers es (recibir_pers e s)"
  "drenar_log [] s = s" "drenar_log (e # es) s = drenar_log es (recibir_log e s)"
  by (simp_all add: drenar_pers_def drenar_log_def ejecucion_def)

lemma recibir_muerto [simp]:
  "\<not> s_pers_vivo s \<Longrightarrow> recibir_pers e s = s" "\<not> s_log_vivo s \<Longrightarrow> recibir_log e s = s"
  by (simp_all add: recibir_pers_def recibir_log_def)

lemma drenar_muerto [simp]:
  "\<not> s_pers_vivo s \<Longrightarrow> drenar_pers es s = s" "\<not> s_log_vivo s \<Longrightarrow> drenar_log es s = s"
  by (induction es arbitrary: s) simp_all

lemma recibir_cola:
  "s_pers_vivo s \<Longrightarrow> s_cola_pers s = msj # cola \<Longrightarrow> s_cola_pers (recibir_pers e s) = cola"
  "s_log_vivo s \<Longrightarrow> s_cola_log s = msj' # cola' \<Longrightarrow> s_cola_log (recibir_log e s) = cola'"
  by (simp_all add: recibir_pers_def recibir_log_def Let_def split: sum.split prod.split)

text \<open>The channel is first in, first out: while the thread lives, it receives what was sent first.\<close>

lemma drenar_cola:
  "s_pers_vivo (drenar_pers es s) \<Longrightarrow> s_cola_pers s = cola @ resto \<Longrightarrow> length es = length cola \<Longrightarrow>
    s_cola_pers (drenar_pers es s) = resto"
proof (induction es arbitrary: s cola)
  case (Cons e es)
  then obtain msj cola' where c: "cola = msj # cola'" by (cases cola) auto
  have "s_pers_vivo s" using Cons.prems(1) by (cases "s_pers_vivo s") simp_all
  then have "s_cola_pers (recibir_pers e s) = cola' @ resto" using Cons.prems(2) c by (simp add: recibir_cola)
  then show ?case using Cons c by simp
qed simp

lemma recibir_info:
  assumes "s_pers_vivo s" "s_cola_pers s = [Info m]" "intervalo (s_pers s) \<le> ahora e - instante_ph (s_pers s)"
    and "abrible (s_disco s) (archivo_ph (s_pers s))"
  shows "s_cola_pers (recibir_pers e s) = [] \<and> s_pers_vivo (recibir_pers e s) \<and>
    s_disco (recibir_pers e s) = snd (guardar_en_archivo (archivo_ph (s_pers s)) (lineas_de_tabla (ahora e) m) (s_disco s))"
  using assms by (simp add: recibir_pers_def persistir_paso_def guardar_en_archivo_def Let_def)

text \<open>What the disk must be like for a table to survive in a file: it can be written, and what is there is not longer.\<close>

definition cabe :: "disco \<Rightarrow> string \<Rightarrow> string list \<Rightarrow> bool" where
  "cabe d a ls \<longleftrightarrow> abrible d a \<and> grabable d a \<and>
     (case bytes_de d a of None \<Rightarrow> True | Some bs \<Rightarrow> length bs \<le> length (texto_de ls))"

lemma info_se_levanta:
  assumes "s_pers_vivo s" "s_cola_pers s = [Info m]" "intervalo (s_pers s) \<le> ahora e - instante_ph (s_pers s)"
    and "tabla_persistible m" "cabe (s_disco s) (archivo_ph (s_pers s)) (lineas_de_tabla (ahora e) m)"
  shows "\<exists>m'. levantar_tabla t' (s_disco (recibir_pers e s)) (archivo_ph (s_pers s)) = Devuelve m' \<and>
    map_of m' = (\<lambda>k. Option.bind (map_of m k) (restaurado (ahora e) t'))"
  using recibir_info [OF assms(1-3)] assms(5)
    guardado_se_levanta [OF assms(4), of "s_disco s" "archivo_ph (s_pers s)" "ahora e" t']
  by (simp add: cabe_def)

section \<open>Sending\<close>

lemma map_of_clone_tabla:
  "map_of (clone_tabla dup m) k = map_option (\<lambda>v. v\<lparr>valor_de := clone_tipo dup (valor_de v)\<rparr>) (map_of m k)"
  by (induction m) (auto simp: clone_tabla_def)

lemma persistible_clone [simp]: "persistible (v\<lparr>valor_de := clone_tipo dup (valor_de v)\<rparr>) = persistible v"
  by (cases "valor_de v") (simp_all add: persistible_def valor_bien_def)

lemma tabla_persistible_clone [simp]: "tabla_persistible (clone_tabla dup m) = tabla_persistible m"
proof -
  have "map fst (clone_tabla dup m) = map fst m" by (simp add: clone_tabla_def split_def)
  moreover have "(\<forall>(k, v) \<in> set (clone_tabla dup m). texto_limpio k \<and> persistible v) \<longleftrightarrow>
      (\<forall>(k, v) \<in> set m. texto_limpio k \<and> persistible v)" by (auto simp: clone_tabla_def split_def)
  ultimately show ?thesis by (simp add: tabla_persistible_def claves_distintas_def)
qed

lemma restaurado_clone [simp]:
  "restaurado t t' (v\<lparr>valor_de := clone_tipo dup (valor_de v)\<rparr>) = restaurado t t' v"
  by (cases v; cases "valor_de v") (simp_all add: restaurado_def valor_get_def expiro_def)

lemma bind_clone [simp]:
  "Option.bind (map_of (clone_tabla dup m) k) (restaurado t t') = Option.bind (map_of m k) (restaurado t t')"
  by (cases "map_of m k") (simp_all add: map_of_clone_tabla)

definition tabla_enviada :: "entorno \<Rightarrow> string \<Rightarrow> tipo_redis \<Rightarrow> tabla \<Rightarrow> tabla" where
  "tabla_enviada e k v m =
     clone_tabla (duplicable e) (clone_tabla (duplicable e) (AList.update k (no_expirable (ahora e) v) m))"

text \<open>A step that stores a value sends a copy of the table through the only observer.\<close>

lemma nuevos_guardar:
  assumes "observadores (contenido (w_bdd w)) = [p]"
  shows "nuevos_pers w (w\<lparr>w_bdd := (w_bdd w)\<lparr>contenido := guardar_valor e k v (contenido (w_bdd w))\<rparr>\<rparr>) =
    [Info (tabla_enviada e k v (hashmap (contenido (w_bdd w))))]"
  using assms
  by (simp add: tabla_enviada_def nuevos_pers_def nuevos_def guardar_valor_def notificar_observadores_def persistidor_actualizar_def
      persistidor_persistir_def enviar_mensaje_pers_def split: option.split)

lemma mover_set:
  assumes "i < length (s_hilos s)" "h_fase (s_hilos s ! i) = Ejecutando (programa_de (HString c))"
    and "\<not> envenenado (w_bdd (s_mundo s))" "nombre c = ''SET''" "parametros c = [k, v]" "''EX'' \<notin> set (parametros c)" "''PX'' \<notin> set (parametros c)"
    and "observadores (contenido (w_bdd (s_mundo s))) = [p]"
  shows "h_fase (s_hilos (mover e i s) ! i) = Ejecutando (Responde (Devuelve (StrSimple ''OK''))) \<and>
    s_cola_pers (mover e i s) = s_cola_pers s @ [Info (tabla_enviada e k (Str v) (hashmap (contenido (w_bdd (s_mundo s)))))] \<and>
    s_pers (mover e i s) = s_pers s \<and> s_pers_vivo (mover e i s) = s_pers_vivo s \<and> s_disco (mover e i s) = s_disco s"
proof -
  let ?w = "s_mundo s"
  let ?w' = "?w\<lparr>w_bdd := (w_bdd ?w)\<lparr>contenido := guardar_valor e k (Str v) (contenido (w_bdd ?w))\<rparr>\<rparr>"
  have p: "string_prog c = atomica (\<lambda>e. ejecutar_string e c)" using assms(4) by (simp add: string_prog_def get_nombre_def)
  have "hilo_paso e (s_hilos s ! i) ?w = ((s_hilos s ! i)\<lparr>h_fase := Ejecutando (Responde (Devuelve (StrSimple ''OK'')))\<rparr>, ?w')"
    using assms(2) set_simple [OF assms(3-7)] by (simp add: hilo_paso_def p atomica_def seccion_def)
  then show ?thesis using assms(1) nuevos_guardar [OF assms(8), of e k "Str v"]
    by (simp add: mover_def con_mundo_def)
qed

section \<open>The end of the threads\<close>

lemma drenar_cierra:
  "s_cola_pers s = cola @ CerrarPersistencia # resto \<Longrightarrow> length cola < length es \<Longrightarrow> \<not> s_pers_vivo (drenar_pers es s)"
proof (induction es arbitrary: s cola)
  case (Cons e es)
  show ?case
  proof (cases "s_pers_vivo s")
    case vivo: True
    show ?thesis
    proof (cases cola)
      case Nil
      then show ?thesis using vivo Cons.prems by (simp add: recibir_pers_def persistir_paso_def)
    next
      case (Cons msj cola')
      then show ?thesis using Cons.IH [of "recibir_pers e s" cola'] Cons.prems vivo by (simp add: recibir_cola)
    qed
  qed simp
qed simp

lemma drenar_log_cierra:
  "s_cola_log s = cola @ Cerrar # resto \<Longrightarrow> length cola < length es \<Longrightarrow> \<not> s_log_vivo (drenar_log es s)"
proof (induction es arbitrary: s cola)
  case (Cons e es)
  show ?case
  proof (cases "s_log_vivo s")
    case vivo: True
    show ?thesis
    proof (cases cola)
      case Nil
      then show ?thesis using vivo Cons.prems by (simp add: recibir_log_def logear_paso_def texto_log_def Let_def)
    next
      case (Cons msj cola')
      then show ?thesis using Cons.IH [of "recibir_log e s" cola'] Cons.prems vivo by (simp add: recibir_cola)
    qed
  qed simp
qed simp

lemma drenar_log_resto:
  "s_cola_pers (drenar_log es s) = s_cola_pers s \<and> s_hilos (drenar_log es s) = s_hilos s"
proof (induction es arbitrary: s)
  case (Cons e es)
  have "s_cola_pers (recibir_log e s) = s_cola_pers s \<and> s_hilos (recibir_log e s) = s_hilos s"
    by (simp add: recibir_log_def Let_def split: list.split sum.split prod.split)
  then show ?case using Cons by simp
qed simp

section \<open>Properties\<close>

text \<open>
  C5: durability, end to end. A client thread runs \<open>SET k v\<close> in a server whose database notifies one
  observer (the one \<open>Redis::new\<close> installs). The thread that persists then receives what is in its channel,
  the table of this \<open>SET\<close> last, at least the interval after its previous write, on a disk where the file can be
  written and is not longer than the new text. The text format must be able to carry the whole table
  (\<open>tabla_persistible\<close>): no key, string, list element or set element has a \<open>:\<close> or a line end, is one of the words \<open>STRING\<close>,
  \<open>LIST\<close>, \<open>SET\<close>, \<open>EX\<close> or is not UTF-8, and no list and no set has a lifetime. If the server is then started again, with any
  arguments that lead to a configuration with the same file name, \<open>GET k\<close> answers \<open>v\<close>, and every other key
  that is alive and not a channel shows the value it had.
\<close>

theorem set_durable:
  fixes e :: entorno
  assumes "i < length (s_hilos s)" "h_fase (s_hilos s ! i) = Ejecutando (programa_de (HString c))"
    and "\<not> envenenado (w_bdd (s_mundo s))" "observadores (contenido (w_bdd (s_mundo s))) = [p]"
    and "nombre c = ''SET''" "parametros c = [k, v]" "''EX'' \<notin> set (parametros c)" "''PX'' \<notin> set (parametros c)"
    and "length es = length (s_cola_pers s)"
  defines "tabla \<equiv> tabla_enviada e k (Str v) (hashmap (contenido (w_bdd (s_mundo s))))"
    and "s1 \<equiv> drenar_pers es (paso e (Mover i) s)"
  assumes "tabla_persistible tabla" "s_pers_vivo s1"
    and "main_config (s_disco (paso e1 Persistir s1)) argv = Devuelve cfg" "archivo_ph (s_pers s1) = dbfilename cfg"
    and "intervalo (s_pers s1) \<le> ahora e1 - instante_ph (s_pers s1)"
    and "cabe (s_disco s1) (archivo_ph (s_pers s1)) (lineas_de_tabla (ahora e1) tabla)"
  shows "\<exists>s2. arrancar t (s_disco (paso e1 Persistir s1)) argv r = Devuelve s2 \<and>
    fst (get e2 (orden ''GET'' [k]) (w_bdd (s_mundo s2))) = Devuelve (BulkStr v) \<and>
    (\<forall>k'. k' \<noteq> k \<longrightarrow> map_of (hashmap (contenido (w_bdd (s_mundo s2)))) k' =
      Option.bind (map_of (hashmap (contenido (w_bdd (s_mundo s)))) k') (restaurado (ahora e1) t))"
proof -
  note m = mover_set [OF assms(1-3,5-8,4), of e]
  have "s_cola_pers s1 = [Info tabla]"
    unfolding s1_def by (rule drenar_cola) (use assms(9,13) m in \<open>simp_all add: s1_def tabla_def\<close>)
  from info_se_levanta [OF assms(13) this assms(16,12,17), of t] obtain m'
    where l: "levantar_tabla t (s_disco (recibir_pers e1 s1)) (dbfilename cfg) = Devuelve m'"
      and m': "map_of m' = (\<lambda>k'. Option.bind (map_of tabla k') (restaurado (ahora e1) t))"
    unfolding assms(15) by blast
  have r: "Option.bind (map_of tabla k') (restaurado (ahora e1) t) =
      Option.bind (((map_of (hashmap (contenido (w_bdd (s_mundo s)))))(k \<mapsto> no_expirable (ahora e) (Str v))) k') (restaurado (ahora e1) t)" for k'
    by (simp add: tabla_def tabla_enviada_def update_conv')
  have "restaurado (ahora e1) t (no_expirable (ahora e) (Str v)) = Some (no_expirable t (Str v))"
    by (simp add: restaurado_def valor_get_def expiro_def no_expirable_def)
  then have "map_of m' k = Some (no_expirable t (Str v))" using m' r by simp
  then have "obtener_valor e2 (agregar_observador persistidor_new (bdd_new_con m')) k = Some (Str v)"
    by (simp add: obtener_valor_def agregar_observador_def bdd_new_con_def valor_get_def expiro_def no_expirable_def)
  then show ?thesis using l m' r assms(14)
    by (simp add: arrancar_def main_def redis_new_def Let_def mundo_inicial_def get_def con_lock_ok)
      (simp add: agregar_observador_def bdd_new_con_def)
qed

text \<open>A server started with a configuration file that names the file of the table.\<close>

definition disco_con_config :: disco where
  "disco_con_config = disco_ejemplo\<lparr>bytes_de := (\<lambda>_. None)(''redis.conf'' \<mapsto> ''dbfilename: tabla.rb'' @ [CHR 0x0A])\<rparr>"

definition config_leida :: config where
  "config_leida =
     \<lparr>mapa_config = [(''dbfilename'', ''tabla.rb'')], cfg_persistidor = None, monitorear_ultimo_cliente = False\<rparr>"

definition sistema_con_config :: "comando_handler \<Rightarrow> sistema" where
  "sistema_con_config h =
     (sistema_ejemplo \<lparr>contenido = agregar_observador persistidor_new (bdd_new_con []), envenenado = False\<rparr> [h])
       \<lparr>s_disco := disco_con_config, s_pers := persistidor_handler_new 0 ''tabla.rb'' 1\<rparr>"

lemma main_config_ejemplo:
  assumes "bytes_de d ''redis.conf'' = bytes_de disco_con_config ''redis.conf''"
  shows "main_config d [''rusticos'', ''redis.conf''] = Devuelve config_leida"
proof -
  have "leer_configuracion (leer_lineas (''dbfilename: tabla.rb'' @ [CHR 0x0A])) [] = Devuelve [(''dbfilename'', ''tabla.rb'')]"
    by code_simp
  then show ?thesis using assms by (simp add: main_config_def obtener_configuracion_def disco_con_config_def config_leida_def)
qed

lemma set_durable_testigo:
  "\<exists>s2. arrancar 9 (s_disco (paso (entorno_ejemplo (from_secs 2) Debug) Persistir
        (paso (entorno_ejemplo 0 Debug) (Mover 0) (sistema_con_config (HString (orden ''SET'' [''k'', ''v'']))))))
        [''rusticos'', ''redis.conf''] red_ejemplo = Devuelve s2 \<and>
     fst (get (entorno_ejemplo 10 Debug) (orden ''GET'' [''k'']) (w_bdd (s_mundo s2))) = Devuelve (BulkStr ''v'')"
proof -
  let ?s = "sistema_con_config (HString (orden ''SET'' [''k'', ''v'']))"
  let ?e = "entorno_ejemplo 0 Debug" and ?e1 = "entorno_ejemplo (from_secs 2) Debug"
  have s: "s_pers ?s = persistidor_handler_new 0 ''tabla.rb'' 1" "s_pers_vivo ?s" "s_disco ?s = disco_con_config" "s_cola_pers ?s = []"
    "w_bdd (s_mundo ?s) = \<lparr>contenido = agregar_observador persistidor_new (bdd_new_con []), envenenado = False\<rparr>"
    by (simp_all add: sistema_con_config_def sistema_ejemplo_def)
  have h: "length (s_hilos ?s) = 1" "h_fase (s_hilos ?s ! 0) = Ejecutando (programa_de (HString (orden ''SET'' [''k'', ''v''])))"
    by (simp_all add: sistema_con_config_def sistema_ejemplo_def del: programa_de.simps)
  have t: "tabla_enviada ?e ''k'' (Str ''v'') [] = [(''k'', no_expirable 0 (Str ''v''))]"
    by (simp add: tabla_enviada_def clone_tabla_def no_expirable_def)
  have m: "s_pers (mover ?e 0 ?s) = s_pers ?s" "s_pers_vivo (mover ?e 0 ?s)" "s_disco (mover ?e 0 ?s) = disco_con_config"
    "s_cola_pers (mover ?e 0 ?s) = [Info [(''k'', no_expirable 0 (Str ''v''))]]"
    using mover_set [of 0 ?s "orden ''SET'' [''k'', ''v'']" "''k''" "''v''" persistidor_new ?e] s h t
    by (simp_all add: agregar_observador_def bdd_new_con_def del: programa_de.simps)
  have "bytes_de (s_disco (recibir_pers ?e1 (mover ?e 0 ?s))) ''redis.conf'' = bytes_de disco_con_config ''redis.conf''"
    using recibir_info [of "mover ?e 0 ?s", OF m(2,4), of ?e1] m(1,3) s
    by (simp add: persistidor_handler_new_def from_secs_def disco_con_config_def disco_ejemplo_def guardar_en_archivo_def Let_def)
  note c = main_config_ejemplo [OF this]
  have "tabla_persistible [(''k'', no_expirable 0 (Str ''v''))]"
    by (simp add: tabla_persistible_def claves_distintas_def persistible_def texto_limpio_def linea_limpia_def)
      (simp add: no_expirable_def valor_bien_def texto_limpio_def linea_limpia_def)
  then show ?thesis
    using set_durable [of 0 ?s "orden ''SET'' [''k'', ''v'']" persistidor_new "''k''" "''v''" "[]" ?e ?e1
        "[''rusticos'', ''redis.conf'']" config_leida 9 red_ejemplo "entorno_ejemplo 10 Debug"] c m s h t
    by (auto simp: agregar_observador_def bdd_new_con_def cabe_def disco_ejemplo_def persistidor_handler_new_def
        disco_con_config_def config_leida_def dbfilename_def from_secs_def simp del: programa_de.simps)
qed

text \<open>
  C38: the end of the server. When every client thread has ended, \<open>Drop for Redis\<close> tells the log thread to
  close and, once that one has ended, the thread that persists. Whatever is still in the two channels, both
  threads end after receiving it, one message more than the channel held at most.
\<close>

theorem apagado_termina:
  fixes e e' :: entorno
  assumes "todos_terminados s" "length els = length (s_cola_log s) + 1" "length eps = length (s_cola_pers s) + 1"
  defines "s1 \<equiv> drenar_log els (paso e ApagarLog s)"
    and "s2 \<equiv> drenar_pers eps (paso e' ApagarPers (drenar_log els (paso e ApagarLog s)))"
  shows "\<not> s_log_vivo s1 \<and> \<not> s_pers_vivo s2"
proof -
  have l: "\<not> s_log_vivo s1" unfolding s1_def
    by (rule drenar_log_cierra [where cola = "s_cola_log s" and resto = "[]"]) (use assms(1,2) in simp_all)
  have "todos_terminados s1" "s_cola_pers s1 = s_cola_pers s"
    using drenar_log_resto [of els "paso e ApagarLog s"] assms(1) by (simp_all add: s1_def todos_terminados_def)
  then have "s_cola_pers (paso e' ApagarPers s1) = s_cola_pers s @ CerrarPersistencia # []" using l by simp
  from drenar_cierra [OF this, of eps] assms(3) l show ?thesis by (simp add: s1_def s2_def)
qed

lemma apagado_termina_testigo:
  "\<not> s_log_vivo (drenar_log [entorno_ejemplo 0 Debug] (paso (entorno_ejemplo 0 Debug) ApagarLog (sistema_ejemplo (con_tabla []) [])))"
  using apagado_termina [of "sistema_ejemplo (con_tabla []) []" "[entorno_ejemplo 0 Debug]" "[entorno_ejemplo 0 Debug]"]
  by (simp add: sistema_ejemplo_def todos_terminados_def)

end
