(* ===== verification/Respuestas.thy ===== *)
theory Respuestas
  imports Protocolo
begin

text \<open>
  A reader of answers that follows the description of the Redis protocol (RESP), as a client has it,
  against which \<open>parsear_respuesta\<close> of \<open>parser.rs\<close> is checked: what the server writes is read back, and
  where one answer ends the next one starts.
\<close>

section \<open>The reference reader\<close>

fun leer_linea :: "string \<Rightarrow> (string \<times> string) option" where
  "leer_linea (a # b # s) =
     (if a = CHR 0x0D \<and> b = CHR 0x0A then Some ([], s)
      else map_option (\<lambda>(l, r). (a # l, r)) (leer_linea (b # s)))"
| "leer_linea _ = None"

definition leer_entero :: "string \<Rightarrow> int option" where
  "leer_entero l =
     (case l of
        c # ds \<Rightarrow> if c = CHR ''-'' then map_option (\<lambda>n. - int n) (digitos ds) else map_option int (digitos l)
      | [] \<Rightarrow> None)"

definition leer_bulk :: "nat \<Rightarrow> string \<Rightarrow> (resultado_redis \<times> string) option" where
  "leer_bulk n s = (if take 2 (drop n s) = CRLF then Some (BulkStr (take n s), drop (n + 2) s) else None)"

primrec leer_veces :: "(string \<Rightarrow> ('a \<times> string) option) \<Rightarrow> nat \<Rightarrow> string \<Rightarrow> ('a list \<times> string) option" where
  "leer_veces f 0 s = Some ([], s)"
| "leer_veces f (Suc n) s =
     (case f s of
        None \<Rightarrow> None
      | Some (x, r) \<Rightarrow> map_option (\<lambda>(xs, r'). (x # xs, r')) (leer_veces f n r))"

text \<open>The first argument bounds the nesting of arrays.\<close>

fun leer_anidada :: "nat \<Rightarrow> string \<Rightarrow> (resultado_redis \<times> string) option" where
  "leer_anidada (Suc f) (c # s) =
     (case leer_linea s of
        None \<Rightarrow> None
      | Some (l, r) \<Rightarrow>
          if c = CHR ''+'' then Some (StrSimple l, r)
          else if c = CHR ''-'' then Some (Error l, r)
          else if c = CHR '':'' then map_option (\<lambda>i. (RInt i, r)) (leer_entero l)
          else if c = CHR ''$'' then
            (if l = ''-1'' then Some (RNil, r)
             else (case digitos l of None \<Rightarrow> None | Some n \<Rightarrow> leer_bulk n r))
          else if c = CHR ''*'' then
            (case digitos l of
               None \<Rightarrow> None
             | Some n \<Rightarrow> map_option (\<lambda>(xs, r'). (Vector xs, r')) (leer_veces (leer_anidada f) n r))
          else None)"
| "leer_anidada _ _ = None"

text \<open>No array can be nested deeper than its encoding is long.\<close>

definition leer_respuesta :: "string \<Rightarrow> (resultado_redis \<times> string) option" where
  "leer_respuesta s = leer_anidada (length s) s"

text \<open>
  The answers that the protocol can carry: a simple text has no carriage return. \<open>Vacio\<close>, the answer of
  the subscription commands, is no message at all.
\<close>

fun bien_formada :: "resultado_redis \<Rightarrow> bool" where
  "bien_formada (StrSimple s) \<longleftrightarrow> CHR 0x0D \<notin> set s"
| "bien_formada (Error s) \<longleftrightarrow> CHR 0x0D \<notin> set s"
| "bien_formada (Vector rs) \<longleftrightarrow> list_all bien_formada rs"
| "bien_formada Vacio \<longleftrightarrow> False"
| "bien_formada _ \<longleftrightarrow> True"

section \<open>Reading what was written\<close>

lemma leer_linea_texto [simp]: "CHR 0x0D \<notin> set l \<Longrightarrow> leer_linea (l @ CHR 0x0D # CHR 0x0A # r) = Some (l, r)"
proof (induction l)
  case (Cons a l)
  then show ?case by (cases l) auto
qed simp

lemma sin_cr_show_nat [simp]: "CHR 0x0D \<notin> set (show_nat n)"
  using show_nat_digito [of "CHR 0x0D" n] by auto

lemma sin_cr_show_int [simp]: "CHR 0x0D \<notin> set (show_int i)"
  by (simp add: show_int_def)

lemma leer_entero_show_int [simp]: "leer_entero (show_int i) = Some i"
proof (cases "i < 0")
  case True
  then show ?thesis by (simp add: leer_entero_def show_int_def)
next
  case False
  obtain c cs where s: "show_nat (nat i) = c # cs" by (cases "show_nat (nat i)") simp_all
  then have "c \<noteq> CHR ''-''" using show_nat_Cons [OF s] by auto
  then show ?thesis using False s digitos_show_nat [of "nat i"] by (simp add: leer_entero_def show_int_def)
qed

lemma show_nat_no_nil [simp]: "show_nat n \<noteq> ''-1''"
  using show_nat_Cons [of n "CHR ''-''" "''1''"] by auto

lemma leer_bulk_ok [simp]: "leer_bulk (length s) (s @ CHR 0x0D # CHR 0x0A # r) = Some (BulkStr s, r)"
  by (simp add: leer_bulk_def)

primrec profundidad :: "resultado_redis \<Rightarrow> nat" where
  "profundidad (StrSimple s) = 1"
| "profundidad (BulkStr s) = 1"
| "profundidad (RInt i) = 1"
| "profundidad (Vector rs) = Suc (foldr max (map profundidad rs) 0)"
| "profundidad RNil = 1"
| "profundidad (Error s) = 1"
| "profundidad Vacio = 0"

lemma foldr_max_ge: "x \<in> set xs \<Longrightarrow> x \<le> foldr max xs (0 :: nat)"
  by (induction xs) auto

lemma leer_veces_ok:
  "(\<And>x s. x \<in> set xs \<Longrightarrow> f (g x @ s) = Some (x, s)) \<Longrightarrow>
    leer_veces f (length xs) (concat (map g xs) @ resto) = Some (xs, resto)"
  by (induction xs) simp_all

lemma leer_anidada_ok:
  "bien_formada r \<Longrightarrow> profundidad r \<le> f \<Longrightarrow> leer_anidada f (parsear_respuesta r @ resto) = Some (r, resto)"
proof (induction r arbitrary: f resto)
  case (Vector rs)
  then obtain g where f: "f = Suc g" "foldr max (map profundidad rs) 0 \<le> g" by (cases f) auto
  have "leer_anidada g (parsear_respuesta r @ s) = Some (r, s)" if "r \<in> set rs" for r s
  proof (rule Vector.IH [OF that])
    show "bien_formada r" using Vector.prems(1) that by (simp add: list_all_iff)
    show "profundidad r \<le> g" using foldr_max_ge [of "profundidad r" "map profundidad rs"] that f(2) by simp
  qed
  then have "leer_veces (leer_anidada g) (length rs) (concat (map parsear_respuesta rs) @ resto) = Some (rs, resto)"
    by (rule leer_veces_ok)
  then show ?case using f by simp
next
  case (StrSimple s)
  then show ?case by (cases f) simp_all
next
  case (BulkStr s)
  then show ?case by (cases f) simp_all
next
  case (RInt i)
  then show ?case by (cases f) simp_all
next
  case RNil
  have "leer_linea (''-1'' @ CHR 0x0D # CHR 0x0A # resto) = Some (''-1'', resto)" by (rule leer_linea_texto) simp
  with RNil show ?case by (cases f) simp_all
next
  case (Error s)
  then show ?case by (cases f) simp_all
qed simp

lemma profundidad_le: "bien_formada r \<Longrightarrow> profundidad r \<le> length (parsear_respuesta r)"
proof (induction r)
  case (Vector rs)
  have "foldr max (map profundidad rs) 0 \<le> length (concat (map parsear_respuesta rs))"
    using Vector by (induction rs) (auto simp: max_def intro: trans_le_add1)
  then show ?case by simp
qed simp_all

section \<open>Properties\<close>

text \<open>
  C15: an answer that the protocol can carry, arrays of arrays included, followed by any bytes, is read
  back by a client as that answer and those bytes. So no answer is a proper prefix of another, and the
  answers to a sequence of commands are told apart.
\<close>

theorem respuesta_ida_y_vuelta:
  assumes "bien_formada r"
  shows "leer_respuesta (parsear_respuesta r @ resto) = Some (r, resto)"
  unfolding leer_respuesta_def using assms profundidad_le [OF assms] by (intro leer_anidada_ok) simp_all

lemma respuesta_ida_y_vuelta_testigo:
  "leer_respuesta (parsear_respuesta (Vector [BulkStr ''a'', RInt (-3), Vector [RNil]]) @ ''x'') =
   Some (Vector [BulkStr ''a'', RInt (-3), Vector [RNil]], ''x'')"
  using respuesta_ida_y_vuelta [of "Vector [BulkStr ''a'', RInt (-3), Vector [RNil]]" "''x''"] by simp

end
