(* ===== verification/Tipos.thy ===== *)
theory Tipos
  imports Redis
begin

text \<open>
  The types of the values: which commands ask that the key hold a value of their own class, what they
  answer when it does not, and what the commands do that look at no type.
\<close>

datatype clase = DeTexto | DeLista | DeConjunto | DeCanal

fun clase_de :: "tipo_redis \<Rightarrow> clase" where
  "clase_de (Str _) = DeTexto"
| "clase_de (Lista _) = DeLista"
| "clase_de (TSet _) = DeConjunto"
| "clase_de (Canal _) = DeCanal"

text \<open>The string commands but \<open>SET\<close>, \<open>MSET\<close> and \<open>MGET\<close>, which do not ask for a string.\<close>

definition comandos_de_texto :: "string list" where
  "comandos_de_texto = [''GET'', ''GETSET'', ''APPEND'', ''GETDEL'', ''STRLEN'', ''INCRBY'', ''DECRBY'']"

definition comandos_de_lista :: "string list" where
  "comandos_de_lista =
     [''LINDEX'', ''LPOP'', ''RPOP'', ''LPUSH'', ''LPUSHX'', ''RPUSH'', ''RPUSHX'', ''LRANGE'', ''LREM'', ''LSET'', ''LLEN'']"

definition comandos_de_conjunto :: "string list" where
  "comandos_de_conjunto = [''SADD'', ''SCARD'', ''SISMEMBER'', ''SMEMBERS'', ''SREM'']"

text \<open>The arguments after the key that make the command look at the value at all.\<close>

definition argumentos_bien :: "string \<Rightarrow> string list \<Rightarrow> bool" where
  "argumentos_bien n ps =
     (if n \<in> {''GETSET'', ''APPEND'', ''LINDEX''} then ps \<noteq> []
      else if n \<in> {''LPOP'', ''RPOP''} then (case ps of [] \<Rightarrow> True | p # _ \<Rightarrow> parse_usize p \<noteq> None)
      else if n = ''LRANGE'' then (case ps of a # b # _ \<Rightarrow> parse_i32 a \<noteq> None \<and> parse_i32 b \<noteq> None | _ \<Rightarrow> False)
      else if n \<in> {''LREM'', ''LSET''} then (case ps of a # b # _ \<Rightarrow> parse_i32 a \<noteq> None | _ \<Rightarrow> False)
      else True)"

lemma leer_lista_otro_tipo:
  "\<not> envenenado m \<Longrightarrow> vista e m k = Some x \<Longrightarrow> clase_de x \<noteq> DeLista \<Longrightarrow> leer_lista e k a m = Inl wrongtype"
  by (cases x) (simp_all add: leer_lista_def)

lemma texto_equivocado:
  assumes "\<not> envenenado m" "parametros c = k # ps" "vista e m k = Some x" "clase_de x \<noteq> DeTexto"
    and "nombre c \<in> set comandos_de_texto" "argumentos_bien (nombre c) ps"
    and "\<not> (nombre c = ''GETSET'' \<and> clase_de x = DeCanal)"
  shows "ejecutar_string e c m = (Devuelve wrongtype, m)"
proof -
  have w: "wrongtype = Error ''WRONGTYPE Operation against a key holding the wrong kind of value''"
    by (simp add: wrongtype_def)
  have "get e c' m = (Devuelve wrongtype, m)" if "parametros c' = k # ps" for c'
    using assms(1,3,4) that by (cases x) (simp_all add: get_def con_lock_ok)
  then have "getdel e c m = (Devuelve wrongtype, m)" "get e c m = (Devuelve wrongtype, m)"
    using assms(2) by (simp_all add: getdel_def w)
  moreover have "operar_sobre_int f e c m = (Devuelve wrongtype, m)" for f
    using assms(1-4) by (cases x) (simp_all add: operar_sobre_int_def operar_leer_def)
  moreover have "strlen e c m = (Devuelve wrongtype, m)"
    using assms(1-4) by (cases x) (simp_all add: strlen_def con_lock_ok)
  moreover have "append_cmd e c m = (Devuelve wrongtype, m)" if "ps \<noteq> []"
    using assms(1-4) that
    by (cases x; cases ps) (simp_all add: append_cmd_def con_lock_ok existe_clave_iff)
  moreover have "getset e c m = (Devuelve wrongtype, m)" if "ps \<noteq> []" "clase_de x \<noteq> DeCanal"
    using assms(1-4) that
    by (cases x; cases ps) (simp_all add: getset_def con_lock_ok intercambiar_valor_def Let_def)
  ultimately show ?thesis using assms(5-7)
    by (auto simp: comandos_de_texto_def ejecutar_string_def get_nombre_def incrby_def decrby_def argumentos_bien_def)
qed

lemma lista_equivocada:
  assumes "\<not> envenenado m" "parametros c = k # ps" "vista e m k = Some x" "clase_de x \<noteq> DeLista"
    and "nombre c \<in> set comandos_de_lista" "argumentos_bien (nombre c) ps"
  shows "ejecutar_list e c m = (Devuelve wrongtype, m)"
proof -
  note l = leer_lista_otro_tipo [OF assms(1,3,4)]
  have "lpush e c m = (Devuelve wrongtype, m)" "lpushx e c m = (Devuelve wrongtype, m)"
    "rpush e c m = (Devuelve wrongtype, m)" "rpushx e c m = (Devuelve wrongtype, m)" "llen e c m = (Devuelve wrongtype, m)"
    using assms(2) l by (simp_all add: lpush_def lpushx_def rpush_def rpushx_def llen_def)
  moreover have "pop r e c m = (Devuelve wrongtype, m)" if "case ps of [] \<Rightarrow> True | p # _ \<Rightarrow> parse_usize p \<noteq> None" for r
    using assms(2) l that by (auto simp: pop_def split: list.splits)
  moreover have "lindex e c m = (Devuelve wrongtype, m)" if "ps \<noteq> []"
    using assms(2) l that by (auto simp: lindex_def neq_Nil_conv)
  moreover have "lrem e c m = (Devuelve wrongtype, m)" "lset e c m = (Devuelve wrongtype, m)"
    if "case ps of a # b # _ \<Rightarrow> parse_i32 a \<noteq> None | _ \<Rightarrow> False"
    using assms(2) l that by (auto simp: lrem_def lset_def split: list.splits)
  moreover have "lrange e c m = (Devuelve wrongtype, m)"
    if "case ps of a # b # _ \<Rightarrow> parse_i32 a \<noteq> None \<and> parse_i32 b \<noteq> None | _ \<Rightarrow> False"
    using assms(2) l that by (auto simp: lrange_def split: list.splits)
  ultimately show ?thesis using assms(5,6)
    by (auto simp: comandos_de_lista_def ejecutar_list_def get_nombre_def lpop_def rpop_def argumentos_bien_def)
qed

lemma conjunto_equivocado:
  assumes "\<not> envenenado m" "parametros c = k # ps" "vista e m k = Some x" "clase_de x \<noteq> DeConjunto"
    and "nombre c \<in> set comandos_de_conjunto"
  shows "ejecutar_set e c m = (Devuelve wrongtype, m)"
  using assms
  by (cases x) (auto simp: comandos_de_conjunto_def ejecutar_set_def get_nombre_def sadd_def scard_def sismember_def
      smembers_def srem_def con_lock_ok)

lemma canal_equivocado:
  assumes "\<not> envenenado m" "parametros c = k # ps" "vista e m k = Some x" "clase_de x \<noteq> DeCanal" "index c = 0"
  shows "nombre c = ''PUBLISH'' \<Longrightarrow> ps \<noteq> [] \<Longrightarrow> ejecutar_pubsub e c cl r m = (Devuelve wrongtype, r, m)"
    and "nombre c \<in> {''SUBSCRIBE'', ''UNSUBSCRIBE''} \<Longrightarrow> ejecutar_pubsub e c cl r m = (Devuelve wrongtype, r, m)"
proof -
  have l: "leer_canal e k a m = Inl wrongtype" for a using assms(1,3,4) by (cases x) (simp_all add: leer_canal_def)
  show "nombre c = ''PUBLISH'' \<Longrightarrow> ps \<noteq> [] \<Longrightarrow> ejecutar_pubsub e c cl r m = (Devuelve wrongtype, r, m)"
    using assms(2) l by (auto simp: ejecutar_pubsub_def get_nombre_def publish_def neq_Nil_conv)
  show "nombre c \<in> {''SUBSCRIBE'', ''UNSUBSCRIBE''} \<Longrightarrow> ejecutar_pubsub e c cl r m = (Devuelve wrongtype, r, m)"
    using assms(2,5) l by (auto simp: ejecutar_pubsub_def get_nombre_def subscribe_def unsubscribe_def mientras_parametro_eq
        subscribe_paso_def unsubscribe_paso_def)
qed

text \<open>The string commands that look at no type: they overwrite any value, or read it as missing.\<close>

lemma mset_simple:
  assumes "\<not> envenenado m" "nombre c = ''MSET''" "parametros c = [k, v]"
  shows "ejecutar_string e c m = (Devuelve (StrSimple ''OK''), m\<lparr>contenido := guardar_valor e k (Str v) (contenido m)\<rparr>)"
  using assms guardar_valores_eq [of "parametros c" e "contenido m"]
  by (simp add: ejecutar_string_def get_nombre_def mset_cmd_def get_parametros_def con_lock_ok guardar_valor_def
      pares_consecutivos_def)

lemma mget_simple:
  assumes "\<not> envenenado m" "nombre c = ''MGET''" "parametros c = [k]" "index c = 0" "vista e m k = Some x" "clase_de x \<noteq> DeTexto"
  shows "ejecutar_string e c m = (Devuelve (Vector [RNil]), m)"
  using assms by (cases x) (simp_all add: ejecutar_string_def get_nombre_def mget_def mientras_parametro_eq mget_paso_def)

lemma getset_canal:
  assumes "\<not> envenenado m" "nombre c = ''GETSET''" "parametros c = [k, v]" "vista e m k = Some x" "clase_de x = DeCanal"
  shows "fst (ejecutar_string e c m) = Devuelve RNil \<and>
    vista e' (snd (ejecutar_string e c m)) = (vista e' m)(k \<mapsto> Str v)"
  using assms
  by (cases x) (auto simp: ejecutar_string_def get_nombre_def getset_def con_lock_ok intercambiar_valor_def Let_def
      obtener_valor_def update_conv' no_expirable_def valor_get_def expiro_def fun_eq_iff)

section \<open>Properties\<close>

text \<open>
  C14: the types. On a key whose value is of another class, with well-formed arguments: the string commands
  \<open>GET\<close>, \<open>GETSET\<close>, \<open>APPEND\<close>, \<open>GETDEL\<close>, \<open>STRLEN\<close>, \<open>INCRBY\<close> and \<open>DECRBY\<close>, all list commands, all set commands and
  \<open>SUBSCRIBE\<close>, \<open>UNSUBSCRIBE\<close> and \<open>PUBLISH\<close> answer \<open>WRONGTYPE\<close> and change neither the database nor the network.
  The other string commands look at no type: \<open>SET k v\<close> and \<open>MSET k v\<close> overwrite a value of any class, \<open>MGET k\<close>
  answers \<open>Nil\<close> for a value that is not a string; and \<open>GETSET k v\<close> takes a channel for a missing key: it
  answers \<open>Nil\<close> and overwrites it.
\<close>

theorem tipo_equivocado:
  assumes "\<not> envenenado m" "parametros c = k # ps" "vista e m k = Some x" "argumentos_bien (nombre c) ps" "index c = 0"
  shows "(nombre c \<in> set comandos_de_texto \<and> clase_de x \<noteq> DeTexto \<and> \<not> (nombre c = ''GETSET'' \<and> clase_de x = DeCanal) \<longrightarrow>
      ejecutar_string e c m = (Devuelve wrongtype, m)) \<and>
    (nombre c \<in> set comandos_de_lista \<and> clase_de x \<noteq> DeLista \<longrightarrow> ejecutar_list e c m = (Devuelve wrongtype, m)) \<and>
    (nombre c \<in> set comandos_de_conjunto \<and> clase_de x \<noteq> DeConjunto \<longrightarrow> ejecutar_set e c m = (Devuelve wrongtype, m)) \<and>
    ((nombre c \<in> {''SUBSCRIBE'', ''UNSUBSCRIBE''} \<or> nombre c = ''PUBLISH'' \<and> ps \<noteq> []) \<and> clase_de x \<noteq> DeCanal \<longrightarrow>
      ejecutar_pubsub e c cl r m = (Devuelve wrongtype, r, m)) \<and>
    ((nombre c = ''SET'' \<and> {k, v} \<inter> {''EX'', ''PX''} = {} \<or> nombre c = ''MSET'') \<and> ps = [v] \<longrightarrow>
      fst (ejecutar_string e c m) = Devuelve (StrSimple ''OK'') \<and>
      vista e' (snd (ejecutar_string e c m)) = (vista e' m)(k \<mapsto> Str v)) \<and>
    (nombre c = ''MGET'' \<and> ps = [] \<and> clase_de x \<noteq> DeTexto \<longrightarrow> ejecutar_string e c m = (Devuelve (Vector [RNil]), m)) \<and>
    (nombre c = ''GETSET'' \<and> ps = [v] \<and> clase_de x = DeCanal \<longrightarrow>
      fst (ejecutar_string e c m) = Devuelve RNil \<and>
      vista e' (snd (ejecutar_string e c m)) = (vista e' m)(k \<mapsto> Str v))"
proof -
  have "fst (ejecutar_string e c m) = Devuelve (StrSimple ''OK'') \<and>
      vista e' (snd (ejecutar_string e c m)) = (vista e' m)(k \<mapsto> Str v)"
    if "nombre c = ''SET'' \<and> {k, v} \<inter> {''EX'', ''PX''} = {} \<or> nombre c = ''MSET''" "ps = [v]"
    using that assms(2) set_simple [OF assms(1), of c k v e] mset_simple [OF assms(1), of c k v e] by auto
  moreover have "ejecutar_string e c m = (Devuelve (Vector [RNil]), m)"
    if "nombre c = ''MGET''" "ps = []" "clase_de x \<noteq> DeTexto"
    using mget_simple [OF assms(1) that(1) _ assms(5,3) that(3)] assms(2) that(2) by simp
  moreover have "fst (ejecutar_string e c m) = Devuelve RNil \<and>
      vista e' (snd (ejecutar_string e c m)) = (vista e' m)(k \<mapsto> Str v)"
    if "nombre c = ''GETSET''" "ps = [v]" "clase_de x = DeCanal"
    using getset_canal [OF assms(1) that(1) _ assms(3) that(3)] assms(2) that(2) by simp
  moreover have "ejecutar_string e c m = (Devuelve wrongtype, m)"
    if "nombre c \<in> set comandos_de_texto" "clase_de x \<noteq> DeTexto" "\<not> (nombre c = ''GETSET'' \<and> clase_de x = DeCanal)"
    using texto_equivocado [OF assms(1-3) that(2,1) assms(4) that(3)] .
  moreover have "ejecutar_list e c m = (Devuelve wrongtype, m)"
    if "nombre c \<in> set comandos_de_lista" "clase_de x \<noteq> DeLista"
    using lista_equivocada [OF assms(1-3) that(2,1) assms(4)] .
  moreover have "ejecutar_set e c m = (Devuelve wrongtype, m)"
    if "nombre c \<in> set comandos_de_conjunto" "clase_de x \<noteq> DeConjunto"
    using conjunto_equivocado [OF assms(1-3) that(2,1)] .
  moreover have "ejecutar_pubsub e c cl r m = (Devuelve wrongtype, r, m)"
    if "nombre c \<in> {''SUBSCRIBE'', ''UNSUBSCRIBE''} \<or> nombre c = ''PUBLISH'' \<and> ps \<noteq> []" "clase_de x \<noteq> DeCanal"
    using canal_equivocado [OF assms(1-3) that(2) assms(5), of cl r] that(1) by blast
  ultimately show ?thesis by (intro conjI impI; (elim conjE)?; simp)
qed

lemma tipo_equivocado_testigo:
  "ejecutar_list (entorno_ejemplo 0 Debug) (orden ''LRANGE'' [''k'', ''0'', ''1'']) (con_tabla [(''k'', Str ''v'')]) =
   (Devuelve wrongtype, con_tabla [(''k'', Str ''v'')])"
  using tipo_equivocado [of "con_tabla [(''k'', Str ''v'')]" "orden ''LRANGE'' [''k'', ''0'', ''1'']" "''k''" "[''0'', ''1'']"
      "entorno_ejemplo 0 Debug" "Str ''v''"]
  by (simp add: argumentos_bien_def comandos_de_lista_def rust_simps)

end
