(* ===== verification/Pruebas.thy ===== *)
theory Pruebas
  imports Redis "HOL-Library.Code_Target_Nat"
begin

text \<open>
  The unit tests of the repository as definitions.  A test of a command handler is a scenario: a new
  database filled by calls of \<open>guardar_valor\<close>, then the steps of the test in order.  \<open>Llama f ps r\<close>
  calls the handler \<open>f\<close> on the command built from \<open>ps\<close> and asserts that the answer is \<open>r\<close> (\<open>None\<close>
  where the test ignores it), \<open>Obtiene\<close> and \<open>Existe\<close> assert what the database shows, and \<open>Duerme n\<close> is
  \<open>thread::sleep\<close>.  A panic of the handler or of \<open>ComandoInfo::new\<close> fails the test.  The tests that
  call two handlers on one \<open>ComandoInfo\<close> build it again here: all of these handlers begin with
  \<open>get_clave\<close>, which resets the index.

  The environment is a parameter of every test: the theorems say that the tests pass at every instant,
  in both build profiles and whatever the other inputs of the environment are.
\<close>

datatype paso_prueba =
    Llama comando "string list" "resultado_redis option"
  | Contiene comando "string list" "resultado_redis list"
  | Obtiene string "tipo_redis option"
  | Existe string bool
  | Duerme nat

definition armar :: "entorno \<Rightarrow> (string \<times> tipo_redis) list \<Rightarrow> bdd_mutex" where
  "armar e kvs = \<lparr>contenido = fold (\<lambda>(k, v). guardar_valor e k v) kvs bdd_new, envenenado = False\<rparr>"

definition dormir :: "nat \<Rightarrow> entorno \<Rightarrow> entorno" where
  "dormir n e = e\<lparr>ahora := ahora e + from_secs n\<rparr>"

definition llamar :: "entorno \<Rightarrow> comando \<Rightarrow> string list \<Rightarrow> bdd_mutex \<Rightarrow> (resultado_redis \<times> bdd_mutex) option" where
  "llamar e f ps m =
     (case comando_info_new ps of
        Panico \<Rightarrow> None
      | Devuelve c \<Rightarrow> (case f e c m of (Panico, _) \<Rightarrow> None | (Devuelve r, m') \<Rightarrow> Some (r, m')))"

fun prueba :: "entorno \<Rightarrow> bdd_mutex \<Rightarrow> paso_prueba list \<Rightarrow> bool" where
  "prueba e m [] \<longleftrightarrow> True"
| "prueba e m (Llama f ps r # pasos) \<longleftrightarrow>
     (case llamar e f ps m of
        None \<Rightarrow> False
      | Some (x, m') \<Rightarrow> (case r of None \<Rightarrow> True | Some y \<Rightarrow> y = x) \<and> prueba e m' pasos)"
| "prueba e m (Contiene f ps rs # pasos) \<longleftrightarrow>
     (case llamar e f ps m of
        None \<Rightarrow> False
      | Some (x, m') \<Rightarrow>
          list_all (\<lambda>r. r \<in> set (case x of Vector v \<Rightarrow> v | _ \<Rightarrow> [])) rs \<and> prueba e m' pasos)"
| "prueba e m (Obtiene k v # pasos) \<longleftrightarrow>
     \<not> envenenado m \<and> obtener_valor e (contenido m) k = v \<and> prueba e m pasos"
| "prueba e m (Existe k b # pasos) \<longleftrightarrow>
     \<not> envenenado m \<and> existe_clave e (contenido m) k = b \<and> prueba e m pasos"
| "prueba e m (Duerme n # pasos) \<longleftrightarrow> prueba (dormir n e) m pasos"

end
