(* ===== verification/Pruebas_Cadenas.thy ===== *)
theory Pruebas_Cadenas
  imports Pruebas
begin

text \<open>
  The unit tests of the string commands, the module \<open>tests\<close> of \<open>comando_string_handler.rs\<close>, one definition per test
  under the name it has there.
\<close>

definition get_devuelve_el_valor_almacenado_en_el_hash :: "entorno \<Rightarrow> bool" where
  "get_devuelve_el_valor_almacenado_en_el_hash e \<longleftrightarrow> prueba e (armar e
      [(''miClave'', Str ''miValor'')])
     [Llama get [''get'', ''miClave''] (Some (BulkStr ''miValor''))]"

definition get_devuelve_error_al_ser_llamado_con_una_clave_que_correspondia_a_una_lista :: "entorno \<Rightarrow> bool" where
  "get_devuelve_error_al_ser_llamado_con_una_clave_que_correspondia_a_una_lista e \<longleftrightarrow> prueba e (armar e
      [(''miClave'', Lista [])])
     [Llama get [''get'', ''miClave''] (Some (Error ''WRONGTYPE Operation against a key holding the wrong kind of value''))]"

definition set_almacena_un_valor_en_el_hash :: "entorno \<Rightarrow> bool" where
  "set_almacena_un_valor_en_el_hash e \<longleftrightarrow> prueba e (armar e [])
     [Llama set_cmd [''get'', ''miClave'', ''miValor''] (Some (StrSimple ''OK''))]"

definition append_agrega_el_string_enviado_al_final_del_string_guardado_con_la_misma_clave :: "entorno \<Rightarrow> bool" where
  "append_agrega_el_string_enviado_al_final_del_string_guardado_con_la_misma_clave e \<longleftrightarrow> prueba e (armar e
      [(''miClave'', Str ''miValor'')])
     [Llama append_cmd [''APPEND'', ''miClave'', ''conAlgoAppendeado''] (Some (RInt 24)),
      Llama get [''APPEND'', ''miClave'', ''conAlgoAppendeado''] (Some (BulkStr ''miValorconAlgoAppendeado''))]"

definition append_agrega_un_string_al_hash_porque_no_hay_un_elemento_guarado_con_esa_clave :: "entorno \<Rightarrow> bool" where
  "append_agrega_un_string_al_hash_porque_no_hay_un_elemento_guarado_con_esa_clave e \<longleftrightarrow> prueba e (armar e [])
     [Llama append_cmd [''APPEND'', ''miClave'', ''conAlgoAppendeado''] (Some (RInt 17)),
      Llama get [''APPEND'', ''miClave'', ''conAlgoAppendeado''] (Some (BulkStr ''conAlgoAppendeado''))]"

definition append_devuelve_error_al_ser_llamado_con_una_clave_que_correspondia_a_una_lista :: "entorno \<Rightarrow> bool" where
  "append_devuelve_error_al_ser_llamado_con_una_clave_que_correspondia_a_una_lista e \<longleftrightarrow> prueba e (armar e
      [(''miClave'', Lista [])])
     [Llama append_cmd [''APPEND'', ''miClave'', '' palabra''] (Some (Error ''WRONGTYPE Operation against a key holding the wrong kind of value''))]"

definition getdel_devuelve_el_valor_almacenado_en_el_hash :: "entorno \<Rightarrow> bool" where
  "getdel_devuelve_el_valor_almacenado_en_el_hash e \<longleftrightarrow> prueba e (armar e
      [(''miClave'', Str ''miValor'')])
     [Llama getdel [''get'', ''miClave''] (Some (BulkStr ''miValor'')),
      Llama getdel [''get'', ''miClave''] (Some RNil)]"

definition getdel_devuelve_error_al_ser_llamado_con_una_clave_que_correspondia_a_una_lista :: "entorno \<Rightarrow> bool" where
  "getdel_devuelve_error_al_ser_llamado_con_una_clave_que_correspondia_a_una_lista e \<longleftrightarrow> prueba e (armar e
      [(''miClave'', Lista [])])
     [Llama get [''get'', ''miClave''] (Some (Error ''WRONGTYPE Operation against a key holding the wrong kind of value''))]"

definition strlen_devuelve_el_valor_almacenado_en_el_hash :: "entorno \<Rightarrow> bool" where
  "strlen_devuelve_el_valor_almacenado_en_el_hash e \<longleftrightarrow> prueba e (armar e
      [(''miClave'', Str ''miValor'')])
     [Llama strlen [''get'', ''miClave''] (Some (RInt 7))]"

definition strlen_devuelve_error_al_ser_llamado_con_una_clave_que_correspondia_a_una_lista :: "entorno \<Rightarrow> bool" where
  "strlen_devuelve_error_al_ser_llamado_con_una_clave_que_correspondia_a_una_lista e \<longleftrightarrow> prueba e (armar e
      [(''miClave'', Lista [])])
     [Llama strlen [''get'', ''miClave''] (Some (Error ''WRONGTYPE Operation against a key holding the wrong kind of value''))]"

definition decrby_resta_correcatemente_un_valor_entero_a_una_clave_parseable :: "entorno \<Rightarrow> bool" where
  "decrby_resta_correcatemente_un_valor_entero_a_una_clave_parseable e \<longleftrightarrow> prueba e (armar e
      [(''miClave'', Str ''1'')])
     [Llama decrby [''decrby'', ''miClave'', ''1''] (Some (BulkStr ''0''))]"

definition decrby_resta_correcatemente_un_valor_entero_a_una_clave_negativa_parseable :: "entorno \<Rightarrow> bool" where
  "decrby_resta_correcatemente_un_valor_entero_a_una_clave_negativa_parseable e \<longleftrightarrow> prueba e (armar e
      [(''miClave'', Str ''-10'')])
     [Llama decrby [''decrby'', ''miClave'', ''1''] (Some (BulkStr ''-11''))]"

definition decrby_resta_correcatemente_un_valor_negativo_a_una_clave_parseable :: "entorno \<Rightarrow> bool" where
  "decrby_resta_correcatemente_un_valor_negativo_a_una_clave_parseable e \<longleftrightarrow> prueba e (armar e
      [(''miClave'', Str ''10'')])
     [Llama decrby [''decrby'', ''miClave'', ''-1''] (Some (BulkStr ''11''))]"

definition decrby_setea_correcatemente_un_valor_entero_a_una_clave_inexistente :: "entorno \<Rightarrow> bool" where
  "decrby_setea_correcatemente_un_valor_entero_a_una_clave_inexistente e \<longleftrightarrow> prueba e (armar e [])
     [Llama decrby [''decrby'', ''miClave'', ''-1''] (Some (BulkStr ''1''))]"

definition decrby_devuelve_error_un_valor_entero_a_una_clave_inparseable :: "entorno \<Rightarrow> bool" where
  "decrby_devuelve_error_un_valor_entero_a_una_clave_inparseable e \<longleftrightarrow> prueba e (armar e
      [(''miClave'', Lista [])])
     [Llama decrby [''decrby'', ''miClave'', ''-1''] (Some (Error ''WRONGTYPE Operation against a key holding the wrong kind of value''))]"

definition decrby_devuelve_error_un_valor_erroneo_a_una_clave_parseable :: "entorno \<Rightarrow> bool" where
  "decrby_devuelve_error_un_valor_erroneo_a_una_clave_parseable e \<longleftrightarrow> prueba e (armar e
      [(''miClave'', Str ''1'')])
     [Llama decrby [''decrby'', ''miClave'', ''a''] (Some (Error ''ERR value is not an integer or out of range''))]"

definition incrby_resta_correcatemente_un_valor_entero_a_una_clave_parseable :: "entorno \<Rightarrow> bool" where
  "incrby_resta_correcatemente_un_valor_entero_a_una_clave_parseable e \<longleftrightarrow> prueba e (armar e
      [(''miClave'', Str ''1'')])
     [Llama incrby [''incrby'', ''miClave'', ''1''] (Some (BulkStr ''2''))]"

definition incrby_resta_correcatemente_un_valor_entero_a_una_clave_negativa_parseable :: "entorno \<Rightarrow> bool" where
  "incrby_resta_correcatemente_un_valor_entero_a_una_clave_negativa_parseable e \<longleftrightarrow> prueba e (armar e
      [(''miClave'', Str ''-10'')])
     [Llama incrby [''incrby'', ''miClave'', ''1''] (Some (BulkStr ''-9''))]"

definition incrby_resta_correcatemente_un_valor_negativo_a_una_clave_parseable :: "entorno \<Rightarrow> bool" where
  "incrby_resta_correcatemente_un_valor_negativo_a_una_clave_parseable e \<longleftrightarrow> prueba e (armar e
      [(''miClave'', Str ''10'')])
     [Llama incrby [''incrby'', ''miClave'', ''-1''] (Some (BulkStr ''9''))]"

definition incrby_setea_correcatemente_un_valor_entero_a_una_clave_inexistente :: "entorno \<Rightarrow> bool" where
  "incrby_setea_correcatemente_un_valor_entero_a_una_clave_inexistente e \<longleftrightarrow> prueba e (armar e [])
     [Llama incrby [''incrby'', ''miClave'', ''1''] (Some (BulkStr ''1''))]"

definition incrby_devuelve_error_un_valor_entero_a_una_clave_inparseable :: "entorno \<Rightarrow> bool" where
  "incrby_devuelve_error_un_valor_entero_a_una_clave_inparseable e \<longleftrightarrow> prueba e (armar e
      [(''miClave'', Lista [])])
     [Llama incrby [''incrby'', ''miClave'', ''5''] (Some (Error ''WRONGTYPE Operation against a key holding the wrong kind of value''))]"

definition incrby_devuelve_error_un_valor_erroneo_a_una_clave_parseable :: "entorno \<Rightarrow> bool" where
  "incrby_devuelve_error_un_valor_erroneo_a_una_clave_parseable e \<longleftrightarrow> prueba e (armar e
      [(''miClave'', Str ''1'')])
     [Llama incrby [''incrby'', ''miClave'', ''a''] (Some (Error ''ERR value is not an integer or out of range''))]"

definition mget_devuelve_una_lista_con_todos_los_valores_de_las_claves :: "entorno \<Rightarrow> bool" where
  "mget_devuelve_una_lista_con_todos_los_valores_de_las_claves e \<longleftrightarrow> prueba e (armar e
      [(''clave1'', Str ''1''), (''clave2'', Str ''2''), (''clave3'', Str ''3''),
       (''clave4'', Str ''4'')])
     [Llama mget [''mget'', ''clave1'', ''clave2'', ''clave3'', ''clave4''] (Some (Vector [BulkStr ''1'', BulkStr ''2'', BulkStr ''3'', BulkStr ''4'']))]"

definition mget_devuelve_una_lista_con_todos_los_valores_de_las_claves_y_si_la_clave_no_existe_devuelve_nil :: "entorno \<Rightarrow> bool" where
  "mget_devuelve_una_lista_con_todos_los_valores_de_las_claves_y_si_la_clave_no_existe_devuelve_nil e \<longleftrightarrow> prueba e (armar e
      [(''clave1'', Str ''1''), (''clave2'', Str ''2''), (''clave3'', Str ''3''),
       (''clave4'', Str ''4'')])
     [Llama mget [''mget'', ''clave1'', ''clave2'', ''clave3'', ''clave1000''] (Some (Vector [BulkStr ''1'', BulkStr ''2'', BulkStr ''3'', RNil]))]"

definition mget_devuelve_una_lista_con_todos_nil_si_la_clave_no_existen :: "entorno \<Rightarrow> bool" where
  "mget_devuelve_una_lista_con_todos_nil_si_la_clave_no_existen e \<longleftrightarrow> prueba e (armar e
      [(''clave1'', Str ''1''), (''clave2'', Str ''2''), (''clave3'', Str ''3''),
       (''clave4'', Str ''4'')])
     [Llama mget [''mget'', ''clave1000'', ''clave2000'', ''clave3000'', ''clave4000''] (Some (Vector [RNil, RNil, RNil, RNil]))]"

definition mget_devuelve_una_lista_con_todos_nil_si_la_clave_no_es_de_tipo_str :: "entorno \<Rightarrow> bool" where
  "mget_devuelve_una_lista_con_todos_nil_si_la_clave_no_es_de_tipo_str e \<longleftrightarrow> prueba e (armar e
      [(''clave1'', Str ''1''), (''clave2'', Lista []), (''clave3'', TSet []), (''clave4'', Str ''4'')])
     [Llama mget [''mget'', ''clave1'', ''clave2'', ''clave3'', ''clave4''] (Some (Vector [BulkStr ''1'', RNil, RNil, BulkStr ''4'']))]"

definition mget_devuelve_una_error_con_si_no_hay_parametro :: "entorno \<Rightarrow> bool" where
  "mget_devuelve_una_error_con_si_no_hay_parametro e \<longleftrightarrow> prueba e (armar e
      [(''clave1'', Str ''1''), (''clave2'', Lista []), (''clave3'', TSet []), (''clave4'', Str ''4'')])
     [Llama mget [''mget''] (Some (Error ''ERR wrong number of arguments for mget command''))]"

definition mset_guarda_todos_los_valores :: "entorno \<Rightarrow> bool" where
  "mset_guarda_todos_los_valores e \<longleftrightarrow> prueba e (armar e [])
     [Llama mset_cmd [''MSET'', ''clave1'', ''1'', ''clave2'', ''2'', ''clave3'', ''3''] (Some (StrSimple ''OK'')),
      Obtiene ''clave1'' (Some (Str ''1'')),
      Obtiene ''clave2'' (Some (Str ''2'')),
      Obtiene ''clave3'' (Some (Str ''3''))]"

definition mset_devuelve_un_error_tener_una_cantidad_de_argumentos_impares :: "entorno \<Rightarrow> bool" where
  "mset_devuelve_un_error_tener_una_cantidad_de_argumentos_impares e \<longleftrightarrow> prueba e (armar e [])
     [Llama mset_cmd [''MSET'', ''clave1'', ''1'', ''clave2'', ''2'', ''clave3''] (Some (Error ''ERR wrong number of arguments for mset command'')),
      Obtiene ''clave1'' None,
      Obtiene ''clave2'' None,
      Obtiene ''clave3'' None]"

definition getset_devuelve_el_antiguo_valor_almacenado :: "entorno \<Rightarrow> bool" where
  "getset_devuelve_el_antiguo_valor_almacenado e \<longleftrightarrow> prueba e (armar e
      [(''clave'', Str ''clave'')])
     [Llama getset [''GETSET'', ''clave'', ''nueva_clave''] (Some (StrSimple ''clave'')),
      Obtiene ''clave'' (Some (Str ''nueva_clave''))]"

definition getset_devuelve_el_nil_si_no_existia_esa_clave :: "entorno \<Rightarrow> bool" where
  "getset_devuelve_el_nil_si_no_existia_esa_clave e \<longleftrightarrow> prueba e (armar e [])
     [Llama getset [''GETSET'', ''clave'', ''nueva_clave''] (Some RNil),
      Obtiene ''clave'' (Some (Str ''nueva_clave''))]"

definition getset_devuelve_error_porque_la_clave_no_corresponde_a_un_string :: "entorno \<Rightarrow> bool" where
  "getset_devuelve_error_porque_la_clave_no_corresponde_a_un_string e \<longleftrightarrow> prueba e (armar e
      [(''clave'', Lista [])])
     [Llama getset [''GETSET'', ''clave'', ''nueva_clave''] (Some (Error ''WRONGTYPE Operation against a key holding the wrong kind of value'')),
      Obtiene ''clave'' (Some (Lista []))]"

definition pruebas_de_cadenas :: "(entorno \<Rightarrow> bool) list" where
  "pruebas_de_cadenas =
    [get_devuelve_el_valor_almacenado_en_el_hash,
     get_devuelve_error_al_ser_llamado_con_una_clave_que_correspondia_a_una_lista,
     set_almacena_un_valor_en_el_hash,
     append_agrega_el_string_enviado_al_final_del_string_guardado_con_la_misma_clave,
     append_agrega_un_string_al_hash_porque_no_hay_un_elemento_guarado_con_esa_clave,
     append_devuelve_error_al_ser_llamado_con_una_clave_que_correspondia_a_una_lista,
     getdel_devuelve_el_valor_almacenado_en_el_hash,
     getdel_devuelve_error_al_ser_llamado_con_una_clave_que_correspondia_a_una_lista,
     strlen_devuelve_el_valor_almacenado_en_el_hash,
     strlen_devuelve_error_al_ser_llamado_con_una_clave_que_correspondia_a_una_lista,
     decrby_resta_correcatemente_un_valor_entero_a_una_clave_parseable,
     decrby_resta_correcatemente_un_valor_entero_a_una_clave_negativa_parseable,
     decrby_resta_correcatemente_un_valor_negativo_a_una_clave_parseable,
     decrby_setea_correcatemente_un_valor_entero_a_una_clave_inexistente,
     decrby_devuelve_error_un_valor_entero_a_una_clave_inparseable,
     decrby_devuelve_error_un_valor_erroneo_a_una_clave_parseable,
     incrby_resta_correcatemente_un_valor_entero_a_una_clave_parseable,
     incrby_resta_correcatemente_un_valor_entero_a_una_clave_negativa_parseable,
     incrby_resta_correcatemente_un_valor_negativo_a_una_clave_parseable,
     incrby_setea_correcatemente_un_valor_entero_a_una_clave_inexistente,
     incrby_devuelve_error_un_valor_entero_a_una_clave_inparseable,
     incrby_devuelve_error_un_valor_erroneo_a_una_clave_parseable,
     mget_devuelve_una_lista_con_todos_los_valores_de_las_claves,
     mget_devuelve_una_lista_con_todos_los_valores_de_las_claves_y_si_la_clave_no_existe_devuelve_nil,
     mget_devuelve_una_lista_con_todos_nil_si_la_clave_no_existen,
     mget_devuelve_una_lista_con_todos_nil_si_la_clave_no_es_de_tipo_str,
     mget_devuelve_una_error_con_si_no_hay_parametro,
     mset_guarda_todos_los_valores,
     mset_devuelve_un_error_tener_una_cantidad_de_argumentos_impares,
     getset_devuelve_el_antiguo_valor_almacenado,
     getset_devuelve_el_nil_si_no_existia_esa_clave,
     getset_devuelve_error_porque_la_clave_no_corresponde_a_un_string]"

text \<open>
  The 32 unit tests of the string commands pass, at every instant, in both build profiles and for every
  behaviour of the other inputs of the environment.
\<close>

lemma pruebas_de_cadenas_pasan: "list_all (\<lambda>t. t e) pruebas_de_cadenas"
  by code_simp

end
