(* ===== verification/Pruebas_Listas.thy ===== *)
theory Pruebas_Listas
  imports Pruebas
begin

text \<open>
  The unit tests of the list commands, the module \<open>tests\<close> of \<open>comando_list_handler.rs\<close>, one definition per test
  under the name it has there.
\<close>

definition lindex_busca_un_indice_positivo_en_una_clave_valor_de_la_base_de_datos :: "entorno \<Rightarrow> bool" where
  "lindex_busca_un_indice_positivo_en_una_clave_valor_de_la_base_de_datos e \<longleftrightarrow> prueba e (armar e
      [(''clave'', Lista [''1'', ''2'', ''3''])])
     [Llama lindex [''lindex'', ''clave'', ''1''] (Some (BulkStr ''2''))]"

definition lindex_busca_un_indice_negativo_en_una_clave_valor_de_la_base_de_datos :: "entorno \<Rightarrow> bool" where
  "lindex_busca_un_indice_negativo_en_una_clave_valor_de_la_base_de_datos e \<longleftrightarrow> prueba e (armar e
      [(''clave'', Lista [''1'', ''2'', ''3''])])
     [Llama lindex [''lindex'', ''clave'', ''-2''] (Some (BulkStr ''2''))]"

definition lindex_busca_un_indice_fuera_de_rango_en_una_clave_valor_de_la_base_de_datos :: "entorno \<Rightarrow> bool" where
  "lindex_busca_un_indice_fuera_de_rango_en_una_clave_valor_de_la_base_de_datos e \<longleftrightarrow> prueba e (armar e
      [(''clave'', Lista [''1'', ''2'', ''3''])])
     [Llama lindex [''lindex'', ''clave'', ''65''] (Some (BulkStr ''nil''))]"

definition llen_la_longitud_de_una_lista_inexistente_es_cero :: "entorno \<Rightarrow> bool" where
  "llen_la_longitud_de_una_lista_inexistente_es_cero e \<longleftrightarrow> prueba e (armar e [])
     [Llama llen [''llen'', ''milista''] (Some (RInt 0))]"

definition llen_si_se_llama_llen_a_un_string_se_devuelve_un_error_de_tipo :: "entorno \<Rightarrow> bool" where
  "llen_si_se_llama_llen_a_un_string_se_devuelve_un_error_de_tipo e \<longleftrightarrow> prueba e (armar e
      [(''milista'', Str ''hola'')])
     [Llama llen [''llen'', ''milista''] (Some (Error ''WRONGTYPE Operation against a key holding the wrong kind of value''))]"

definition llen_si_se_llama_llen_a_una_lista_devuelve_la_longitud_correctamente :: "entorno \<Rightarrow> bool" where
  "llen_si_se_llama_llen_a_una_lista_devuelve_la_longitud_correctamente e \<longleftrightarrow> prueba e (armar e
      [(''milista'', Lista [''1'', ''2'', ''3'', ''4''])])
     [Llama llen [''llen'', ''milista''] (Some (RInt 4))]"

definition lpop_si_no_existe_la_lista_devuelve_nil :: "entorno \<Rightarrow> bool" where
  "lpop_si_no_existe_la_lista_devuelve_nil e \<longleftrightarrow> prueba e (armar e [])
     [Llama lpop [''lpop'', ''milista''] (Some RNil)]"

definition lpop_si_existia_una_lista_y_luego_se_la_elimina_y_se_vuelve_a_hacer_pop_devuelve_nil :: "entorno \<Rightarrow> bool" where
  "lpop_si_existia_una_lista_y_luego_se_la_elimina_y_se_vuelve_a_hacer_pop_devuelve_nil e \<longleftrightarrow> prueba e (armar e
      [(''milista'', Lista [''unvalor''])])
     [Llama lpop [''lpop'', ''milista''] (Some (BulkStr ''unvalor'')),
      Llama lpop [''lpop'', ''milista''] (Some RNil)]"

definition lpop_si_se_llama_sobre_un_tipo_distinto_a_una_lista_devuelve_wrong_type :: "entorno \<Rightarrow> bool" where
  "lpop_si_se_llama_sobre_un_tipo_distinto_a_una_lista_devuelve_wrong_type e \<longleftrightarrow> prueba e (armar e
      [(''clave'', Str '''')])
     [Llama lpop [''lpop'', ''clave''] (Some (Error ''WRONGTYPE Operation against a key holding the wrong kind of value''))]"

definition lpop_si_se_llama_a_lpop_sin_el_parametro_count_se_devuelve_el_resultado_correcto :: "entorno \<Rightarrow> bool" where
  "lpop_si_se_llama_a_lpop_sin_el_parametro_count_se_devuelve_el_resultado_correcto e \<longleftrightarrow> prueba e (armar e
      [(''milista'', Lista [''1'', ''2''])])
     [Llama lpop [''lpop'', ''milista''] (Some (BulkStr ''1''))]"

definition lpop_si_se_llama_a_lpop_con_el_parametro_count_se_devuelve_el_resultado_correcto :: "entorno \<Rightarrow> bool" where
  "lpop_si_se_llama_a_lpop_con_el_parametro_count_se_devuelve_el_resultado_correcto e \<longleftrightarrow> prueba e (armar e
      [(''milista'', Lista [''1'', ''2''])])
     [Llama lpop [''lpop'', ''milista'', ''2''] (Some (Vector [BulkStr ''1'', BulkStr ''2'']))]"

definition lpush_si_se_pushea_a_alguna_clave_existente_que_no_es_una_lista_devuelve_wrong_type :: "entorno \<Rightarrow> bool" where
  "lpush_si_se_pushea_a_alguna_clave_existente_que_no_es_una_lista_devuelve_wrong_type e \<longleftrightarrow> prueba e (armar e
      [(''clave'', Str '''')])
     [Llama lpush [''lpush'', ''clave'', ''valor''] (Some (Error ''WRONGTYPE Operation against a key holding the wrong kind of value''))]"

definition lpush_si_no_existe_la_lista_se_crea_con_los_parametros_devolviendo_la_longitud_adecuada :: "entorno \<Rightarrow> bool" where
  "lpush_si_no_existe_la_lista_se_crea_con_los_parametros_devolviendo_la_longitud_adecuada e \<longleftrightarrow> prueba e (armar e [])
     [Llama lpush [''lpush'', ''milista'', ''a'', ''b'', ''c''] (Some (RInt 3))]"

definition lpush_si_no_existe_la_lista_se_crea_con_los_parametros_en_el_orden_adecuado :: "entorno \<Rightarrow> bool" where
  "lpush_si_no_existe_la_lista_se_crea_con_los_parametros_en_el_orden_adecuado e \<longleftrightarrow> prueba e (armar e [])
     [Llama lpush [''lpush'', ''milista'', ''a'', ''b'', ''c''] None,
      Obtiene ''milista'' (Some (Lista [''c'', ''b'', ''a'']))]"

definition lpush_cuando_se_pushea_a_una_lista_se_ordena_adecuadamente :: "entorno \<Rightarrow> bool" where
  "lpush_cuando_se_pushea_a_una_lista_se_ordena_adecuadamente e \<longleftrightarrow> prueba e (armar e
      [(''milista'', Lista [''d''])])
     [Llama lpush [''lpush'', ''milista'', ''a'', ''b'', ''c''] None,
      Obtiene ''milista'' (Some (Lista [''c'', ''b'', ''a'', ''d'']))]"

definition lpushx_si_se_pushea_a_alguna_clave_existente_que_no_es_una_lista_devuelve_wrong_type :: "entorno \<Rightarrow> bool" where
  "lpushx_si_se_pushea_a_alguna_clave_existente_que_no_es_una_lista_devuelve_wrong_type e \<longleftrightarrow> prueba e (armar e
      [(''clave'', Str '''')])
     [Llama lpushx [''lpushx'', ''clave'', ''valor''] (Some (Error ''WRONGTYPE Operation against a key holding the wrong kind of value''))]"

definition lpushx_si_no_existe_la_lista_no_se_crea :: "entorno \<Rightarrow> bool" where
  "lpushx_si_no_existe_la_lista_no_se_crea e \<longleftrightarrow> prueba e (armar e [])
     [Llama lpushx [''lpushx'', ''milista'', ''a'', ''b'', ''c''] (Some (RInt 0))]"

definition lpushx_cuando_se_pushea_a_una_lista_se_ordena_adecuadamente :: "entorno \<Rightarrow> bool" where
  "lpushx_cuando_se_pushea_a_una_lista_se_ordena_adecuadamente e \<longleftrightarrow> prueba e (armar e
      [(''milista'', Lista [''d''])])
     [Llama lpushx [''lpushx'', ''milista'', ''a'', ''b'', ''c''] (Some (RInt 4)),
      Obtiene ''milista'' (Some (Lista [''c'', ''b'', ''a'', ''d'']))]"

definition lrange_si_se_lo_llama_sobre_algo_que_no_es_una_lista_devuelve_wrong_type :: "entorno \<Rightarrow> bool" where
  "lrange_si_se_lo_llama_sobre_algo_que_no_es_una_lista_devuelve_wrong_type e \<longleftrightarrow> prueba e (armar e
      [(''clave'', Str '''')])
     [Llama lrange [''lrange'', ''clave'', ''1'', ''50''] (Some (Error ''WRONGTYPE Operation against a key holding the wrong kind of value''))]"

definition lrange_si_se_pide_el_rango_de_una_lista_inexistente_devuelve_vector_vacio :: "entorno \<Rightarrow> bool" where
  "lrange_si_se_pide_el_rango_de_una_lista_inexistente_devuelve_vector_vacio e \<longleftrightarrow> prueba e (armar e [])
     [Llama lrange [''lrange'', ''clave'', ''1'', ''50''] (Some (Vector []))]"

definition lrange_rangos_positivos_devuelven_los_elementos_correctamente_hasta_el_indice_final_inclusive :: "entorno \<Rightarrow> bool" where
  "lrange_rangos_positivos_devuelven_los_elementos_correctamente_hasta_el_indice_final_inclusive e \<longleftrightarrow> prueba e (armar e
      [(''clave'', Lista [''0'', ''1'', ''2''])])
     [Llama lrange [''lrange'', ''clave'', ''1'', ''2''] (Some (Vector [BulkStr ''1'', BulkStr ''2'']))]"

definition lrange_maximo_rango :: "entorno \<Rightarrow> bool" where
  "lrange_maximo_rango e \<longleftrightarrow> prueba e (armar e
      [(''clave'', Lista [''0'', ''1'', ''2''])])
     [Llama lrange [''lrange'', ''clave'', ''0'', ''-1''] (Some (Vector [BulkStr ''0'', BulkStr ''1'', BulkStr ''2'']))]"

definition lrange_rangos_enteros_devuelven_los_elementos_correctamente_hasta_el_indice_final_inclusive :: "entorno \<Rightarrow> bool" where
  "lrange_rangos_enteros_devuelven_los_elementos_correctamente_hasta_el_indice_final_inclusive e \<longleftrightarrow> prueba e (armar e
      [(''clave'', Lista [''0'', ''1'', ''2''])])
     [Llama lrange [''lrange'', ''clave'', ''-35'', ''0''] (Some (Vector [BulkStr ''0'']))]"

definition lrange_rangos_enteros_con_interseccion_nula_devuelve_vector_vacio :: "entorno \<Rightarrow> bool" where
  "lrange_rangos_enteros_con_interseccion_nula_devuelve_vector_vacio e \<longleftrightarrow> prueba e (armar e
      [(''clave'', Lista [''0'', ''1'', ''2''])])
     [Llama lrange [''lrange'', ''clave'', ''-2'', ''0''] (Some (Vector []))]"

definition lrem_si_se_pide_eliminar_de_una_clave_que_no_es_una_lista_devuelve_wrong_type :: "entorno \<Rightarrow> bool" where
  "lrem_si_se_pide_eliminar_de_una_clave_que_no_es_una_lista_devuelve_wrong_type e \<longleftrightarrow> prueba e (armar e
      [(''clave'', Str '''')])
     [Llama lrem [''lrem'', ''clave'', ''-2'', ''valor''] (Some (Error ''WRONGTYPE Operation against a key holding the wrong kind of value''))]"

definition lrem_si_se_pide_eliminar_un_valor_que_no_esta_en_la_lista_no_se_devuelve_un_cero :: "entorno \<Rightarrow> bool" where
  "lrem_si_se_pide_eliminar_un_valor_que_no_esta_en_la_lista_no_se_devuelve_un_cero e \<longleftrightarrow> prueba e (armar e [])
     [Llama lrem [''lrem'', ''clave'', ''-2'', ''valor''] (Some (RInt 0))]"

definition lrem_si_se_pide_eliminar_dos_claves_de_izquierda_a_derecha_se_eliminan_correctamente :: "entorno \<Rightarrow> bool" where
  "lrem_si_se_pide_eliminar_dos_claves_de_izquierda_a_derecha_se_eliminan_correctamente e \<longleftrightarrow> prueba e (armar e
      [(''clave'', Lista [''hola'', ''que'', ''hola'', ''dame'', ''hola''])])
     [Llama lrem [''lrem'', ''clave'', ''2'', ''hola''] (Some (RInt 2)),
      Obtiene ''clave'' (Some (Lista [''que'', ''dame'', ''hola'']))]"

definition lrem_si_se_pide_eliminar_dos_claves_de_derecha_a_izquierda_se_eliminan_correctamente :: "entorno \<Rightarrow> bool" where
  "lrem_si_se_pide_eliminar_dos_claves_de_derecha_a_izquierda_se_eliminan_correctamente e \<longleftrightarrow> prueba e (armar e
      [(''clave'', Lista [''hola'', ''que'', ''hola'', ''dame'', ''hola'', ''pepe''])])
     [Llama lrem [''lrem'', ''clave'', ''-2'', ''hola''] (Some (RInt 2)),
      Obtiene ''clave'' (Some (Lista [''hola'', ''que'', ''dame'', ''pepe'']))]"

definition lset_si_se_lo_llama_sobre_algo_que_no_es_una_lista_devuelve_wrong_type :: "entorno \<Rightarrow> bool" where
  "lset_si_se_lo_llama_sobre_algo_que_no_es_una_lista_devuelve_wrong_type e \<longleftrightarrow> prueba e (armar e
      [(''clave'', Str '''')])
     [Llama lset [''lset'', ''clave'', ''1'', ''valor''] (Some (Error ''WRONGTYPE Operation against a key holding the wrong kind of value''))]"

definition lset_inserta_en_la_lista_adecuadamente :: "entorno \<Rightarrow> bool" where
  "lset_inserta_en_la_lista_adecuadamente e \<longleftrightarrow> prueba e (armar e
      [(''clave'', Lista [''a''])])
     [Llama lset [''lset'', ''clave'', ''0'', ''b''] (Some (StrSimple ''OK'')),
      Obtiene ''clave'' (Some (Lista [''b'', ''a'']))]"

definition rpop_si_no_existe_la_lista_devuelve_nil :: "entorno \<Rightarrow> bool" where
  "rpop_si_no_existe_la_lista_devuelve_nil e \<longleftrightarrow> prueba e (armar e [])
     [Llama rpop [''rpop'', ''milista''] (Some RNil)]"

definition rpop_si_existia_una_lista_y_luego_se_la_elimina_y_se_vuelve_a_hacer_pop_devuelve_nil :: "entorno \<Rightarrow> bool" where
  "rpop_si_existia_una_lista_y_luego_se_la_elimina_y_se_vuelve_a_hacer_pop_devuelve_nil e \<longleftrightarrow> prueba e (armar e
      [(''milista'', Lista [''unvalor''])])
     [Llama rpop [''rpop'', ''milista''] (Some (BulkStr ''unvalor'')),
      Llama rpop [''rpop'', ''milista''] (Some RNil)]"

definition rpop_si_se_llama_sobre_un_tipo_distinto_a_una_lista_devuelve_wrong_type :: "entorno \<Rightarrow> bool" where
  "rpop_si_se_llama_sobre_un_tipo_distinto_a_una_lista_devuelve_wrong_type e \<longleftrightarrow> prueba e (armar e
      [(''clave'', Str '''')])
     [Llama rpop [''rpop'', ''clave''] (Some (Error ''WRONGTYPE Operation against a key holding the wrong kind of value''))]"

definition rpop_si_se_llama_a_rpop_sin_el_parametro_count_se_devuelve_el_resultado_correcto :: "entorno \<Rightarrow> bool" where
  "rpop_si_se_llama_a_rpop_sin_el_parametro_count_se_devuelve_el_resultado_correcto e \<longleftrightarrow> prueba e (armar e
      [(''milista'', Lista [''1'', ''2''])])
     [Llama rpop [''rpop'', ''milista''] (Some (BulkStr ''2''))]"

definition rpop_si_se_llama_a_rpop_con_el_parametro_count_se_devuelve_el_resultado_correcto :: "entorno \<Rightarrow> bool" where
  "rpop_si_se_llama_a_rpop_con_el_parametro_count_se_devuelve_el_resultado_correcto e \<longleftrightarrow> prueba e (armar e
      [(''milista'', Lista [''1'', ''2'', ''3''])])
     [Llama rpop [''rpop'', ''milista'', ''2''] (Some (Vector [BulkStr ''2'', BulkStr ''3'']))]"

definition rpush_si_se_pushea_a_alguna_clave_existente_que_no_es_una_lista_devuelve_wrong_type :: "entorno \<Rightarrow> bool" where
  "rpush_si_se_pushea_a_alguna_clave_existente_que_no_es_una_lista_devuelve_wrong_type e \<longleftrightarrow> prueba e (armar e
      [(''clave'', Str '''')])
     [Llama rpush [''rpush'', ''clave'', ''valor''] (Some (Error ''WRONGTYPE Operation against a key holding the wrong kind of value''))]"

definition rpush_si_no_existe_la_lista_se_crea_con_los_parametros_devolviendo_la_longitud_adecuada :: "entorno \<Rightarrow> bool" where
  "rpush_si_no_existe_la_lista_se_crea_con_los_parametros_devolviendo_la_longitud_adecuada e \<longleftrightarrow> prueba e (armar e [])
     [Llama rpush [''rpush'', ''milista'', ''a'', ''b'', ''c''] (Some (RInt 3))]"

definition rpush_si_no_existe_la_lista_se_crea_con_los_parametros_en_el_orden_adecuado :: "entorno \<Rightarrow> bool" where
  "rpush_si_no_existe_la_lista_se_crea_con_los_parametros_en_el_orden_adecuado e \<longleftrightarrow> prueba e (armar e [])
     [Llama rpush [''rpush'', ''milista'', ''a'', ''b'', ''c''] None,
      Obtiene ''milista'' (Some (Lista [''a'', ''b'', ''c'']))]"

definition rpush_cuando_se_pushea_a_una_lista_se_ordena_adecuadamente :: "entorno \<Rightarrow> bool" where
  "rpush_cuando_se_pushea_a_una_lista_se_ordena_adecuadamente e \<longleftrightarrow> prueba e (armar e
      [(''milista'', Lista [''d''])])
     [Llama rpush [''lpush'', ''milista'', ''a'', ''b'', ''c''] None,
      Obtiene ''milista'' (Some (Lista [''d'', ''a'', ''b'', ''c'']))]"

definition rpushx_si_se_pushea_a_alguna_clave_existente_que_no_es_una_lista_devuelve_wrong_type :: "entorno \<Rightarrow> bool" where
  "rpushx_si_se_pushea_a_alguna_clave_existente_que_no_es_una_lista_devuelve_wrong_type e \<longleftrightarrow> prueba e (armar e
      [(''clave'', Str '''')])
     [Llama rpushx [''rpushx'', ''clave'', ''valor''] (Some (Error ''WRONGTYPE Operation against a key holding the wrong kind of value''))]"

definition rpushx_si_no_existe_la_lista_no_se_crea :: "entorno \<Rightarrow> bool" where
  "rpushx_si_no_existe_la_lista_no_se_crea e \<longleftrightarrow> prueba e (armar e [])
     [Llama rpushx [''lpushx'', ''milista'', ''a'', ''b'', ''c''] (Some (RInt 0))]"

definition rpushx_cuando_se_pushea_a_una_lista_se_ordena_adecuadamente :: "entorno \<Rightarrow> bool" where
  "rpushx_cuando_se_pushea_a_una_lista_se_ordena_adecuadamente e \<longleftrightarrow> prueba e (armar e
      [(''milista'', Lista [''d''])])
     [Llama rpushx [''rpushx'', ''milista'', ''a'', ''b'', ''c''] (Some (RInt 4)),
      Obtiene ''milista'' (Some (Lista [''d'', ''a'', ''b'', ''c'']))]"

definition pruebas_de_listas :: "(entorno \<Rightarrow> bool) list" where
  "pruebas_de_listas =
    [lindex_busca_un_indice_positivo_en_una_clave_valor_de_la_base_de_datos,
     lindex_busca_un_indice_negativo_en_una_clave_valor_de_la_base_de_datos,
     lindex_busca_un_indice_fuera_de_rango_en_una_clave_valor_de_la_base_de_datos,
     llen_la_longitud_de_una_lista_inexistente_es_cero,
     llen_si_se_llama_llen_a_un_string_se_devuelve_un_error_de_tipo,
     llen_si_se_llama_llen_a_una_lista_devuelve_la_longitud_correctamente,
     lpop_si_no_existe_la_lista_devuelve_nil,
     lpop_si_existia_una_lista_y_luego_se_la_elimina_y_se_vuelve_a_hacer_pop_devuelve_nil,
     lpop_si_se_llama_sobre_un_tipo_distinto_a_una_lista_devuelve_wrong_type,
     lpop_si_se_llama_a_lpop_sin_el_parametro_count_se_devuelve_el_resultado_correcto,
     lpop_si_se_llama_a_lpop_con_el_parametro_count_se_devuelve_el_resultado_correcto,
     lpush_si_se_pushea_a_alguna_clave_existente_que_no_es_una_lista_devuelve_wrong_type,
     lpush_si_no_existe_la_lista_se_crea_con_los_parametros_devolviendo_la_longitud_adecuada,
     lpush_si_no_existe_la_lista_se_crea_con_los_parametros_en_el_orden_adecuado,
     lpush_cuando_se_pushea_a_una_lista_se_ordena_adecuadamente,
     lpushx_si_se_pushea_a_alguna_clave_existente_que_no_es_una_lista_devuelve_wrong_type,
     lpushx_si_no_existe_la_lista_no_se_crea,
     lpushx_cuando_se_pushea_a_una_lista_se_ordena_adecuadamente,
     lrange_si_se_lo_llama_sobre_algo_que_no_es_una_lista_devuelve_wrong_type,
     lrange_si_se_pide_el_rango_de_una_lista_inexistente_devuelve_vector_vacio,
     lrange_rangos_positivos_devuelven_los_elementos_correctamente_hasta_el_indice_final_inclusive,
     lrange_maximo_rango,
     lrange_rangos_enteros_devuelven_los_elementos_correctamente_hasta_el_indice_final_inclusive,
     lrange_rangos_enteros_con_interseccion_nula_devuelve_vector_vacio,
     lrem_si_se_pide_eliminar_de_una_clave_que_no_es_una_lista_devuelve_wrong_type,
     lrem_si_se_pide_eliminar_un_valor_que_no_esta_en_la_lista_no_se_devuelve_un_cero,
     lrem_si_se_pide_eliminar_dos_claves_de_izquierda_a_derecha_se_eliminan_correctamente,
     lrem_si_se_pide_eliminar_dos_claves_de_derecha_a_izquierda_se_eliminan_correctamente,
     lset_si_se_lo_llama_sobre_algo_que_no_es_una_lista_devuelve_wrong_type,
     lset_inserta_en_la_lista_adecuadamente,
     rpop_si_no_existe_la_lista_devuelve_nil,
     rpop_si_existia_una_lista_y_luego_se_la_elimina_y_se_vuelve_a_hacer_pop_devuelve_nil,
     rpop_si_se_llama_sobre_un_tipo_distinto_a_una_lista_devuelve_wrong_type,
     rpop_si_se_llama_a_rpop_sin_el_parametro_count_se_devuelve_el_resultado_correcto,
     rpop_si_se_llama_a_rpop_con_el_parametro_count_se_devuelve_el_resultado_correcto,
     rpush_si_se_pushea_a_alguna_clave_existente_que_no_es_una_lista_devuelve_wrong_type,
     rpush_si_no_existe_la_lista_se_crea_con_los_parametros_devolviendo_la_longitud_adecuada,
     rpush_si_no_existe_la_lista_se_crea_con_los_parametros_en_el_orden_adecuado,
     rpush_cuando_se_pushea_a_una_lista_se_ordena_adecuadamente,
     rpushx_si_se_pushea_a_alguna_clave_existente_que_no_es_una_lista_devuelve_wrong_type,
     rpushx_si_no_existe_la_lista_no_se_crea,
     rpushx_cuando_se_pushea_a_una_lista_se_ordena_adecuadamente]"

text \<open>
  The 42 unit tests of the list commands pass, at every instant, in both build profiles and for every
  behaviour of the other inputs of the environment.
\<close>

lemma pruebas_de_listas_pasan: "list_all (\<lambda>t. t e) pruebas_de_listas"
  by code_simp

end
