(* ===== verification/Pruebas_Conjuntos.thy ===== *)
theory Pruebas_Conjuntos
  imports Pruebas
begin

text \<open>
  The unit tests of the set commands, the module \<open>tests\<close> of \<open>comando_set_handler.rs\<close>, one definition per test
  under the name it has there.
\<close>

definition sadd_cuando_se_envia_una_clave_que_no_esta_esta_se_crea_y_se_almacena_correctamente :: "entorno \<Rightarrow> bool" where
  "sadd_cuando_se_envia_una_clave_que_no_esta_esta_se_crea_y_se_almacena_correctamente e \<longleftrightarrow> prueba e (armar e [])
     [Llama sadd [''SADD'', ''miClave'', ''miValor''] (Some (RInt 1)),
      Obtiene ''miClave'' (Some (TSet [''miValor'']))]"

definition sadd_cuando_se_envia_un_valor_que_esta_repetido_esta_no_se_almacena :: "entorno \<Rightarrow> bool" where
  "sadd_cuando_se_envia_un_valor_que_esta_repetido_esta_no_se_almacena e \<longleftrightarrow> prueba e (armar e [])
     [Llama sadd [''SADD'', ''miClave'', ''miValor''] None,
      Llama sadd [''SADD'', ''miClave'', ''miValor''] (Some (RInt 0))]"

definition sadd_cuando_se_envia_una_clave_invalida_se_envia_el_error_adecuado :: "entorno \<Rightarrow> bool" where
  "sadd_cuando_se_envia_una_clave_invalida_se_envia_el_error_adecuado e \<longleftrightarrow> prueba e (armar e
      [(''miClave'', Str ''unString'')])
     [Llama sadd [''SADD'', ''miClave'', ''miValor''] (Some (Error ''WRONGTYPE Operation against a key holding the wrong kind of value''))]"

definition scard_cuando_se_envia_una_clave_que_no_esta_se_devuelve_0_cardinalidad :: "entorno \<Rightarrow> bool" where
  "scard_cuando_se_envia_una_clave_que_no_esta_se_devuelve_0_cardinalidad e \<longleftrightarrow> prueba e (armar e [])
     [Llama scard [''SCARD'', ''miClave''] (Some (RInt 0))]"

definition scard_cuando_se_envia_una_clave_que_posee_dos_elementos_se_devuelve_2_de_cardinalidad :: "entorno \<Rightarrow> bool" where
  "scard_cuando_se_envia_una_clave_que_posee_dos_elementos_se_devuelve_2_de_cardinalidad e \<longleftrightarrow> prueba e (armar e
      [(''miClave'', TSet [''miValor'', ''otroValor''])])
     [Llama scard [''SCARD'', ''miClave''] (Some (RInt 2))]"

definition scard_cuando_se_envia_una_clave_invalida_se_envia_el_error_adecuado :: "entorno \<Rightarrow> bool" where
  "scard_cuando_se_envia_una_clave_invalida_se_envia_el_error_adecuado e \<longleftrightarrow> prueba e (armar e
      [(''miClave'', Str ''unString'')])
     [Llama scard [''SCARD'', ''miClave''] (Some (Error ''WRONGTYPE Operation against a key holding the wrong kind of value''))]"

definition sismember_cuando_se_envia_una_clave_que_no_esta_devuelve_0_ya_que_no_pertenece :: "entorno \<Rightarrow> bool" where
  "sismember_cuando_se_envia_una_clave_que_no_esta_devuelve_0_ya_que_no_pertenece e \<longleftrightarrow> prueba e (armar e [])
     [Llama sismember [''SISMEMBER'', ''miClave'', ''miValor''] (Some (RInt 0))]"

definition sismember_cuando_se_envia_una_clave_que_posee_dos_elementos_y_se_pregunta_si_uno_de_ellos_pertenece_se_devuelve_1_de_true :: "entorno \<Rightarrow> bool" where
  "sismember_cuando_se_envia_una_clave_que_posee_dos_elementos_y_se_pregunta_si_uno_de_ellos_pertenece_se_devuelve_1_de_true e \<longleftrightarrow> prueba e (armar e
      [(''miClave'', TSet [''miValor'', ''otroValor''])])
     [Llama sismember [''SISMEMBER'', ''miClave'', ''miValor''] (Some (RInt 1))]"

definition sismember_cuando_se_envia_una_clave_invalida_se_envia_el_error_adecuado :: "entorno \<Rightarrow> bool" where
  "sismember_cuando_se_envia_una_clave_invalida_se_envia_el_error_adecuado e \<longleftrightarrow> prueba e (armar e
      [(''miClave'', Str ''unString'')])
     [Llama sismember [''SISMEMBER'', ''miClave'', ''miValor''] (Some (Error ''WRONGTYPE Operation against a key holding the wrong kind of value''))]"

definition smembers_cuando_se_envia_una_clave_que_no_esta_devuelve_un_vector_vacio :: "entorno \<Rightarrow> bool" where
  "smembers_cuando_se_envia_una_clave_que_no_esta_devuelve_un_vector_vacio e \<longleftrightarrow> prueba e (armar e [])
     [Llama smembers [''SMEMBERS'', ''miClave''] (Some (Vector []))]"

definition smembers_cuando_se_envia_una_clave_invalida_se_envia_el_error_adecuado :: "entorno \<Rightarrow> bool" where
  "smembers_cuando_se_envia_una_clave_invalida_se_envia_el_error_adecuado e \<longleftrightarrow> prueba e (armar e
      [(''miClave'', Str ''unString'')])
     [Llama smembers [''SMEMBERS'', ''miClave''] (Some (Error ''WRONGTYPE Operation against a key holding the wrong kind of value''))]"

definition srem_cuando_se_envia_una_clave_que_no_esta_no_se_elimina_ningun_valor :: "entorno \<Rightarrow> bool" where
  "srem_cuando_se_envia_una_clave_que_no_esta_no_se_elimina_ningun_valor e \<longleftrightarrow> prueba e (armar e [])
     [Llama srem [''SREM'', ''miClave'', ''miValor''] (Some (RInt 0))]"

definition srem_cuando_se_envia_una_clave_que_posee_dos_elementos_y_se_elimina_uno_este_no_se_encuentra :: "entorno \<Rightarrow> bool" where
  "srem_cuando_se_envia_una_clave_que_posee_dos_elementos_y_se_elimina_uno_este_no_se_encuentra e \<longleftrightarrow> prueba e (armar e
      [(''miClave'', TSet [''miValor'', ''otroValor''])])
     [Llama srem [''SREM'', ''miClave'', ''miValor''] (Some (RInt 1)),
      Obtiene ''miClave'' (Some (TSet [''otroValor'']))]"

definition srem_cuando_se_envia_una_clave_que_posee_dos_elementos_y_se_eliminan_solo_uno_dos_veces_no_se_encuentra_el_restante :: "entorno \<Rightarrow> bool" where
  "srem_cuando_se_envia_una_clave_que_posee_dos_elementos_y_se_eliminan_solo_uno_dos_veces_no_se_encuentra_el_restante e \<longleftrightarrow> prueba e (armar e
      [(''miClave'', TSet [''miValor'', ''otroValor''])])
     [Llama srem [''SREM'', ''miClave'', ''miValor'', ''miValor''] (Some (RInt 1)),
      Obtiene ''miClave'' (Some (TSet [''otroValor'']))]"

definition srem_cuando_se_envia_una_clave_invalida_se_envia_el_error_adecuado :: "entorno \<Rightarrow> bool" where
  "srem_cuando_se_envia_una_clave_invalida_se_envia_el_error_adecuado e \<longleftrightarrow> prueba e (armar e
      [(''miClave'', Str ''unString'')])
     [Llama srem [''SREM'', ''miClave'', ''miValor''] (Some (Error ''WRONGTYPE Operation against a key holding the wrong kind of value''))]"

definition pruebas_de_conjuntos :: "(entorno \<Rightarrow> bool) list" where
  "pruebas_de_conjuntos =
    [sadd_cuando_se_envia_una_clave_que_no_esta_esta_se_crea_y_se_almacena_correctamente,
     sadd_cuando_se_envia_un_valor_que_esta_repetido_esta_no_se_almacena,
     sadd_cuando_se_envia_una_clave_invalida_se_envia_el_error_adecuado,
     scard_cuando_se_envia_una_clave_que_no_esta_se_devuelve_0_cardinalidad,
     scard_cuando_se_envia_una_clave_que_posee_dos_elementos_se_devuelve_2_de_cardinalidad,
     scard_cuando_se_envia_una_clave_invalida_se_envia_el_error_adecuado,
     sismember_cuando_se_envia_una_clave_que_no_esta_devuelve_0_ya_que_no_pertenece,
     sismember_cuando_se_envia_una_clave_que_posee_dos_elementos_y_se_pregunta_si_uno_de_ellos_pertenece_se_devuelve_1_de_true,
     sismember_cuando_se_envia_una_clave_invalida_se_envia_el_error_adecuado,
     smembers_cuando_se_envia_una_clave_que_no_esta_devuelve_un_vector_vacio,
     smembers_cuando_se_envia_una_clave_invalida_se_envia_el_error_adecuado,
     srem_cuando_se_envia_una_clave_que_no_esta_no_se_elimina_ningun_valor,
     srem_cuando_se_envia_una_clave_que_posee_dos_elementos_y_se_elimina_uno_este_no_se_encuentra,
     srem_cuando_se_envia_una_clave_que_posee_dos_elementos_y_se_eliminan_solo_uno_dos_veces_no_se_encuentra_el_restante,
     srem_cuando_se_envia_una_clave_invalida_se_envia_el_error_adecuado]"

text \<open>
  The 15 unit tests of the set commands pass, at every instant, in both build profiles and for every
  behaviour of the other inputs of the environment.
\<close>

lemma pruebas_de_conjuntos_pasan: "list_all (\<lambda>t. t e) pruebas_de_conjuntos"
  by code_simp

end
