(* ===== verification/Pruebas_Claves.thy ===== *)
theory Pruebas_Claves
  imports Pruebas
begin

text \<open>
  The unit tests of the key commands, the module \<open>tests\<close> of \<open>comando_key_handler.rs\<close>, one definition per test
  under the name it has there.
\<close>

definition copy_copia_el_valor_de_una_clave_en_otra :: "entorno \<Rightarrow> bool" where
  "copy_copia_el_valor_de_una_clave_en_otra e \<longleftrightarrow> prueba e (armar e
      [(''clave'', Str ''valor'')])
     [Llama copy [''copy'', ''clave'', ''otra_clave''] None,
      Obtiene ''otra_clave'' (Some (Str ''valor''))]"

definition copy_copiar_una_clave_que_no_existe_devuelve_un_error :: "entorno \<Rightarrow> bool" where
  "copy_copiar_una_clave_que_no_existe_devuelve_un_error e \<longleftrightarrow> prueba e (armar e [])
     [Llama copy [''copy'', ''clave'', ''otra_clave''] (Some (RInt 0))]"

definition del_elimina_las_claves_guardadas_en_la_base_de_datos :: "entorno \<Rightarrow> bool" where
  "del_elimina_las_claves_guardadas_en_la_base_de_datos e \<longleftrightarrow> prueba e (armar e
      [(''1'', Str ''valor''), (''2'', Str ''valor''), (''3'', Lista []), (''4'', Str ''valor''),
       (''5'', Str ''valor'')])
     [Llama del [''del'', ''1'', ''2'', ''3'', ''8''] (Some (RInt 3))]"

definition del_trata_de_elimina_las_claves_que_no_estan_guardadas_en_la_base_de_datos :: "entorno \<Rightarrow> bool" where
  "del_trata_de_elimina_las_claves_que_no_estan_guardadas_en_la_base_de_datos e \<longleftrightarrow> prueba e (armar e
      [(''1'', Str ''valor''), (''2'', Str ''valor''), (''3'', Lista []), (''4'', Str ''valor''),
       (''5'', Str ''valor'')])
     [Llama del [''del'', ''6'', ''7'', ''8'', ''8''] (Some (RInt 0))]"

definition del_elimina_las_claves_repetidas_que_de_la_base_de_datos :: "entorno \<Rightarrow> bool" where
  "del_elimina_las_claves_repetidas_que_de_la_base_de_datos e \<longleftrightarrow> prueba e (armar e
      [(''1'', Str ''valor''), (''2'', Str ''valor''), (''3'', Lista []), (''4'', Str ''valor''),
       (''5'', Str ''valor'')])
     [Llama del [''del'', ''1'', ''1'', ''3'', ''4''] (Some (RInt 3))]"

definition existis_chequea_las_claves_guardadas_en_la_base_de_datos :: "entorno \<Rightarrow> bool" where
  "existis_chequea_las_claves_guardadas_en_la_base_de_datos e \<longleftrightarrow> prueba e (armar e
      [(''1'', Str ''valor''), (''2'', Str ''valor''), (''3'', Lista []), (''4'', Str ''valor''),
       (''5'', Str ''valor'')])
     [Llama exists [''del'', ''1'', ''2'', ''3'', ''8''] (Some (RInt 3))]"

definition existis_chequea_las_claves_repetidas_que_de_la_base_de_datos :: "entorno \<Rightarrow> bool" where
  "existis_chequea_las_claves_repetidas_que_de_la_base_de_datos e \<longleftrightarrow> prueba e (armar e
      [(''1'', Str ''valor''), (''2'', Str ''valor''), (''3'', Lista []), (''4'', Str ''valor''),
       (''5'', Str ''valor'')])
     [Llama del [''del'', ''1'', ''1'', ''3'', ''4''] (Some (RInt 3))]"

definition rename_cambia_modifica_la_clave_pedida :: "entorno \<Rightarrow> bool" where
  "rename_cambia_modifica_la_clave_pedida e \<longleftrightarrow> prueba e (armar e
      [(''clave'', Str ''valor'')])
     [Llama rename [''rename'', ''clave'', ''otra_clave''] None,
      Existe ''otra_clave'' True,
      Obtiene ''otra_clave'' (Some (Str ''valor'')),
      Existe ''clave'' False]"

definition tipo_devuelve_el_tipo_del_valor_almacenado_con_esa_clave :: "entorno \<Rightarrow> bool" where
  "tipo_devuelve_el_tipo_del_valor_almacenado_con_esa_clave e \<longleftrightarrow> prueba e (armar e
      [(''string'', Str ''valor''), (''lista'', Lista []), (''set'', TSet [])])
     [Llama tipo [''type'', ''string''] (Some (BulkStr ''string'')),
      Llama tipo [''type'', ''lista''] (Some (BulkStr ''lista'')),
      Llama tipo [''type'', ''set''] (Some (BulkStr ''set'')),
      Llama tipo [''type'', ''clave''] (Some (BulkStr ''none''))]"

definition expire_cuando_se_crea_una_clave_no_expirable_y_se_la_pasa_a_volatil_esta_expira_correctamente :: "entorno \<Rightarrow> bool" where
  "expire_cuando_se_crea_una_clave_no_expirable_y_se_la_pasa_a_volatil_esta_expira_correctamente e \<longleftrightarrow> prueba e (armar e
      [(''clave'', Str ''valor'')])
     [Llama expire [''expire'', ''clave'', ''1''] (Some (RInt 1)),
      Duerme 2,
      Existe ''clave'' False]"

definition keys_si_se_ingresa_la_siguiente_re_el_resultado_es_el_correcto :: "entorno \<Rightarrow> bool" where
  "keys_si_se_ingresa_la_siguiente_re_el_resultado_es_el_correcto e \<longleftrightarrow> prueba e (armar e
      [(''hello'', Str ''valor''), (''hallo'', Str ''valor''), (''hillo'', Str ''valor'')])
     [Contiene keys [''keys'', ''h[ae]llo''] [BulkStr ''hallo'', BulkStr ''hello'']]"

definition sort_ordena_los_elementos_numericos_en_una_lista :: "entorno \<Rightarrow> bool" where
  "sort_ordena_los_elementos_numericos_en_una_lista e \<longleftrightarrow> prueba e (armar e
      [(''mylist'', Lista [''5'', ''3'', ''4'', ''2''])])
     [Llama sort_cmd [''sort'', ''mylist''] (Some (Vector [StrSimple ''2'', StrSimple ''3'', StrSimple ''4'', StrSimple ''5'']))]"

definition sort_ordena_los_elementos_alphanumerico_en_una_lista :: "entorno \<Rightarrow> bool" where
  "sort_ordena_los_elementos_alphanumerico_en_una_lista e \<longleftrightarrow> prueba e (armar e
      [(''mylist'', Lista [''5'', ''3'', ''a'', ''4'', ''2''])])
     [Llama sort_cmd [''sort'', ''mylist'', ''ALPHA''] (Some (Vector [StrSimple ''2'', StrSimple ''3'', StrSimple ''4'', StrSimple ''5'', StrSimple ''a'']))]"

definition sort_devuelve_un_error_si_no_esta_el_parametro_alpha_en_una_lista_de_palabras :: "entorno \<Rightarrow> bool" where
  "sort_devuelve_un_error_si_no_esta_el_parametro_alpha_en_una_lista_de_palabras e \<longleftrightarrow> prueba e (armar e
      [(''mylist'', Lista [''a'', ''c'', ''d'', ''z'', ''b''])])
     [Llama sort_cmd [''sort'', ''mylist''] (Some (Error (''ERR One or more scores can'' @ [CHR 0x27] @ ''t be converted into double'')))]"

definition sort_ordena_los_elementos_si_esta_el_parametro_alpha_en_una_lista_de_palabras :: "entorno \<Rightarrow> bool" where
  "sort_ordena_los_elementos_si_esta_el_parametro_alpha_en_una_lista_de_palabras e \<longleftrightarrow> prueba e (armar e
      [(''mylist'', Lista [''a'', ''c'', ''d'', ''z'', ''b''])])
     [Llama sort_cmd [''sort'', ''mylist'', ''ALPHA''] (Some (Vector [StrSimple ''a'', StrSimple ''b'', StrSimple ''c'', StrSimple ''d'', StrSimple ''z'']))]"

definition sort_ordena_los_elementos_en_orden_descendiente_en_una_lista_de_numeros_si_esta_la_clave_desc :: "entorno \<Rightarrow> bool" where
  "sort_ordena_los_elementos_en_orden_descendiente_en_una_lista_de_numeros_si_esta_la_clave_desc e \<longleftrightarrow> prueba e (armar e
      [(''mylist'', Lista [''5'', ''3'', ''4'', ''2''])])
     [Llama sort_cmd [''sort'', ''mylist'', ''DESC''] (Some (Vector [StrSimple ''5'', StrSimple ''4'', StrSimple ''3'', StrSimple ''2'']))]"

definition sort_ordena_los_elementos_en_una_lista_de_numeros_con_el_rango_pedido :: "entorno \<Rightarrow> bool" where
  "sort_ordena_los_elementos_en_una_lista_de_numeros_con_el_rango_pedido e \<longleftrightarrow> prueba e (armar e
      [(''mylist'', Lista [''5'', ''3'', ''4'', ''2''])])
     [Llama sort_cmd [''sort'', ''mylist'', ''LIMIT'', ''0'', ''2''] (Some (Vector [StrSimple ''2'', StrSimple ''3'']))]"

definition sort_ordena_los_elementos_en_una_lista_de_numeros_con_otro_rango :: "entorno \<Rightarrow> bool" where
  "sort_ordena_los_elementos_en_una_lista_de_numeros_con_otro_rango e \<longleftrightarrow> prueba e (armar e
      [(''mylist'', Lista [''5'', ''3'', ''4'', ''2'', ''6''])])
     [Llama sort_cmd [''sort'', ''mylist'', ''LIMIT'', ''-2'', ''8''] (Some (Vector [StrSimple ''2'', StrSimple ''3'', StrSimple ''4'', StrSimple ''5'', StrSimple ''6'']))]"

definition sort_ordena_los_elementos_en_una_lista_de_numeros_con_rango_uno :: "entorno \<Rightarrow> bool" where
  "sort_ordena_los_elementos_en_una_lista_de_numeros_con_rango_uno e \<longleftrightarrow> prueba e (armar e
      [(''mylist'', Lista [''5'', ''3'', ''4'', ''2'', ''6''])])
     [Llama sort_cmd [''sort'', ''mylist'', ''LIMIT'', ''2'', ''2''] (Some (Vector [StrSimple ''4'', StrSimple ''5'']))]"

definition sort_ordena_los_elementos_en_una_lista_de_numeros_con_rango_menos_uno_menos_diez :: "entorno \<Rightarrow> bool" where
  "sort_ordena_los_elementos_en_una_lista_de_numeros_con_rango_menos_uno_menos_diez e \<longleftrightarrow> prueba e (armar e
      [(''mylist'', Lista [''5'', ''3'', ''4'', ''2'', ''6''])])
     [Llama sort_cmd [''sort'', ''mylist'', ''LIMIT'', ''-1'', ''-10''] (Some (Vector [StrSimple ''2'', StrSimple ''3'', StrSimple ''4'', StrSimple ''5'', StrSimple ''6'']))]"

definition sort_devuelve_una_lista_vacia_si_el_valor_no_existes :: "entorno \<Rightarrow> bool" where
  "sort_devuelve_una_lista_vacia_si_el_valor_no_existes e \<longleftrightarrow> prueba e (armar e [])
     [Llama sort_cmd [''sort'', ''mylist'', ''LIMIT'', ''0'', ''2''] (Some (Vector []))]"

definition sort_ordena_los_elementos_en_una_lista_con_pesos_externos :: "entorno \<Rightarrow> bool" where
  "sort_ordena_los_elementos_en_una_lista_con_pesos_externos e \<longleftrightarrow> prueba e (armar e
      [(''peso_2'', Str ''2''), (''peso_3'', Str ''3''), (''peso_4'', Str ''4''),
       (''peso_5'', Str ''5''), (''peso_6'', Str ''6''),
       (''mylist'', Lista [''objeto_5'', ''objeto_3'', ''objeto_4'', ''objeto_2'', ''objeto_6''])])
     [Llama sort_cmd [''sort'', ''mylist'', ''BY'', ''peso_*''] (Some (Vector [StrSimple ''objeto_2'', StrSimple ''objeto_3'', StrSimple ''objeto_4'', StrSimple ''objeto_5'', StrSimple ''objeto_6'']))]"

definition sort_ordena_los_elementos_en_una_lista_con_pesos_externos_faltantes :: "entorno \<Rightarrow> bool" where
  "sort_ordena_los_elementos_en_una_lista_con_pesos_externos_faltantes e \<longleftrightarrow> prueba e (armar e
      [(''peso_3'', Str ''3''), (''peso_4'', Str ''4''), (''peso_5'', Str ''5''),
       (''peso_6'', Str ''6''),
       (''mylist'', Lista [''objeto_5'', ''objeto_3'', ''objeto_4'', ''objeto_2'', ''objeto_6''])])
     [Llama sort_cmd [''sort'', ''mylist'', ''BY'', ''peso_*''] (Some (Vector [StrSimple ''objeto_5'', StrSimple ''objeto_3'', StrSimple ''objeto_4'', StrSimple ''objeto_2'', StrSimple ''objeto_6'']))]"

definition sort_ordena_los_elementos_en_una_lista_con_todos_pesos_externos_faltantes :: "entorno \<Rightarrow> bool" where
  "sort_ordena_los_elementos_en_una_lista_con_todos_pesos_externos_faltantes e \<longleftrightarrow> prueba e (armar e
      [(''mylist'', Lista [''objeto_5'', ''objeto_3'', ''objeto_4'', ''objeto_2'', ''objeto_6''])])
     [Llama sort_cmd [''sort'', ''mylist'', ''BY'', ''peso_*''] (Some (Vector [StrSimple ''objeto_5'', StrSimple ''objeto_3'', StrSimple ''objeto_4'', StrSimple ''objeto_2'', StrSimple ''objeto_6'']))]"

definition sort_ordena_los_elementos_y_devuelve_los_objetos_que_representan_las_ids :: "entorno \<Rightarrow> bool" where
  "sort_ordena_los_elementos_y_devuelve_los_objetos_que_representan_las_ids e \<longleftrightarrow> prueba e (armar e
      [(''peso_1'', Str ''1''), (''peso_2'', Str ''2''), (''peso_3'', Str ''3''),
       (''peso_4'', Str ''4''), (''peso_5'', Str ''5''), (''objeto_1'', Str ''primero''),
       (''objeto_2'', Str ''segundo''), (''objeto_3'', Str ''tercero''), (''objeto_4'', Str ''cuarto''),
       (''objeto_5'', Str ''quinto''),
       (''mylist'', Lista [''objeto_2'', ''objeto_5'', ''objeto_4'', ''objeto_3'', ''objeto_1''])])
     [Llama sort_cmd [''sort'', ''mylist'', ''BY'', ''peso_*'', ''GET'', ''objeto_*''] (Some (Vector [StrSimple ''primero'', StrSimple ''segundo'', StrSimple ''tercero'', StrSimple ''cuarto'', StrSimple ''quinto'']))]"

definition sort_ordena_por_pesos_externos_los_elementos_los_guarda_con_la_clave_dada :: "entorno \<Rightarrow> bool" where
  "sort_ordena_por_pesos_externos_los_elementos_los_guarda_con_la_clave_dada e \<longleftrightarrow> prueba e (armar e
      [(''peso_1'', Str ''1''), (''peso_2'', Str ''2''), (''peso_3'', Str ''3''),
       (''peso_4'', Str ''4''), (''peso_5'', Str ''5''),
       (''mylist'', Lista [''objeto_2'', ''objeto_5'', ''objeto_4'', ''objeto_3'', ''objeto_1''])])
     [Llama sort_cmd [''sort'', ''mylist'', ''BY'', ''peso_*'', ''STORE'', ''ordenados''] (Some (StrSimple ''5'')),
      Obtiene ''ordenados'' (Some (Lista [''objeto_1'', ''objeto_2'', ''objeto_3'', ''objeto_4'', ''objeto_5'']))]"

definition pruebas_sin_espera :: "(entorno \<Rightarrow> bool) list" where
  "pruebas_sin_espera =
    [copy_copia_el_valor_de_una_clave_en_otra,
     copy_copiar_una_clave_que_no_existe_devuelve_un_error,
     del_elimina_las_claves_guardadas_en_la_base_de_datos,
     del_trata_de_elimina_las_claves_que_no_estan_guardadas_en_la_base_de_datos,
     del_elimina_las_claves_repetidas_que_de_la_base_de_datos,
     existis_chequea_las_claves_guardadas_en_la_base_de_datos,
     existis_chequea_las_claves_repetidas_que_de_la_base_de_datos,
     rename_cambia_modifica_la_clave_pedida,
     tipo_devuelve_el_tipo_del_valor_almacenado_con_esa_clave,
     keys_si_se_ingresa_la_siguiente_re_el_resultado_es_el_correcto,
     sort_ordena_los_elementos_numericos_en_una_lista,
     sort_ordena_los_elementos_alphanumerico_en_una_lista,
     sort_devuelve_un_error_si_no_esta_el_parametro_alpha_en_una_lista_de_palabras,
     sort_ordena_los_elementos_si_esta_el_parametro_alpha_en_una_lista_de_palabras,
     sort_ordena_los_elementos_en_orden_descendiente_en_una_lista_de_numeros_si_esta_la_clave_desc,
     sort_ordena_los_elementos_en_una_lista_de_numeros_con_el_rango_pedido,
     sort_ordena_los_elementos_en_una_lista_de_numeros_con_otro_rango,
     sort_ordena_los_elementos_en_una_lista_de_numeros_con_rango_uno,
     sort_ordena_los_elementos_en_una_lista_de_numeros_con_rango_menos_uno_menos_diez,
     sort_devuelve_una_lista_vacia_si_el_valor_no_existes,
     sort_ordena_los_elementos_en_una_lista_con_pesos_externos,
     sort_ordena_los_elementos_en_una_lista_con_pesos_externos_faltantes,
     sort_ordena_los_elementos_en_una_lista_con_todos_pesos_externos_faltantes,
     sort_ordena_los_elementos_y_devuelve_los_objetos_que_representan_las_ids,
     sort_ordena_por_pesos_externos_los_elementos_los_guarda_con_la_clave_dada]"

definition pruebas_de_claves :: "(entorno \<Rightarrow> bool) list" where
  "pruebas_de_claves =
    expire_cuando_se_crea_una_clave_no_expirable_y_se_la_pasa_a_volatil_esta_expira_correctamente # pruebas_sin_espera"

text \<open>
  What the tests rely on of the crate \<open>regex\<close>: a pattern is searched in the text without anchors,
  \<open>_*\<close> matches any number of underscores, none included, and \<open>[ae]\<close> one of the two letters.
\<close>

definition patrones_documentados :: "(string \<Rightarrow> (string \<Rightarrow> bool) option) \<Rightarrow> string \<Rightarrow> (string \<Rightarrow> bool) option" where
  "patrones_documentados r p =
     (if p = ''peso_*'' then Some (contiene_str ''peso'')
      else if p = ''objeto_*'' then Some (contiene_str ''objeto'')
      else if p = ''h[ae]llo'' then Some (\<lambda>s. contiene_str ''hallo'' s \<or> contiene_str ''hello'' s)
      else r p)"

text \<open>The test of \<open>EXPIRE\<close> compares instants of the clock, which the evaluation leaves symbolic.\<close>

lemma prueba_expire:
  "expire_cuando_se_crea_una_clave_no_expirable_y_se_la_pasa_a_volatil_esta_expira_correctamente e"
  by code_simp (simp add: algebra_simps)

lemma pruebas_con_patrones: "list_all (\<lambda>t. t \<lparr>ahora = i, hora_sistema = h, perfil_de = p,
    regex = patrones_documentados r, capacidad_de = n, duplicable = d\<rparr>) pruebas_sin_espera"
  by code_simp

text \<open>
  The 26 unit tests of the key commands pass, at every instant and in both build profiles, when the crate
  \<open>regex\<close> treats the three patterns of the tests as it documents.
\<close>

lemma pruebas_de_claves_pasan:
  assumes "regex e = patrones_documentados (regex e)"
  shows "list_all (\<lambda>t. t e) pruebas_de_claves"
  using pruebas_con_patrones [where r = "regex e"] prueba_expire assms by (cases e) (simp add: pruebas_de_claves_def)

end
