(* ===== verification/Pruebas_Nucleo.thy ===== *)
theory Pruebas_Nucleo
  imports Pruebas Pedidos
begin

text \<open>
  The unit tests of the parsed commands, the two parsers, the values with a lifetime, the database and
  the lines of the persistence file, one definition per test under the name it has in the source.
\<close>

section \<open>\<open>comando_info.rs\<close>\<close>

definition comando_info_devuelve_correctamente_todos_los_parametros :: bool where
  "comando_info_devuelve_correctamente_todos_los_parametros \<longleftrightarrow>
     (case comando_info_new [''GET'', ''clave'', ''arg1'', ''arg2'', ''arg3'', ''arg4''] of
        Panico \<Rightarrow> False
      | Devuelve c0 \<Rightarrow>
          (let (k, c1) = get_clave c0;
               (p1, c2) = get_parametro c1;
               (p2, c3) = get_parametro c2;
               (p3, c4) = get_parametro c3;
               (p4, c5) = get_parametro c4;
               (p5, c6) = get_parametro c5
           in k = Some ''clave'' \<and> p1 = Some ''arg1'' \<and> p2 = Some ''arg2'' \<and> p3 = Some ''arg3'' \<and>
              p4 = Some ''arg4'' \<and> p5 = None))"

definition comando_info_devuelve_una_descripcion_en_forma_de_string_sobre_el_comando :: bool where
  "comando_info_devuelve_una_descripcion_en_forma_de_string_sobre_el_comando \<longleftrightarrow>
     luego (comando_info_new [''GET'', ''clave'', ''arg1'', ''arg2'', ''arg3'', ''arg4''])
       (\<lambda>c. Devuelve (descripcion c)) = Devuelve ''GET clave arg1 arg2 arg3 arg4''"

definition comando_info_devuelve_una_lista_con_todos_los_parametros :: bool where
  "comando_info_devuelve_una_lista_con_todos_los_parametros \<longleftrightarrow>
     luego (comando_info_new [''MGET'', ''clave1'', ''clave2'', ''clave3'', ''clave4'', ''clave5''])
       (\<lambda>c. Devuelve (get_parametros c)) =
     Devuelve (Some [''clave1'', ''clave2'', ''clave3'', ''clave4'', ''clave5''])"

section \<open>\<open>comando_http.rs\<close> and \<open>http_parser.rs\<close>\<close>

definition comando_http_devuelve_correctamente_todos_los_parametros :: bool where
  "comando_http_devuelve_correctamente_todos_los_parametros \<longleftrightarrow>
     (case comando_http_new [''GET'', ''/'', ''HTTP/1.1''] [] [''GET'', ''clave'', ''arg1'', ''arg2'', ''arg3'', ''arg4''] of
        Panico \<Rightarrow> False
      | Devuelve c \<Rightarrow> get_metodo c = ''GET'' \<and>
          (case get_comando c of None \<Rightarrow> False | Some r \<Rightarrow> fst (get_clave r) = Some ''clave''))"

definition comando_http_devuelve_el_argumento_correctamente :: bool where
  "comando_http_devuelve_el_argumento_correctamente \<longleftrightarrow>
     luego (comando_http_new [''GET'', ''/favicon.ico'', ''HTTP/1.1''] []
         [''GET'', ''clave'', ''arg1'', ''arg2'', ''arg3'', ''arg4''])
       (\<lambda>c. Devuelve (get_argumento c)) = Devuelve (Some ''/favicon.ico'')"

definition comando_http_parsea_bien_el_metodo_get :: bool where
  "comando_http_parsea_bien_el_metodo_get \<longleftrightarrow>
     (case http_parsear_stream True (pedido_http ''GET'' ''/hello.htm'' ''HTTP/1.1''
         [''User-Agent: Mozilla/4.0 (compatible; MSIE5.01; Windows NT)'',
          ''Host: www.tutorialspoint.com'',
          ''Accept-Language: en-us'',
          ''Accept-Encoding: gzip, deflate'',
          ''Connection: Keep-Alive'']
         '''') of
        Devuelve (Inr c) \<Rightarrow> get_metodo c = ''GET'' \<and> get_comando c = None
      | _ \<Rightarrow> False)"

definition comando_http_parsea_bien_el_metodo_post_obteniendo_el_comando_set_key_1 :: bool where
  "comando_http_parsea_bien_el_metodo_post_obteniendo_el_comando_set_key_1 \<longleftrightarrow>
     (case http_parsear_stream True (pedido_http ''POST'' ''/'' ''HTTP/1.1''
         [''Host: foo.com'',
          ''Content-Type: application/x-www-form-urlencoded'',
          ''Content-Length: 13'']
         ''comando=set+key+1'') of
        Devuelve (Inr c) \<Rightarrow> get_metodo c = ''POST'' \<and> map_option get_nombre (get_comando c) = Some ''SET''
      | _ \<Rightarrow> False)"

definition comando_http_parsea_bien_el_metodo_get_con_mas_headers :: bool where
  "comando_http_parsea_bien_el_metodo_get_con_mas_headers \<longleftrightarrow>
     (case http_parsear_stream True (pedido_http ''GET'' ''/'' ''HTTP/1.1''
         [''Host: 127.0.0.1:8080'',
          ''Connection: keep-alive'',
          ''Cache-Control: max-age=0'',
          ''sec-ch-ua: '' @ [CHR 0x27] @ '' Not A;Brand'' @ [CHR 0x27] @ '';v='' @ [CHR 0x27] @ ''99'' @ [CHR 0x27] @ '', '' @ [CHR 0x27] @ ''Chromium'' @ [CHR 0x27] @ '';v='' @ [CHR 0x27] @ ''92'' @ [CHR 0x27],
          ''sec-ch-ua-mobile: ?0'',
          ''Upgrade-Insecure-Requests: 1'',
          ''User-Agent: Mozilla/5.0 (X11; Linux x86_64) AppleWebKit/537.36 (KHTML, like Gecko) Chrome/92.0.4515.107 Safari/537.36'',
          ''Accept: text/html,application/xhtml+xml,application/xml;q=0.9,image/avif,image/webp,image/apng,*/*;q=0.8,application/signed-exchange;v=b3;q=0.9'',
          ''Sec-Fetch-Site: none'',
          ''Sec-Fetch-Mode: navigate'',
          ''Sec-Fetch-User: ?1'',
          ''Sec-Fetch-Dest: document'',
          ''Accept-Encoding: gzip, deflate, br'',
          ''Accept-Language: es-419,es;q=0.9,en;q=0.8'',
          ''Cookie: _xsrf=2|e2fa887a|143bb4d760e3f93ddf62f00d31f52215|1626138365; username-127-0-0-1-8888='' @ [CHR 0x27] @ ''2|1:0|10:1627770495|23:username-127-0-0-1-8888|44:ZmViN2NkZDcxM2YyNGQ3NzkzOTVjZjkxZDA0ZjBmNjM=|155cba90c7e7bc1b8f94b9505143b6d57153add6b773957f373328a688fd5cef'']
         CRLF) of
        Devuelve (Inr c) \<Rightarrow> get_metodo c = ''GET'' \<and> get_comando c = None
      | _ \<Rightarrow> False)"

section \<open>\<open>parser.rs\<close>\<close>

text \<open>\<open>consulta n k ps\<close>: the name, the key and the following calls of \<open>get_parametro\<close>.\<close>

fun parametros_siguientes :: "comando_info \<Rightarrow> nat \<Rightarrow> string option list" where
  "parametros_siguientes c 0 = []"
| "parametros_siguientes c (Suc n) =
     (case get_parametro c of (p, c') \<Rightarrow> p # parametros_siguientes c' n)"

definition consulta :: "string \<Rightarrow> string \<Rightarrow> string option \<Rightarrow> string option list \<Rightarrow> bool" where
  "consulta s n k ps \<longleftrightarrow>
     (case parsear_stream s of
        Devuelve (Inr c) \<Rightarrow>
          get_nombre c = n \<and> (case get_clave c of (k', c') \<Rightarrow>
            k' = k \<and> parametros_siguientes c' (length ps) = ps)
      | _ \<Rightarrow> False)"

definition cuando_se_recibe_un_mensaje_de_ping_este_se_parsea_y_se_devuelve_el_comando_correcto :: bool where
  "cuando_se_recibe_un_mensaje_de_ping_este_se_parsea_y_se_devuelve_el_comando_correcto \<longleftrightarrow>
     consulta (''*1'' @ CRLF @ ''$4'' @ CRLF @ ''PING'' @ CRLF) ''PING'' None [None]"

definition cuando_se_recibe_un_mensaje_de_llen_este_se_parsea_y_se_devuelve_el_comando_correcto :: bool where
  "cuando_se_recibe_un_mensaje_de_llen_este_se_parsea_y_se_devuelve_el_comando_correcto \<longleftrightarrow>
     consulta (''*2'' @ CRLF @ ''$4'' @ CRLF @ ''LLEN'' @ CRLF @ ''$6'' @ CRLF @ ''mylist'' @ CRLF) ''LLEN'' (Some ''mylist'') [None]"

definition cuando_se_recibe_un_mensaje_de_sort_este_se_parsea_y_se_devuelve_el_comando_correcto :: bool where
  "cuando_se_recibe_un_mensaje_de_sort_este_se_parsea_y_se_devuelve_el_comando_correcto \<longleftrightarrow>
     consulta (''*7'' @ CRLF @ ''$4'' @ CRLF @ ''SORT'' @ CRLF @ ''$6'' @ CRLF @ ''mylist'' @ CRLF @ ''$5'' @ CRLF @
         ''LIMIT'' @ CRLF @ ''$1'' @ CRLF @ ''0'' @ CRLF @ ''$1'' @ CRLF @ ''5'' @ CRLF @ ''$5'' @ CRLF @
         ''ALPHA'' @ CRLF @ ''$4'' @ CRLF @ ''DESC'' @ CRLF)
       ''SORT'' (Some ''mylist'') [Some ''LIMIT'', Some ''0'', Some ''5'', Some ''ALPHA'', Some ''DESC'']"

definition cuando_se_manda_un_mensaje_vacio_se_lanza_un_parser_error_de_tipo_mensaje_vacio :: bool where
  "cuando_se_manda_un_mensaje_vacio_se_lanza_un_parser_error_de_tipo_mensaje_vacio \<longleftrightarrow>
     parsear_stream '''' = Devuelve (Inl MensajeVacioError)"

definition cuando_se_manda_un_mensaje_con_un_error_de_sintaxis_se_lanza_un_redis_syntax_error :: bool where
  "cuando_se_manda_un_mensaje_con_un_error_de_sintaxis_se_lanza_un_redis_syntax_error \<longleftrightarrow>
     parsear_stream (''++'' @ CRLF @ ''$4'' @ CRLF) = Devuelve (Inl RedisSyntaxError)"

definition cuando_se_envia_un_resultado_redis_simple_string_envia_un_string_correcto :: bool where
  "cuando_se_envia_un_resultado_redis_simple_string_envia_un_string_correcto \<longleftrightarrow>
     parsear_respuesta (StrSimple ''Ok'') = ''+Ok'' @ CRLF"

definition cuando_se_envia_un_resultado_redis_bulk_strings_se_parsea_correctamente :: bool where
  "cuando_se_envia_un_resultado_redis_bulk_strings_se_parsea_correctamente \<longleftrightarrow>
     parsear_respuesta (BulkStr ''foo'') = ''$3'' @ CRLF @ ''foo'' @ CRLF"

definition cuando_se_envia_un_resultado_redis_int_se_parsea_correctamente :: bool where
  "cuando_se_envia_un_resultado_redis_int_se_parsea_correctamente \<longleftrightarrow>
     parsear_respuesta (RInt 55) = '':55'' @ CRLF"

definition cuando_se_envia_un_resultado_redis_vector_de_ints_se_parsea_correctamente :: bool where
  "cuando_se_envia_un_resultado_redis_vector_de_ints_se_parsea_correctamente \<longleftrightarrow>
     parsear_respuesta (Vector [RInt 1, RInt 2]) = ''*2'' @ CRLF @ '':1'' @ CRLF @ '':2'' @ CRLF"

definition cuando_se_envia_un_resultado_redis_vector_de_resultados_se_parsea_correctamente :: bool where
  "cuando_se_envia_un_resultado_redis_vector_de_resultados_se_parsea_correctamente \<longleftrightarrow>
     parsear_respuesta (Vector [RInt 1, RInt 2, RInt 3, RInt 4, BulkStr ''foobar'']) =
     ''*5'' @ CRLF @ '':1'' @ CRLF @ '':2'' @ CRLF @ '':3'' @ CRLF @ '':4'' @ CRLF @ ''$6'' @ CRLF @ ''foobar'' @ CRLF"

text \<open>The test the source names \<open>a\<close>.\<close>

definition prueba_a :: bool where
  "prueba_a \<longleftrightarrow>
     consulta (''*3'' @ CRLF @ ''$3'' @ CRLF @ ''SET'' @ CRLF @ ''$7'' @ CRLF @ ''catedra'' @ CRLF @ ''$18'' @ CRLF @
         ''TallerProgramacion'' @ CRLF)
       ''SET'' (Some ''catedra'') [Some ''TallerProgramacion'']"

section \<open>\<open>valor.rs\<close> and \<open>base_de_datos.rs\<close>\<close>

definition cuando_se_crea_una_valor_no_expirable_este_no_expira_nunca :: "entorno \<Rightarrow> bool" where
  "cuando_se_crea_una_valor_no_expirable_este_no_expira_nunca e \<longleftrightarrow>
     \<not> expiro (ahora e) (no_expirable (ahora e) (Str ''miClave''))"

definition cuando_se_espera_mas_tiempo_del_que_se_dijo_que_una_clave_expiraba_la_clave_efectivamente_esta_espirada ::
    "entorno \<Rightarrow> bool" where
  "cuando_se_espera_mas_tiempo_del_que_se_dijo_que_una_clave_expiraba_la_clave_efectivamente_esta_espirada e \<longleftrightarrow>
     expiro (ahora (dormir 2 e)) (expirable (ahora e) (Str ''miClave'') 1)"

definition base_de_datos_devuelve_una_copia_de_un_elemento_almacenado :: "entorno \<Rightarrow> bool" where
  "base_de_datos_devuelve_una_copia_de_un_elemento_almacenado e \<longleftrightarrow>
     obtener_valor e (guardar_valor e ''clave'' (Str ''valor'') bdd_new) ''clave'' = Some (Str ''valor'')"

definition base_de_datos_elimina_valor_almacenado :: "entorno \<Rightarrow> bool" where
  "base_de_datos_elimina_valor_almacenado e \<longleftrightarrow>
     (let b = guardar_valor e ''clave'' (Str ''valor'') bdd_new;
          b' = snd (eliminar_clave e ''clave'' b)
      in existe_clave e b ''clave'' \<and> \<not> existe_clave e b' ''clave'')"

definition si_se_guarda_una_clave_que_expira_en_1_segundo_cuando_se_la_quiere_recuperar_no_se_encuentra ::
    "entorno \<Rightarrow> bool" where
  "si_se_guarda_una_clave_que_expira_en_1_segundo_cuando_se_la_quiere_recuperar_no_se_encuentra e \<longleftrightarrow>
     obtener_valor (dormir 2 e) (guardar_valor_con_expiracion e ''clave'' 1 (Str ''valor'') bdd_new) ''clave'' = None"

section \<open>\<open>persistencia.rs\<close>\<close>

text \<open>
  \<open>lineas_de\<close>: the loop of the three tests over the entries of a hash map; the tests ask which lines
  it gives, in any order.
\<close>

definition lineas_de :: "entorno \<Rightarrow> (string \<times> valor) list \<Rightarrow> string list" where
  "lineas_de e t = map (\<lambda>(clave, v). guardar_clave_valor clave (valor_get (ahora e) v) (get_tiempo v)) t"

definition inserto_varios_strings_en_hash_map_y_guardar_clave_valor_devuelve_el_mensaje_para_volver_a_cargarlos ::
    "entorno \<Rightarrow> bool" where
  "inserto_varios_strings_en_hash_map_y_guardar_clave_valor_devuelve_el_mensaje_para_volver_a_cargarlos e \<longleftrightarrow>
     list_all (\<lambda>l. l \<in> set (lineas_de e
         (AList.update ''UnaClave3'' (no_expirable (ahora e) (Str ''UnValor''))
         (AList.update ''UnaClave2'' (no_expirable (ahora e) (Str ''UnValor''))
         (AList.update ''UnaClave1'' (no_expirable (ahora e) (Str ''UnValor'')) [])))))
       [''STRING:UnaClave1:UnValor'', ''STRING:UnaClave2:UnValor'', ''STRING:UnaClave3:UnValor'']"

definition inserto_varios_tipo_redis_en_hash_map_y_guardar_clave_valor_devuelve_el_mensaje_para_volver_a_cargarlos ::
    "entorno \<Rightarrow> bool" where
  "inserto_varios_tipo_redis_en_hash_map_y_guardar_clave_valor_devuelve_el_mensaje_para_volver_a_cargarlos e \<longleftrightarrow>
     list_all (\<lambda>l. l \<in> set (lineas_de e
         (AList.update ''milista'' (no_expirable (ahora e) (Lista ((([] @ [''PRIMER_VALOR'']) @ [''SEGUNDO_VALOR'']) @ [''TERCER_VALOR''])))
         (AList.update ''UnaClave2'' (no_expirable (ahora e) (Str ''UnValor''))
         (AList.update ''UnaClave1'' (no_expirable (ahora e) (Str ''UnValor'')) [])))))
       [''STRING:UnaClave1:UnValor'', ''STRING:UnaClave2:UnValor'',
        ''LIST:milista:PRIMER_VALOR:SEGUNDO_VALOR:TERCER_VALOR'']"

definition inserto_varios_strings_con_persistencia_en_hash_map_y_guardar_clave_valor_devuelve_el_mensaje_para_volver_a_cargarlos ::
    "entorno \<Rightarrow> bool" where
  "inserto_varios_strings_con_persistencia_en_hash_map_y_guardar_clave_valor_devuelve_el_mensaje_para_volver_a_cargarlos e \<longleftrightarrow>
     list_all (\<lambda>l. l \<in> set (lineas_de e
         (AList.update ''milista'' (expirable (ahora e) (Lista ((([] @ [''PRIMER_VALOR'']) @ [''SEGUNDO_VALOR'']) @ [''TERCER_VALOR''])) 4500)
         (AList.update ''UnaClave3'' (expirable (ahora e) (Str ''UnValor'') 3000)
         (AList.update ''UnaClave2'' (expirable (ahora e) (Str ''UnValor'') 3000)
         (AList.update ''UnaClave1'' (expirable (ahora e) (Str ''UnValor'') 3000) []))))))
       [''STRING:UnaClave1:UnValor:EX:3000'', ''STRING:UnaClave2:UnValor:EX:3000'',
        ''STRING:UnaClave3:UnValor:EX:3000'', ''LIST:milista:PRIMER_VALOR:SEGUNDO_VALOR:TERCER_VALOR:EX:4500'']"

definition pruebas_sin_entorno :: "bool list" where
  "pruebas_sin_entorno =
    [comando_info_devuelve_correctamente_todos_los_parametros,
     comando_info_devuelve_una_descripcion_en_forma_de_string_sobre_el_comando,
     comando_info_devuelve_una_lista_con_todos_los_parametros,
     comando_http_devuelve_correctamente_todos_los_parametros,
     comando_http_devuelve_el_argumento_correctamente,
     cuando_se_recibe_un_mensaje_de_ping_este_se_parsea_y_se_devuelve_el_comando_correcto,
     cuando_se_recibe_un_mensaje_de_llen_este_se_parsea_y_se_devuelve_el_comando_correcto,
     cuando_se_recibe_un_mensaje_de_sort_este_se_parsea_y_se_devuelve_el_comando_correcto,
     cuando_se_manda_un_mensaje_vacio_se_lanza_un_parser_error_de_tipo_mensaje_vacio,
     cuando_se_manda_un_mensaje_con_un_error_de_sintaxis_se_lanza_un_redis_syntax_error,
     cuando_se_envia_un_resultado_redis_simple_string_envia_un_string_correcto,
     cuando_se_envia_un_resultado_redis_bulk_strings_se_parsea_correctamente,
     cuando_se_envia_un_resultado_redis_int_se_parsea_correctamente,
     cuando_se_envia_un_resultado_redis_vector_de_ints_se_parsea_correctamente,
     cuando_se_envia_un_resultado_redis_vector_de_resultados_se_parsea_correctamente,
     prueba_a]"

definition pruebas_del_nucleo :: "(entorno \<Rightarrow> bool) list" where
  "pruebas_del_nucleo =
    [cuando_se_crea_una_valor_no_expirable_este_no_expira_nunca,
     cuando_se_espera_mas_tiempo_del_que_se_dijo_que_una_clave_expiraba_la_clave_efectivamente_esta_espirada,
     base_de_datos_devuelve_una_copia_de_un_elemento_almacenado,
     base_de_datos_elimina_valor_almacenado,
     si_se_guarda_una_clave_que_expira_en_1_segundo_cuando_se_la_quiere_recuperar_no_se_encuentra,
     inserto_varios_strings_en_hash_map_y_guardar_clave_valor_devuelve_el_mensaje_para_volver_a_cargarlos,
     inserto_varios_tipo_redis_en_hash_map_y_guardar_clave_valor_devuelve_el_mensaje_para_volver_a_cargarlos,
     inserto_varios_strings_con_persistencia_en_hash_map_y_guardar_clave_valor_devuelve_el_mensaje_para_volver_a_cargarlos]"

text \<open>The tests of the HTTP parser, whose buffer has 5000 bytes, follow from what it makes of a well-formed request.\<close>

lemma prueba_http_get: "comando_http_parsea_bien_el_metodo_get"
  unfolding comando_http_parsea_bien_el_metodo_get_def
  by (subst http_parsear_otro) (code_simp, simp_all add: get_metodo_def get_comando_def)

lemma prueba_http_post: "comando_http_parsea_bien_el_metodo_post_obteniendo_el_comando_set_key_1"
proof -
  have c: "''comando=set+key+1'' = cuerpo_de [''set'', ''key'', ''1'']" by (simp add: cuerpo_de_def)
  show ?thesis
    unfolding comando_http_parsea_bien_el_metodo_post_obteniendo_el_comando_set_key_1_def c
    by (subst http_parsear_post) (code_simp, code_simp, code_simp)
qed

lemma prueba_http_get_con_mas_headers: "comando_http_parsea_bien_el_metodo_get_con_mas_headers"
  unfolding comando_http_parsea_bien_el_metodo_get_con_mas_headers_def
  by (subst http_parsear_otro) (code_simp, simp_all add: get_metodo_def get_comando_def)

lemma pruebas_sin_entorno_pasan: "list_all id pruebas_sin_entorno"
  by code_simp

lemmas tiempo_simps =
  dormir_def expirable_def no_expirable_def expiro_def valor_get_def get_tiempo_def from_secs_def as_secs_def

lemma segundos_de_prueba [simp]: "show_nat 3000 = ''3000''" "show_nat 4500 = ''4500''"
  by code_simp+

lemma pruebas_con_tiempo:
  "cuando_se_espera_mas_tiempo_del_que_se_dijo_que_una_clave_expiraba_la_clave_efectivamente_esta_espirada e"
  "si_se_guarda_una_clave_que_expira_en_1_segundo_cuando_se_la_quiere_recuperar_no_se_encuentra e"
  "inserto_varios_strings_con_persistencia_en_hash_map_y_guardar_clave_valor_devuelve_el_mensaje_para_volver_a_cargarlos e"
  by (simp_all add: tiempo_simps obtener_valor_def guardar_valor_con_expiracion_def bdd_new_def notificar_observadores_def
      lineas_de_def
      cuando_se_espera_mas_tiempo_del_que_se_dijo_que_una_clave_expiraba_la_clave_efectivamente_esta_espirada_def si_se_guarda_una_clave_que_expira_en_1_segundo_cuando_se_la_quiere_recuperar_no_se_encuentra_def inserto_varios_strings_con_persistencia_en_hash_map_y_guardar_clave_valor_devuelve_el_mensaje_para_volver_a_cargarlos_def)

lemma pruebas_sin_tiempo:
  "cuando_se_crea_una_valor_no_expirable_este_no_expira_nunca e"
  "base_de_datos_devuelve_una_copia_de_un_elemento_almacenado e"
  "base_de_datos_elimina_valor_almacenado e"
  "inserto_varios_strings_en_hash_map_y_guardar_clave_valor_devuelve_el_mensaje_para_volver_a_cargarlos e"
  "inserto_varios_tipo_redis_en_hash_map_y_guardar_clave_valor_devuelve_el_mensaje_para_volver_a_cargarlos e"
  by code_simp+

text \<open>
  The 19 unit tests of the commands and the parsers pass, and so do the 8 tests of values,
  database and persistence lines at every instant and in both build profiles.
\<close>

lemma pruebas_del_nucleo_pasan:
  "list_all id pruebas_sin_entorno \<and> comando_http_parsea_bien_el_metodo_get \<and>
   comando_http_parsea_bien_el_metodo_post_obteniendo_el_comando_set_key_1 \<and>
   comando_http_parsea_bien_el_metodo_get_con_mas_headers \<and> list_all (\<lambda>t. t e) pruebas_del_nucleo"
  using pruebas_sin_entorno_pasan prueba_http_get prueba_http_post prueba_http_get_con_mas_headers
    pruebas_con_tiempo pruebas_sin_tiempo
  by (simp add: pruebas_del_nucleo_def)

end
