(* ===== verification/Spec2Isabelle.thy ===== *)
theory Spec2Isabelle
  imports Concurrencia Conversacion Durabilidad Respuestas Pedidos Tipos
    Pruebas_Cadenas Pruebas_Listas Pruebas_Conjuntos Pruebas_Claves Pruebas_Nucleo
begin

text \<open>
  \<^bold>\<open>A verified model of the Rusticos2 server\<close>

  The program is a server in Rust that speaks the Redis protocol and HTTP. A client thread reads
  a command, a handler runs it on a shared table behind a mutex, and the answer goes back to the
  socket. Two more threads receive messages: one writes the log, one writes the table to a file.

  \<^bold>\<open>The components\<close>, in the order in which they build on one another (sources under \<open>src/src/\<close>):

  \<^item> \<open>Preludio\<close>: what the program uses of Rust and its library. A panic is the value \<open>Panico\<close> of
    \<open>'a salida\<close>; integers are \<open>int\<close> or \<open>nat\<close> with the width written out (\<open>arit_i32\<close>, \<open>arit_usize\<close>, the
    casts through \<open>32 word\<close> and \<open>64 word\<close>), both for the debug profile (overflow panics) and the release
    profile (overflow wraps); strings are byte lists; \<open>HashMap\<close> and \<open>HashSet\<close> are lists whose order stands
    for the unspecified iteration order; \<open>Mutex\<close> is a record with the poison flag.
  \<^item> \<open>Mayusculas\<close>: \<open>to_uppercase\<close> of Rust, for all of Unicode, on the bytes of UTF-8 (tables of version 14 of the
    standard): one-letter intervals and the letters that become two or three. On ASCII it is \<open>a_mayuscula\<close>.
  \<^item> \<open>Comando_Info\<close> (\<open>comando_info.rs\<close>): a parsed command, its cursor, and the loop over the parameters.
  \<^item> \<open>Protocolo\<close> (\<open>parser.rs\<close>, \<open>ResultadoRedis\<close>): answers on the wire and the parser of commands.
  \<^item> \<open>Clientes\<close> (\<open>cliente.rs\<close>, \<open>cliente_redis.rs\<close>, \<open>cliente_http.rs\<close>, \<open>http_parser.rs\<close>, \<open>comando_http.rs\<close>,
    \<open>redis_error.rs\<close>): the two kinds of client and the network record they read and write.
  \<^item> \<open>Canales\<close> (\<open>canal.rs\<close>): a channel, subscription, delivery.
  \<^item> \<open>Almacen\<close>: the locale \<open>almacen\<close>, the contract of a store (what a lookup shows after a write and after
    a removal, what keeps the invariant), with what follows for sequences of writes and removals.
  \<^item> \<open>Base_De_Datos\<close> (\<open>valor.rs\<close>, \<open>base_de_datos.rs\<close>, \<open>observer.rs\<close>, \<open>Persistidor\<close> of \<open>persistencia.rs\<close>):
    values with their expiry, the table, its observers, every operation of the table, the invariant
    \<open>bdd_inv\<close> and that every operation keeps it, and the interpretation of \<open>almacen\<close>.
  \<^item> \<open>Manejador\<close> (\<open>comando.rs\<close>, the trait): the locales \<open>manejador\<close> and \<open>lector\<close>, the contract of a command
    handler: it keeps the invariant, leaves a poisoned mutex alone, and poisons it only by a panic.
  \<^item> \<open>Cadenas\<close>, \<open>Listas\<close>, \<open>Conjuntos\<close>, \<open>Claves\<close>, \<open>Pub_Sub\<close>, \<open>Servidor\<close>: the six command handlers
    (\<open>comando_string_handler.rs\<close>, \<open>comando_list_handler.rs\<close>, \<open>comando_set_handler.rs\<close>, \<open>comando_key_handler.rs\<close>,
    \<open>comando_pubsub_handler.rs\<close>, \<open>comando_server_handler.rs\<close>), one definition per Rust function, each
    interpreted as a \<open>manejador\<close>.
  \<^item> \<open>Registro\<close> (\<open>log_handler.rs\<close>, \<open>config.rs\<close>): the log, its thread, the configuration.
  \<^item> \<open>Persistencia\<close> (\<open>persistencia.rs\<close>): the thread that writes the table, the text format, reading it back.
  \<^item> \<open>Redis\<close> (\<open>comando.rs\<close>, \<open>comando_nulo_handler.rs\<close>, \<open>redis.rs\<close>, \<open>main.rs\<close>): the choice of the handler, a turn of
    the loop of a client taken as a whole, start and end of the server.

  \<^bold>\<open>The system.\<close> Three theories put the components together at the grain of the locks:

  \<^item> \<open>Secciones\<close>: every command that takes the lock more than once as a program, a sequence of critical
    sections between which other threads may run. \<open>correr\<close> executes one without interruption; the lemmas
    \<open>*_a_solas\<close> show that it then is the handler of the component, and \<open>prog_bien\<close> that each section keeps the
    contract of \<open>Manejador\<close>.
  \<^item> \<open>Sistema\<close> (\<open>redis.rs\<close>, with the loops of \<open>log_handler.rs\<close> and \<open>persistencia.rs\<close>): the client threads, each at
    its place in the closure that \<open>iniciar\<close> spawns (\<open>fase\<close>), the two message threads with their channels, new
    connections, changes of the network, and \<open>Drop for Redis\<close>. \<open>paso\<close> is one step, \<open>alcanzable\<close> the states
    reached from any start, \<open>traza\<close> an endless run.
  \<^item> \<open>Concurrencia\<close>: when a command cut in two sections is still atomic, and what is lost when it is not.
    \<open>Conversacion\<close>: from the bytes a client sends to the bytes it gets. \<open>Durabilidad\<close>: from a command through the channel and the file to a new start, and the end of the threads.

  \<^bold>\<open>Specifications beside the components.\<close> \<open>Respuestas\<close> has a reader of answers, \<open>Pedidos\<close> the text of an HTTP
  request, \<open>Tipos\<close> the class of values each command works on; the theorems relate the code to them.

  \<^bold>\<open>The tests of the repository.\<close> \<open>Pruebas\<close> and the theories \<open>Pruebas_*\<close> have the 142 unit tests of the modules
  as definitions, under the names of the source. They pass in the model, for every clock and in both
  build profiles: what the authors check of the code by running it, the model does too. They validate the
  definitions and are lemmas, not properties. So are the lemmas that the sections refine the handlers
  (\<open>correr_programa_de\<close>) and the steps of a thread the loop of \<open>manejar_cliente\<close> (\<open>turno_solo\<close>).

  \<^bold>\<open>What is proved.\<close> The properties carry the ids C1 to C40 and stand at the end of the theory of their
  component. The commands are compared with their effect on the partial map that the table shows at
  an instant (\<open>vista\<close>): strings and counters with both overflow behaviours (\<open>Cadenas\<close>), lists (\<open>Listas\<close>),
  sets (\<open>Conjuntos\<close>), keys, expiry and sorting (\<open>Claves\<close>), channels (\<open>Pub_Sub\<close>), configuration (\<open>Servidor\<close>);
  the round trips of commands, answers and requests (\<open>Protocolo\<close>, \<open>Respuestas\<close>, \<open>Pedidos\<close>), the round trip
  through the file and its limits (\<open>Persistencia\<close>); atomicity and lost updates (\<open>Concurrencia\<close>), survival of a
  restart and the end of the server (\<open>Durabilidad\<close>), a conversation of two clients byte for byte
  (\<open>Conversacion\<close>). This theory holds what spans components: the invariant of all reachable states, the damage
  a poisoned mutex does, that every command is answered with its own result in a fair run, the dispatch, and
  the end of the thread of an HTTP client. Several properties
  state behaviour that differs from the documentation of the commands (\<open>MSET\<close>, \<open>LSET\<close>, \<open>LREM\<close> with count 0,
  \<open>RENAME\<close>, \<open>TTL\<close>, \<open>SORT\<close>, the file that is not truncated, the lost updates): they say what the code does.

  \<^bold>\<open>Assumptions and bounds.\<close> The clock is read once per critical section, and once per message in the two
  message threads. The \<open>regex\<close> crate, the capacity \<open>HashMap\<close> reports
  and the success of \<open>try_clone\<close> are fields of the environment of a step (\<open>entorno\<close>), arbitrary everywhere:
  where a property is about a socket that was duplicated it says so in its statement, and the tests of
  \<open>KEYS\<close> and \<open>SORT\<close> name what they need of three patterns. A socket write sends the
  whole message or fails; a disk write to a file succeeds or fails as a whole. What a client receives is
  the list of the bytes up to the end of the stream. Tokens of clients are integers without the width of
  \<open>i64\<close>. Exhausted memory is not modelled. Every loop is a total function: loops over data by structural
  recursion, the parameter loop and \<open>guardar_valores\<close> by a measure, and the loops that wait for the outside
  (\<open>manejar_cliente\<close>, \<open>logear\<close>, \<open>persistir\<close>) run along a given list of events; with that list used up, the loop
  is still running (\<open>Continua\<close>). In \<open>Sistema\<close> these loops are steps of the threads and need no bound.

  \<^bold>\<open>Granularity.\<close> A step of a client thread is one critical section of the database, the reading of one
  command with its message to the log, the update of the configuration, or the sending of the answer. A
  delivery of \<open>PUBLISH\<close> to one subscriber is a step of its own. A change of the network from outside is any
  change but of what the server has already sent. Commands of one section (sets, server commands, most
  string and key commands) are one step.

  \<^bold>\<open>Not modelled\<close>: \<open>Debug\<close> printing of clients, the text the threads print on errors, \<open>bind\<close> and \<open>accept\<close> of the
  operating system (a connection is an input), and the sockets themselves.
\<close>

section \<open>Properties\<close>

text \<open>
  C1: in every state the server can reach, from any file and any configuration it starts with, whatever
  its clients send and however the critical sections of its threads interleave: the keys of the table
  are distinct, stored sets have no repeated element, lifetimes are whole seconds that fit \<open>u64\<close>, the mutex
  of the configuration is not poisoned (so that the server error of \<open>manejar_cliente\<close> after a command cannot
  occur), every command in flight keeps all this in each of its remaining sections, and no two client
  threads have the same token.
\<close>

theorem alcanzable_invariante:
  assumes "alcanzable s"
  shows "bdd_inv (contenido (w_bdd (s_mundo s))) \<and> \<not> envenenado (w_config (s_mundo s)) \<and>
    (\<forall>h p. h \<in> set (s_hilos s) \<and> h_fase h = Ejecutando p \<longrightarrow> prog_bien w_bdd p) \<and>
    distinct (map (\<lambda>h. obtener_token (h_cliente h)) (s_hilos s))"
  using alcanzable_inv [OF assms]
  by (auto simp: sistema_inv_def mundo_inv_def mutex_inv_def list_all_iff)

definition sistema_inicial :: sistema where
  "sistema_inicial =
     \<lparr>s_hilos = [],
      s_mundo =
        \<lparr>w_bdd = \<lparr>contenido = agregar_observador persistidor_new (bdd_new_con []), envenenado = False\<rparr>,
         w_config = \<lparr>contenido = set_persistidor persistidor_new config_new, envenenado = False\<rparr>,
         w_log = logger_new, w_red = red_ejemplo\<rparr>,
      s_siguiente_id = 0, s_cola_pers = [], s_pers = persistidor_handler_new 0 (dbfilename config_new) 1,
      s_pers_vivo = True, s_cola_log = [], s_log = log_handler_new (logfile config_new) (verbose config_new),
      s_log_vivo = True, s_disco = disco_ejemplo, s_stdout = []\<rparr>"

lemma arrancar_ejemplo: "arrancar 0 disco_ejemplo [] red_ejemplo = Devuelve sistema_inicial"
  by (simp add: arrancar_def main_def main_config_def redis_new_def levantar_tabla_def disco_ejemplo_def Let_def
      mundo_inicial_def sistema_inicial_def)

text \<open>A state the server reaches: two clients have connected and a table has been received.\<close>

lemma alcanzable_ejemplo:
  "alcanzable (paso (entorno_ejemplo 2 Debug) Persistir (paso (entorno_ejemplo 1 Debug) (Aceptar None 4)
     (paso (entorno_ejemplo 1 Debug) (Aceptar None 3) sistema_inicial)))"
  by (rule alcanzable.intros [OF arrancar_ejemplo]) (intro llega.intros)

lemma alcanzable_invariante_testigo:
  "distinct (map (\<lambda>h. obtener_token (h_cliente h)) (s_hilos (paso (entorno_ejemplo 2 Debug) Persistir
     (paso (entorno_ejemplo 1 Debug) (Aceptar None 4) (paso (entorno_ejemplo 1 Debug) (Aceptar None 3) sistema_inicial)))))"
  using alcanzable_invariante [OF alcanzable_ejemplo] by simp

text \<open>
  C2: one \<open>SET k v EX\<close> from one client disables the database for all: the thread panics while it holds the
  lock, and in every state the server reaches afterwards, by any interleaving of all threads, the table
  is frozen as it was and \<open>GET\<close> and \<open>SET\<close> from any client answer the error of the lock.
\<close>

theorem set_ex_inutiliza:
  assumes "sistema_inv s" "\<not> envenenado (w_bdd (s_mundo s))" "i < length (s_hilos s)"
    and "h_fase (s_hilos s ! i) = Ejecutando (programa_de (HString (orden ''SET'' [k, v, ''EX''])))"
    and "llega (paso e (Mover i) s) s'"
  shows "h_fase (s_hilos (paso e (Mover i) s) ! i) = Ejecutando (Responde Panico) \<and>
    w_bdd (s_mundo s') = (w_bdd (s_mundo s))\<lparr>envenenado := True\<rparr> \<and>
    fst (manejar_comando e' (orden ''GET'' (k' # ps)) cl (s_mundo s')) = Devuelve err_lock \<and>
    fst (manejar_comando e' (orden ''SET'' (k' # v' # ps)) cl (s_mundo s')) = Devuelve err_lock"
proof -
  have sop: "soporta_comando cl ''SET''" "soporta_comando cl ''GET''"
    by (cases cl; simp add: cr_soporta_comando_def ch_soporta_comando_def ch_comandos_def)+
  have h: "crear_comando_handler (orden ''SET'' qs) cl = HString (orden ''SET'' qs)"
    "crear_comando_handler (orden ''GET'' qs) cl = HString (orden ''GET'' qs)" for qs
    using sop by (simp_all add: crear_comando_handler_def get_nombre_def es_comando_string_def)
  have "set_cmd e (orden ''SET'' [k, v, ''EX'']) (w_bdd (s_mundo s)) = (Panico, (w_bdd (s_mundo s))\<lparr>envenenado := True\<rparr>)"
    using set_ex_envenena [OF assms(2), of "orden ''SET'' [k, v, ''EX'']" k v "[]"] by simp
  then have "hilo_paso e (s_hilos s ! i) (s_mundo s) = ((s_hilos s ! i)\<lparr>h_fase := Ejecutando (Responde Panico)\<rparr>,
      (s_mundo s)\<lparr>w_bdd := (w_bdd (s_mundo s))\<lparr>envenenado := True\<rparr>\<rparr>)"
    using assms(4) by (simp add: hilo_paso_def string_prog_def get_nombre_def atomica_def seccion_def ejecutar_string_def)
  then have p: "h_fase (s_hilos (mover e i s) ! i) = Ejecutando (Responde Panico)"
    "w_bdd (s_mundo (mover e i s)) = (w_bdd (s_mundo s))\<lparr>envenenado := True\<rparr>"
    using assms(3) by (simp_all add: mover_def con_mundo_def)
  have b: "w_bdd (s_mundo s') = (w_bdd (s_mundo s))\<lparr>envenenado := True\<rparr>"
    using llega_envenenado [OF assms(5)] mover_inv [OF assms(1)] p by simp
  then show ?thesis using p
    by (simp add: manejar_comando_def h con_bdd_def ejecutar_string_def get_nombre_def get_def set_cmd_def get_parametros_def)
qed

lemma sistema_ejemplo_inv: "length hs \<le> 1 \<Longrightarrow> bdd_mutex_inv m \<Longrightarrow> sistema_inv (sistema_ejemplo m hs)"
  by (cases hs) (auto simp: sistema_inv_def sistema_ejemplo_def mundo_inv_def programa_de_bien programa_de_config
      cliente_redis_new_def simp del: programa_de.simps)

lemma con_tabla_vacia_inv: "bdd_mutex_inv (con_tabla [])"
  by (simp add: mutex_inv_def con_tabla_def bdd_new_con_def bdd_inv_def)

lemma set_ex_inutiliza_testigo:
  "fst (manejar_comando (entorno_ejemplo 5 Debug) (orden ''GET'' [''a'']) (CRedis (cliente_redis_new 0 2 0 4))
     (s_mundo (paso (entorno_ejemplo 0 Debug) (Mover 0)
        (sistema_ejemplo (con_tabla []) [HString (orden ''SET'' [''k'', ''v'', ''EX''])])))) = Devuelve err_lock"
  using set_ex_inutiliza [OF sistema_ejemplo_inv [OF _ con_tabla_vacia_inv] _ _ _ llega.aqui,
      of "[HString (orden ''SET'' [''k'', ''v'', ''EX''])]" 0 "''k''" "''v''" "entorno_ejemplo 0 Debug" "entorno_ejemplo 5 Debug"
      "''a''" "[]" "CRedis (cliente_redis_new 0 2 0 4)"]
  by (simp del: programa_de.simps paso.simps)

text \<open>
  C4: no command hangs, and what is sent is its answer. In every run in which the thread of a Redis client in
  the middle of a command \<open>q\<close> is scheduled again and again, whatever the other threads, the network and new
  connections do in between, the sections of the command come to an end, with a result \<open>r\<close> that is the one the
  program \<open>q\<close> gives on the states its sections find (\<open>resto_de\<close>); for a command of one section, what that
  section answers in the state in which the thread ran it. Afterwards the thread is dead if \<open>r\<close> is a panic; else it
  comes to the step that sends \<open>r\<close>, and if its socket can be written then, the bytes of \<open>r\<close> are what is sent.
\<close>

theorem comando_respondido:
  assumes "sistema_inv s" "justa i plan" "i < length (s_hilos s)" "h_fase (s_hilos s ! i) = Ejecutando q"
    and "es_redis (h_cliente (s_hilos s ! i))"
  shows "\<exists>n r. resto_de i plan s q n = Responde r \<and>
    (\<forall>f. q = atomica f \<longrightarrow> (\<exists>m < n. \<exists>e. plan m = (e, Mover i) \<and> r = fst (f e (s_mundo (traza plan s m))))) \<and>
    (case r of
       Panico \<Rightarrow> (\<exists>m \<ge> n. h_fase (s_hilos (traza plan s m) ! i) = Muerto)
     | Devuelve res \<Rightarrow> (\<exists>m \<ge> n. \<exists>e. plan m = (e, Mover i) \<and> h_fase (s_hilos (traza plan s m) ! i) = Respondiendo res \<and>
         (\<forall>k. destino (w_red (s_mundo (traza plan s m))) (h_cliente (s_hilos s ! i)) = Some k \<longrightarrow>
           enviados (w_red (s_mundo (traza plan s (Suc m)))) =
             enviados (w_red (s_mundo (traza plan s m))) @ [(k, parsear_respuesta res)])))"
proof -
  have envia: "enviados (w_red (s_mundo (mover e i s'))) = enviados (w_red (s_mundo s')) @ [(k, parsear_respuesta res)]"
    if "i < length (s_hilos s')" "h_fase (s_hilos s' ! i) = Respondiendo res"
      "h_cliente (s_hilos s' ! i) = h_cliente (s_hilos s ! i)" "destino (w_red (s_mundo s')) (h_cliente (s_hilos s ! i)) = Some k"
    for e s' res k
    using that enviar_resultado_redis [OF assms(5), of "ahora e" res "w_red (s_mundo s')"]
    by (auto simp: mover_def con_mundo_def hilo_paso_def responder_def)
  obtain n r where n: "resto_de i plan s q n = Responde r"
    "case r of
       Panico \<Rightarrow> (\<exists>m \<ge> n. h_fase (s_hilos (traza plan s m) ! i) = Muerto)
     | Devuelve res \<Rightarrow> (\<exists>m \<ge> n. \<exists>e. plan m = (e, Mover i) \<and> h_fase (s_hilos (traza plan s m) ! i) = Respondiendo res \<and>
         h_cliente (s_hilos (traza plan s m) ! i) = h_cliente (s_hilos s ! i))"
    using comando_sale [OF assms(1-4)] by blast
  show ?thesis
  proof (intro exI conjI)
    show "resto_de i plan s q n = Responde r" by (fact n)
    show "\<forall>f. q = atomica f \<longrightarrow> (\<exists>m < n. \<exists>e. plan m = (e, Mover i) \<and> r = fst (f e (s_mundo (traza plan s m))))"
      using n(1) resto_de_atomica by blast
  qed (use n(2) envia [OF traza_length [OF assms(3)]] in \<open>cases r; fastforce\<close>)
qed

lemma comando_respondido_testigo:
  "\<exists>n r. resto_de 0 (\<lambda>_. (entorno_ejemplo 0 Debug, Mover 0)) (sistema_ejemplo (con_tabla []) [HKey (orden ''DEL'' [''a'', ''b''])])
     (programa_de (HKey (orden ''DEL'' [''a'', ''b'']))) n = Responde r"
  using comando_respondido [OF sistema_ejemplo_inv [OF _ con_tabla_vacia_inv], of "[HKey (orden ''DEL'' [''a'', ''b''])]" 0
      "\<lambda>_. (entorno_ejemplo 0 Debug, Mover 0)" "programa_de (HKey (orden ''DEL'' [''a'', ''b'']))"]
  by (auto simp: justa_def simp del: programa_de.simps)

text \<open>The names of all the commands, and what the dispatch asks of a name.\<close>

definition todos_los_comandos :: "string list" where
  "todos_los_comandos = ch_comandos @ [''SUBSCRIBE'', ''UNSUBSCRIBE'', ''PUBLISH'', ''PUBSUB'', ''MONITOR'']"

definition familias :: "string \<Rightarrow> bool list" where
  "familias n = [es_comando_string n, es_comando_set n, es_comando_key n, es_comando_list n, es_comando_pubsub n,
     es_comando_server n]"

lemma familias_de_todos:
  "list_all (\<lambda>n. length (filter id (familias n)) = 1 \<and>
      (ch_soporta_comando ch n \<longleftrightarrow> \<not> es_comando_pubsub n \<and> n \<noteq> ''MONITOR'')) todos_los_comandos"
  unfolding ch_soporta_comando_def by code_simp

lemma list_ex_eq: "list_ex (\<lambda>c. c = n) xs \<longleftrightarrow> n \<in> set xs"
  by (auto simp: list_ex_iff)

lemma familias_de_otros:
  "n \<notin> set todos_los_comandos \<Longrightarrow> familias n = [False, False, False, False, False, False] \<and> \<not> ch_soporta_comando ch n"
  unfolding todos_los_comandos_def ch_comandos_def familias_def ch_soporta_comando_def es_comando_string_def
    es_comando_set_def es_comando_key_def es_comando_list_def es_comando_pubsub_def es_comando_server_def list_ex_eq
  by simp

lemma familias_disjuntas: "length (filter id (familias n)) \<le> 1"
  using familias_de_todos familias_de_otros [of n] by (cases "n \<in> set todos_los_comandos") (auto simp: list_all_iff)

lemma length_filter_map: "length (filter (\<lambda>P. P n) Ps) = length (filter id (map (\<lambda>P. P n) Ps))"
  by (induction Ps) simp_all

lemma soporta_http:
  "ch_soporta_comando ch n \<longleftrightarrow> True \<in> set (familias n) \<and> \<not> es_comando_pubsub n \<and> n \<noteq> ''MONITOR''"
proof (cases "n \<in> set todos_los_comandos")
  case True
  then have "length (filter id (familias n)) = 1"
    "ch_soporta_comando ch n \<longleftrightarrow> \<not> es_comando_pubsub n \<and> n \<noteq> ''MONITOR''"
    using familias_de_todos [of ch] by (auto simp: list_all_iff)
  moreover have "True \<in> set (familias n)" if "length (filter id (familias n)) = 1"
    using that by (auto simp: filter_empty_conv length_Suc_conv filter_eq_Cons_iff)
  ultimately show ?thesis by simp
next
  case False
  then show ?thesis using familias_de_otros [of n ch] by simp
qed

text \<open>
  C29: the families of commands are disjoint, so the order in which \<open>crear_comando_handler\<close> tries them
  does not matter, and an HTTP client gets the null handler exactly for the channel commands, for
  \<open>MONITOR\<close>, and for the names that no family has.
\<close>

theorem despacho_correcto:
  "length (filter (\<lambda>P. P n) [es_comando_string, es_comando_set, es_comando_key, es_comando_list,
      es_comando_pubsub, es_comando_server]) \<le> 1 \<and>
   (crear_comando_handler c (CHttp ch) \<noteq> HNulo c \<longleftrightarrow>
     (es_comando_string (nombre c) \<or> es_comando_set (nombre c) \<or> es_comando_key (nombre c) \<or>
        es_comando_list (nombre c) \<or> es_comando_server (nombre c)) \<and>
     \<not> es_comando_pubsub (nombre c) \<and> nombre c \<noteq> ''MONITOR'')"
proof
  have "map (\<lambda>P. P n) [es_comando_string, es_comando_set, es_comando_key, es_comando_list, es_comando_pubsub,
      es_comando_server] = familias n" by (simp add: familias_def)
  then show "length (filter (\<lambda>P. P n) [es_comando_string, es_comando_set, es_comando_key, es_comando_list,
      es_comando_pubsub, es_comando_server]) \<le> 1"
    using familias_disjuntas [of n] length_filter_map
      [of n "[es_comando_string, es_comando_set, es_comando_key, es_comando_list, es_comando_pubsub, es_comando_server]"]
    by simp
  show "crear_comando_handler c (CHttp ch) \<noteq> HNulo c \<longleftrightarrow>
     (es_comando_string (nombre c) \<or> es_comando_set (nombre c) \<or> es_comando_key (nombre c) \<or>
        es_comando_list (nombre c) \<or> es_comando_server (nombre c)) \<and>
     \<not> es_comando_pubsub (nombre c) \<and> nombre c \<noteq> ''MONITOR''"
    using soporta_http [of ch "nombre c"] by (simp add: crear_comando_handler_def get_nombre_def familias_def)
qed

lemma http_atendido: "mando c \<Longrightarrow> manejar_cliente_paso e (CHttp c) w = (Retorna (Inr ()), CHttp c, w)"
  by (simp add: manejar_cliente_paso_def)

lemma ch_obtener_comando_mando:
  "ch_obtener_comando dup c r = (Devuelve (Inr x), c', r') \<Longrightarrow> mando c'"
  by (auto simp: ch_obtener_comando_def Let_def split: option.splits salida.splits sum.splits if_splits prod.splits)

lemma atender_http:
  "mando c \<Longrightarrow> atender_comando e cmd (CHttp c) w = (Continua, cl', w') \<Longrightarrow> \<exists>c'. cl' = CHttp c' \<and> mando c'"
  by (auto simp: atender_comando_def Let_def ch_enviar_resultado_def
      split: prod.splits salida.splits if_splits sum.splits)

lemma http_primer_turno:
  assumes "manejar_cliente_paso e (CHttp c) w = (Continua, cl', w')"
  shows "\<exists>c'. cl' = CHttp c' \<and> mando c'"
proof -
  have "\<not> mando c" using assms http_atendido [of c e w] by auto
  then show ?thesis using assms
    by (auto simp: manejar_cliente_paso_def split: prod.splits salida.splits sum.splits option.splits
        dest!: ch_obtener_comando_mando dest: atender_http)
qed

text \<open>
  C28: the thread of an HTTP client ends: whatever the clients and the network do in between, after
  at most two turns of the loop of \<open>manejar_cliente\<close> it has returned or panicked.
\<close>

theorem http_termina:
  assumes "2 \<le> length plan"
  shows "fst (manejar_cliente plan (CHttp c) w) \<noteq> Continua"
proof -
  obtain e1 o1 e2 o2 resto where plan: "plan = (e1, o1) # (e2, o2) # resto"
    using assms by (cases plan; cases "tl plan") auto
  obtain x cl' w' where p: "manejar_cliente_paso e1 (CHttp c) (o1 w) = (x, cl', w')" by (metis prod_cases3)
  show ?thesis
  proof (cases x)
    case Continua
    with http_primer_turno [of e1 c "o1 w" cl' w'] p obtain c' where "cl' = CHttp c'" "mando c'" by auto
    then show ?thesis using p Continua by (simp add: plan http_atendido)
  qed (use p in \<open>simp_all add: plan\<close>)
qed

lemma http_termina_testigo:
  "fst (manejar_cliente [(entorno_ejemplo 0 Debug, id), (entorno_ejemplo 1 Debug, id)]
     (CHttp (cliente_http_new (\<lambda>_. None) 3 5)) (s_mundo sistema_inicial)) \<noteq> Continua"
  using http_termina [of "[(entorno_ejemplo 0 Debug, id), (entorno_ejemplo 1 Debug, id)]"
      "cliente_http_new (\<lambda>_. None) 3 5" "s_mundo sistema_inicial"] by simp

section \<open>The tests of the commands\<close>

text \<open>
  The 115 unit tests of the command handlers pass in the model, at every instant and in both build
  profiles, when the crate \<open>regex\<close> treats the three patterns of the tests as it documents. This validates the
  definitions on the inputs the authors chose.
\<close>

lemma pruebas_de_comandos:
  assumes "regex e ''peso_*'' = Some (contiene_str ''peso'')" "regex e ''objeto_*'' = Some (contiene_str ''objeto'')"
    and "regex e ''h[ae]llo'' = Some (\<lambda>s. contiene_str ''hallo'' s \<or> contiene_str ''hello'' s)"
  shows "list_all (\<lambda>t. t e) (pruebas_de_cadenas @ pruebas_de_listas @ pruebas_de_conjuntos @ pruebas_de_claves)"
proof -
  have "regex e = patrones_documentados (regex e)"
    using assms by (simp add: patrones_documentados_def fun_eq_iff)
  then show ?thesis
    using pruebas_de_cadenas_pasan pruebas_de_listas_pasan pruebas_de_conjuntos_pasan pruebas_de_claves_pasan by simp
qed

lemma pruebas_de_comandos_testigo:
  "list_all (\<lambda>t. t ((entorno_ejemplo 0 Debug)\<lparr>regex := patrones_documentados (\<lambda>_. None)\<rparr>))
     (pruebas_de_cadenas @ pruebas_de_listas @ pruebas_de_conjuntos @ pruebas_de_claves)"
  by (rule pruebas_de_comandos) (simp_all add: patrones_documentados_def)

end
